(* ===== verification/GoPrelude.thy ===== *)
theory GoPrelude
  imports Main "HOL-Library.Word" "HOL-Library.Monad_Syntax" "HOL-Library.State_Monad"
    "HOL-Library.Signed_Division" "HOL-Library.Sublist" "HOL-Library.Multiset"
begin

text \<open>
  What every component of the model shares: the machine integer types, the error values, the
  reading of a Go result (a panic is \<open>None\<close>, an error is \<open>Inl\<close>), slices and indexing with their
  run-time checks, the byte order conversions of \<^verbatim>\<open>encoding/binary\<close>, \<^verbatim>\<open>bytes.TrimSpace\<close>, and
  the lemmas about them that the component proofs use.
\<close>

unbundle bit_operations_syntax

section \<open>Types, errors and results\<close>

type_synonym u8 = "8 word"
type_synonym u16 = "16 word"
type_synonym u32 = "32 word"
type_synonym u64 = "64 word"

text \<open>
  Error values. \<open>Errorf\<close> is \<^verbatim>\<open>fmt.Errorf\<close> with its format and arguments, \<open>Wrapf\<close> the same with
  a wrapped error (\<^verbatim>\<open>%w\<close>), \<open>Joined\<close> is \<^verbatim>\<open>errors.Join\<close>, \<open>Errno\<close> an error number of the kernel and
  \<open>SgioError\<close> the package's own \<^verbatim>\<open>sgioError\<close> (host, device and driver status).
\<close>

datatype errarg = AInt int | AStr string

datatype gerror =
    Errno nat
  | Errorf string "errarg list"
  | Wrapf string gerror
  | Joined "gerror list"
  | SgioError u32 u32 u32
  | ErrOSUnsupported
  | ErrUnsupported
  | UnexpectedEOF

text \<open>
  A function with results \<^verbatim>\<open>(T, error)\<close> returns \<open>Ok x\<close> or \<open>Err e\<close>; a run-time panic (an index
  or a slice out of range) is \<open>None\<close>. A function that cannot fail but may panic returns a plain
  \<open>option\<close>.
\<close>

type_synonym 'a res = "(gerror + 'a) option"

abbreviation Ok :: "'a \<Rightarrow> 'a res" where
  "Ok x \<equiv> Some (Inr x)"

abbreviation Err :: "gerror \<Rightarrow> 'a res" where
  "Err e \<equiv> Some (Inl e)"

definition is_ok :: "'a res \<Rightarrow> bool" where
  "is_ok r = (case r of Some (Inr _) \<Rightarrow> True | _ \<Rightarrow> False)"

definition is_err :: "'a res \<Rightarrow> bool" where
  "is_err r = (case r of Some (Inl _) \<Rightarrow> True | _ \<Rightarrow> False)"

lemma is_ok_simps [simp]: "is_ok (Ok x)" "\<not> is_ok (Err e)" "\<not> is_ok None"
  by (simp_all add: is_ok_def)

lemma is_err_simps [simp]: "\<not> is_err (Ok x)" "is_err (Err e)" "\<not> is_err None"
  by (simp_all add: is_err_def)

lemma is_ok_iff: "is_ok r \<longleftrightarrow> (\<exists>x. r = Ok x)"
  by (auto simp: is_ok_def split: option.splits sum.splits)

lemma is_err_iff: "is_err r \<longleftrightarrow> (\<exists>e. r = Err e)"
  by (auto simp: is_err_def split: option.splits sum.splits)

lemma res_cases [case_names ok err panic]:
  assumes "\<And>x. r = Ok x \<Longrightarrow> P" "\<And>e. r = Err e \<Longrightarrow> P" "r = None \<Longrightarrow> P"
  shows P
  using assms by (cases r rule: option.exhaust; simp) (metis sum.exhaust)

text \<open>\<open>x, err := r; if err != nil { return ..., err }; return f(x), nil\<close>.\<close>

definition map_res :: "('a \<Rightarrow> 'b) \<Rightarrow> 'a res \<Rightarrow> 'b res" where
  "map_res f r = map_option (map_sum id f) r"

lemma map_res_simps [simp]:
  "map_res f (Ok x) = Ok (f x)" "map_res f (Err e) = Err e" "map_res f None = None"
  by (simp_all add: map_res_def)

lemma map_res_eq [simp]:
  "map_res f r = Ok y \<longleftrightarrow> (\<exists>x. r = Ok x \<and> y = f x)"
  "map_res f r = Err e \<longleftrightarrow> r = Err e"
  "map_res f r = None \<longleftrightarrow> r = None"
  by (cases r rule: res_cases; auto)+

definition bind_res :: "'a res \<Rightarrow> ('a \<Rightarrow> 'b res) \<Rightarrow> 'b res" where
  "bind_res r f = (case r of None \<Rightarrow> None | Some (Inl e) \<Rightarrow> Err e | Some (Inr x) \<Rightarrow> f x)"

lemma bind_res_simps [simp]:
  "bind_res (Ok x) f = f x" "bind_res (Err e) f = Err e" "bind_res None f = None"
  by (simp_all add: bind_res_def)

lemma bind_res_assoc: "bind_res (bind_res r f) g = bind_res r (\<lambda>x. bind_res (f x) g)"
  by (cases r rule: res_cases) simp_all

section \<open>Loops over a map\<close>

text \<open>
  \<^verbatim>\<open>for _, x := range xs\<close> whose body updates a state and returns at the first error. Go leaves the
  order of a range over a map open: what such a loop computes is well defined when its steps
  commute, which they do when each writes a slot of the state of its own.
\<close>

fun fold_res :: "('x \<Rightarrow> 's \<Rightarrow> 's res) \<Rightarrow> 'x list \<Rightarrow> 's \<Rightarrow> 's res" where
  "fold_res step [] s = Ok s"
| "fold_res step (x # xs) s = bind_res (step x s) (fold_res step xs)"

locale slotted_fold =
  fixes step :: "'x \<Rightarrow> 's \<Rightarrow> 's res" and slot :: "'x \<Rightarrow> 'k option"
  assumes no_slot: "slot x = None \<Longrightarrow> step x s = Ok s"
    and commute: "slot x \<noteq> slot y \<Longrightarrow> bind_res (step x s) (step y) = bind_res (step y s) (step x)"
begin

definition slots_once :: "'x multiset \<Rightarrow> bool" where
  "slots_once M \<longleftrightarrow> (\<forall>k. size (filter_mset (\<lambda>x. slot x = Some k) M) \<le> 1)"

lemma commute_once:
  assumes "slots_once (add_mset x (add_mset y M))"
  shows "bind_res (step x s) (step y) = bind_res (step y s) (step x)"
proof (cases "slot x = slot y")
  case True
  have "slot x \<noteq> Some k" for k
  proof
    assume "slot x = Some k"
    then have "size (filter_mset (\<lambda>z. slot z = Some k) (add_mset x (add_mset y M))) \<ge> 2"
      using True by simp
    moreover have "size (filter_mset (\<lambda>z. slot z = Some k) (add_mset x (add_mset y M))) \<le> 1"
      using assms unfolding slots_once_def by blast
    ultimately show False by linarith
  qed
  then have "slot x = None" by (cases "slot x") blast+
  moreover from this True have "slot y = None" by simp
  ultimately show ?thesis by (simp add: no_slot)
qed (rule commute)

lemma slots_once_mono: "slots_once (add_mset x M) \<Longrightarrow> slots_once M"
  unfolding slots_once_def
  by (metis filter_mset_add_mset order_trans size_add_mset le_SucI order_refl)

lemma fold_Cons: "fold_res step (x # xs) = (\<lambda>t. bind_res (step x t) (fold_res step xs))"
  by (intro ext) simp

lemma fold_move_front:
  "slots_once (mset (us @ x # vs)) \<Longrightarrow> fold_res step (us @ x # vs) s = fold_res step (x # us @ vs) s"
proof (induction us arbitrary: s)
  case (Cons u us)
  have "slots_once (mset (us @ x # vs))"
    using Cons.prems slots_once_mono [of u "mset (us @ x # vs)"] by simp
  then have "fold_res step (us @ x # vs) = fold_res step (x # us @ vs)"
    by (intro ext Cons.IH)
  then have "fold_res step ((u # us) @ x # vs) s =
      bind_res (bind_res (step u s) (step x)) (fold_res step (us @ vs))"
    by (simp add: fold_Cons bind_res_assoc del: fold_res.simps)
  also have "\<dots> = bind_res (bind_res (step x s) (step u)) (fold_res step (us @ vs))"
    using Cons.prems commute_once [of x u "mset (us @ vs)" s]
    by (simp add: add_mset_commute)
  also have "\<dots> = fold_res step (x # (u # us) @ vs) s"
    by (simp add: fold_Cons bind_res_assoc del: fold_res.simps)
  finally show ?case .
qed simp

lemma fold_order:
  "mset xs = mset ys \<Longrightarrow> slots_once (mset xs) \<Longrightarrow> fold_res step xs s = fold_res step ys s"
proof (induction xs arbitrary: ys s)
  case (Cons x xs)
  then obtain us vs where ys: "ys = us @ x # vs"
    by (metis list.set_intros(1) set_mset_mset split_list)
  with Cons.prems have "mset xs = mset (us @ vs)" by simp
  moreover have "slots_once (mset xs)"
    using Cons.prems(2) slots_once_mono by simp
  ultimately have "fold_res step xs t = fold_res step (us @ vs) t" for t
    by (rule Cons.IH)
  moreover have "slots_once (mset (us @ x # vs))"
    using Cons.prems ys by simp
  ultimately show ?case
    using fold_move_front [of us x vs s] ys by (cases "step x s" rule: res_cases) simp_all
qed simp

end

section \<open>Indexing and slicing with their run-time checks\<close>

definition idx :: "'a list \<Rightarrow> nat \<Rightarrow> 'a option" where
  "idx xs i = (if i < length xs then Some (xs ! i) else None)"

definition subslice :: "'a list \<Rightarrow> nat \<Rightarrow> nat \<Rightarrow> 'a list option" where
  "subslice xs i j = (if i \<le> j \<and> j \<le> length xs then Some (take (j - i) (drop i xs)) else None)"

text \<open>Copying \<open>src\<close> into a fixed buffer: never longer than the buffer, the rest is kept.\<close>

definition overlay :: "'a list \<Rightarrow> 'a list \<Rightarrow> 'a list" where
  "overlay src buf = take (length buf) src @ drop (length src) buf"

lemma length_overlay [simp]: "length (overlay src buf) = length buf"
  by (auto simp: overlay_def)

lemma overlay_same_length: "length src = length buf \<Longrightarrow> overlay src buf = src"
  by (simp add: overlay_def)

lemma overlay_Nil [simp]: "overlay [] buf = buf"
  by (simp add: overlay_def)

lemma idx_in [simp]: "i < length xs \<Longrightarrow> idx xs i = Some (xs ! i)"
  by (simp add: idx_def)

lemma idx_out [simp]: "length xs \<le> i \<Longrightarrow> idx xs i = None"
  by (simp add: idx_def)

lemma idx_eq_Some: "idx xs i = Some x \<longleftrightarrow> i < length xs \<and> xs ! i = x"
  by (auto simp: idx_def)

lemma subslice_in [simp]:
  "i \<le> j \<Longrightarrow> j \<le> length xs \<Longrightarrow> subslice xs i j = Some (take (j - i) (drop i xs))"
  by (simp add: subslice_def)

lemma subslice_eq_Some:
  "subslice xs i j = Some ys \<longleftrightarrow> i \<le> j \<and> j \<le> length xs \<and> ys = take (j - i) (drop i xs)"
  by (auto simp: subslice_def)

lemma subslice_eq_None: "subslice xs i j = None \<longleftrightarrow> j < i \<or> length xs < j"
  by (auto simp: subslice_def)

section \<open>Byte order\<close>

text \<open>
  \<^verbatim>\<open>binary.LittleEndian.UintN\<close> reads its bytes low byte first, \<^verbatim>\<open>binary.BigEndian.UintN\<close> high
  byte first; \<open>le_bytes n\<close> are the low \<open>n\<close> bytes of a word, low byte first (\<^verbatim>\<open>PutUintN\<close>).
\<close>

fun le_word :: "u8 list \<Rightarrow> 'a::len word" where
  "le_word [] = 0"
| "le_word (b # bs) = ucast b OR push_bit 8 (le_word bs)"

definition be_word :: "u8 list \<Rightarrow> 'a::len word" where
  "be_word bs = le_word (rev bs)"

fun le_bytes :: "nat \<Rightarrow> 'a::len word \<Rightarrow> u8 list" where
  "le_bytes 0 w = []"
| "le_bytes (Suc n) w = ucast w # le_bytes n (drop_bit 8 w)"

definition be_bytes :: "nat \<Rightarrow> 'a::len word \<Rightarrow> u8 list" where
  "be_bytes n w = rev (le_bytes n w)"

lemma length_le_bytes [simp]: "length (le_bytes n w) = n"
  by (induction n arbitrary: w) auto

lemma length_be_bytes [simp]: "length (be_bytes n w) = n"
  by (simp add: be_bytes_def)

lemma bit_le_word:
  "bit (le_word bs :: 'a::len word) i \<longleftrightarrow> i < LENGTH('a) \<and> i < 8 * length bs \<and> bit (bs ! (i div 8)) (i mod 8)"
proof (induction bs arbitrary: i)
  case Nil
  then show ?case by simp
next
  case (Cons b bs)
  show ?case
  proof (cases "i < 8")
    case True
    then show ?thesis
      by (auto simp: bit_simps dest: bit_imp_le_length)
  next
    case False
    then have "i div 8 = Suc ((i - 8) div 8)" and "(i - 8) mod 8 = i mod 8"
      by (simp_all add: div_if [of 8 i] mod_if [of i 8])
    moreover have "\<not> bit b i"
      using False bit_imp_le_length [of b i] by auto
    ultimately show ?thesis
      using False by (auto simp: bit_simps Cons.IH)
  qed
qed

lemma nth_le_bytes: "i < n \<Longrightarrow> le_bytes n w ! i = ucast (drop_bit (8 * i) w)"
proof (induction n arbitrary: w i)
  case 0
  then show ?case by simp
next
  case (Suc n)
  then show ?case
    by (cases i) (simp_all add: drop_bit_drop_bit add.commute)
qed

lemma le_word_le_bytes: "le_word (le_bytes n w) = take_bit (8 * n) w"
proof (rule bit_word_eqI)
  fix i
  assume "i < LENGTH('a)"
  moreover have "8 * (i div 8) + i mod 8 = i"
    by simp
  ultimately show "bit (le_word (le_bytes n w) :: 'a word) i \<longleftrightarrow> bit (take_bit (8 * n) w) i"
    by (auto simp: bit_le_word nth_le_bytes bit_simps less_mult_imp_div_less mult.commute)
qed

lemma le_bytes_le_word:
  "8 * length bs \<le> LENGTH('a) \<Longrightarrow> le_bytes (length bs) (le_word bs :: 'a::len word) = bs"
proof (rule nth_equalityI)
  fix i
  assume len: "8 * length bs \<le> LENGTH('a)" and "i < length (le_bytes (length bs) (le_word bs :: 'a word))"
  then have i: "i < length bs" by simp
  have "bit (ucast (drop_bit (8 * i) (le_word bs :: 'a word)) :: u8) k \<longleftrightarrow> bit (bs ! i) k"
    if "k < 8" for k
  proof -
    have "(8 * i + k) div 8 = i" and "(8 * i + k) mod 8 = k"
      using that by simp_all
    moreover have "8 * i + k < 8 * length bs"
      using i that by simp
    ultimately show ?thesis
      using len that by (simp add: bit_simps bit_le_word)
  qed
  then have "ucast (drop_bit (8 * i) (le_word bs :: 'a word)) = bs ! i"
    by (intro bit_word_eqI) simp
  with i show "le_bytes (length bs) (le_word bs :: 'a word) ! i = bs ! i"
    by (simp add: nth_le_bytes)
qed simp

lemma be_word_be_bytes: "be_word (be_bytes n w) = take_bit (8 * n) w"
  by (simp add: be_word_def be_bytes_def le_word_le_bytes)

lemma unat_le_word_bound: "8 * length bs \<le> n \<Longrightarrow> unat (le_word bs :: 'a::len word) < 2 ^ n"
proof -
  assume n: "8 * length bs \<le> n"
  have "take_bit n (le_word bs :: 'a word) = le_word bs"
    using n by (intro bit_word_eqI) (auto simp: bit_simps bit_le_word)
  then have "unat (le_word bs :: 'a word) = take_bit n (unat (le_word bs :: 'a word))"
    by (metis unsigned_take_bit_eq)
  then show ?thesis
    by (metis take_bit_nat_less_exp)
qed

section \<open>Words\<close>

lemma unat_ucast_up [simp]:
  "LENGTH('a) \<le> LENGTH('b) \<Longrightarrow> unat (ucast (x :: 'a::len word) :: 'b::len word) = unat x"
proof -
  assume le: "LENGTH('a) \<le> LENGTH('b)"
  have "unat x < 2 ^ LENGTH('a)"
    by (rule unsigned_less)
  also have "(2 :: nat) ^ LENGTH('a) \<le> 2 ^ LENGTH('b)"
    using le by (intro power_increasing) simp_all
  finally show ?thesis
    by (simp add: unsigned_ucast_eq take_bit_nat_eq_self)
qed

end
