(* ===== verification/GoBinary.thy ===== *)
theory GoBinary
  imports GoPrelude
begin

text \<open>
  \<^verbatim>\<open>encoding/binary\<close> as the repository uses it: \<^verbatim>\<open>binary.Read\<close> fills a fixed-size struct by walking
  over the struct's type, field by field, and skips blank (\<^verbatim>\<open>_\<close>) fields. A struct declaration is
  modelled by its type descriptor (\<open>gtype\<close>), which is what \<^verbatim>\<open>reflect\<close> shows the library; one decoder
  serves every struct of the package. The second half is the layout that \<^verbatim>\<open>unsafe.Sizeof\<close> and
  \<^verbatim>\<open>unsafe.Offsetof\<close> see (64-bit Go: natural alignment, padding between fields), which is what the
  kernel or a C library reads and writes through an \<^verbatim>\<open>unsafe.Pointer\<close>.
\<close>

section \<open>Type descriptors and values\<close>

datatype gtype = U8 | U16 | U32 | U64 | I32 | Arr nat gtype | Struct gfields
  and gfields = NoField | Field string gtype gfields

primrec mkfields :: "(string \<times> gtype) list \<Rightarrow> gfields" where
  "mkfields [] = NoField"
| "mkfields (f # fs) = Field (fst f) (snd f) (mkfields fs)"

abbreviation blank :: string where
  "blank \<equiv> ''_''"

datatype gval =
    is_VU8: VU8 (vu8: u8)
  | is_VU16: VU16 (vu16: u16)
  | is_VU32: VU32 (vu32: u32)
  | is_VU64: VU64 (vu64: u64)
  | is_VI32: VI32 (vi32: u32)
  | is_VArr: VArr (varr: "gval list")
  | is_VStruct: VStruct (vstruct: "(string \<times> gval) list")

definition fld :: "gval \<Rightarrow> string \<Rightarrow> gval" where
  "fld v n = the (map_of (vstruct v) n)"

text \<open>A byte array field as a byte list.\<close>

definition vbytes :: "gval \<Rightarrow> u8 list" where
  "vbytes v = map vu8 (varr v)"

section \<open>binary.Size and binary.Read\<close>

primrec bsize :: "gtype \<Rightarrow> nat" and fsize :: "gfields \<Rightarrow> nat" where
  "bsize U8 = 1"
| "bsize U16 = 2"
| "bsize U32 = 4"
| "bsize U64 = 8"
| "bsize I32 = 4"
| "bsize (Arr n t) = n * bsize t"
| "bsize (Struct fs) = fsize fs"
| "fsize NoField = 0"
| "fsize (Field n t fs) = bsize t + fsize fs"

datatype order = LittleEndian | BigEndian

fun ord_word :: "order \<Rightarrow> u8 list \<Rightarrow> 'a::len word" where
  "ord_word LittleEndian bs = le_word bs"
| "ord_word BigEndian bs = be_word bs"

fun ord_bytes :: "order \<Rightarrow> nat \<Rightarrow> 'a::len word \<Rightarrow> u8 list" where
  "ord_bytes LittleEndian n w = le_bytes n w"
| "ord_bytes BigEndian n w = be_bytes n w"

text \<open>
  The value of a type at the front of a buffer that is long enough. A blank field is read over and
  leaves no entry.
\<close>

primrec dec :: "order \<Rightarrow> gtype \<Rightarrow> u8 list \<Rightarrow> gval"
  and dec_fields :: "order \<Rightarrow> gfields \<Rightarrow> u8 list \<Rightarrow> (string \<times> gval) list" where
  "dec d U8 bs = VU8 (ord_word d (take 1 bs))"
| "dec d U16 bs = VU16 (ord_word d (take 2 bs))"
| "dec d U32 bs = VU32 (ord_word d (take 4 bs))"
| "dec d U64 bs = VU64 (ord_word d (take 8 bs))"
| "dec d I32 bs = VI32 (ord_word d (take 4 bs))"
| "dec d (Arr n t) bs = VArr (map (\<lambda>i. dec d t (drop (i * bsize t) bs)) [0..<n])"
| "dec d (Struct fs) bs = VStruct (dec_fields d fs bs)"
| "dec_fields d NoField bs = []"
| "dec_fields d (Field n t fs) bs =
     (if n = blank then dec_fields d fs (drop (bsize t) bs)
      else (n, dec d t bs) # dec_fields d fs (drop (bsize t) bs))"

text \<open>
  \<^verbatim>\<open>binary.Read(bytes.NewBuffer(buf), order, &v)\<close>: too few bytes are an error
  (\<^verbatim>\<open>io.EOF\<close> or \<^verbatim>\<open>io.ErrUnexpectedEOF\<close>, which the callers do not tell apart), surplus ones
  stay in the buffer.
\<close>

definition binary_read :: "order \<Rightarrow> gtype \<Rightarrow> u8 list \<Rightarrow> gval res" where
  "binary_read d t buf = (if length buf < bsize t then Err UnexpectedEOF else Ok (dec d t buf))"

text \<open>\<^verbatim>\<open>binary.Write\<close>: blank fields are written as zeros.\<close>

primrec enc :: "order \<Rightarrow> gtype \<Rightarrow> gval \<Rightarrow> u8 list"
  and enc_fields :: "order \<Rightarrow> gfields \<Rightarrow> (string \<times> gval) list \<Rightarrow> u8 list" where
  "enc d U8 v = ord_bytes d 1 (vu8 v)"
| "enc d U16 v = ord_bytes d 2 (vu16 v)"
| "enc d U32 v = ord_bytes d 4 (vu32 v)"
| "enc d U64 v = ord_bytes d 8 (vu64 v)"
| "enc d I32 v = ord_bytes d 4 (vi32 v)"
| "enc d (Arr n t) v = concat (map (\<lambda>i. enc d t (varr v ! i)) [0..<n])"
| "enc d (Struct fs) v = enc_fields d fs (vstruct v)"
| "enc_fields d NoField vs = []"
| "enc_fields d (Field n t fs) vs =
     (if n = blank then replicate (bsize t) 0 @ enc_fields d fs vs
      else enc d t (snd (hd vs)) @ enc_fields d fs (tl vs))"

text \<open>The values a Go variable of the type can hold: every field present, in order, of its type.\<close>

primrec conforms :: "gtype \<Rightarrow> gval \<Rightarrow> bool"
  and conforms_fields :: "gfields \<Rightarrow> (string \<times> gval) list \<Rightarrow> bool" where
  "conforms U8 v = is_VU8 v"
| "conforms U16 v = is_VU16 v"
| "conforms U32 v = is_VU32 v"
| "conforms U64 v = is_VU64 v"
| "conforms I32 v = is_VI32 v"
| "conforms (Arr n t) v = (is_VArr v \<and> length (varr v) = n \<and> list_all (conforms t) (varr v))"
| "conforms (Struct fs) v = (is_VStruct v \<and> conforms_fields fs (vstruct v))"
| "conforms_fields NoField vs = (vs = [])"
| "conforms_fields (Field n t fs) vs =
     (if n = blank then conforms_fields fs vs
      else (case vs of [] \<Rightarrow> False
            | w # ws \<Rightarrow> fst w = n \<and> conforms t (snd w) \<and> conforms_fields fs ws))"

section \<open>Field offsets\<close>

primrec field_off :: "gfields \<Rightarrow> string \<Rightarrow> nat" where
  "field_off NoField x = 0"
| "field_off (Field n t fs) x = (if n = x then 0 else bsize t + field_off fs x)"

primrec field_type :: "gfields \<Rightarrow> string \<Rightarrow> gtype option" where
  "field_type NoField x = None"
| "field_type (Field n t fs) x = (if n = x then Some t else field_type fs x)"

lemma length_ord_bytes [simp]: "length (ord_bytes d n w) = n"
  by (cases d) auto

lemma ord_word_ord_bytes: "ord_word d (ord_bytes d n w) = take_bit (8 * n) w"
  by (cases d) (simp_all add: le_word_le_bytes be_word_be_bytes)

lemma ord_word_ord_bytes_full [simp]:
  fixes w :: "'a::len word"
  assumes "LENGTH('a) = 8 * n"
  shows "ord_word d (ord_bytes d n w) = w"
  using assms by (simp add: ord_word_ord_bytes take_bit_word_eq_self)

lemma field_off_bound: "field_type fs x = Some t \<Longrightarrow> field_off fs x + bsize t \<le> fsize fs"
  by (induction fs rule: gfields.induct [where ?P1.0 = "\<lambda>_. True"]) (auto split: if_splits)

text \<open>The named field of a decoded struct is the decoding of the bytes at its offset.\<close>

lemma map_of_dec_fields:
  "x \<noteq> blank \<Longrightarrow> field_type fs x = Some t \<Longrightarrow>
   map_of (dec_fields d fs bs) x = Some (dec d t (drop (field_off fs x) bs))"
proof (induction fs arbitrary: bs rule: gfields.induct [where ?P1.0 = "\<lambda>_. True"])
  case (Field n u fs)
  then show ?case
    by (auto simp: add.commute)
qed simp_all

lemma fld_dec:
  "x \<noteq> blank \<Longrightarrow> field_type fs x = Some t \<Longrightarrow>
   fld (dec d (Struct fs) bs) x = dec d t (drop (field_off fs x) bs)"
  by (simp add: fld_def map_of_dec_fields)

text \<open>The named fields with their offsets, in the order of the declaration.\<close>

primrec offsets :: "gfields \<Rightarrow> nat \<Rightarrow> (string \<times> nat) list" where
  "offsets NoField k = []"
| "offsets (Field n t fs) k =
     (if n = blank then offsets fs (k + bsize t) else (n, k) # offsets fs (k + bsize t))"

lemma map_of_offsets:
  "x \<noteq> blank \<Longrightarrow> map_of (offsets fs k) x =
     (case field_type fs x of None \<Rightarrow> None | Some t \<Rightarrow> Some (k + field_off fs x))"
  by (induction fs arbitrary: k rule: gfields.induct [where ?P1.0 = "\<lambda>_. True"])
    (auto split: option.splits)

text \<open>Reading single bytes and byte arrays.\<close>

lemma ord_word_single [simp]: "ord_word d [b] = (ucast b :: 'a::len word)"
  by (cases d) (simp_all add: be_word_def)

lemma vu8_dec: "i < length bs \<Longrightarrow> vu8 (dec d U8 (drop i bs)) = bs ! i"
proof -
  assume "i < length bs"
  then have "take 1 (drop i bs) = [bs ! i]"
    by (simp add: take_Suc_conv_app_nth)
  then show ?thesis by simp
qed

lemma vbytes_dec: "k + n \<le> length bs \<Longrightarrow> vbytes (dec d (Arr n U8) (drop k bs)) = take n (drop k bs)"
proof -
  assume len: "k + n \<le> length bs"
  have "vu8 (dec d U8 (drop i (drop k bs))) = drop k bs ! i" if "i < n" for i
    using len that vu8_dec [of i "drop k bs" d] by simp
  then show ?thesis
    using len by (intro nth_equalityI) (simp_all add: vbytes_def)
qed

lemma vu8_dec0: "bs \<noteq> [] \<Longrightarrow> vu8 (dec d U8 bs) = bs ! 0"
  using vu8_dec [of 0 bs d] by simp

lemma vbytes_dec0: "n \<le> length bs \<Longrightarrow> vbytes (dec d (Arr n U8) bs) = take n bs"
  using vbytes_dec [of 0 n bs d] by simp

lemma scalar_dec:
  "vu16 (dec d U16 bs) = ord_word d (take 2 bs)"
  "vu32 (dec d U32 bs) = ord_word d (take 4 bs)"
  "vu64 (dec d U64 bs) = ord_word d (take 8 bs)"
  "vi32 (dec d I32 bs) = ord_word d (take 4 bs)"
  by simp_all

lemma vu16s_dec:
  "map vu16 (varr (dec d (Arr n U16) bs)) = map (\<lambda>i. ord_word d (take 2 (drop (2 * i) bs))) [0..<n]"
  by (simp add: mult.commute)

section \<open>Sizes and round trip\<close>

lemma length_enc [simp]:
  "length (enc d t v) = bsize t"
  "length (enc_fields d fs vs) = fsize fs"
proof (induction t and fs arbitrary: v and vs)
  case (Arr n t)
  then show ?case by (simp add: length_concat comp_def sum_list_triv)
qed simp_all

lemma drop_concat_upt:
  assumes len: "\<And>j. length (f j) = k" and i: "i < n"
  shows "drop (i * k) (concat (map f [0..<n]) @ r) = f i @ concat (map f [Suc i..<n]) @ r"
proof -
  have "[0..<n] = [0..<i] @ i # [Suc i..<n]"
    using i upt_add_eq_append [of 0 i "n - i"] by (simp add: upt_conv_Cons)
  moreover have "length (concat (map f [0..<i])) = i * k"
    using len by (simp add: length_concat comp_def sum_list_triv)
  ultimately show ?thesis by simp
qed

lemma dec_enc_append:
  "conforms t v \<Longrightarrow> dec d t (enc d t v @ r) = v"
  "conforms_fields fs vs \<Longrightarrow> dec_fields d fs (enc_fields d fs vs @ r) = vs"
proof (induction t and fs arbitrary: v r and vs r)
  case (Arr n t)
  from Arr.prems have v: "is_VArr v" "length (varr v) = n" "\<And>i. i < n \<Longrightarrow> conforms t (varr v ! i)"
    by (auto simp: list_all_length)
  have "dec d t (drop (i * bsize t) (concat (map (\<lambda>i. enc d t (varr v ! i)) [0..<n]) @ r)) = varr v ! i"
    if "i < n" for i
    using that v(3) by (simp del: drop_append add: drop_concat_upt Arr.IH)
  moreover obtain vs where "v = VArr vs"
    using v(1) by (auto simp: is_VArr_def)
  ultimately show ?case
    using v(2) by (auto intro!: nth_equalityI)
next
  case (Field n t fs)
  then show ?case
    by (cases vs) (auto split: if_splits)
qed (auto simp: is_VU8_def is_VU16_def is_VU32_def is_VU64_def is_VI32_def is_VStruct_def)

theorem binary_roundtrip:
  "conforms t v \<Longrightarrow> binary_read d t (enc d t v @ r) = Ok v"
  by (simp add: binary_read_def dec_enc_append)

text \<open>Reading never depends on the bytes past the type's size, and gives a value of the type.\<close>

lemma dec_take:
  "bsize t \<le> n \<Longrightarrow> dec d t (take n bs) = dec d t bs"
  "fsize fs \<le> n \<Longrightarrow> dec_fields d fs (take n bs) = dec_fields d fs bs"
proof (induction t and fs arbitrary: bs n and bs n)
  case (Arr m t)
  have "dec d t (drop (i * bsize t) (take n bs)) = dec d t (drop (i * bsize t) bs)" if "i < m" for i
  proof -
    have "Suc i * bsize t \<le> m * bsize t"
      using that by (intro mult_le_mono1) simp
    then have "bsize t \<le> n - i * bsize t"
      using Arr.prems by simp
    then show ?thesis
      by (simp add: drop_take Arr.IH)
  qed
  then show ?case by simp
next
  case (Field x t fs)
  then show ?case by (simp add: drop_take)
qed (simp_all add: min_def)

lemma conforms_dec:
  "conforms t (dec d t bs)"
  "conforms_fields fs (dec_fields d fs bs)"
  by (induction t and fs arbitrary: bs and bs) (auto simp: list_all_length)

section \<open>The layout in memory\<close>

text \<open>
  \<^verbatim>\<open>unsafe.Alignof\<close>, \<^verbatim>\<open>unsafe.Sizeof\<close> and \<^verbatim>\<open>unsafe.Offsetof\<close> on a 64-bit platform: every field
  starts at a multiple of its alignment and the struct's size is rounded up to its own.
\<close>

primrec galign :: "gtype \<Rightarrow> nat" and falign :: "gfields \<Rightarrow> nat" where
  "galign U8 = 1"
| "galign U16 = 2"
| "galign U32 = 4"
| "galign U64 = 8"
| "galign I32 = 4"
| "galign (Arr n t) = galign t"
| "galign (Struct fs) = falign fs"
| "falign NoField = 1"
| "falign (Field n t fs) = max (galign t) (falign fs)"

definition round_up :: "nat \<Rightarrow> nat \<Rightarrow> nat" where
  "round_up k a = (k + a - 1) div a * a"

primrec usize :: "gtype \<Rightarrow> nat" and uend :: "gfields \<Rightarrow> nat \<Rightarrow> nat" where
  "usize U8 = 1"
| "usize U16 = 2"
| "usize U32 = 4"
| "usize U64 = 8"
| "usize I32 = 4"
| "usize (Arr n t) = n * usize t"
| "usize (Struct fs) = round_up (uend fs 0) (falign fs)"
| "uend NoField k = k"
| "uend (Field n t fs) k = uend fs (round_up k (galign t) + usize t)"

primrec uoff :: "gfields \<Rightarrow> string \<Rightarrow> nat \<Rightarrow> nat" where
  "uoff NoField x k = k"
| "uoff (Field n t fs) x k =
     (if n = x then round_up k (galign t) else uoff fs x (round_up k (galign t) + usize t))"

text \<open>A value read from memory on a little-endian machine through such a layout.\<close>

primrec mdec :: "gtype \<Rightarrow> u8 list \<Rightarrow> gval"
  and mdec_fields :: "gfields \<Rightarrow> nat \<Rightarrow> u8 list \<Rightarrow> (string \<times> gval) list" where
  "mdec U8 bs = VU8 (le_word (take 1 bs))"
| "mdec U16 bs = VU16 (le_word (take 2 bs))"
| "mdec U32 bs = VU32 (le_word (take 4 bs))"
| "mdec U64 bs = VU64 (le_word (take 8 bs))"
| "mdec I32 bs = VI32 (le_word (take 4 bs))"
| "mdec (Arr n t) bs = VArr (map (\<lambda>i. mdec t (drop (i * usize t) bs)) [0..<n])"
| "mdec (Struct fs) bs = VStruct (mdec_fields fs 0 bs)"
| "mdec_fields NoField k bs = []"
| "mdec_fields (Field n t fs) k bs =
     (let o' = round_up k (galign t); rest = mdec_fields fs (o' + usize t) bs
      in if n = blank then rest else (n, mdec t (drop o' bs)) # rest)"

text \<open>No padding between the fields, nor behind the last one.\<close>

primrec unpadded :: "gtype \<Rightarrow> bool" and unpadded_fields :: "gfields \<Rightarrow> nat \<Rightarrow> bool" where
  "unpadded U8 = True"
| "unpadded U16 = True"
| "unpadded U32 = True"
| "unpadded U64 = True"
| "unpadded I32 = True"
| "unpadded (Arr n t) = unpadded t"
| "unpadded (Struct fs) = (unpadded_fields fs 0 \<and> fsize fs mod falign fs = 0)"
| "unpadded_fields NoField k = True"
| "unpadded_fields (Field n t fs) k =
     (unpadded t \<and> k mod galign t = 0 \<and> unpadded_fields fs (k + bsize t))"

lemma align_pos: "0 < galign t" "0 < falign fs"
  by (induction t and fs) auto

lemma round_up_aligned: "0 < a \<Longrightarrow> k mod a = 0 \<Longrightarrow> round_up k a = k"
proof -
  assume a: "0 < a" "k mod a = 0"
  then obtain q where q: "k = q * a" by (metis div_mult_mod_eq add_0_right)
  have "(q * a + (a - 1)) div a = q + (a - 1) div a"
    using a(1) by (intro div_mult_self3) simp
  then show ?thesis
    using a(1) by (simp add: round_up_def q)
qed

lemma unpadded_size:
  "unpadded t \<Longrightarrow> usize t = bsize t"
  "unpadded_fields fs k \<Longrightarrow> uend fs k = k + fsize fs"
  by (induction t and fs arbitrary: and k) (auto simp: round_up_aligned align_pos)

lemma unpadded_off:
  "unpadded_fields fs k \<Longrightarrow> field_type fs x \<noteq> None \<Longrightarrow> uoff fs x k = k + field_off fs x"
  by (induction fs arbitrary: k rule: gfields.induct [where ?P1.0 = "\<lambda>_. True"])
    (auto simp: round_up_aligned align_pos unpadded_size)

lemma unpadded_mdec:
  "unpadded t \<Longrightarrow> mdec t bs = dec LittleEndian t bs"
  "unpadded_fields fs k \<Longrightarrow> mdec_fields fs k bs = dec_fields LittleEndian fs (drop k bs)"
  by (induction t and fs arbitrary: bs and k bs)
    (auto simp: round_up_aligned align_pos unpadded_size Let_def add.commute)

end
