(* ===== verification/GoText.thy ===== *)
theory GoText
  imports GoPrelude
begin

text \<open>
  The byte string functions of Go's standard library that the package calls: \<^verbatim>\<open>bytes.TrimSpace\<close>,
  \<^verbatim>\<open>bytes.TrimRight\<close> and the conversion \<^verbatim>\<open>string(b)\<close>, with the facts about them the component
  proofs need (what is trimmed, that trimming is idempotent and returns a part of its input).
\<close>

section \<open>Bytes and strings\<close>

text \<open>A Go string is a sequence of bytes, as is an Isabelle \<open>string\<close> (a character is a byte).\<close>

definition byte_char :: "u8 \<Rightarrow> char" where
  "byte_char b = char_of (unat b)"

definition char_byte :: "char \<Rightarrow> u8" where
  "char_byte c = of_nat (of_char c)"

definition go_string :: "u8 list \<Rightarrow> string" where
  "go_string bs = map byte_char bs"

definition go_bytes :: "string \<Rightarrow> u8 list" where
  "go_bytes s = map char_byte s"

lemma char_byte_byte_char [simp]: "char_byte (byte_char b) = b"
proof -
  have "(of_char (char_of (unat b) :: char) :: nat) = unat b"
    using unsigned_less [of b, where ?'a = nat] by (simp add: take_bit_eq_mod)
  then show ?thesis
    by (simp add: char_byte_def byte_char_def)
qed

lemma byte_char_char_byte [simp]: "byte_char (char_byte c) = c"
proof -
  have "of_char c < (256 :: nat)"
    by (rule nat_of_char_less_256)
  then have "unat (of_nat (of_char c) :: u8) = of_char c"
    by (simp add: unat_of_nat)
  then show ?thesis
    by (simp add: char_byte_def byte_char_def)
qed

lemma go_bytes_go_string [simp]: "go_bytes (go_string bs) = bs"
  by (simp add: go_bytes_def go_string_def comp_def)

lemma go_string_go_bytes [simp]: "go_string (go_bytes s) = s"
  by (simp add: go_bytes_def go_string_def comp_def)

lemma length_go_string [simp]: "length (go_string bs) = length bs"
  by (simp add: go_string_def)

section \<open>Trimming\<close>

text \<open>
  The UTF-8 encodings of the characters \<^verbatim>\<open>unicode.IsSpace\<close> accepts: tab, line feed, vertical tab,
  form feed, carriage return, space, U+0085, U+00A0, U+1680, U+2000 to U+200A, U+2028, U+2029,
  U+202F, U+205F and U+3000. \<^verbatim>\<open>bytes.TrimSpace\<close> removes leading and trailing ones; a byte that is
  not part of a valid encoding stops the trimming, as \<^verbatim>\<open>utf8.DecodeRune\<close> then yields the error
  rune, which is no space.
\<close>

definition space_encodings :: "u8 list list" where
  "space_encodings =
     [[0x20], [0x09], [0x0a], [0x0b], [0x0c], [0x0d], [0xc2, 0x85], [0xc2, 0xa0],
      [0xe1, 0x9a, 0x80],
      [0xe2, 0x80, 0x80], [0xe2, 0x80, 0x81], [0xe2, 0x80, 0x82], [0xe2, 0x80, 0x83],
      [0xe2, 0x80, 0x84], [0xe2, 0x80, 0x85], [0xe2, 0x80, 0x86], [0xe2, 0x80, 0x87],
      [0xe2, 0x80, 0x88], [0xe2, 0x80, 0x89], [0xe2, 0x80, 0x8a],
      [0xe2, 0x80, 0xa8], [0xe2, 0x80, 0xa9], [0xe2, 0x80, 0xaf], [0xe2, 0x81, 0x9f],
      [0xe3, 0x80, 0x80]]"

function trim_front :: "u8 list list \<Rightarrow> u8 list \<Rightarrow> u8 list" where
  "trim_front encs s =
     (case find (\<lambda>e. e \<noteq> [] \<and> take (length e) s = e) encs of
        None \<Rightarrow> s
      | Some e \<Rightarrow> trim_front encs (drop (length e) s))"
  by pat_completeness auto
termination
proof (relation "measure (\<lambda>(encs, s). length s)")
  fix encs s e
  assume "find (\<lambda>e. e \<noteq> [] \<and> take (length e) s = e) encs = Some e"
  then have "e \<noteq> []" "take (length e) s = e"
    by (auto simp: find_Some_iff)
  then have "s \<noteq> []" "0 < length e" by auto
  then show "((encs, drop (length e) s), (encs, s)) \<in> measure (\<lambda>(encs, s). length s)"
    by simp
qed simp

declare trim_front.simps [simp del]

definition TrimSpace :: "u8 list \<Rightarrow> u8 list" where
  "TrimSpace s =
     rev (trim_front (map rev space_encodings) (rev (trim_front space_encodings s)))"

text \<open>\<^verbatim>\<open>bytes.TrimRight(s, "\x00")\<close>.\<close>

definition TrimRightNul :: "u8 list \<Rightarrow> u8 list" where
  "TrimRightNul s = rev (dropWhile (\<lambda>b. b = 0) (rev s))"

definition starts_with :: "u8 list list \<Rightarrow> u8 list \<Rightarrow> bool" where
  "starts_with encs s \<longleftrightarrow> (\<exists>e \<in> set encs. e \<noteq> [] \<and> take (length e) s = e)"

lemma starts_with_find:
  "starts_with encs s \<longleftrightarrow> find (\<lambda>e. e \<noteq> [] \<and> take (length e) s = e) encs \<noteq> None"
  by (auto simp: starts_with_def find_None_iff)

lemma trim_front_fixed: "\<not> starts_with encs s \<Longrightarrow> trim_front encs s = s"
  by (subst trim_front.simps) (simp add: starts_with_find)

lemma trim_front_stops: "\<not> starts_with encs (trim_front encs s)"
proof (induction encs s rule: trim_front.induct)
  case (1 encs s)
  show ?case
  proof (cases "find (\<lambda>e. e \<noteq> [] \<and> take (length e) s = e) encs")
    case None
    then have "\<not> starts_with encs s"
      by (simp add: starts_with_find)
    then show ?thesis
      by (simp add: trim_front_fixed)
  next
    case (Some e)
    then show ?thesis
      using 1 by (subst trim_front.simps) simp
  qed
qed

lemma trim_front_suffix: "suffix (trim_front encs s) s"
proof (induction encs s rule: trim_front.induct)
  case (1 encs s)
  show ?case
  proof (cases "find (\<lambda>e. e \<noteq> [] \<and> take (length e) s = e) encs")
    case None
    then show ?thesis by (subst trim_front.simps) simp
  next
    case (Some e)
    then show ?thesis
      using 1 suffix_drop suffix_order.trans by (subst trim_front.simps) (simp, blast)
  qed
qed

lemma TrimSpace_sublist: "sublist (TrimSpace s) s"
proof -
  let ?t = "trim_front space_encodings s"
  have "suffix (trim_front (map rev space_encodings) (rev ?t)) (rev ?t)"
    by (rule trim_front_suffix)
  then have "prefix (TrimSpace s) ?t"
    by (simp add: TrimSpace_def suffix_to_prefix)
  then show ?thesis
    using trim_front_suffix [of space_encodings s]
    by (meson prefix_imp_sublist sublist_order.order.trans suffix_imp_sublist)
qed

lemma TrimSpace_length: "length (TrimSpace s) \<le> length s"
  by (rule sublist_length_le [OF TrimSpace_sublist])

text \<open>Text that neither starts nor ends with white space is left alone; padding is removed.\<close>

lemma TrimSpace_id:
  "\<not> starts_with space_encodings s \<Longrightarrow> \<not> starts_with (map rev space_encodings) (rev s) \<Longrightarrow> TrimSpace s = s"
  by (simp add: TrimSpace_def trim_front_fixed)

lemma trim_front_blanks:
  "e \<noteq> [] \<Longrightarrow> encs = e # rest \<Longrightarrow> trim_front encs (concat (replicate n e) @ s) = trim_front encs s"
proof (induction n)
  case (Suc n)
  then show ?case
    by (subst trim_front.simps) simp
qed simp

lemma TrimSpace_blanks: "TrimSpace (replicate n 0x20) = []"
proof -
  have "trim_front space_encodings (concat (replicate n [0x20]) @ []) = trim_front space_encodings []"
    by (rule trim_front_blanks) (simp_all add: space_encodings_def)
  moreover have "trim_front encs [] = []" for encs
    by (rule trim_front_fixed) (auto simp: starts_with_def)
  moreover have "concat (replicate n [0x20 :: u8]) = replicate n 0x20"
    by (induction n) auto
  ultimately show ?thesis
    by (simp add: TrimSpace_def)
qed

lemma concat_replicate_single: "concat (replicate n [b]) = replicate n b"
  by (induction n) auto

text \<open>No encoding but the blank itself ends in a blank.\<close>

lemma space_encodings_last: "list_all (\<lambda>e. e = [0x20] \<or> last e \<noteq> 0x20) space_encodings"
  by (simp add: space_encodings_def)

lemma starts_with_pad:
  assumes "s \<noteq> []" "\<not> starts_with space_encodings s"
  shows "\<not> starts_with space_encodings (s @ replicate k 0x20)"
proof
  assume "starts_with space_encodings (s @ replicate k 0x20)"
  then obtain e where e: "e \<in> set space_encodings" "e \<noteq> []"
      "take (length e) (s @ replicate k 0x20) = e"
    by (auto simp: starts_with_def)
  show False
  proof (cases "length e \<le> length s")
    case True
    with e assms(2) show False by (auto simp: starts_with_def)
  next
    case False
    define j where "j = min (length e - length s) k"
    have "e = s @ replicate j 0x20"
      using False e(3) by (simp add: take_replicate j_def)
    moreover from this have "j \<noteq> 0" using False by auto
    ultimately have "last e = 0x20" by simp
    then have "e = [0x20]"
      using space_encodings_last e(1) by (auto simp: list_all_iff)
    with \<open>e = s @ replicate j 0x20\<close> \<open>j \<noteq> 0\<close> assms(1) show False
      by (cases s) auto
  qed
qed

lemma TrimSpace_pad:
  assumes "\<not> starts_with space_encodings s" "\<not> starts_with (map rev space_encodings) (rev s)"
  shows "TrimSpace (s @ replicate k 0x20) = s"
proof (cases "s = []")
  case True
  then show ?thesis by (simp add: TrimSpace_blanks)
next
  case False
  then have "trim_front space_encodings (s @ replicate k 0x20) = s @ replicate k 0x20"
    using starts_with_pad assms(1) by (intro trim_front_fixed) blast
  moreover have "trim_front (map rev space_encodings) (concat (replicate k [0x20]) @ rev s) =
      trim_front (map rev space_encodings) (rev s)"
    by (rule trim_front_blanks) (simp_all add: space_encodings_def)
  ultimately show ?thesis
    using assms(2) by (simp add: TrimSpace_def trim_front_fixed concat_replicate_single)
qed

end
