(* ===== verification/NvmeData.thy ===== *)
theory NvmeData
  imports GoBinary GoText
begin

text \<open>
  The data structures of \<^verbatim>\<open>nvme.go\<close>: the Identify Controller and Identify Namespace structures and the
  SMART log as records with their type descriptors, split along the declarations, and the methods that
  read them. The layout lemmas give every named field its byte offset.
\<close>

section \<open>Structs\<close>

record Uint128 =
  Val :: "u64 list"

definition Uint128_type :: gtype where
  "Uint128_type = Struct (mkfields [(''Val'', Arr 2 U64)])"

definition Uint128_of :: "gval \<Rightarrow> Uint128" where
  "Uint128_of v = \<lparr>Val = map vu64 (varr (fld v ''Val''))\<rparr>"

record NvmeIdentPowerState =
  psMaxPower :: u16
  psFlags :: u8
  psEntryLat :: u32
  psExitLat :: u32
  psReadThroughput :: u8
  psReadLatency :: u8
  psWriteThroughput :: u8
  psWriteLatency :: u8
  psIdlePower :: u16
  psIdleScale :: u8
  psActivePower :: u16
  psActiveWorkScale :: u8

definition NvmeIdentPowerState_fields :: gfields where
  "NvmeIdentPowerState_fields = mkfields
    [(''MaxPower'', U16), (''_'', U8), (''Flags'', U8), (''EntryLat'', U32), (''ExitLat'', U32),
     (''ReadThroughput'', U8), (''ReadLatency'', U8), (''WriteThroughput'', U8),
     (''WriteLatency'', U8), (''IdlePower'', U16), (''IdleScale'', U8), (''_'', U8),
     (''ActivePower'', U16), (''ActiveWorkScale'', U8), (''_'', Arr 9 U8)]"

definition NvmeIdentPowerState_type :: gtype where
  "NvmeIdentPowerState_type = Struct NvmeIdentPowerState_fields"

definition NvmeIdentPowerState_of :: "gval \<Rightarrow> NvmeIdentPowerState" where
  "NvmeIdentPowerState_of v =
    \<lparr>psMaxPower = vu16 (fld v ''MaxPower''), psFlags = vu8 (fld v ''Flags''),
      psEntryLat = vu32 (fld v ''EntryLat''), psExitLat = vu32 (fld v ''ExitLat''),
      psReadThroughput = vu8 (fld v ''ReadThroughput''),
      psReadLatency = vu8 (fld v ''ReadLatency''),
      psWriteThroughput = vu8 (fld v ''WriteThroughput''),
      psWriteLatency = vu8 (fld v ''WriteLatency''), psIdlePower = vu16 (fld v ''IdlePower''),
      psIdleScale = vu8 (fld v ''IdleScale''), psActivePower = vu16 (fld v ''ActivePower''),
      psActiveWorkScale = vu8 (fld v ''ActiveWorkScale'')\<rparr>"

record NvmeIdentController =
  icVendorID :: u16
  icSsvid :: u16
  icSerialNumberRaw :: "u8 list"
  icModelNumberRaw :: "u8 list"
  icFirmwareRevRaw :: "u8 list"
  icRab :: u8
  icIEEE :: "u8 list"
  icCmic :: u8
  icMdts :: u8
  icCntlid :: u16
  icVer :: u32
  icRtd3r :: u32
  icRtd3e :: u32
  icOaes :: u32
  icCtratt :: u32
  icRrls :: u16
  icBpcap :: u8
  icNssl :: u32
  icPlsi :: u8
  icCntrlType :: u8
  icFguid :: "u8 list"
  icCrdt1 :: u16
  icCrdt2 :: u16
  icCrdt3 :: u16
  icCrcap :: u8
  icNvmsr :: u8
  icVwci :: u8
  icMec :: u8
  icOacs :: u16
  icAcl :: u8
  icAerl :: u8
  icFrmw :: u8
  icLpa :: u8
  icElpe :: u8
  icNpss :: u8
  icAvscc :: u8
  icApsta :: u8
  icWctemp :: u16
  icCctemp :: u16
  icMtfa :: u16
  icHmpre :: u32
  icHmmin :: u32
  icTnvmcap :: Uint128
  icUnvmcap :: Uint128
  icRpmbs :: u32
  icEdstt :: u16
  icDsto :: u8
  icFwug :: u8
  icKas :: u16
  icHctma :: u16
  icMntmt :: u16
  icMxtmt :: u16
  icSanicap :: u32
  icHmminds :: u32
  icHmmaxd :: u16
  icNsetidmax :: u16
  icEndgidmax :: u16
  icAnatt :: u8
  icAnacap :: u8
  icAnagrpmax :: u32
  icNanagrpid :: u32
  icPels :: u32
  icDomainid :: u16
  icKpioc :: u8
  icMptfawr :: u16
  icMegcap :: Uint128
  icTmpthha :: u8
  icCqt :: u16
  icSqes :: u8
  icCqes :: u8
  icMaxcmd :: u16
  icNn :: u32
  icOncs :: u16
  icFuses :: u16
  icFna :: u8
  icVwc :: u8
  icAwun :: u16
  icAwupf :: u16
  icNvscc :: u8
  icNwpc :: u8
  icAcwu :: u16
  icOcfs :: u16
  icSgls :: u32
  icMnan :: u32
  icMaxdna :: Uint128
  icMaxcna :: u32
  icOaqd :: u32
  icRhiri :: u8
  icHirt :: u8
  icCmmrtd :: u16
  icNmmrtd :: u16
  icMinmrtg :: u8
  icMaxmrtg :: u8
  icTrattr :: u8
  icMcudmq :: u16
  icMnsudmq :: u16
  icMcmr :: u16
  icNmcmr :: u16
  icMcdqpc :: u16
  icSubnqnRaw :: "u8 list"
  icIoccsz :: u32
  icIorcsz :: u32
  icIcdoff :: u16
  icFcatt :: u8
  icMsdbd :: u8
  icOfcs :: u16
  icDctype :: u8
  icPsd :: "NvmeIdentPowerState list"
  icVs :: "u8 list"

definition ctrl_VendorID_Oaes :: "(string \<times> gtype) list" where
  "ctrl_VendorID_Oaes =
    [(''VendorID'', U16), (''Ssvid'', U16), (''SerialNumberRaw'', Arr 20 U8),
     (''ModelNumberRaw'', Arr 40 U8), (''FirmwareRevRaw'', Arr 8 U8), (''Rab'', U8),
     (''IEEE'', Arr 3 U8), (''Cmic'', U8), (''Mdts'', U8), (''Cntlid'', U16), (''Ver'', U32),
     (''Rtd3r'', U32), (''Rtd3e'', U32), (''Oaes'', U32)]"

definition ctrl_Ctratt_Bpcap :: "(string \<times> gtype) list" where
  "ctrl_Ctratt_Bpcap =
    [(''Ctratt'', U32), (''Rrls'', U16), (''Bpcap'', U8)]"

definition ctrl_Nssl_Oacs :: "(string \<times> gtype) list" where
  "ctrl_Nssl_Oacs =
    [(''_'', U8), (''Nssl'', U32), (''_'', Arr 2 U8), (''Plsi'', U8), (''CntrlType'', U8),
     (''Fguid'', Arr 16 U8), (''Crdt1'', U16), (''Crdt2'', U16), (''Crdt3'', U16),
     (''Crcap'', U8), (''_'', Arr 118 U8), (''Nvmsr'', U8), (''Vwci'', U8), (''Mec'', U8),
     (''Oacs'', U16)]"

definition ctrl_Acl_Hmpre :: "(string \<times> gtype) list" where
  "ctrl_Acl_Hmpre =
    [(''Acl'', U8), (''Aerl'', U8), (''Frmw'', U8), (''Lpa'', U8), (''Elpe'', U8),
     (''Npss'', U8), (''Avscc'', U8), (''Apsta'', U8), (''Wctemp'', U16), (''Cctemp'', U16),
     (''Mtfa'', U16), (''Hmpre'', U32)]"

definition ctrl_Hmmin_Mxtmt :: "(string \<times> gtype) list" where
  "ctrl_Hmmin_Mxtmt =
    [(''Hmmin'', U32), (''Tnvmcap'', Uint128_type), (''Unvmcap'', Uint128_type),
     (''Rpmbs'', U32), (''Edstt'', U16), (''Dsto'', U8), (''Fwug'', U8), (''Kas'', U16),
     (''Hctma'', U16), (''Mntmt'', U16), (''Mxtmt'', U16)]"

definition ctrl_Sanicap_Domainid :: "(string \<times> gtype) list" where
  "ctrl_Sanicap_Domainid =
    [(''Sanicap'', U32), (''Hmminds'', U32), (''Hmmaxd'', U16), (''Nsetidmax'', U16),
     (''Endgidmax'', U16), (''Anatt'', U8), (''Anacap'', U8), (''Anagrpmax'', U32),
     (''Nanagrpid'', U32), (''Pels'', U32), (''Domainid'', U16)]"

definition ctrl_Kpioc_Maxcna :: "(string \<times> gtype) list" where
  "ctrl_Kpioc_Maxcna =
    [(''Kpioc'', U8), (''_'', U8), (''Mptfawr'', U16), (''_'', Arr 6 U8),
     (''Megcap'', Uint128_type), (''Tmpthha'', U8), (''_'', U8), (''Cqt'', U16),
     (''_'', Arr 124 U8), (''Sqes'', U8), (''Cqes'', U8), (''Maxcmd'', U16), (''Nn'', U32),
     (''Oncs'', U16), (''Fuses'', U16), (''Fna'', U8), (''Vwc'', U8), (''Awun'', U16),
     (''Awupf'', U16), (''Nvscc'', U8), (''Nwpc'', U8), (''Acwu'', U16), (''Ocfs'', U16),
     (''Sgls'', U32), (''Mnan'', U32), (''Maxdna'', Uint128_type), (''Maxcna'', U32)]"

definition ctrl_Oaqd_Vs :: "(string \<times> gtype) list" where
  "ctrl_Oaqd_Vs =
    [(''Oaqd'', U32), (''Rhiri'', U8), (''Hirt'', U8), (''Cmmrtd'', U16), (''Nmmrtd'', U16),
     (''Minmrtg'', U8), (''Maxmrtg'', U8), (''Trattr'', U8), (''_'', U8), (''Mcudmq'', U16),
     (''Mnsudmq'', U16), (''Mcmr'', U16), (''Nmcmr'', U16), (''Mcdqpc'', U16),
     (''_'', Arr 180 U8), (''SubnqnRaw'', Arr 256 U8), (''_'', Arr 768 U8), (''Ioccsz'', U32),
     (''Iorcsz'', U32), (''Icdoff'', U16), (''Fcatt'', U8), (''Msdbd'', U8), (''Ofcs'', U16),
     (''Dctype'', U8), (''_'', Arr 241 U8), (''Psd'', Arr 32 NvmeIdentPowerState_type),
     (''Vs'', Arr 1024 U8)]"

definition NvmeIdentController_fields :: gfields where
  "NvmeIdentController_fields = mkfields
    (ctrl_VendorID_Oaes @ ctrl_Ctratt_Bpcap @ ctrl_Nssl_Oacs @ ctrl_Acl_Hmpre @
     ctrl_Hmmin_Mxtmt @ ctrl_Sanicap_Domainid @ ctrl_Kpioc_Maxcna @ ctrl_Oaqd_Vs)"

definition NvmeIdentController_type :: gtype where
  "NvmeIdentController_type = Struct NvmeIdentController_fields"

definition NvmeIdentController_of :: "gval \<Rightarrow> NvmeIdentController" where
  "NvmeIdentController_of v =
    \<lparr>icVendorID = vu16 (fld v ''VendorID''), icSsvid = vu16 (fld v ''Ssvid''),
      icSerialNumberRaw = vbytes (fld v ''SerialNumberRaw''),
      icModelNumberRaw = vbytes (fld v ''ModelNumberRaw''),
      icFirmwareRevRaw = vbytes (fld v ''FirmwareRevRaw''), icRab = vu8 (fld v ''Rab''),
      icIEEE = vbytes (fld v ''IEEE''), icCmic = vu8 (fld v ''Cmic''),
      icMdts = vu8 (fld v ''Mdts''), icCntlid = vu16 (fld v ''Cntlid''),
      icVer = vu32 (fld v ''Ver''), icRtd3r = vu32 (fld v ''Rtd3r''),
      icRtd3e = vu32 (fld v ''Rtd3e''), icOaes = vu32 (fld v ''Oaes''),
      icCtratt = vu32 (fld v ''Ctratt''), icRrls = vu16 (fld v ''Rrls''),
      icBpcap = vu8 (fld v ''Bpcap''), icNssl = vu32 (fld v ''Nssl''),
      icPlsi = vu8 (fld v ''Plsi''), icCntrlType = vu8 (fld v ''CntrlType''),
      icFguid = vbytes (fld v ''Fguid''), icCrdt1 = vu16 (fld v ''Crdt1''),
      icCrdt2 = vu16 (fld v ''Crdt2''), icCrdt3 = vu16 (fld v ''Crdt3''),
      icCrcap = vu8 (fld v ''Crcap''), icNvmsr = vu8 (fld v ''Nvmsr''),
      icVwci = vu8 (fld v ''Vwci''), icMec = vu8 (fld v ''Mec''), icOacs = vu16 (fld v ''Oacs''),
      icAcl = vu8 (fld v ''Acl''), icAerl = vu8 (fld v ''Aerl''), icFrmw = vu8 (fld v ''Frmw''),
      icLpa = vu8 (fld v ''Lpa''), icElpe = vu8 (fld v ''Elpe''), icNpss = vu8 (fld v ''Npss''),
      icAvscc = vu8 (fld v ''Avscc''), icApsta = vu8 (fld v ''Apsta''),
      icWctemp = vu16 (fld v ''Wctemp''), icCctemp = vu16 (fld v ''Cctemp''),
      icMtfa = vu16 (fld v ''Mtfa''), icHmpre = vu32 (fld v ''Hmpre''),
      icHmmin = vu32 (fld v ''Hmmin''), icTnvmcap = Uint128_of (fld v ''Tnvmcap''),
      icUnvmcap = Uint128_of (fld v ''Unvmcap''), icRpmbs = vu32 (fld v ''Rpmbs''),
      icEdstt = vu16 (fld v ''Edstt''), icDsto = vu8 (fld v ''Dsto''),
      icFwug = vu8 (fld v ''Fwug''), icKas = vu16 (fld v ''Kas''),
      icHctma = vu16 (fld v ''Hctma''), icMntmt = vu16 (fld v ''Mntmt''),
      icMxtmt = vu16 (fld v ''Mxtmt''), icSanicap = vu32 (fld v ''Sanicap''),
      icHmminds = vu32 (fld v ''Hmminds''), icHmmaxd = vu16 (fld v ''Hmmaxd''),
      icNsetidmax = vu16 (fld v ''Nsetidmax''), icEndgidmax = vu16 (fld v ''Endgidmax''),
      icAnatt = vu8 (fld v ''Anatt''), icAnacap = vu8 (fld v ''Anacap''),
      icAnagrpmax = vu32 (fld v ''Anagrpmax''), icNanagrpid = vu32 (fld v ''Nanagrpid''),
      icPels = vu32 (fld v ''Pels''), icDomainid = vu16 (fld v ''Domainid''),
      icKpioc = vu8 (fld v ''Kpioc''), icMptfawr = vu16 (fld v ''Mptfawr''),
      icMegcap = Uint128_of (fld v ''Megcap''), icTmpthha = vu8 (fld v ''Tmpthha''),
      icCqt = vu16 (fld v ''Cqt''), icSqes = vu8 (fld v ''Sqes''), icCqes = vu8 (fld v ''Cqes''),
      icMaxcmd = vu16 (fld v ''Maxcmd''), icNn = vu32 (fld v ''Nn''),
      icOncs = vu16 (fld v ''Oncs''), icFuses = vu16 (fld v ''Fuses''),
      icFna = vu8 (fld v ''Fna''), icVwc = vu8 (fld v ''Vwc''), icAwun = vu16 (fld v ''Awun''),
      icAwupf = vu16 (fld v ''Awupf''), icNvscc = vu8 (fld v ''Nvscc''),
      icNwpc = vu8 (fld v ''Nwpc''), icAcwu = vu16 (fld v ''Acwu''),
      icOcfs = vu16 (fld v ''Ocfs''), icSgls = vu32 (fld v ''Sgls''),
      icMnan = vu32 (fld v ''Mnan''), icMaxdna = Uint128_of (fld v ''Maxdna''),
      icMaxcna = vu32 (fld v ''Maxcna''), icOaqd = vu32 (fld v ''Oaqd''),
      icRhiri = vu8 (fld v ''Rhiri''), icHirt = vu8 (fld v ''Hirt''),
      icCmmrtd = vu16 (fld v ''Cmmrtd''), icNmmrtd = vu16 (fld v ''Nmmrtd''),
      icMinmrtg = vu8 (fld v ''Minmrtg''), icMaxmrtg = vu8 (fld v ''Maxmrtg''),
      icTrattr = vu8 (fld v ''Trattr''), icMcudmq = vu16 (fld v ''Mcudmq''),
      icMnsudmq = vu16 (fld v ''Mnsudmq''), icMcmr = vu16 (fld v ''Mcmr''),
      icNmcmr = vu16 (fld v ''Nmcmr''), icMcdqpc = vu16 (fld v ''Mcdqpc''),
      icSubnqnRaw = vbytes (fld v ''SubnqnRaw''), icIoccsz = vu32 (fld v ''Ioccsz''),
      icIorcsz = vu32 (fld v ''Iorcsz''), icIcdoff = vu16 (fld v ''Icdoff''),
      icFcatt = vu8 (fld v ''Fcatt''), icMsdbd = vu8 (fld v ''Msdbd''),
      icOfcs = vu16 (fld v ''Ofcs''), icDctype = vu8 (fld v ''Dctype''),
      icPsd = map NvmeIdentPowerState_of (varr (fld v ''Psd'')), icVs = vbytes (fld v ''Vs'')\<rparr>"

record NvmeLBAF =
  lbafMs :: u16
  lbafDs :: u8
  lbafRp :: u8

definition NvmeLBAF_fields :: gfields where
  "NvmeLBAF_fields = mkfields
    [(''Ms'', U16), (''Ds'', U8), (''Rp'', U8)]"

definition NvmeLBAF_type :: gtype where
  "NvmeLBAF_type = Struct NvmeLBAF_fields"

definition NvmeLBAF_of :: "gval \<Rightarrow> NvmeLBAF" where
  "NvmeLBAF_of v =
    \<lparr>lbafMs = vu16 (fld v ''Ms''), lbafDs = vu8 (fld v ''Ds''), lbafRp = vu8 (fld v ''Rp'')\<rparr>"

record NvmeIdentNamespace =
  nsNsze :: u64
  nsNcap :: u64
  nsNuse :: u64
  nsNsfeat :: u8
  nsNlbaf :: u8
  nsFlbas :: u8
  nsMc :: u8
  nsDpc :: u8
  nsDps :: u8
  nsNmic :: u8
  nsRescap :: u8
  nsFpi :: u8
  nsDlfeat :: u8
  nsNawun :: u16
  nsNawupf :: u16
  nsNacwu :: u16
  nsNabsn :: u16
  nsNabo :: u16
  nsNabspf :: u16
  nsNoiob :: u16
  nsNvmcap :: Uint128
  nsNpwg :: u16
  nsNpwa :: u16
  nsNpdg :: u16
  nsNpda :: u16
  nsNows :: u16
  nsMssrl :: u16
  nsMcl :: u32
  nsMsrc :: u8
  nsAnagrpid :: u32
  nsNsattr :: u8
  nsNvmseid :: u16
  nsEndgid :: u16
  nsNguid :: "u8 list"
  nsEui64 :: "u8 list"
  nsLbaf :: "NvmeLBAF list"
  nsVs :: "u8 list"

definition ns_Nsze_Dps :: "(string \<times> gtype) list" where
  "ns_Nsze_Dps =
    [(''Nsze'', U64), (''Ncap'', U64), (''Nuse'', U64), (''Nsfeat'', U8), (''Nlbaf'', U8),
     (''Flbas'', U8), (''Mc'', U8), (''Dpc'', U8), (''Dps'', U8)]"

definition ns_Nmic_Npda :: "(string \<times> gtype) list" where
  "ns_Nmic_Npda =
    [(''Nmic'', U8), (''Rescap'', U8), (''Fpi'', U8), (''Dlfeat'', U8), (''Nawun'', U16),
     (''Nawupf'', U16), (''Nacwu'', U16), (''Nabsn'', U16), (''Nabo'', U16), (''Nabspf'', U16),
     (''Noiob'', U16), (''Nvmcap'', Uint128_type), (''Npwg'', U16), (''Npwa'', U16),
     (''Npdg'', U16), (''Npda'', U16)]"

definition ns_Nows_Vs :: "(string \<times> gtype) list" where
  "ns_Nows_Vs =
    [(''Nows'', U16), (''Mssrl'', U16), (''Mcl'', U32), (''Msrc'', U8), (''_'', Arr 11 U8),
     (''Anagrpid'', U32), (''_'', Arr 3 U8), (''Nsattr'', U8), (''Nvmseid'', U16),
     (''Endgid'', U16), (''Nguid'', Arr 16 U8), (''Eui64'', Arr 8 U8),
     (''Lbaf'', Arr 64 NvmeLBAF_type), (''Vs'', Arr 3712 U8)]"

definition NvmeIdentNamespace_fields :: gfields where
  "NvmeIdentNamespace_fields = mkfields
    (ns_Nsze_Dps @ ns_Nmic_Npda @ ns_Nows_Vs)"

definition NvmeIdentNamespace_type :: gtype where
  "NvmeIdentNamespace_type = Struct NvmeIdentNamespace_fields"

definition NvmeIdentNamespace_of :: "gval \<Rightarrow> NvmeIdentNamespace" where
  "NvmeIdentNamespace_of v =
    \<lparr>nsNsze = vu64 (fld v ''Nsze''), nsNcap = vu64 (fld v ''Ncap''),
      nsNuse = vu64 (fld v ''Nuse''), nsNsfeat = vu8 (fld v ''Nsfeat''),
      nsNlbaf = vu8 (fld v ''Nlbaf''), nsFlbas = vu8 (fld v ''Flbas''),
      nsMc = vu8 (fld v ''Mc''), nsDpc = vu8 (fld v ''Dpc''), nsDps = vu8 (fld v ''Dps''),
      nsNmic = vu8 (fld v ''Nmic''), nsRescap = vu8 (fld v ''Rescap''),
      nsFpi = vu8 (fld v ''Fpi''), nsDlfeat = vu8 (fld v ''Dlfeat''),
      nsNawun = vu16 (fld v ''Nawun''), nsNawupf = vu16 (fld v ''Nawupf''),
      nsNacwu = vu16 (fld v ''Nacwu''), nsNabsn = vu16 (fld v ''Nabsn''),
      nsNabo = vu16 (fld v ''Nabo''), nsNabspf = vu16 (fld v ''Nabspf''),
      nsNoiob = vu16 (fld v ''Noiob''), nsNvmcap = Uint128_of (fld v ''Nvmcap''),
      nsNpwg = vu16 (fld v ''Npwg''), nsNpwa = vu16 (fld v ''Npwa''),
      nsNpdg = vu16 (fld v ''Npdg''), nsNpda = vu16 (fld v ''Npda''),
      nsNows = vu16 (fld v ''Nows''), nsMssrl = vu16 (fld v ''Mssrl''),
      nsMcl = vu32 (fld v ''Mcl''), nsMsrc = vu8 (fld v ''Msrc''),
      nsAnagrpid = vu32 (fld v ''Anagrpid''), nsNsattr = vu8 (fld v ''Nsattr''),
      nsNvmseid = vu16 (fld v ''Nvmseid''), nsEndgid = vu16 (fld v ''Endgid''),
      nsNguid = vbytes (fld v ''Nguid''), nsEui64 = vbytes (fld v ''Eui64''),
      nsLbaf = map NvmeLBAF_of (varr (fld v ''Lbaf'')), nsVs = vbytes (fld v ''Vs'')\<rparr>"

record NvmeSMARTLog =
  slCritWarning :: u8
  slTemperature :: u16
  slAvailSpare :: u8
  slSpareThresh :: u8
  slPercentUsed :: u8
  slEnduranceCritWarning :: u8
  slDataUnitsRead :: Uint128
  slDataUnitsWritten :: Uint128
  slHostReads :: Uint128
  slHostWrites :: Uint128
  slCtrlBusyTime :: Uint128
  slPowerCycles :: Uint128
  slPowerOnHours :: Uint128
  slUnsafeShutdowns :: Uint128
  slMediaErrors :: Uint128
  slNumErrLogEntries :: Uint128
  slWarningTempTime :: u32
  slCritCompTime :: u32
  slTempSensor :: "u16 list"
  slThermalTransitionCount :: "u32 list"
  slThermalManagementTime :: "u32 list"

definition NvmeSMARTLog_fields :: gfields where
  "NvmeSMARTLog_fields = mkfields
    [(''CritWarning'', U8), (''Temperature'', U16), (''AvailSpare'', U8), (''SpareThresh'', U8),
     (''PercentUsed'', U8), (''EnduranceCritWarning'', U8), (''_'', Arr 25 U8),
     (''DataUnitsRead'', Uint128_type), (''DataUnitsWritten'', Uint128_type),
     (''HostReads'', Uint128_type), (''HostWrites'', Uint128_type),
     (''CtrlBusyTime'', Uint128_type), (''PowerCycles'', Uint128_type),
     (''PowerOnHours'', Uint128_type), (''UnsafeShutdowns'', Uint128_type),
     (''MediaErrors'', Uint128_type), (''NumErrLogEntries'', Uint128_type),
     (''WarningTempTime'', U32), (''CritCompTime'', U32), (''TempSensor'', Arr 8 U16),
     (''ThermalTransitionCount'', Arr 2 U32), (''ThermalManagementTime'', Arr 2 U32),
     (''_'', Arr 280 U8)]"

definition NvmeSMARTLog_type :: gtype where
  "NvmeSMARTLog_type = Struct NvmeSMARTLog_fields"

definition NvmeSMARTLog_of :: "gval \<Rightarrow> NvmeSMARTLog" where
  "NvmeSMARTLog_of v =
    \<lparr>slCritWarning = vu8 (fld v ''CritWarning''), slTemperature = vu16 (fld v ''Temperature''),
      slAvailSpare = vu8 (fld v ''AvailSpare''), slSpareThresh = vu8 (fld v ''SpareThresh''),
      slPercentUsed = vu8 (fld v ''PercentUsed''),
      slEnduranceCritWarning = vu8 (fld v ''EnduranceCritWarning''),
      slDataUnitsRead = Uint128_of (fld v ''DataUnitsRead''),
      slDataUnitsWritten = Uint128_of (fld v ''DataUnitsWritten''),
      slHostReads = Uint128_of (fld v ''HostReads''),
      slHostWrites = Uint128_of (fld v ''HostWrites''),
      slCtrlBusyTime = Uint128_of (fld v ''CtrlBusyTime''),
      slPowerCycles = Uint128_of (fld v ''PowerCycles''),
      slPowerOnHours = Uint128_of (fld v ''PowerOnHours''),
      slUnsafeShutdowns = Uint128_of (fld v ''UnsafeShutdowns''),
      slMediaErrors = Uint128_of (fld v ''MediaErrors''),
      slNumErrLogEntries = Uint128_of (fld v ''NumErrLogEntries''),
      slWarningTempTime = vu32 (fld v ''WarningTempTime''),
      slCritCompTime = vu32 (fld v ''CritCompTime''),
      slTempSensor = map vu16 (varr (fld v ''TempSensor'')),
      slThermalTransitionCount = map vu32 (varr (fld v ''ThermalTransitionCount'')),
      slThermalManagementTime = map vu32 (varr (fld v ''ThermalManagementTime''))\<rparr>"

section \<open>Methods\<close>

definition NvmeModelNumber :: "NvmeIdentController \<Rightarrow> string" where
  "NvmeModelNumber c = go_string (TrimSpace (icModelNumberRaw c))"

definition NvmeSerialNumber :: "NvmeIdentController \<Rightarrow> string" where
  "NvmeSerialNumber c = go_string (TrimSpace (icSerialNumberRaw c))"

definition FirmwareRev :: "NvmeIdentController \<Rightarrow> string" where
  "FirmwareRev c = go_string (TrimSpace (icFirmwareRevRaw c))"

definition SubNQN :: "NvmeIdentController \<Rightarrow> string" where
  "SubNQN c = go_string (TrimRightNul (icSubnqnRaw c))"

text \<open>
  \<^verbatim>\<open>uint64(1) << ns.Lbaf[ns.Flbas&0xf].Ds\<close>: a shift by 64 or more gives 0. The index is below 16,
  the array has 64 entries.
\<close>

definition LbaSize :: "NvmeIdentNamespace \<Rightarrow> u64" where
  "LbaSize ns = push_bit (unat (lbafDs (nsLbaf ns ! unat (nsFlbas ns AND 0xf)))) 1"

section \<open>Layout\<close>

lemmas NvmeIdentController_fields_defs = NvmeIdentController_fields_def ctrl_VendorID_Oaes_def ctrl_Ctratt_Bpcap_def ctrl_Nssl_Oacs_def ctrl_Acl_Hmpre_def ctrl_Hmmin_Mxtmt_def ctrl_Sanicap_Domainid_def ctrl_Kpioc_Maxcna_def ctrl_Oaqd_Vs_def
lemmas NvmeIdentNamespace_fields_defs = NvmeIdentNamespace_fields_def ns_Nsze_Dps_def ns_Nmic_Npda_def ns_Nows_Vs_def
lemmas nvme_elem_defs = Uint128_type_def NvmeIdentPowerState_type_def NvmeIdentPowerState_fields_def
  NvmeLBAF_type_def NvmeLBAF_fields_def

lemma nvme_sizes:
  "bsize Uint128_type = 16" "bsize NvmeIdentPowerState_type = 32" "bsize NvmeLBAF_type = 4"
  "galign Uint128_type = 8" "galign NvmeIdentPowerState_type = 4" "galign NvmeLBAF_type = 2"
  "unpadded Uint128_type" "unpadded NvmeIdentPowerState_type" "unpadded NvmeLBAF_type"
  by (simp_all add: nvme_elem_defs) code_simp

lemma ctrl_unpadded: "unpadded NvmeIdentController_type"
  by (simp add: NvmeIdentController_type_def NvmeIdentController_fields_defs nvme_sizes)

lemma ns_unpadded: "unpadded NvmeIdentNamespace_type"
  by (simp add: NvmeIdentNamespace_type_def NvmeIdentNamespace_fields_defs nvme_sizes)

lemma NvmeSMARTLog_layout:
  "fsize NvmeSMARTLog_fields = 512"
  "field_type NvmeSMARTLog_fields ''CritWarning'' = Some U8"
  "field_off NvmeSMARTLog_fields ''CritWarning'' = 0"
  "field_type NvmeSMARTLog_fields ''Temperature'' = Some U16"
  "field_off NvmeSMARTLog_fields ''Temperature'' = 1"
  "field_type NvmeSMARTLog_fields ''AvailSpare'' = Some U8"
  "field_off NvmeSMARTLog_fields ''AvailSpare'' = 3"
  "field_type NvmeSMARTLog_fields ''SpareThresh'' = Some U8"
  "field_off NvmeSMARTLog_fields ''SpareThresh'' = 4"
  "field_type NvmeSMARTLog_fields ''PercentUsed'' = Some U8"
  "field_off NvmeSMARTLog_fields ''PercentUsed'' = 5"
  "field_type NvmeSMARTLog_fields ''EnduranceCritWarning'' = Some U8"
  "field_off NvmeSMARTLog_fields ''EnduranceCritWarning'' = 6"
  "field_type NvmeSMARTLog_fields ''DataUnitsRead'' = Some Uint128_type"
  "field_off NvmeSMARTLog_fields ''DataUnitsRead'' = 32"
  "field_type NvmeSMARTLog_fields ''DataUnitsWritten'' = Some Uint128_type"
  "field_off NvmeSMARTLog_fields ''DataUnitsWritten'' = 48"
  "field_type NvmeSMARTLog_fields ''HostReads'' = Some Uint128_type"
  "field_off NvmeSMARTLog_fields ''HostReads'' = 64"
  "field_type NvmeSMARTLog_fields ''HostWrites'' = Some Uint128_type"
  "field_off NvmeSMARTLog_fields ''HostWrites'' = 80"
  "field_type NvmeSMARTLog_fields ''CtrlBusyTime'' = Some Uint128_type"
  "field_off NvmeSMARTLog_fields ''CtrlBusyTime'' = 96"
  "field_type NvmeSMARTLog_fields ''PowerCycles'' = Some Uint128_type"
  "field_off NvmeSMARTLog_fields ''PowerCycles'' = 112"
  "field_type NvmeSMARTLog_fields ''PowerOnHours'' = Some Uint128_type"
  "field_off NvmeSMARTLog_fields ''PowerOnHours'' = 128"
  "field_type NvmeSMARTLog_fields ''UnsafeShutdowns'' = Some Uint128_type"
  "field_off NvmeSMARTLog_fields ''UnsafeShutdowns'' = 144"
  "field_type NvmeSMARTLog_fields ''MediaErrors'' = Some Uint128_type"
  "field_off NvmeSMARTLog_fields ''MediaErrors'' = 160"
  "field_type NvmeSMARTLog_fields ''NumErrLogEntries'' = Some Uint128_type"
  "field_off NvmeSMARTLog_fields ''NumErrLogEntries'' = 176"
  "field_type NvmeSMARTLog_fields ''WarningTempTime'' = Some U32"
  "field_off NvmeSMARTLog_fields ''WarningTempTime'' = 192"
  "field_type NvmeSMARTLog_fields ''CritCompTime'' = Some U32"
  "field_off NvmeSMARTLog_fields ''CritCompTime'' = 196"
  "field_type NvmeSMARTLog_fields ''TempSensor'' = Some (Arr 8 U16)"
  "field_off NvmeSMARTLog_fields ''TempSensor'' = 200"
  "field_type NvmeSMARTLog_fields ''ThermalTransitionCount'' = Some (Arr 2 U32)"
  "field_off NvmeSMARTLog_fields ''ThermalTransitionCount'' = 216"
  "field_type NvmeSMARTLog_fields ''ThermalManagementTime'' = Some (Arr 2 U32)"
  "field_off NvmeSMARTLog_fields ''ThermalManagementTime'' = 224"
  by (simp_all add: NvmeSMARTLog_fields_def nvme_sizes)

lemma NvmeIdentNamespace_layout:
  "fsize NvmeIdentNamespace_fields = 4096"
  "field_type NvmeIdentNamespace_fields ''Nsze'' = Some U64"
  "field_off NvmeIdentNamespace_fields ''Nsze'' = 0"
  "field_type NvmeIdentNamespace_fields ''Nlbaf'' = Some U8"
  "field_off NvmeIdentNamespace_fields ''Nlbaf'' = 25"
  "field_type NvmeIdentNamespace_fields ''Flbas'' = Some U8"
  "field_off NvmeIdentNamespace_fields ''Flbas'' = 26"
  "field_type NvmeIdentNamespace_fields ''Lbaf'' = Some (Arr 64 NvmeLBAF_type)"
  "field_off NvmeIdentNamespace_fields ''Lbaf'' = 128"
  by (simp_all add: NvmeIdentNamespace_fields_defs nvme_sizes)

lemma NvmeIdentController_layout:
  "fsize NvmeIdentController_fields = 4096"
  "field_type NvmeIdentController_fields ''SerialNumberRaw'' = Some (Arr 20 U8)"
  "field_off NvmeIdentController_fields ''SerialNumberRaw'' = 4"
  "field_type NvmeIdentController_fields ''ModelNumberRaw'' = Some (Arr 40 U8)"
  "field_off NvmeIdentController_fields ''ModelNumberRaw'' = 24"
  "field_type NvmeIdentController_fields ''FirmwareRevRaw'' = Some (Arr 8 U8)"
  "field_off NvmeIdentController_fields ''FirmwareRevRaw'' = 64"
  "field_type NvmeIdentController_fields ''Nn'' = Some U32"
  "field_off NvmeIdentController_fields ''Nn'' = 516"
  "field_type NvmeIdentController_fields ''SubnqnRaw'' = Some (Arr 256 U8)"
  "field_off NvmeIdentController_fields ''SubnqnRaw'' = 768"
  by (simp_all add: NvmeIdentController_fields_defs nvme_sizes)

text \<open>
  C29. The structs have the layout of the NVM Express specification: every named field of the Identify
  Controller structure, the Identify Namespace structure and the SMART log lies at the byte offset the
  specification's figures give it, and the two Identify structs have no padding in memory.
\<close>

theorem nvme_layout:
  "usize NvmeIdentController_type = 4096 \<and> unpadded NvmeIdentController_type \<and>
   usize NvmeIdentNamespace_type = 4096 \<and> unpadded NvmeIdentNamespace_type \<and>
   bsize NvmeSMARTLog_type = 512 \<and> usize NvmeIdentPowerState_type = 32 \<and> usize NvmeLBAF_type = 4 \<and>
   offsets NvmeIdentController_fields 0 =
    [(''VendorID'', 0), (''Ssvid'', 2), (''SerialNumberRaw'', 4), (''ModelNumberRaw'', 24),
     (''FirmwareRevRaw'', 64), (''Rab'', 72), (''IEEE'', 73), (''Cmic'', 76), (''Mdts'', 77),
     (''Cntlid'', 78), (''Ver'', 80), (''Rtd3r'', 84), (''Rtd3e'', 88), (''Oaes'', 92),
     (''Ctratt'', 96), (''Rrls'', 100), (''Bpcap'', 102), (''Nssl'', 104), (''Plsi'', 110),
     (''CntrlType'', 111), (''Fguid'', 112), (''Crdt1'', 128), (''Crdt2'', 130),
     (''Crdt3'', 132), (''Crcap'', 134), (''Nvmsr'', 253), (''Vwci'', 254), (''Mec'', 255),
     (''Oacs'', 256), (''Acl'', 258), (''Aerl'', 259), (''Frmw'', 260), (''Lpa'', 261),
     (''Elpe'', 262), (''Npss'', 263), (''Avscc'', 264), (''Apsta'', 265), (''Wctemp'', 266),
     (''Cctemp'', 268), (''Mtfa'', 270), (''Hmpre'', 272), (''Hmmin'', 276), (''Tnvmcap'', 280),
     (''Unvmcap'', 296), (''Rpmbs'', 312), (''Edstt'', 316), (''Dsto'', 318), (''Fwug'', 319),
     (''Kas'', 320), (''Hctma'', 322), (''Mntmt'', 324), (''Mxtmt'', 326), (''Sanicap'', 328),
     (''Hmminds'', 332), (''Hmmaxd'', 336), (''Nsetidmax'', 338), (''Endgidmax'', 340),
     (''Anatt'', 342), (''Anacap'', 343), (''Anagrpmax'', 344), (''Nanagrpid'', 348),
     (''Pels'', 352), (''Domainid'', 356), (''Kpioc'', 358), (''Mptfawr'', 360),
     (''Megcap'', 368), (''Tmpthha'', 384), (''Cqt'', 386), (''Sqes'', 512), (''Cqes'', 513),
     (''Maxcmd'', 514), (''Nn'', 516), (''Oncs'', 520), (''Fuses'', 522), (''Fna'', 524),
     (''Vwc'', 525), (''Awun'', 526), (''Awupf'', 528), (''Nvscc'', 530), (''Nwpc'', 531),
     (''Acwu'', 532), (''Ocfs'', 534), (''Sgls'', 536), (''Mnan'', 540), (''Maxdna'', 544),
     (''Maxcna'', 560), (''Oaqd'', 564), (''Rhiri'', 568), (''Hirt'', 569), (''Cmmrtd'', 570),
     (''Nmmrtd'', 572), (''Minmrtg'', 574), (''Maxmrtg'', 575), (''Trattr'', 576),
     (''Mcudmq'', 578), (''Mnsudmq'', 580), (''Mcmr'', 582), (''Nmcmr'', 584), (''Mcdqpc'', 586),
     (''SubnqnRaw'', 768), (''Ioccsz'', 1792), (''Iorcsz'', 1796), (''Icdoff'', 1800),
     (''Fcatt'', 1802), (''Msdbd'', 1803), (''Ofcs'', 1804), (''Dctype'', 1806), (''Psd'', 2048),
     (''Vs'', 3072)] \<and>
   offsets NvmeIdentNamespace_fields 0 =
    [(''Nsze'', 0), (''Ncap'', 8), (''Nuse'', 16), (''Nsfeat'', 24), (''Nlbaf'', 25),
     (''Flbas'', 26), (''Mc'', 27), (''Dpc'', 28), (''Dps'', 29), (''Nmic'', 30),
     (''Rescap'', 31), (''Fpi'', 32), (''Dlfeat'', 33), (''Nawun'', 34), (''Nawupf'', 36),
     (''Nacwu'', 38), (''Nabsn'', 40), (''Nabo'', 42), (''Nabspf'', 44), (''Noiob'', 46),
     (''Nvmcap'', 48), (''Npwg'', 64), (''Npwa'', 66), (''Npdg'', 68), (''Npda'', 70),
     (''Nows'', 72), (''Mssrl'', 74), (''Mcl'', 76), (''Msrc'', 80), (''Anagrpid'', 92),
     (''Nsattr'', 99), (''Nvmseid'', 100), (''Endgid'', 102), (''Nguid'', 104), (''Eui64'', 120),
     (''Lbaf'', 128), (''Vs'', 384)] \<and>
   offsets NvmeSMARTLog_fields 0 =
    [(''CritWarning'', 0), (''Temperature'', 1), (''AvailSpare'', 3), (''SpareThresh'', 4),
     (''PercentUsed'', 5), (''EnduranceCritWarning'', 6), (''DataUnitsRead'', 32),
     (''DataUnitsWritten'', 48), (''HostReads'', 64), (''HostWrites'', 80),
     (''CtrlBusyTime'', 96), (''PowerCycles'', 112), (''PowerOnHours'', 128),
     (''UnsafeShutdowns'', 144), (''MediaErrors'', 160), (''NumErrLogEntries'', 176),
     (''WarningTempTime'', 192), (''CritCompTime'', 196), (''TempSensor'', 200),
     (''ThermalTransitionCount'', 216), (''ThermalManagementTime'', 224)]"
proof (intro conjI)
  show "usize NvmeIdentController_type = 4096" "usize NvmeIdentNamespace_type = 4096"
    using ctrl_unpadded ns_unpadded
    by (simp_all add: unpadded_size) (simp_all add: NvmeIdentController_type_def NvmeIdentNamespace_type_def
      NvmeIdentController_layout NvmeIdentNamespace_layout)
  show "usize NvmeIdentPowerState_type = 32" "usize NvmeLBAF_type = 4"
    by (simp_all add: unpadded_size nvme_sizes)
  show "bsize NvmeSMARTLog_type = 512"
    by (simp add: NvmeSMARTLog_type_def NvmeSMARTLog_layout)
qed (simp_all add: ctrl_unpadded ns_unpadded NvmeIdentController_fields_defs NvmeIdentNamespace_fields_defs
    NvmeSMARTLog_fields_def nvme_sizes)

section \<open>The active LBA format\<close>

lemma unat_two_power: "unat (2 ^ n :: u64) = (if n < 64 then 2 ^ n else 0)"
proof -
  have "unat (2 ^ n :: u64) = 2 ^ n mod 2 ^ 64"
  proof -
    have "(2 ^ n :: u64) = of_nat (2 ^ n)" by simp
    then show ?thesis by (simp only: unat_of_nat take_bit_eq_mod len_bit0 len_num1) simp
  qed
  moreover have "(2 :: nat) ^ n mod 2 ^ 64 = 0" if "64 \<le> n"
    using that by (metis dvd_imp_mod_0 le_imp_power_dvd)
  moreover have "(2 :: nat) ^ n < 2 ^ 64" if "n < 64"
    using that by (intro power_strict_increasing) simp_all
  ultimately show ?thesis by (metis not_le mod_less)
qed

lemma unat_and_0xf: "unat (w AND 0xf :: u8) = unat w mod 16"
proof -
  have "w AND 0xf = take_bit 4 w" by (simp only: take_bit_eq_mask mask_eq_exp_minus_1) simp
  moreover have "unat (take_bit 4 w) = unat w mod 2 ^ 4"
    unfolding unsigned_take_bit_eq by (rule take_bit_eq_mod)
  ultimately show ?thesis by (simp only:) simp
qed

text \<open>
  The index of the format a namespace is formatted with, as the comment on \<^verbatim>\<open>Flbas\<close> describes it: bits
  3:0 are its low bits, bits 6:5 the high ones when there are more than 16 formats.
\<close>

definition active_format :: "NvmeIdentNamespace \<Rightarrow> nat" where
  "active_format ns =
     (if nsNlbaf ns \<le> 16 then unat (nsFlbas ns) mod 16
      else unat (nsFlbas ns) div 32 mod 4 * 16 + unat (nsFlbas ns) mod 16)"

lemma varr_dec: "varr (dec d (Arr n t) bs) = map (\<lambda>i. dec d t (drop (i * bsize t) bs)) [0..<n]"
  by simp

lemma LBAF_Ds: "2 < length bs \<Longrightarrow> lbafDs (NvmeLBAF_of (dec LittleEndian NvmeLBAF_type bs)) = bs ! 2"
  by (simp add: NvmeLBAF_of_def NvmeLBAF_type_def NvmeLBAF_fields_def fld_dec vu8_dec del: dec.simps)

text \<open>
  \<^verbatim>\<open>LbaSize\<close> on the bytes of an Identify Namespace page: two to the power of the third byte of the format
  entry that the low four bits of byte 26 select, and 0 when the exponent is 64 or more.
\<close>

theorem LbaSize_page:
  assumes "length buf = 4096"
  shows "\<exists>v. binary_read LittleEndian NvmeIdentNamespace_type buf = Ok v \<and>
    nsNsze (NvmeIdentNamespace_of v) = le_word (take 8 buf) \<and>
    unat (LbaSize (NvmeIdentNamespace_of v)) =
      (let ds = unat (buf ! (130 + 4 * (unat (buf ! 26) mod 16))) in if ds < 64 then 2 ^ ds else 0)"
proof -
  let ?v = "dec LittleEndian NvmeIdentNamespace_type buf"
  have read: "binary_read LittleEndian NvmeIdentNamespace_type buf = Ok ?v"
    using assms by (simp add: binary_read_def NvmeIdentNamespace_type_def NvmeIdentNamespace_layout)
  have flbas: "nsFlbas (NvmeIdentNamespace_of ?v) = buf ! 26"
    using assms by (simp add: NvmeIdentNamespace_of_def NvmeIdentNamespace_type_def fld_dec
        NvmeIdentNamespace_layout vu8_dec del: dec.simps)
  have nsze: "nsNsze (NvmeIdentNamespace_of ?v) = le_word (take 8 buf)"
    by (simp add: NvmeIdentNamespace_of_def NvmeIdentNamespace_type_def fld_dec
        NvmeIdentNamespace_layout scalar_dec del: dec.simps)
  have "lbafDs (nsLbaf (NvmeIdentNamespace_of ?v) ! i) = buf ! (130 + 4 * i)" if "i < 64" for i
    using assms that LBAF_Ds [of "drop (128 + 4 * i) buf"]
    by (simp add: NvmeIdentNamespace_of_def NvmeIdentNamespace_type_def fld_dec
        NvmeIdentNamespace_layout varr_dec nvme_sizes ac_simps del: dec.simps)
  from this [of "unat (buf ! 26) mod 16"]
  have "lbafDs (nsLbaf (NvmeIdentNamespace_of ?v) ! (unat (buf ! 26) mod 16)) = buf ! (130 + 4 * (unat (buf ! 26) mod 16))"
    by simp
  then show ?thesis
    using read nsze by (simp add: LbaSize_def flbas unat_and_0xf unat_two_power Let_def)
qed

theorem LbaSize_page_witness:
  "\<exists>ns. map_res NvmeIdentNamespace_of (binary_read LittleEndian NvmeIdentNamespace_type (replicate 4096 12)) = Ok ns \<and>
    unat (LbaSize ns) = 4096"
proof -
  have "length (replicate 4096 (12 :: u8)) = 4096" by simp
  from LbaSize_page [OF this] show ?thesis
    by (auto simp: Let_def)
qed

text \<open>
  C31. \<^verbatim>\<open>LbaSize\<close> is the size of the active format as long as the namespace has at most 16 formats (or the high
  bits of the index are zero); it ignores those bits, so for a namespace with more formats it can report
  the size of another format.
\<close>

theorem LbaSize_format:
  "(nsNlbaf ns \<le> 16 \<or> unat (nsFlbas ns) div 32 mod 4 = 0 \<longrightarrow>
     LbaSize ns = push_bit (unat (lbafDs (nsLbaf ns ! active_format ns))) 1) \<and>
   (\<exists>m. length (nsLbaf m) = 64 \<and> nsNlbaf m = 17 \<and> active_format m = 16 \<and>
     lbafDs (nsLbaf m ! active_format m) = 12 \<and> LbaSize m = 512)"
proof -
  obtain m0 :: NvmeIdentNamespace where True by simp
  let ?lbaf = "\<lambda>ds. \<lparr>lbafMs = 0, lbafDs = ds, lbafRp = 0\<rparr>"
  let ?m = "m0\<lparr>nsNlbaf := 17, nsFlbas := 0x20, nsLbaf := replicate 16 (?lbaf 9) @ replicate 48 (?lbaf 12)\<rparr>"
  have act: "active_format ?m = 16" by (simp add: active_format_def)
  then have "length (nsLbaf ?m) = 64 \<and> nsNlbaf ?m = 17 \<and> active_format ?m = 16 \<and>
      lbafDs (nsLbaf ?m ! active_format ?m) = 12 \<and> LbaSize ?m = 512"
    unfolding act by (simp add: LbaSize_def nth_append)
  moreover have "LbaSize ns = push_bit (unat (lbafDs (nsLbaf ns ! active_format ns))) 1"
    if "nsNlbaf ns \<le> 16 \<or> unat (nsFlbas ns) div 32 mod 4 = 0"
    using that by (auto simp: LbaSize_def active_format_def unat_and_0xf)
  ultimately show ?thesis by blast
qed

theorem LbaSize_format_witness:
  "\<forall>ns :: NvmeIdentNamespace. LbaSize (ns\<lparr>nsNlbaf := 0, nsFlbas := 1, nsLbaf := [\<lparr>lbafMs = 0, lbafDs = 9, lbafRp = 0\<rparr>, \<lparr>lbafMs = 8, lbafDs = 12, lbafRp = 0\<rparr>]\<rparr>)
     = 4096"
proof
  fix ns :: NvmeIdentNamespace
  let ?ns = "ns\<lparr>nsNlbaf := 0, nsFlbas := 1, nsLbaf := [\<lparr>lbafMs = 0, lbafDs = 9, lbafRp = 0\<rparr>, \<lparr>lbafMs = 8, lbafDs = 12, lbafRp = 0\<rparr>]\<rparr>"
  have "nsNlbaf ?ns \<le> 16" "active_format ?ns = 1" by (simp_all add: active_format_def)
  with LbaSize_format [of ?ns] show "LbaSize ?ns = 4096" by simp
qed

section \<open>The SMART log\<close>

definition bytes_at :: "nat \<Rightarrow> nat \<Rightarrow> u8 list \<Rightarrow> 'a::len word" where
  "bytes_at n k buf = le_word (take n (drop k buf))"

lemma Uint128_dec:
  "Val (Uint128_of (dec LittleEndian Uint128_type bs)) = [bytes_at 8 0 bs, bytes_at 8 8 bs]"
  by (simp add: Uint128_of_def Uint128_type_def fld_def upt_rec bytes_at_def)

text \<open>The fields of the log that the generic attributes use, on the bytes of the page.\<close>

lemma NvmeSMARTLog_dec:
  "slTemperature (NvmeSMARTLog_of (dec LittleEndian NvmeSMARTLog_type buf)) = bytes_at 2 1 buf"
  "Val (slDataUnitsRead (NvmeSMARTLog_of (dec LittleEndian NvmeSMARTLog_type buf))) = [bytes_at 8 32 buf, bytes_at 8 40 buf]"
  "Val (slDataUnitsWritten (NvmeSMARTLog_of (dec LittleEndian NvmeSMARTLog_type buf))) = [bytes_at 8 48 buf, bytes_at 8 56 buf]"
  "Val (slPowerCycles (NvmeSMARTLog_of (dec LittleEndian NvmeSMARTLog_type buf))) = [bytes_at 8 112 buf, bytes_at 8 120 buf]"
  "Val (slPowerOnHours (NvmeSMARTLog_of (dec LittleEndian NvmeSMARTLog_type buf))) = [bytes_at 8 128 buf, bytes_at 8 136 buf]"
  by (simp_all add: NvmeSMARTLog_of_def NvmeSMARTLog_type_def fld_dec NvmeSMARTLog_layout scalar_dec Uint128_dec
      bytes_at_def del: dec.simps)

end
