(* ===== verification/Ioctl.thy ===== *)
theory Ioctl
  imports GoBinary
begin

text \<open>
  \<^verbatim>\<open>ioctl_linux.go\<close>: the packing of ioctl numbers, and the argument structs the package hands to
  the kernel (\<^verbatim>\<open>sgIoHdr\<close> of \<^verbatim>\<open>scsi_linux.go\<close>, \<^verbatim>\<open>nvmePassthruCmd64\<close> and \<^verbatim>\<open>nvmePassthruCmd\<close> of
  \<^verbatim>\<open>nvme_linux.go\<close>). A pointer field of such a struct is modelled by the buffer it points to. The
  lemmas show that an ioctl number determines its direction, type, number and size, and that the
  sizes computed from the struct declarations give the numbers the kernel headers define.
\<close>

section \<open>ioctl numbers\<close>

definition directionNone :: u64 where "directionNone = 0"
definition directionWrite :: u64 where "directionWrite = 1"
definition directionRead :: u64 where "directionRead = 2"

definition numberBits :: nat where "numberBits = 8"
definition typeBits :: nat where "typeBits = 8"
definition sizeBits :: nat where "sizeBits = 14"
definition directionBits :: nat where "directionBits = 2"

definition numberMask :: u64 where "numberMask = push_bit numberBits 1 - 1"
definition typeMask :: u64 where "typeMask = push_bit typeBits 1 - 1"
definition sizeMask :: u64 where "sizeMask = push_bit sizeBits 1 - 1"
definition directionMask :: u64 where "directionMask = push_bit directionBits 1 - 1"

definition numberShift :: nat where "numberShift = 0"
definition typeShift :: nat where "typeShift = numberShift + numberBits"
definition sizeShift :: nat where "sizeShift = typeShift + typeBits"
definition directionShift :: nat where "directionShift = sizeShift + sizeBits"

lemmas ioctl_consts =
  directionNone_def directionWrite_def directionRead_def numberBits_def typeBits_def sizeBits_def
  directionBits_def numberMask_def typeMask_def sizeMask_def directionMask_def numberShift_def
  typeShift_def sizeShift_def directionShift_def

definition ioc :: "u64 \<Rightarrow> u64 \<Rightarrow> u64 \<Rightarrow> u64 \<Rightarrow> u64" where
  "ioc dir t nr sz =
     push_bit directionShift dir OR push_bit typeShift t OR push_bit numberShift nr OR push_bit sizeShift sz"

definition ior :: "u64 \<Rightarrow> u64 \<Rightarrow> u64 \<Rightarrow> u64" where
  "ior t nr sz = ioc directionRead t nr sz"

definition iow :: "u64 \<Rightarrow> u64 \<Rightarrow> u64 \<Rightarrow> u64" where
  "iow t nr sz = ioc directionWrite t nr sz"

definition iowr :: "u64 \<Rightarrow> u64 \<Rightarrow> u64 \<Rightarrow> u64" where
  "iowr t nr sz = ioc (directionWrite OR directionRead) t nr sz"

lemma bit_small: "x < 2 ^ n \<Longrightarrow> n < LENGTH('a) \<Longrightarrow> bit (x :: 'a::len word) i \<Longrightarrow> i < n"
proof (rule ccontr)
  assume x: "x < 2 ^ n" and n: "n < LENGTH('a)" and b: "bit x i" and "\<not> i < n"
  have "take_bit n x = x"
    using x n by (simp add: less_mask_eq take_bit_eq_mask)
  then have "bit (take_bit n x) i"
    using b by simp
  with \<open>\<not> i < n\<close> show False
    by (simp add: bit_simps)
qed

lemma ioctl_masks:
  "numberMask = mask 8" "typeMask = mask 8" "sizeMask = mask 14" "directionMask = mask 2"
  by (simp_all add: ioctl_consts mask_eq_exp_minus_1)

lemma ioc_fields:
  assumes "dir < 2 ^ 2" "t < 2 ^ 8" "nr < 2 ^ 8" "sz < 2 ^ 14"
  shows "drop_bit directionShift (ioc dir t nr sz) AND directionMask = dir"
    and "drop_bit typeShift (ioc dir t nr sz) AND typeMask = t"
    and "drop_bit numberShift (ioc dir t nr sz) AND numberMask = nr"
    and "drop_bit sizeShift (ioc dir t nr sz) AND sizeMask = sz"
proof -
  note small = assms [THEN bit_small, simplified]
  show "drop_bit directionShift (ioc dir t nr sz) AND directionMask = dir"
    unfolding ioctl_masks
    by (rule bit_word_eqI) (auto simp: ioc_def ioctl_consts bit_simps dest: small)
  show "drop_bit typeShift (ioc dir t nr sz) AND typeMask = t"
    unfolding ioctl_masks
    by (rule bit_word_eqI) (auto simp: ioc_def ioctl_consts bit_simps dest: small)
  show "drop_bit numberShift (ioc dir t nr sz) AND numberMask = nr"
    unfolding ioctl_masks
    by (rule bit_word_eqI) (auto simp: ioc_def ioctl_consts bit_simps dest: small)
  show "drop_bit sizeShift (ioc dir t nr sz) AND sizeMask = sz"
    unfolding ioctl_masks
    by (rule bit_word_eqI) (auto simp: ioc_def ioctl_consts bit_simps dest: small)
qed

section \<open>Argument structs\<close>

text \<open>
  The header of the sg driver's version 3 interface. \<open>dxferp\<close> is \<open>None\<close> for a null pointer;
  \<open>cmdp\<close> and \<open>sbp\<close> are the CDB and the sense buffer.
\<close>

record sgIoHdr =
  interfaceId :: int
  dxferDirection :: int
  cmdLen :: u8
  mxSbLen :: u8
  iovecCount :: u16
  dxferLen :: u32
  dxferp :: "u8 list option"
  cmdp :: "u8 list"
  sbp :: "u8 list"
  sgTimeout :: u32
  sgFlags :: u32
  packId :: int
  usrPtr :: u64
  sgStatus :: u8
  maskedStatus :: u8
  msgStatus :: u8
  sbLenWr :: u8
  hostStatus :: u16
  driverStatus :: u16
  resid :: int
  sgDuration :: u32
  sgInfo :: u32

text \<open>
  The two NVMe pass-through structs differ in the width of \<open>result\<close> only, so they extend a
  common record; \<open>addr\<close> is the data buffer.
\<close>

record nvmePassthruFields =
  opcode :: u8
  cmdFlags :: u8
  nsid :: u32
  cdw2 :: u32
  cdw3 :: u32
  metadata :: u64
  addr :: "u8 list"
  metadataLen :: u32
  dataLen :: u32
  cdw10 :: u32
  cdw11 :: u32
  cdw12 :: u32
  cdw13 :: u32
  cdw14 :: u32
  cdw15 :: u32
  timeoutMs :: u32

record nvmePassthruCmd64 = nvmePassthruFields +
  result64 :: u64

record nvmePassthruCmd = nvmePassthruFields +
  result32 :: u32

text \<open>Their type descriptors, for \<^verbatim>\<open>unsafe.Sizeof\<close>.\<close>

definition nvmePassthruCmd64_type :: gtype where
  "nvmePassthruCmd64_type = Struct (mkfields
    [(''opcode'', U8), (''flags'', U8), (''_'', U16), (''nsid'', U32), (''cdw2'', U32),
     (''cdw3'', U32), (''metadata'', U64), (''addr'', U64), (''metadataLen'', U32),
     (''dataLen'', U32), (''cdw10'', U32), (''cdw11'', U32), (''cdw12'', U32), (''cdw13'', U32),
     (''cdw14'', U32), (''cdw15'', U32), (''timeoutMs'', U32), (''_'', U32), (''result'', U64)])"

definition nvmePassthruCmd_type :: gtype where
  "nvmePassthruCmd_type = Struct (mkfields
    [(''opcode'', U8), (''flags'', U8), (''_'', U16), (''nsid'', U32), (''cdw2'', U32),
     (''cdw3'', U32), (''metadata'', U64), (''addr'', U64), (''metadataLen'', U32),
     (''dataLen'', U32), (''cdw10'', U32), (''cdw11'', U32), (''cdw12'', U32), (''cdw13'', U32),
     (''cdw14'', U32), (''cdw15'', U32), (''timeoutMs'', U32), (''result'', U32)])"

definition nvmeIoctlAdmin64Cmd :: u64 where
  "nvmeIoctlAdmin64Cmd = iowr 0x4e 0x47 (of_nat (usize nvmePassthruCmd64_type))"

definition nvmeIoctlAdminCmd :: u64 where
  "nvmeIoctlAdminCmd = iowr 0x4e 0x41 (of_nat (usize nvmePassthruCmd_type))"

lemma usize_nvmePassthru:
  "usize nvmePassthruCmd64_type = 80" "unpadded nvmePassthruCmd64_type"
  "usize nvmePassthruCmd_type = 72" "unpadded nvmePassthruCmd_type"
  by (simp_all add: nvmePassthruCmd64_type_def nvmePassthruCmd_type_def round_up_def)

lemma nvmeIoctl_values:
  "nvmeIoctlAdmin64Cmd = 0xc0504e47" "nvmeIoctlAdminCmd = 0xc0484e41"
  by (simp_all add: nvmeIoctlAdmin64Cmd_def nvmeIoctlAdminCmd_def usize_nvmePassthru iowr_def ioc_def
      ioctl_consts)

end
