(* ===== verification/Kernel.thy ===== *)
theory Kernel
  imports Ioctl "HOL-Library.Multiset"
begin

text \<open>
  The boundary to the operating system. The kernel and the devices behind it are a parameter of the
  model (\<open>kernel\<close>), an arbitrary state transformer for each system call the package makes; the
  package's own state is the world it acts on and a log of the calls it made. On top of the calls
  stand the two ways Go code reacts to their results (\<open>bindE\<close> for \<^verbatim>\<open>if err != nil { return err }\<close>,
  \<open>wrapE\<close> for \<^verbatim>\<open>fmt.Errorf("...: %w", err)\<close>) and the two notions the properties are stated with:
  which events an operation may log (\<open>emits\<close>) and which descriptors a log leaves open (\<open>live\<close>).
\<close>

section \<open>Kernel, world and log\<close>

text \<open>
  An \<^verbatim>\<open>ioctl\<close> returns an errno (0 for success) and the argument struct as the kernel leaves it, for
  NVMe the data buffer. Nothing is assumed of the answers.
\<close>

record 'w kernel =
  sys_open :: "string \<Rightarrow> nat \<Rightarrow> nat \<Rightarrow> 'w \<Rightarrow> (nat + int) \<times> 'w"
  sys_close :: "int \<Rightarrow> 'w \<Rightarrow> nat \<times> 'w"
  sys_sg :: "int \<Rightarrow> u64 \<Rightarrow> sgIoHdr \<Rightarrow> 'w \<Rightarrow> (nat \<times> sgIoHdr) \<times> 'w"
  sys_nvme64 :: "int \<Rightarrow> u64 \<Rightarrow> nvmePassthruCmd64 \<Rightarrow> 'w \<Rightarrow> (nat \<times> u8 list) \<times> 'w"
  sys_nvme32 :: "int \<Rightarrow> u64 \<Rightarrow> nvmePassthruCmd \<Rightarrow> 'w \<Rightarrow> (nat \<times> u8 list) \<times> 'w"

datatype sysevent =
    EvOpen string nat "int option"
  | EvClose int
  | EvSg int u64 sgIoHdr
  | EvNvme64 int u64 nvmePassthruCmd64
  | EvNvme32 int u64 nvmePassthruCmd

record 'w sys =
  world :: 'w
  log :: "sysevent list"

type_synonym ('w, 'a) io = "('w sys, 'a res) state"

text \<open>\<^verbatim>\<open>unix.O_RDONLY | unix.O_CLOEXEC\<close> and the mode \<^verbatim>\<open>0o600\<close>.\<close>

definition O_RDONLY :: nat where "O_RDONLY = 0"
definition O_CLOEXEC :: nat where "O_CLOEXEC = 0x80000"
definition open_mode :: nat where "open_mode = 384"
definition ENOTTY :: nat where "ENOTTY = 25"

section \<open>System calls\<close>

definition unix_Open :: "'w kernel \<Rightarrow> string \<Rightarrow> nat \<Rightarrow> nat \<Rightarrow> ('w, int) io" where
  "unix_Open k name fl mode = State (\<lambda>s.
     case sys_open k name fl mode (world s) of
       (Inl e, w) \<Rightarrow> (Err (Errno e), s\<lparr>world := w, log := log s @ [EvOpen name fl None]\<rparr>)
     | (Inr fd, w) \<Rightarrow> (Ok fd, s\<lparr>world := w, log := log s @ [EvOpen name fl (Some fd)]\<rparr>))"

definition unix_Close :: "'w kernel \<Rightarrow> int \<Rightarrow> ('w, unit) io" where
  "unix_Close k fd = State (\<lambda>s.
     case sys_close k fd (world s) of
       (e, w) \<Rightarrow> (if e \<noteq> 0 then Err (Errno e) else Ok (), s\<lparr>world := w, log := log s @ [EvClose fd]\<rparr>))"

text \<open>
  \<^verbatim>\<open>ioctl(fd, cmd, ptr)\<close>: the error is the errno when it is not 0. One definition for each of the
  argument structs. The kernel may write the caller's memory: SG_IO hands back the header, the NVMe
  commands hand back the error and the data buffer, which the caller still has when it tries again.
\<close>

definition ioctl_sg :: "'w kernel \<Rightarrow> int \<Rightarrow> u64 \<Rightarrow> sgIoHdr \<Rightarrow> ('w, sgIoHdr) io" where
  "ioctl_sg k fd cmd hdr = State (\<lambda>s.
     case sys_sg k fd cmd hdr (world s) of
       ((e, hdr'), w) \<Rightarrow>
         (if e \<noteq> 0 then Err (Errno e) else Ok hdr', s\<lparr>world := w, log := log s @ [EvSg fd cmd hdr]\<rparr>))"

definition ioctl_nvme64 :: "'w kernel \<Rightarrow> int \<Rightarrow> u64 \<Rightarrow> nvmePassthruCmd64 \<Rightarrow> ('w, gerror option \<times> u8 list) io" where
  "ioctl_nvme64 k fd cmd arg = State (\<lambda>s.
     case sys_nvme64 k fd cmd arg (world s) of
       ((e, buf), w) \<Rightarrow>
         (Ok (if e \<noteq> 0 then Some (Errno e) else None, overlay buf (addr arg)),
          s\<lparr>world := w, log := log s @ [EvNvme64 fd cmd arg]\<rparr>))"

definition ioctl_nvme32 :: "'w kernel \<Rightarrow> int \<Rightarrow> u64 \<Rightarrow> nvmePassthruCmd \<Rightarrow> ('w, gerror option \<times> u8 list) io" where
  "ioctl_nvme32 k fd cmd arg = State (\<lambda>s.
     case sys_nvme32 k fd cmd arg (world s) of
       ((e, buf), w) \<Rightarrow>
         (Ok (if e \<noteq> 0 then Some (Errno e) else None, overlay buf (addr arg)),
          s\<lparr>world := w, log := log s @ [EvNvme32 fd cmd arg]\<rparr>))"

section \<open>Sequencing\<close>

definition retE :: "'a res \<Rightarrow> ('w, 'a) io" where
  "retE r = State_Monad.return r"

text \<open>\<^verbatim>\<open>x, err := m(); if err != nil { return ..., err }\<close>: an error or a panic of \<open>m\<close> is the result.\<close>

definition bindE :: "('w, 'a) io \<Rightarrow> ('a \<Rightarrow> ('w, 'b) io) \<Rightarrow> ('w, 'b) io" where
  "bindE m f = do {
     r \<leftarrow> m;
     case r of
       None \<Rightarrow> State_Monad.return None
     | Some (Inl e) \<Rightarrow> State_Monad.return (Err e)
     | Some (Inr x) \<Rightarrow> f x }"

text \<open>\<^verbatim>\<open>return ..., fmt.Errorf("...: %w", err)\<close>.\<close>

definition wrapE :: "string \<Rightarrow> ('w, 'a) io \<Rightarrow> ('w, 'a) io" where
  "wrapE f m = do {
     r \<leftarrow> m;
     State_Monad.return (case r of Some (Inl e) \<Rightarrow> Err (Wrapf f e) | _ \<Rightarrow> r) }"

text \<open>
  \<^verbatim>\<open>if err != nil { unix.Close(fd); return nil, err }\<close>: the error path closes the descriptor and
  ignores what \<^verbatim>\<open>Close\<close> says.
\<close>

definition closing :: "'w kernel \<Rightarrow> int \<Rightarrow> ('w, 'a) io \<Rightarrow> ('a \<Rightarrow> ('w, 'b) io) \<Rightarrow> ('w, 'b) io" where
  "closing k fd m f = do {
     r \<leftarrow> m;
     case r of
       None \<Rightarrow> State_Monad.return None
     | Some (Inl e) \<Rightarrow> do { _ \<leftarrow> unix_Close k fd; State_Monad.return (Err e) }
     | Some (Inr x) \<Rightarrow> f x }"

lemma run_retE [simp]: "run_state (retE r) s = (r, s)"
  by (simp add: retE_def)

lemma run_bindE:
  "run_state (bindE m f) s =
     (case run_state m s of
        (None, s') \<Rightarrow> (None, s')
      | (Some (Inl e), s') \<Rightarrow> (Err e, s')
      | (Some (Inr x), s') \<Rightarrow> run_state (f x) s')"
  by (auto simp: bindE_def split: option.splits sum.splits prod.splits)

lemma run_wrapE:
  "run_state (wrapE t m) s =
     (case run_state m s of (r, s') \<Rightarrow> (case r of Some (Inl e) \<Rightarrow> Err (Wrapf t e) | _ \<Rightarrow> r, s'))"
  by (auto simp: wrapE_def split: option.splits sum.splits prod.splits)

lemma run_closing:
  "run_state (closing k fd m f) s =
     (case run_state m s of
        (None, s') \<Rightarrow> (None, s')
      | (Some (Inl e), s') \<Rightarrow> (Err e, snd (run_state (unix_Close k fd) s'))
      | (Some (Inr x), s') \<Rightarrow> run_state (f x) s')"
  by (auto simp: closing_def split: option.splits sum.splits prod.splits)

section \<open>What an operation logs\<close>

definition emits :: "(sysevent \<Rightarrow> bool) \<Rightarrow> ('w sys, 'a) state \<Rightarrow> bool" where
  "emits P m \<longleftrightarrow> (\<forall>s. \<exists>evs. log (snd (run_state m s)) = log s @ evs \<and> list_all P evs)"

named_theorems emits_intros \<open>which events the operations log\<close>

lemma emitsI:
  "(\<And>s. \<exists>evs. log (snd (run_state m s)) = log s @ evs \<and> list_all P evs) \<Longrightarrow> emits P m"
  by (simp add: emits_def)

lemma emitsE:
  assumes "emits P m" "run_state m s = (r, s')"
  obtains evs where "log s' = log s @ evs" "list_all P evs"
  using assms unfolding emits_def by (metis snd_conv)

lemma emits_mono: "emits P m \<Longrightarrow> (\<And>e. P e \<Longrightarrow> Q e) \<Longrightarrow> emits Q m"
  unfolding emits_def by (metis list.pred_mono_strong)

lemma emits_return [emits_intros]: "emits P (State_Monad.return x)"
  by (auto simp: emits_def)

lemma emits_retE [emits_intros]: "emits P (retE r)"
  by (simp add: retE_def emits_return)

lemma emits_bind [emits_intros]:
  assumes "emits P m" "\<And>x. emits P (f x)"
  shows "emits P (State_Monad.bind m f)"
proof (rule emitsI)
  fix s
  obtain x s' where m: "run_state m s = (x, s')" by fastforce
  obtain y s'' where f: "run_state (f x) s' = (y, s'')" by fastforce
  from assms(1) m obtain e1 where "log s' = log s @ e1" "list_all P e1"
    by (rule emitsE)
  moreover from assms(2) f obtain e2 where "log s'' = log s' @ e2" "list_all P e2"
    by (rule emitsE)
  ultimately show "\<exists>evs. log (snd (run_state (State_Monad.bind m f) s)) = log s @ evs \<and> list_all P evs"
    using m f by (intro exI [of _ "e1 @ e2"]) simp
qed

lemma emits_bindE [emits_intros]: "emits P m \<Longrightarrow> (\<And>x. emits P (f x)) \<Longrightarrow> emits P (bindE m f)"
  unfolding bindE_def by (auto intro!: emits_intros split: option.splits sum.splits)

lemma emits_wrapE [emits_intros]: "emits P m \<Longrightarrow> emits P (wrapE t m)"
  unfolding wrapE_def by (auto intro!: emits_intros)

lemma emits_close [emits_intros]: "P (EvClose fd) \<Longrightarrow> emits P (unix_Close k fd)"
  by (rule emitsI) (auto simp: unix_Close_def split: prod.splits)

lemma emits_closing [emits_intros]:
  "emits P m \<Longrightarrow> P (EvClose fd) \<Longrightarrow> (\<And>x. emits P (f x)) \<Longrightarrow> emits P (closing k fd m f)"
  unfolding closing_def by (auto intro!: emits_intros split: option.splits sum.splits)

lemma emits_open [emits_intros]: "(\<And>r. P (EvOpen n fl r)) \<Longrightarrow> emits P (unix_Open k n fl mode)"
  by (rule emitsI) (auto simp: unix_Open_def split: prod.splits sum.splits)

lemma emits_ioctl_sg [emits_intros]: "P (EvSg fd cmd hdr) \<Longrightarrow> emits P (ioctl_sg k fd cmd hdr)"
  by (rule emitsI) (auto simp: ioctl_sg_def split: prod.splits)

lemma emits_ioctl_nvme64 [emits_intros]:
  "P (EvNvme64 fd cmd arg) \<Longrightarrow> emits P (ioctl_nvme64 k fd cmd arg)"
  by (rule emitsI) (auto simp: ioctl_nvme64_def split: prod.splits)

lemma emits_ioctl_nvme32 [emits_intros]:
  "P (EvNvme32 fd cmd arg) \<Longrightarrow> emits P (ioctl_nvme32 k fd cmd arg)"
  by (rule emitsI) (auto simp: ioctl_nvme32_def split: prod.splits)

section \<open>Descriptors\<close>

text \<open>
  The descriptors a log leaves open: each successful \<^verbatim>\<open>open\<close> adds its descriptor, each \<^verbatim>\<open>close\<close>
  takes one copy away (Linux releases a descriptor whatever \<^verbatim>\<open>close\<close> returns).
\<close>

fun live_step :: "int multiset \<Rightarrow> sysevent \<Rightarrow> int multiset" where
  "live_step m (EvOpen n fl (Some fd)) = add_mset fd m"
| "live_step m (EvClose fd) = m - {#fd#}"
| "live_step m _ = m"

definition live :: "sysevent list \<Rightarrow> int multiset" where
  "live evs = foldl live_step {#} evs"

fun is_ioctl :: "sysevent \<Rightarrow> bool" where
  "is_ioctl (EvOpen _ _ _) = False"
| "is_ioctl (EvClose _) = False"
| "is_ioctl _ = True"

text \<open>
  \<open>m\<close> runs owning the descriptors \<open>M\<close>: on an error they are all closed, on success the result
  holds \<open>H x\<close> of them; everything else that was open stays open. A panic ends the process.
\<close>

definition owns :: "int multiset \<Rightarrow> ('w, 'a) io \<Rightarrow> ('a \<Rightarrow> int multiset) \<Rightarrow> bool" where
  "owns M m H \<longleftrightarrow>
     (\<forall>s r s'. M \<subseteq># live (log s) \<longrightarrow> run_state m s = (r, s') \<longrightarrow>
        (case r of
           None \<Rightarrow> True
         | Some (Inl e) \<Rightarrow> live (log s') = live (log s) - M
         | Some (Inr x) \<Rightarrow> live (log s') = live (log s) - M + H x))"

named_theorems owns_intros \<open>how the operations keep descriptors\<close>

definition close_fail :: "'w kernel \<Rightarrow> int \<Rightarrow> gerror \<Rightarrow> ('w, 'a) io" where
  "close_fail k fd e = do { _ \<leftarrow> unix_Close k fd; State_Monad.return (Err e) }"

lemma live_append: "live (xs @ ys) = foldl live_step (live xs) ys"
  by (simp add: live_def)

lemma live_snoc [simp]: "live (xs @ [e]) = live_step (live xs) e"
  by (simp add: live_append)

lemma foldl_live_ioctls: "list_all is_ioctl evs \<Longrightarrow> foldl live_step m evs = m"
proof (induction evs arbitrary: m)
  case (Cons e evs)
  then show ?case by (cases e) auto
qed simp

lemma quiet_live:
  assumes "emits is_ioctl m" "run_state m s = (r, s')"
  shows "live (log s') = live (log s)"
proof -
  obtain evs where "log s' = log s @ evs" "list_all is_ioctl evs"
    using assms by (rule emitsE)
  then show ?thesis by (simp add: live_append foldl_live_ioctls)
qed

lemma live_close:
  "run_state (unix_Close k fd) s = (r, s') \<Longrightarrow> live (log s') = live (log s) - {#fd#}"
  by (auto simp: unix_Close_def split: prod.splits)

lemma ownsI:
  assumes "\<And>s e s'. M \<subseteq># live (log s) \<Longrightarrow> run_state m s = (Err e, s') \<Longrightarrow> live (log s') = live (log s) - M"
    and "\<And>s x s'. M \<subseteq># live (log s) \<Longrightarrow> run_state m s = (Ok x, s') \<Longrightarrow>
      live (log s') = live (log s) - M + H x"
  shows "owns M m H"
  unfolding owns_def
proof (intro allI impI)
  fix s r s'
  assume M: "M \<subseteq># live (log s)" and run: "run_state m s = (r, s')"
  show "case r of None \<Rightarrow> True
      | Some (Inl e) \<Rightarrow> live (log s') = live (log s) - M
      | Some (Inr x) \<Rightarrow> live (log s') = live (log s) - M + H x"
  proof (cases r rule: res_cases)
    case (ok x)
    then show ?thesis using assms(2) [OF M, of x s'] run by simp
  next
    case (err e)
    then show ?thesis using assms(1) [OF M, of e s'] run by simp
  qed simp
qed

lemma owns_ok:
  "owns M m H \<Longrightarrow> M \<subseteq># live (log s) \<Longrightarrow> run_state m s = (Ok x, s') \<Longrightarrow>
   live (log s') = live (log s) - M + H x"
  by (force simp: owns_def)

lemma owns_err:
  "owns M m H \<Longrightarrow> M \<subseteq># live (log s) \<Longrightarrow> run_state m s = (Err e, s') \<Longrightarrow>
   live (log s') = live (log s) - M"
  by (force simp: owns_def)

lemma owns_quiet [owns_intros]: "emits is_ioctl m \<Longrightarrow> owns {#} m (\<lambda>_. {#})"
  by (rule ownsI) (auto dest: quiet_live)

lemma owns_retOk [owns_intros]: "H x = M \<Longrightarrow> owns M (retE (Ok x)) H"
  by (rule ownsI) auto

lemma owns_return_ok [owns_intros]: "H x = M \<Longrightarrow> owns M (State_Monad.return (Ok x)) H"
  by (rule ownsI) auto

lemma owns_return_err [owns_intros]: "owns {#} (State_Monad.return (Err e)) H"
  by (rule ownsI) auto

lemma owns_close_fail [owns_intros]: "owns {#fd#} (close_fail k fd e) H"
  by (rule ownsI) (auto simp: close_fail_def dest: live_close split: prod.splits)

lemma run_open_cases:
  obtains (fail) e t where "run_state (unix_Open k n fl mode) s = (Err e, t)" "live (log t) = live (log s)"
  | (ok) fd t where "run_state (unix_Open k n fl mode) s = (Ok fd, t)"
      "live (log t) = add_mset fd (live (log s))"
  by (cases "sys_open k n fl mode (world s)"; cases "fst (sys_open k n fl mode (world s))")
    (auto simp: unix_Open_def intro: that)

lemma owns_open [owns_intros]:
  assumes "\<And>fd. owns {#fd#} (f fd) H"
  shows "owns {#} (bindE (unix_Open k n fl mode) f) H"
proof (rule ownsI)
  fix s e s'
  assume run: "run_state (bindE (unix_Open k n fl mode) f) s = (Err e, s')"
  show "live (log s') = live (log s) - {#}"
    by (rule run_open_cases [of k n fl mode s])
      (use run owns_err [OF assms] in \<open>force simp: run_bindE\<close>)+
next
  fix s x s'
  assume run: "run_state (bindE (unix_Open k n fl mode) f) s = (Ok x, s')"
  show "live (log s') = live (log s) - {#} + H x"
    by (rule run_open_cases [of k n fl mode s])
      (use run owns_ok [OF assms] in \<open>force simp: run_bindE\<close>)+
qed

lemma owns_closing [owns_intros]:
  assumes m: "emits is_ioctl m" and f: "\<And>x. owns {#fd#} (f x) H"
  shows "owns {#fd#} (closing k fd m f) H"
proof (rule ownsI)
  fix s e s'
  assume fd: "{#fd#} \<subseteq># live (log s)" and run: "run_state (closing k fd m f) s = (Err e, s')"
  obtain r t where t: "run_state m s = (r, t)" by fastforce
  note live_t = quiet_live [OF m t]
  show "live (log s') = live (log s) - {#fd#}"
  proof (cases r rule: res_cases)
    case (ok x)
    with run t fd show ?thesis
      using owns_err [OF f, where s = t] by (simp add: run_closing live_t)
  next
    case (err e')
    with run t have "s' = snd (run_state (unix_Close k fd) t)"
      by (simp add: run_closing)
    then show ?thesis
      using live_close [of k fd t _ s'] live_t by (metis prod.collapse)
  qed (use run t in \<open>simp add: run_closing\<close>)
next
  fix s x s'
  assume fd: "{#fd#} \<subseteq># live (log s)" and run: "run_state (closing k fd m f) s = (Ok x, s')"
  obtain r t where t: "run_state m s = (r, t)" by fastforce
  from run t obtain y where "r = Ok y" "run_state (f y) t = (Ok x, s')"
    by (auto simp: run_closing split: option.splits sum.splits)
  then have "live (log s') = live (log t) - {#fd#} + H x"
    using fd by (intro owns_ok [OF f]) (simp_all add: quiet_live [OF m t])
  then show "live (log s') = live (log s) - {#fd#} + H x"
    by (simp add: quiet_live [OF m t])
qed

lemma emits_close_fail [emits_intros]: "P (EvClose fd) \<Longrightarrow> emits P (close_fail k fd e)"
  unfolding close_fail_def by (auto intro!: emits_intros)

section \<open>Panics\<close>

text \<open>No run of \<open>m\<close> ends in a panic; \<open>delivers m P\<close> is what its successful results satisfy.\<close>

definition panic_free :: "('w, 'a) io \<Rightarrow> bool" where
  "panic_free m \<longleftrightarrow> (\<forall>s. fst (run_state m s) \<noteq> None)"

definition delivers :: "('w, 'a) io \<Rightarrow> ('a \<Rightarrow> bool) \<Rightarrow> bool" where
  "delivers m P \<longleftrightarrow> (\<forall>s x s'. run_state m s = (Ok x, s') \<longrightarrow> P x)"

named_theorems panic_intros \<open>operations that do not panic\<close>

lemma panic_freeD: "panic_free m \<Longrightarrow> run_state m s = (r, s') \<Longrightarrow> r \<noteq> None"
  unfolding panic_free_def by (metis fst_conv)

lemma delivers_any [simp]: "delivers m (\<lambda>_. True)"
  by (simp add: delivers_def)

lemma panic_free_retE [panic_intros]: "r \<noteq> None \<Longrightarrow> panic_free (retE r)"
  by (simp add: panic_free_def)

lemma panic_free_bindE_delivers:
  assumes "panic_free m" "delivers m P" "\<And>x. P x \<Longrightarrow> panic_free (f x)"
  shows "panic_free (bindE m f)"
  unfolding panic_free_def
proof
  fix s
  obtain r s' where run: "run_state m s = (r, s')" by fastforce
  show "fst (run_state (bindE m f) s) \<noteq> None"
  proof (cases r rule: res_cases)
    case (ok x)
    with run have "P x" using assms(2) unfolding delivers_def by blast
    then have "fst (run_state (f x) s') \<noteq> None"
      using assms(3) unfolding panic_free_def by blast
    then show ?thesis using ok run by (simp add: run_bindE)
  next
    case panic
    then show ?thesis using panic_freeD [OF assms(1) run] by simp
  qed (use run in \<open>simp add: run_bindE\<close>)
qed

lemma panic_free_bindE [panic_intros]:
  "panic_free m \<Longrightarrow> (\<And>x. panic_free (f x)) \<Longrightarrow> panic_free (bindE m f)"
  by (rule panic_free_bindE_delivers [where P = "\<lambda>_. True"]) simp_all

lemma panic_free_wrapE [panic_intros]: "panic_free m \<Longrightarrow> panic_free (wrapE t m)"
  unfolding panic_free_def [of "wrapE t m"] run_wrapE
  by (auto dest: panic_freeD split: prod.splits option.splits sum.splits)

lemma delivers_wrapE: "delivers m P \<Longrightarrow> delivers (wrapE t m) P"
  by (auto simp: delivers_def run_wrapE split: prod.splits option.splits sum.splits)

lemma panic_free_closing_delivers:
  assumes "panic_free m" "delivers m P" "\<And>x. P x \<Longrightarrow> panic_free (f x)"
  shows "panic_free (closing k fd m f)"
  unfolding panic_free_def
proof
  fix s
  obtain r s' where run: "run_state m s = (r, s')" by fastforce
  show "fst (run_state (closing k fd m f) s) \<noteq> None"
  proof (cases r rule: res_cases)
    case (ok x)
    with run have "P x" using assms(2) unfolding delivers_def by blast
    then have "fst (run_state (f x) s') \<noteq> None"
      using assms(3) unfolding panic_free_def by blast
    then show ?thesis using ok run by (simp add: run_closing)
  next
    case panic
    then show ?thesis using panic_freeD [OF assms(1) run] by simp
  qed (use run in \<open>simp add: run_closing\<close>)
qed

lemma panic_free_closing [panic_intros]:
  "panic_free m \<Longrightarrow> (\<And>x. panic_free (f x)) \<Longrightarrow> panic_free (closing k fd m f)"
  by (rule panic_free_closing_delivers [where P = "\<lambda>_. True"]) simp_all

lemma panic_free_close_fail [panic_intros]: "panic_free (close_fail k fd e)"
  by (simp add: panic_free_def close_fail_def split: prod.splits)

lemma panic_free_open [panic_intros]: "panic_free (unix_Open k n fl mode)"
  by (auto simp: panic_free_def unix_Open_def split: prod.splits sum.splits)

lemma panic_free_close [panic_intros]: "panic_free (unix_Close k fd)"
  by (auto simp: panic_free_def unix_Close_def split: prod.splits)

lemma panic_free_ioctl_nvme [panic_intros]:
  "panic_free (ioctl_nvme64 k fd cmd arg)" "panic_free (ioctl_nvme32 k fd cmd arg32)"
  by (auto simp: panic_free_def ioctl_nvme64_def ioctl_nvme32_def split: prod.splits)

lemma delivers_ioctl_nvme:
  "delivers (ioctl_nvme64 k fd cmd arg) (\<lambda>(err, buf). length buf = length (addr arg))"
  "delivers (ioctl_nvme32 k fd cmd arg32) (\<lambda>(err, buf). length buf = length (addr arg32))"
  by (auto simp: delivers_def ioctl_nvme64_def ioctl_nvme32_def split: prod.splits)

section \<open>A sample kernel\<close>

text \<open>
  For concrete runs: every path opens as descriptor 3, SG_IO answers by \<open>f\<close>, an NVMe admin command
  by \<open>g\<close> on the 64-bit interface and is unknown on the old one.
\<close>

definition sample_kernel ::
  "(sgIoHdr \<Rightarrow> nat \<times> sgIoHdr) \<Rightarrow> (nvmePassthruCmd64 \<Rightarrow> nat \<times> u8 list) \<Rightarrow> unit kernel" where
  "sample_kernel f g =
     \<lparr>sys_open = (\<lambda>_ _ _ w. (Inr 3, w)), sys_close = (\<lambda>_ w. (0, w)),
      sys_sg = (\<lambda>_ _ hdr w. (f hdr, w)), sys_nvme64 = (\<lambda>_ _ arg w. (g arg, w)),
      sys_nvme32 = (\<lambda>_ _ _ w. ((ENOTTY, []), w))\<rparr>"

definition sample_sys :: "unit sys" where
  "sample_sys = \<lparr>world = (), log = []\<rparr>"

lemma sample_kernel_simps [simp]:
  "sys_open (sample_kernel f g) n fl mode w = (Inr 3, w)"
  "sys_close (sample_kernel f g) fd w = (0, w)"
  "sys_sg (sample_kernel f g) fd cmd hdr w = (f hdr, w)"
  "sys_nvme64 (sample_kernel f g) fd cmd arg w = (g arg, w)"
  "sys_nvme32 (sample_kernel f g) fd cmd arg32 w = ((ENOTTY, []), w)"
  by (simp_all add: sample_kernel_def)

text \<open>
  SG_IO that succeeds with the given data; a CHECK CONDITION with the given sense data, with the
  masked status, the driver status DRIVER_SENSE and the duration as sg reports them.
\<close>

definition sg_good :: "u8 list \<Rightarrow> sgIoHdr \<Rightarrow> nat \<times> sgIoHdr" where
  "sg_good data hdr = (0, hdr\<lparr>dxferp := Some data\<rparr>)"

definition sg_check :: "u8 list \<Rightarrow> sgIoHdr \<Rightarrow> nat \<times> sgIoHdr" where
  "sg_check sense hdr =
     (0, hdr\<lparr>sgStatus := 2, maskedStatus := 1, driverStatus := 8, sgDuration := 4,
        sbLenWr := of_nat (min 96 (length sense)), sbp := sense, sgInfo := 1\<rparr>)"

end
