(* ===== verification/Device.thy ===== *)
theory Device
  imports Kernel
begin

text \<open>
  The part of \<^verbatim>\<open>smart.go\<close> every kind of device shares: the generic attributes a device reports.
\<close>

record GenericAttributes =
  gaTemperature :: u64
  gaRead :: u64
  gaWritten :: u64
  gaPowerOnHours :: u64
  gaPowerCycles :: u64

text \<open>\<^verbatim>\<open>GenericAttributes{}\<close>.\<close>

definition GenericAttributes_zero :: GenericAttributes where
  "GenericAttributes_zero =
     \<lparr>gaTemperature = 0, gaRead = 0, gaWritten = 0, gaPowerOnHours = 0, gaPowerCycles = 0\<rparr>"

text \<open>Every descriptor is opened read-only and close-on-exec.\<close>

fun cloexec :: "sysevent \<Rightarrow> bool" where
  "cloexec (EvOpen name fl r) = (fl = or O_RDONLY O_CLOEXEC)"
| "cloexec _ = True"

text \<open>
  The contract of the package's open functions: a failed open leaves no descriptor behind, a
  successful one holds exactly the descriptor of the device it returns, and no descriptor is opened
  without \<^verbatim>\<open>O_CLOEXEC\<close>.
\<close>

locale opener =
  fixes op :: "string \<Rightarrow> ('w, 'd) io" and fd_of :: "'d \<Rightarrow> int"
  assumes op_owns: "owns {#} (op name) (\<lambda>d. {#fd_of d#})"
    and op_cloexec: "emits cloexec (op name)"
begin

lemma failed_open_live:
  "run_state (op name) s = (Err e, s') \<Longrightarrow> live (log s') = live (log s)"
  using owns_err [OF op_owns] by fastforce

lemma opened_live:
  "run_state (op name) s = (Ok d, s') \<Longrightarrow> live (log s') = add_mset (fd_of d) (live (log s))"
  using owns_ok [OF op_owns] by fastforce

text \<open>Closing the device's descriptor restores what was open before.\<close>

lemma open_close_live:
  assumes "run_state (op name) s = (Ok d, s')" "run_state (unix_Close k (fd_of d)) s' = (r, s'')"
  shows "live (log s'') = live (log s)"
  using opened_live [OF assms(1)] live_close [OF assms(2)] by simp

end

end
