(* ===== verification/NvmeDevice.thy ===== *)
theory NvmeDevice
  imports NvmeData Device
begin

text \<open>
  NVMe devices: \<^verbatim>\<open>nvme_linux.go\<close> (opening, the admin commands over the 64-bit and the 32-bit ioctl) and the
  methods at the end of \<^verbatim>\<open>nvme.go\<close>, which all platforms share and which therefore take the platform's
  operations as arguments.
\<close>

section \<open>Commands\<close>

definition nvmeAdminGetLogPage :: u8 where "nvmeAdminGetLogPage = 0x02"
definition nvmeAdminIdentify :: u8 where "nvmeAdminIdentify = 0x06"
definition nvmeLogSmartInformation :: u8 where "nvmeLogSmartInformation = 0x02"

record NVMeDevice =
  nvmeFd :: int

definition OpenNVMe :: "'w kernel \<Rightarrow> string \<Rightarrow> ('w, NVMeDevice) io" where
  "OpenNVMe k name = bindE (unix_Open k name (or O_RDONLY O_CLOEXEC) open_mode) (\<lambda>fd. retE (Ok \<lparr>nvmeFd = fd\<rparr>))"

definition CloseNVMe :: "'w kernel \<Rightarrow> NVMeDevice \<Rightarrow> ('w, unit) io" where
  "CloseNVMe k d = unix_Close k (nvmeFd d)"

definition NvmeType :: "NVMeDevice \<Rightarrow> string" where
  "NvmeType d = ''nvme''"

text \<open>The two command structs the code fills in; every field it does not name is 0.\<close>

definition nvme_cmd64 :: "u8 \<Rightarrow> u32 \<Rightarrow> u32 \<Rightarrow> u8 list \<Rightarrow> nvmePassthruCmd64" where
  "nvme_cmd64 op ns dw10 data =
     \<lparr>opcode = op, cmdFlags = 0, nsid = ns, cdw2 = 0, cdw3 = 0, metadata = 0, addr = data,
      metadataLen = 0, dataLen = of_nat (length data), cdw10 = dw10, cdw11 = 0, cdw12 = 0, cdw13 = 0,
      cdw14 = 0, cdw15 = 0, timeoutMs = 0, result64 = 0\<rparr>"

definition nvme_cmd32 :: "u8 \<Rightarrow> u32 \<Rightarrow> u32 \<Rightarrow> u8 list \<Rightarrow> nvmePassthruCmd" where
  "nvme_cmd32 op ns dw10 data =
     \<lparr>opcode = op, cmdFlags = 0, nsid = ns, cdw2 = 0, cdw3 = 0, metadata = 0, addr = data,
      metadataLen = 0, dataLen = of_nat (length data), cdw10 = dw10, cdw11 = 0, cdw12 = 0, cdw13 = 0,
      cdw14 = 0, cdw15 = 0, timeoutMs = 0, result32 = 0\<rparr>"

text \<open>\<^verbatim>\<open>return err\<close>, together with the caller's buffer as the command left it.\<close>

fun err_res :: "gerror option \<times> 'a \<Rightarrow> 'a res" where
  "err_res (None, x) = Ok x"
| "err_res (Some e, x) = Err e"

text \<open>
  The body \<^verbatim>\<open>nvmeReadLogPage\<close> and \<^verbatim>\<open>readIdentifyData\<close> have in common: the 64-bit ioctl first; \<^verbatim>\<open>ENOTTY\<close>
  means the kernel does not know it, and only then the 32-bit one is tried on the same buffer. Both
  command structs take the address of the buffer, \<^verbatim>\<open>&buf[0]\<close>, which panics on an empty one; the buffer
  keeps its length in between.
\<close>

definition admin_passthru :: "'w kernel \<Rightarrow> int \<Rightarrow> u8 \<Rightarrow> u32 \<Rightarrow> u32 \<Rightarrow> u8 list \<Rightarrow> ('w, u8 list) io" where
  "admin_passthru k fd op ns dw10 buf =
     (if buf = [] then retE None
      else bindE (ioctl_nvme64 k fd nvmeIoctlAdmin64Cmd (nvme_cmd64 op ns dw10 buf)) (\<lambda>(err, buf).
        if err \<noteq> Some (Errno ENOTTY) then retE (err_res (err, buf))
        else bindE (ioctl_nvme32 k fd nvmeIoctlAdminCmd (nvme_cmd32 op ns dw10 buf)) (\<lambda>r. retE (err_res r))))"

definition nvmeReadLogPage :: "'w kernel \<Rightarrow> int \<Rightarrow> u8 \<Rightarrow> u8 list \<Rightarrow> ('w, u8 list) io" where
  "nvmeReadLogPage k fd logID buf =
     (let bufLen = length buf in
      if bufLen < 4 \<or> bufLen > 0x4000 \<or> bufLen mod 4 \<noteq> 0
      then retE (Err (Errorf ''invalid buffer size'' []))
      else admin_passthru k fd nvmeAdminGetLogPage 0xffffffff
        (ucast logID OR push_bit 16 (of_nat bufLen div 4 - 1)) buf)"

definition readIdentifyData :: "'w kernel \<Rightarrow> NVMeDevice \<Rightarrow> int \<Rightarrow> int \<Rightarrow> u8 list \<Rightarrow> ('w, u8 list) io" where
  "readIdentifyData k d ns cns data =
     admin_passthru k (nvmeFd d) nvmeAdminIdentify (of_int ns) (of_int cns) data"

definition ReadSMART :: "'w kernel \<Rightarrow> NVMeDevice \<Rightarrow> ('w, NvmeSMARTLog) io" where
  "ReadSMART k d =
     bindE (nvmeReadLogPage k (nvmeFd d) nvmeLogSmartInformation (replicate 512 0)) (\<lambda>buf.
       retE (map_res NvmeSMARTLog_of (binary_read LittleEndian NvmeSMARTLog_type buf)))"

definition readControllerIdentifyData :: "'w kernel \<Rightarrow> NVMeDevice \<Rightarrow> ('w, NvmeIdentController) io" where
  "readControllerIdentifyData k d =
     bindE (readIdentifyData k d 0 1 (replicate 4096 0)) (\<lambda>buf.
       retE (map_res NvmeIdentController_of (binary_read LittleEndian NvmeIdentController_type buf)))"

definition readNamespaceIdentifyData :: "'w kernel \<Rightarrow> NVMeDevice \<Rightarrow> int \<Rightarrow> ('w, NvmeIdentNamespace) io" where
  "readNamespaceIdentifyData k d ns =
     bindE (readIdentifyData k d ns 0 (replicate 4096 0)) (\<lambda>buf.
       retE (map_res NvmeIdentNamespace_of (binary_read LittleEndian NvmeIdentNamespace_type buf)))"

section \<open>The operations all platforms share\<close>

text \<open>
  The attributes of a SMART log. \<^verbatim>\<open>log.Temperature - 273\<close> is in 16 bits.
\<close>

definition nvme_attributes :: "NvmeSMARTLog \<Rightarrow> GenericAttributes" where
  "nvme_attributes lg =
     GenericAttributes_zero\<lparr>
       gaTemperature := ucast (slTemperature lg - 273),
       gaRead := Val (slDataUnitsRead lg) ! 0,
       gaWritten := Val (slDataUnitsWritten lg) ! 0,
       gaPowerOnHours := Val (slPowerOnHours lg) ! 0,
       gaPowerCycles := Val (slPowerCycles lg) ! 0\<rparr>"

definition NvmeReadGenericAttributes :: "('w, NvmeSMARTLog) io \<Rightarrow> ('w, GenericAttributes) io" where
  "NvmeReadGenericAttributes readSMART = bindE readSMART (\<lambda>lg. retE (Ok (nvme_attributes lg)))"

text \<open>The loop of \<^verbatim>\<open>Identify\<close>: \<open>n\<close> rounds from index \<open>i\<close> on, \<open>ns\<close> being the slice so far.\<close>

primrec read_namespaces ::
  "(int \<Rightarrow> ('w, NvmeIdentNamespace) io) \<Rightarrow> nat \<Rightarrow> int \<Rightarrow> NvmeIdentNamespace list \<Rightarrow> ('w, NvmeIdentNamespace list) io"
where
  "read_namespaces readNs 0 i ns = retE (Ok ns)"
| "read_namespaces readNs (Suc n) i ns =
     bindE (readNs (i + 1)) (\<lambda>namespace.
       read_namespaces readNs n (i + 1) (if nsNsze namespace = 0 then ns else ns @ [namespace]))"

definition NvmeIdentify ::
  "('w, NvmeIdentController) io \<Rightarrow> (int \<Rightarrow> ('w, NvmeIdentNamespace) io) \<Rightarrow>
   ('w, NvmeIdentController \<times> NvmeIdentNamespace list) io"
where
  "NvmeIdentify readController readNs =
     bindE readController (\<lambda>controller.
       bindE (read_namespaces readNs (unat (icNn controller)) 0 []) (\<lambda>ns. retE (Ok (controller, ns))))"

text \<open>On Linux.\<close>

abbreviation nvmeIdentifyLinux ::
  "'w kernel \<Rightarrow> NVMeDevice \<Rightarrow> ('w, NvmeIdentController \<times> NvmeIdentNamespace list) io"
where
  "nvmeIdentifyLinux k d \<equiv> NvmeIdentify (readControllerIdentifyData k d) (readNamespaceIdentifyData k d)"

abbreviation nvmeAttributesLinux :: "'w kernel \<Rightarrow> NVMeDevice \<Rightarrow> ('w, GenericAttributes) io" where
  "nvmeAttributesLinux k d \<equiv> NvmeReadGenericAttributes (ReadSMART k d)"

section \<open>The pass-through commands\<close>

lemma run_admin_passthru:
  "buf \<noteq> [] \<Longrightarrow> run_state (admin_passthru k fd op ns dw10 buf) s =
     (case sys_nvme64 k fd nvmeIoctlAdmin64Cmd (nvme_cmd64 op ns dw10 buf) (world s) of ((e, b), w) \<Rightarrow>
        let s1 = s\<lparr>world := w, log := log s @ [EvNvme64 fd nvmeIoctlAdmin64Cmd (nvme_cmd64 op ns dw10 buf)]\<rparr>;
            buf1 = overlay b buf in
        if e = 0 then (Ok buf1, s1)
        else if e \<noteq> ENOTTY then (Err (Errno e), s1)
        else case sys_nvme32 k fd nvmeIoctlAdminCmd (nvme_cmd32 op ns dw10 buf1) w of ((e', b'), w') \<Rightarrow>
          (if e' = 0 then Ok (overlay b' buf1) else Err (Errno e'),
           s1\<lparr>world := w', log := log s1 @ [EvNvme32 fd nvmeIoctlAdminCmd (nvme_cmd32 op ns dw10 buf1)]\<rparr>))"
  by (auto simp: admin_passthru_def run_bindE ioctl_nvme64_def ioctl_nvme32_def nvme_cmd64_def nvme_cmd32_def
      Let_def split: prod.splits)

lemma admin_passthru_length:
  "delivers (admin_passthru k fd op ns dw10 buf) (\<lambda>b. length b = length buf)"
  by (cases "buf = []")
    (auto simp: delivers_def run_admin_passthru admin_passthru_def [of _ _ _ _ _ "[]"] Let_def split: prod.splits if_splits)

lemma admin_passthru_panic_free [panic_intros]: "buf \<noteq> [] \<Longrightarrow> panic_free (admin_passthru k fd op ns dw10 buf)"
  by (auto simp: panic_free_def run_admin_passthru Let_def split: prod.splits)

lemma admin_passthru_emits [emits_intros]:
  "(\<And>cmd. P (EvNvme64 fd nvmeIoctlAdmin64Cmd cmd)) \<Longrightarrow> (\<And>cmd. P (EvNvme32 fd nvmeIoctlAdminCmd cmd)) \<Longrightarrow>
   emits P (admin_passthru k fd op ns dw10 buf)"
  unfolding admin_passthru_def by (auto intro!: emits_intros split: prod.splits)

text \<open>Command dword 10 of Get Log Page: the log page in the low byte, the number of dwords minus 1 above.\<close>

lemma log_page_dword:
  assumes "4 \<le> n" "n \<le> 0x4000" "n mod 4 = 0"
  shows "unat (ucast (i :: u8) OR push_bit 16 (of_nat n div 4 - 1) :: u32) = unat i + 2 ^ 16 * (n div 4 - 1)"
proof -
  obtain m where n: "n = 4 * Suc m"
    using assms by (metis mod_0_imp_dvd dvdE mult_0_right not_numeral_le_zero not0_implies_Suc)
  then have m: "m < 4096" using assms(2) by simp
  have "unat (of_nat n :: u32) = n"
    using assms(2) by (simp add: unat_of_nat take_bit_nat_eq_self)
  then have "unat (of_nat n div 4 :: u32) = Suc m"
    by (simp add: unat_div n)
  then have "of_nat n div 4 = (of_nat (Suc m) :: u32)"
    by (metis of_nat_unat ucast_id)
  then have d: "of_nat n div 4 - 1 = (of_nat m :: u32)" by simp
  have "(ucast i OR push_bit 16 (of_nat m)) = (ucast i + push_bit 16 (of_nat m) :: u32)"
    by (rule disjunctive_add [symmetric]) (auto simp: bit_simps dest: bit_imp_le_length)
  also have "\<dots> = of_nat (unat i + 2 ^ 16 * m)"
    by (simp add: push_bit_eq_mult unsigned_ucast_eq mult.commute)
  finally have eq: "(ucast i OR push_bit 16 (of_nat m) :: u32) = of_nat (unat i + 2 ^ 16 * m)" .
  have "unat i + 2 ^ 16 * m < 2 ^ LENGTH(32)"
    using m unsigned_less [of i, where ?'a = nat] by simp
  then have "unat (of_nat (unat i + 2 ^ 16 * m) :: u32) = unat i + 2 ^ 16 * m"
    by (simp only: unat_of_nat mod_less)
  then show ?thesis unfolding d eq by (simp add: n)
qed

text \<open>
  C7. Get Log Page on a buffer whose length is valid: the log page and the number of dwords are in dword 10;
  unless the kernel answers \<^verbatim>\<open>ENOTTY\<close> the 64-bit command is the only one and its outcome is the result;
  after \<^verbatim>\<open>ENOTTY\<close> the same command goes through the 32-bit ioctl, whose outcome is the result. On a buffer
  of any other length nothing is sent.
\<close>

theorem nvmeReadLogPage_fallback:
  assumes "sys_nvme64 k fd nvmeIoctlAdmin64Cmd (nvme_cmd64 0x02 0xffffffff dw buf) (world s) = ((e, b), w)"
    and "sys_nvme32 k fd nvmeIoctlAdminCmd (nvme_cmd32 0x02 0xffffffff dw (overlay b buf)) w = ((e', b'), w')"
    and "unat dw = unat i + 2 ^ 16 * (length buf div 4 - 1)"
  shows "if 4 \<le> length buf \<and> length buf \<le> 0x4000 \<and> length buf mod 4 = 0
    then
      fst (run_state (nvmeReadLogPage k fd i buf) s) =
        (if e = ENOTTY then if e' = 0 then Ok (overlay b' (overlay b buf)) else Err (Errno e')
         else if e = 0 then Ok (overlay b buf) else Err (Errno e)) \<and>
      log (snd (run_state (nvmeReadLogPage k fd i buf) s)) =
        log s @ [EvNvme64 fd nvmeIoctlAdmin64Cmd (nvme_cmd64 0x02 0xffffffff dw buf)] @
        (if e = ENOTTY
         then [EvNvme32 fd nvmeIoctlAdminCmd (nvme_cmd32 0x02 0xffffffff dw (overlay b buf))] else [])
    else is_err (fst (run_state (nvmeReadLogPage k fd i buf) s)) \<and>
      snd (run_state (nvmeReadLogPage k fd i buf) s) = s"
proof (cases "4 \<le> length buf \<and> length buf \<le> 0x4000 \<and> length buf mod 4 = 0")
  case True
  then have "unat (ucast i OR push_bit 16 (of_nat (length buf) div 4 - 1) :: u32) = unat dw"
    using log_page_dword [of "length buf" i] assms(3) by simp
  then have dw: "ucast i OR push_bit 16 (of_nat (length buf) div 4 - 1) = dw"
    by (simp only: word_unat_eq_iff)
  have run: "nvmeReadLogPage k fd i buf = admin_passthru k fd nvmeAdminGetLogPage 0xffffffff dw buf"
    using True dw by (simp add: nvmeReadLogPage_def)
  show ?thesis
    using True assms(1,2) unfolding run
    by (subst (1 2) run_admin_passthru) (auto simp: nvmeAdminGetLogPage_def Let_def ENOTTY_def)
next
  case False
  then show ?thesis by (auto simp: nvmeReadLogPage_def Let_def)
qed

theorem nvmeReadLogPage_fallback_witness:
  "fst (run_state (nvmeReadLogPage (sample_kernel undefined (\<lambda>arg. (ENOTTY, [7]))) 3 2 [0, 0, 0, 0]) sample_sys)
     = Err (Errno ENOTTY)"
  using nvmeReadLogPage_fallback [of "sample_kernel undefined (\<lambda>arg. (ENOTTY, [7]))" 3 2 "[0, 0, 0, 0]" sample_sys ENOTTY "[7]" "()" ENOTTY "[]" "()" 2]
  by (simp add: ENOTTY_def)

section \<open>Reading the pages\<close>

lemma nvmeReadLogPage_panic_free [panic_intros]: "panic_free (nvmeReadLogPage k fd i buf)"
  unfolding nvmeReadLogPage_def Let_def by (auto intro!: panic_intros)

lemma delivers_fail: "delivers (retE (Err e)) P" "delivers (retE None) P"
  by (simp_all add: delivers_def)

lemma nvmeReadLogPage_length: "delivers (nvmeReadLogPage k fd i buf) (\<lambda>b. length b = length buf)"
  by (simp add: nvmeReadLogPage_def Let_def admin_passthru_length delivers_fail)

lemma readIdentifyData_panic_free [panic_intros]: "data \<noteq> [] \<Longrightarrow> panic_free (readIdentifyData k d n c data)"
  by (simp add: readIdentifyData_def admin_passthru_panic_free)

lemma readIdentifyData_length: "delivers (readIdentifyData k d n c data) (\<lambda>b. length b = length data)"
  by (simp add: readIdentifyData_def admin_passthru_length delivers_fail)

lemma ReadSMART_panic_free [panic_intros]: "panic_free (ReadSMART k d)"
  unfolding ReadSMART_def by (intro panic_intros) (simp_all add: binary_read_def)

lemma readController_panic_free [panic_intros]: "panic_free (readControllerIdentifyData k d)"
  unfolding readControllerIdentifyData_def by (intro panic_intros) (simp_all add: binary_read_def)

lemma readNamespace_panic_free [panic_intros]: "panic_free (readNamespaceIdentifyData k d n)"
  unfolding readNamespaceIdentifyData_def by (intro panic_intros) (simp_all add: binary_read_def)

lemma read_namespaces_panic_free [panic_intros]:
  "(\<And>j. panic_free (readNs j)) \<Longrightarrow> panic_free (read_namespaces readNs n i ns)"
  by (induction n arbitrary: i ns) (simp_all add: panic_intros)

lemma NvmeIdentify_panic_free [panic_intros]:
  "panic_free rc \<Longrightarrow> (\<And>j. panic_free (readNs j)) \<Longrightarrow> panic_free (NvmeIdentify rc readNs)"
  unfolding NvmeIdentify_def by (intro panic_intros) (simp_all add: panic_intros)

lemma NvmeAttributes_panic_free [panic_intros]: "panic_free rs \<Longrightarrow> panic_free (NvmeReadGenericAttributes rs)"
  unfolding NvmeReadGenericAttributes_def by (intro panic_intros) simp_all

text \<open>
  C32. No NVMe operation panics, whatever the devices and the kernel answer: not even Get Log Page on an
  empty buffer, whose first byte does not exist, because the length is checked before its address is
  taken; \<^verbatim>\<open>readIdentifyData\<close> has no such check and is free of panics on the buffers that hold a byte.
\<close>

theorem nvme_no_panic:
  "panic_free (OpenNVMe k name) \<and> panic_free (CloseNVMe k d) \<and>
   panic_free (nvmeReadLogPage k fd i buf) \<and> panic_free (readIdentifyData k d n c (byte # data)) \<and>
   panic_free (ReadSMART k d) \<and> panic_free (nvmeAttributesLinux k d) \<and>
   panic_free (readControllerIdentifyData k d) \<and> panic_free (readNamespaceIdentifyData k d n) \<and>
   panic_free (nvmeIdentifyLinux k d)"
  unfolding OpenNVMe_def CloseNVMe_def by (intro conjI panic_intros) simp_all

section \<open>Attributes and namespaces\<close>

lemma run_ReadSMART:
  assumes "run_state (nvmeReadLogPage k (nvmeFd d) nvmeLogSmartInformation (replicate 512 0)) s = (Ok buf, s')"
  shows "run_state (ReadSMART k d) s = (Ok (NvmeSMARTLog_of (dec LittleEndian NvmeSMARTLog_type buf)), s')"
proof -
  have "length buf = 512"
    using assms nvmeReadLogPage_length [of k "nvmeFd d" nvmeLogSmartInformation "replicate 512 0"]
    unfolding delivers_def by fastforce
  then show ?thesis
    using assms by (simp add: ReadSMART_def run_bindE binary_read_def NvmeSMARTLog_type_def NvmeSMARTLog_layout)
qed

text \<open>
  C30. The generic attributes of an NVMe device on the bytes of its SMART log: the low 64 bits of the four
  counters and the composite temperature less 273, computed modulo \<open>2\<^sup>1\<^sup>6\<close>, so that a temperature below
  273 Kelvin comes out near 65536 degrees.
\<close>

theorem nvme_attributes_bytes:
  assumes "run_state (nvmeReadLogPage k (nvmeFd d) nvmeLogSmartInformation (replicate 512 0)) s = (Ok buf, s')"
  shows "\<exists>a. run_state (nvmeAttributesLinux k d) s = (Ok a, s') \<and>
    (let t = bytes_at 2 1 buf :: u16 in
      unat (gaTemperature a) = (if 273 \<le> unat t then unat t - 273 else 2 ^ 16 + unat t - 273)) \<and>
    gaRead a = bytes_at 8 32 buf \<and> gaWritten a = bytes_at 8 48 buf \<and>
    gaPowerCycles a = bytes_at 8 112 buf \<and> gaPowerOnHours a = bytes_at 8 128 buf"
proof -
  have "unat (ucast (t - 273 :: u16) :: u64) = (if 273 \<le> unat t then unat t - 273 else 2 ^ 16 + unat t - 273)" for t :: u16
  proof -
    have "unat (ucast (t - 273 :: u16) :: u64) = unat (t - 273)"
      using unsigned_less [of "t - 273", where ?'a = nat]
      by (simp only: unsigned_ucast_eq) (intro take_bit_nat_eq_self, simp)
    also have "\<dots> = (if 273 \<le> unat t then unat t - 273 else 2 ^ 16 + unat t - 273)"
      by (simp add: unat_sub_if' word_le_nat_alt)
    finally show ?thesis .
  qed
  then show ?thesis
    using run_ReadSMART [OF assms]
    by (simp add: NvmeReadGenericAttributes_def run_bindE nvme_attributes_def GenericAttributes_zero_def NvmeSMARTLog_dec Let_def)
qed

text \<open>Reading a list of pages one after the other, stopping at the first error.\<close>

fun mapE :: "('x \<Rightarrow> ('w, 'a) io) \<Rightarrow> 'x list \<Rightarrow> ('w, 'a list) io" where
  "mapE f [] = retE (Ok [])"
| "mapE f (x # xs) = bindE (f x) (\<lambda>y. bindE (mapE f xs) (\<lambda>ys. retE (Ok (y # ys))))"

lemma io_eqI: "(\<And>s. run_state m s = run_state m' s) \<Longrightarrow> m = m'"
  by (cases m; cases m') (simp add: fun_eq_iff)

lemma run_read_namespaces:
  "run_state (read_namespaces readNs n i ns) s =
     run_state (bindE (mapE readNs (map (\<lambda>j. i + 1 + int j) [0..<n]))
       (\<lambda>pages. retE (Ok (ns @ filter (\<lambda>p. nsNsze p \<noteq> 0) pages)))) s"
proof (induction n arbitrary: i ns s)
  case 0
  then show ?case by (simp add: run_bindE)
next
  case (Suc n)
  have "map (\<lambda>j. i + 1 + int j) [0..<Suc n] = (i + 1) # map (\<lambda>j. i + 1 + 1 + int j) [0..<n]"
    by (simp add: upt_conv_Cons map_Suc_upt [symmetric] comp_def ac_simps del: upt_Suc)
  then show ?case
    by (auto simp: run_bindE Suc.IH simp del: upt_Suc split: prod.splits option.splits sum.splits)
qed

text \<open>
  C6. \<^verbatim>\<open>Identify\<close> refines reading the controller's page and then the pages of the namespaces 1 to \<^verbatim>\<open>Nn\<close> in
  order, failing with the first error, and keeping exactly the namespaces whose size is not zero.
\<close>

theorem NvmeIdentify_refines:
  "NvmeIdentify rc readNs =
     bindE rc (\<lambda>c. bindE (mapE readNs (map int [1..<Suc (unat (icNn c))]))
       (\<lambda>pages. retE (Ok (c, filter (\<lambda>p. nsNsze p \<noteq> 0) pages))))"
proof (rule io_eqI)
  fix s
  have "map (\<lambda>j. 0 + 1 + int j) [0..<n] = map int [1..<Suc n]" for n
    by (simp add: map_Suc_upt [symmetric] comp_def del: upt_Suc)
  then show "run_state (NvmeIdentify rc readNs) s = run_state (bindE rc (\<lambda>c. bindE
      (mapE readNs (map int [1..<Suc (unat (icNn c))])) (\<lambda>pages. retE (Ok (c, filter (\<lambda>p. nsNsze p \<noteq> 0) pages))))) s"
    by (auto simp: NvmeIdentify_def run_bindE run_read_namespaces simp del: upt_Suc split: prod.splits option.splits sum.splits)
qed

theorem nvme_attributes_bytes_witness:
  "\<exists>a s'. run_state (nvmeAttributesLinux (sample_kernel undefined (\<lambda>arg. (0, replicate 512 2))) \<lparr>nvmeFd = 3\<rparr>)
      sample_sys = (Ok a, s') \<and> unat (gaTemperature a) = 241"
proof -
  let ?k = "sample_kernel undefined (\<lambda>arg. (0, replicate 512 2))"
  let ?buf = "replicate 512 (2 :: u8)"
  obtain s' where "run_state (nvmeReadLogPage ?k (nvmeFd \<lparr>nvmeFd = 3\<rparr>) nvmeLogSmartInformation (replicate 512 0)) sample_sys
      = (Ok ?buf, s')"
    by (simp add: nvmeReadLogPage_def Let_def run_admin_passthru overlay_same_length)
  from nvme_attributes_bytes [OF this]
  obtain a where "run_state (nvmeAttributesLinux ?k \<lparr>nvmeFd = 3\<rparr>) sample_sys = (Ok a, s')"
    "unat (gaTemperature a) = (let t = bytes_at 2 1 ?buf :: u16 in if 273 \<le> unat t then unat t - 273 else 2 ^ 16 + unat t - 273)"
    unfolding Let_def by blast
  moreover have "bytes_at 2 1 ?buf = (0x202 :: u16)"
  proof -
    have "replicate 2 (2 :: u8) = [2, 2]" by (simp add: numeral_2_eq_2)
    then show ?thesis by (simp add: bytes_at_def)
  qed
  ultimately show ?thesis by (auto simp: Let_def)
qed

section \<open>Descriptors and ioctl numbers\<close>

lemma OpenNVMe_owns: "owns {#} (OpenNVMe k name) (\<lambda>d. {#nvmeFd d#})"
  unfolding OpenNVMe_def by (auto intro!: owns_intros)

lemma OpenNVMe_emits:
  "(\<And>r. P (EvOpen name (or O_RDONLY O_CLOEXEC) r)) \<Longrightarrow> emits P (OpenNVMe k name)"
  unfolding OpenNVMe_def by (intro emits_intros) simp_all

interpretation nvme_opener: opener "OpenNVMe k" nvmeFd for k
  by unfold_locales (auto intro!: OpenNVMe_owns OpenNVMe_emits)

lemma readIdentifyData_emits [emits_intros]:
  "(\<And>cmd. P (EvNvme64 (nvmeFd d) nvmeIoctlAdmin64Cmd cmd)) \<Longrightarrow> (\<And>cmd. P (EvNvme32 (nvmeFd d) nvmeIoctlAdminCmd cmd)) \<Longrightarrow>
   emits P (readIdentifyData k d n c data)"
  unfolding readIdentifyData_def by (auto intro!: emits_intros)

lemma read_namespaces_emits [emits_intros]:
  "(\<And>j. emits P (readNs j)) \<Longrightarrow> emits P (read_namespaces readNs n i ns)"
  by (induction n arbitrary: i ns) (simp_all add: emits_intros)

lemma nvmeIdentify_emits:
  "(\<And>cmd. P (EvNvme64 (nvmeFd d) nvmeIoctlAdmin64Cmd cmd)) \<Longrightarrow> (\<And>cmd. P (EvNvme32 (nvmeFd d) nvmeIoctlAdminCmd cmd)) \<Longrightarrow>
   emits P (nvmeIdentifyLinux k d)"
  unfolding NvmeIdentify_def readControllerIdentifyData_def readNamespaceIdentifyData_def
  by (intro emits_intros) simp_all

text \<open>
  Every field of an \<^verbatim>\<open>ioctl\<close> number is recovered by shifting and masking as the layout comment says, and
  the two numbers the NVMe code computes from the sizes of its structs are those of the kernel's header.
\<close>

theorem ioctl_numbers:
  "(dir < 2 ^ 2 \<and> t < 2 ^ 8 \<and> nr < 2 ^ 8 \<and> sz < 2 ^ 14 \<longrightarrow>
     (let c = ioc dir t nr sz in
      drop_bit directionShift c AND directionMask = dir \<and> drop_bit typeShift c AND typeMask = t \<and>
      drop_bit numberShift c AND numberMask = nr \<and> drop_bit sizeShift c AND sizeMask = sz)) \<and>
   nvmeIoctlAdmin64Cmd = 0xc0504e47 \<and> nvmeIoctlAdminCmd = 0xc0484e41"
proof -
  have "nvmeIoctlAdmin64Cmd = 0xc0504e47" "nvmeIoctlAdminCmd = 0xc0484e41"
    by (simp_all add: nvmeIoctlAdmin64Cmd_def nvmeIoctlAdminCmd_def usize_nvmePassthru iowr_def ioc_def ioctl_consts)
  then show ?thesis
    using ioc_fields [of dir t nr sz] by (simp add: Let_def)
qed

theorem ioctl_numbers_witness:
  "drop_bit sizeShift (ioc 3 0x4e 0x41 72) AND sizeMask = 72"
  using ioctl_numbers [of 3 "0x4e" "0x41" 72] by (simp add: Let_def)

end
