(* ===== verification/Scsi.thy ===== *)
theory Scsi
  imports Device GoText
begin

text \<open>
  \<^verbatim>\<open>scsi.go\<close> and \<^verbatim>\<open>scsi_linux.go\<close>: the SG_IO transport every SATA and SCSI command goes through, the
  INQUIRY, READ CAPACITY(10) and serial number commands, and opening a SCSI device. The locale
  \<open>cdb_channel\<close> is the contract of the transport the ATA commands rely on (one SG_IO per command,
  buffers keep their length, at most 96 bytes of sense data).
\<close>

section \<open>Constants\<close>

definition SG_IO :: u64 where "SG_IO = 0x2285"
definition SG_INFO_OK_MASK :: u32 where "SG_INFO_OK_MASK = 0x1"
definition SG_INFO_OK :: u32 where "SG_INFO_OK = 0x0"
definition SG_INFO_CHECK :: u32 where "SG_INFO_CHECK = 0x1"
definition DEFAULT_TIMEOUT :: u32 where "DEFAULT_TIMEOUT = 20000"
definition SAM_STAT_CHECK_CONDITION :: u8 where "SAM_STAT_CHECK_CONDITION = 0x02"
definition SCSI_INQUIRY :: u8 where "SCSI_INQUIRY = 0x12"
definition SCSI_MODE_SENSE_6 :: u8 where "SCSI_MODE_SENSE_6 = 0x1a"
definition SCSI_READ_CAPACITY_10 :: u8 where "SCSI_READ_CAPACITY_10 = 0x25"
definition SG_DXFER_NONE :: int where "SG_DXFER_NONE = -1"
definition SG_DXFER_FROM_DEV :: int where "SG_DXFER_FROM_DEV = -3"
definition scsiSenseBufSize :: nat where "scsiSenseBufSize = 96"

lemmas scsi_consts =
  SG_IO_def SG_INFO_OK_MASK_def SG_INFO_OK_def SG_INFO_CHECK_def DEFAULT_TIMEOUT_def
  SAM_STAT_CHECK_CONDITION_def SCSI_INQUIRY_def SCSI_MODE_SENSE_6_def SCSI_READ_CAPACITY_10_def
  SG_DXFER_NONE_def SG_DXFER_FROM_DEV_def scsiSenseBufSize_def

section \<open>Data\<close>

record ScsiDevice =
  scsiFd :: int

record ScsiInquiry =
  Peripheral :: u8
  Rmb :: u8
  InqVersion :: u8
  InqFlags :: u8
  RespLength :: u8
  InqFlags2 :: "u8 list"
  VendorIdent :: "u8 list"
  ProductIdent :: "u8 list"
  ProductRev :: "u8 list"

definition ScsiInquiry_fields :: gfields where
  "ScsiInquiry_fields = mkfields
    [(''Peripheral'', U8), (''Rmb'', U8), (''Version'', U8), (''Flags'', U8), (''RespLength'', U8),
     (''Flags2'', Arr 3 U8), (''VendorIdent'', Arr 8 U8), (''ProductIdent'', Arr 16 U8),
     (''ProductRev'', Arr 4 U8)]"

definition ScsiInquiry_type :: gtype where
  "ScsiInquiry_type = Struct ScsiInquiry_fields"

definition ScsiInquiry_of :: "gval \<Rightarrow> ScsiInquiry" where
  "ScsiInquiry_of v = \<lparr>Peripheral = vu8 (fld v ''Peripheral''), Rmb = vu8 (fld v ''Rmb''),
     InqVersion = vu8 (fld v ''Version''), InqFlags = vu8 (fld v ''Flags''),
     RespLength = vu8 (fld v ''RespLength''), InqFlags2 = vbytes (fld v ''Flags2''),
     VendorIdent = vbytes (fld v ''VendorIdent''), ProductIdent = vbytes (fld v ''ProductIdent''),
     ProductRev = vbytes (fld v ''ProductRev'')\<rparr>"

text \<open>CDBs: a byte array of 6, 10 or 16 bytes, given by its first bytes, the rest zero.\<close>

definition cdb6 :: "u8 list \<Rightarrow> u8 list" where "cdb6 bs = bs @ replicate (6 - length bs) 0"
definition cdb10 :: "u8 list \<Rightarrow> u8 list" where "cdb10 bs = bs @ replicate (10 - length bs) 0"
definition cdb16 :: "u8 list \<Rightarrow> u8 list" where "cdb16 bs = bs @ replicate (16 - length bs) 0"

text \<open>\<^verbatim>\<open>binary.BigEndian.PutUint16(b[i:i+2], w)\<close>.\<close>

definition put_be16 :: "u8 list \<Rightarrow> nat \<Rightarrow> u16 \<Rightarrow> u8 list" where
  "put_be16 b i w = b[i := ucast (drop_bit 8 w), Suc i := ucast w]"

section \<open>The SG_IO transport\<close>

definition sg_hdr :: "u8 list \<Rightarrow> u8 list \<Rightarrow> sgIoHdr" where
  "sg_hdr cdb respBuf =
     \<lparr>interfaceId = 83,
      dxferDirection = (if length respBuf > 0 then SG_DXFER_FROM_DEV else SG_DXFER_NONE),
      cmdLen = of_nat (length cdb), mxSbLen = of_nat scsiSenseBufSize, iovecCount = 0,
      dxferLen = of_nat (length respBuf),
      dxferp = (if length respBuf > 0 then Some respBuf else None),
      cmdp = cdb, sbp = replicate scsiSenseBufSize 0, sgTimeout = DEFAULT_TIMEOUT, sgFlags = 0,
      packId = 0, usrPtr = 0, sgStatus = 0, maskedStatus = 0, msgStatus = 0, sbLenWr = 0,
      hostStatus = 0, driverStatus = 0, resid = 0, sgDuration = 0, sgInfo = 0\<rparr>"

text \<open>What the code makes of the header the kernel hands back: the sense bytes or an error.\<close>

definition sg_result :: "sgIoHdr \<Rightarrow> (u8 list) res" where
  "sg_result hdr =
     (let senseBuf = overlay (sbp hdr) (replicate scsiSenseBufSize 0) in
      if sgStatus hdr = SAM_STAT_CHECK_CONDITION \<and> sbLenWr hdr > 0 then
        map_option Inr (subslice senseBuf 0 (unat (sbLenWr hdr)))
      else if sgInfo hdr AND SG_INFO_OK_MASK \<noteq> SG_INFO_OK then
        Err (SgioError (ucast (hostStatus hdr)) (ucast (sgStatus hdr)) (ucast (driverStatus hdr)))
      else Ok senseBuf)"

text \<open>The data buffer after the call: the kernel writes at most its length.\<close>

definition sg_data :: "sgIoHdr \<Rightarrow> u8 list \<Rightarrow> u8 list" where
  "sg_data hdr respBuf = overlay (case dxferp hdr of None \<Rightarrow> [] | Some d \<Rightarrow> d) respBuf"

text \<open>
  The result is the sense data, together with \<open>respBuf\<close> as the command left it. An empty CDB would
  panic at \<^verbatim>\<open>&cdb[0]\<close>.
\<close>

definition scsiSendCdbSense :: "'w kernel \<Rightarrow> int \<Rightarrow> u8 list \<Rightarrow> u8 list \<Rightarrow> ('w, u8 list \<times> u8 list) io" where
  "scsiSendCdbSense k fd cdb respBuf =
     (if cdb = [] then State_Monad.return None
      else bindE (ioctl_sg k fd SG_IO (sg_hdr cdb respBuf)) (\<lambda>hdr.
        retE (map_res (\<lambda>sense. (sense, sg_data hdr respBuf)) (sg_result hdr))))"

definition scsiSendCdb :: "'w kernel \<Rightarrow> int \<Rightarrow> u8 list \<Rightarrow> u8 list \<Rightarrow> ('w, u8 list) io" where
  "scsiSendCdb k fd cdb respBuf =
     bindE (scsiSendCdbSense k fd cdb respBuf) (\<lambda>(_, respBuf'). retE (Ok respBuf'))"

section \<open>Commands\<close>

definition scsiInquiry :: "'w kernel \<Rightarrow> int \<Rightarrow> ('w, ScsiInquiry) io" where
  "scsiInquiry k fd =
     (let respBuf = replicate 36 0;
          cdb = put_be16 (cdb6 [SCSI_INQUIRY]) 3 (of_nat (length respBuf))
      in bindE (scsiSendCdb k fd cdb respBuf) (\<lambda>respBuf.
         retE (map_res ScsiInquiry_of (binary_read BigEndian ScsiInquiry_type respBuf))))"

definition scsiInquiryVpd :: "'w kernel \<Rightarrow> int \<Rightarrow> u8 \<Rightarrow> u8 list \<Rightarrow> ('w, u8 list) io" where
  "scsiInquiryVpd k fd page respBuf =
     (let cdb = put_be16 (cdb6 [SCSI_INQUIRY, 1, page]) 3 (of_nat (length respBuf))
      in scsiSendCdb k fd cdb respBuf)"

definition Inquiry :: "'w kernel \<Rightarrow> ScsiDevice \<Rightarrow> ('w, ScsiInquiry) io" where
  "Inquiry k d = scsiInquiry k (scsiFd d)"

definition Capacity10_type :: gtype where
  "Capacity10_type = Struct (mkfields [(''LastLba'', U32), (''LbSize'', U32)])"

text \<open>\<^verbatim>\<open>uint64(r.LastLba+1) * uint64(r.LbSize)\<close>: the increment is in 32 bits.\<close>

definition capacity_bytes :: "u32 \<Rightarrow> u32 \<Rightarrow> u64" where
  "capacity_bytes lastLba lbSize = ucast (lastLba + 1) * ucast lbSize"

definition ScsiCapacity :: "'w kernel \<Rightarrow> ScsiDevice \<Rightarrow> ('w, u64) io" where
  "ScsiCapacity k d =
     bindE (scsiSendCdb k (scsiFd d) (cdb10 [SCSI_READ_CAPACITY_10]) (replicate 8 0)) (\<lambda>respBuf.
       retE (map_res (\<lambda>r. capacity_bytes (vu32 (fld r ''LastLba'')) (vu32 (fld r ''LbSize'')))
         (binary_read BigEndian Capacity10_type respBuf)))"

text \<open>
  The serial number in a VPD page 80h: \<^verbatim>\<open>length := buf[3]\<close> is a byte, so \<^verbatim>\<open>4+length\<close> is computed
  in 8 bits.
\<close>

definition vpd_serial :: "u8 list \<Rightarrow> string res" where
  "vpd_serial buf = do {
     page \<leftarrow> idx buf 1;
     if page \<noteq> 0x80 then Err (Errorf ''invalid INQUIRY return page: %0x'' [AInt (uint page)])
     else do {
       len \<leftarrow> idx buf 3;
       s \<leftarrow> subslice buf 4 (unat (4 + len));
       Ok (go_string s) } }"

definition ScsiSerialNumber :: "'w kernel \<Rightarrow> ScsiDevice \<Rightarrow> ('w, string) io" where
  "ScsiSerialNumber k d =
     bindE (scsiInquiryVpd k (scsiFd d) 0x80 (replicate 256 0)) (\<lambda>buf. retE (vpd_serial buf))"

definition OpenScsi :: "'w kernel \<Rightarrow> string \<Rightarrow> ('w, ScsiDevice) io" where
  "OpenScsi k name =
     bindE (unix_Open k name (or O_RDONLY O_CLOEXEC) open_mode) (\<lambda>fd.
       closing k fd (Inquiry k \<lparr>scsiFd = fd\<rparr>) (\<lambda>i.
         let deviceType = Peripheral i AND 0x1f in
         if deviceType \<noteq> 0 then close_fail k fd (Errorf ''not a direct access block device'' [])
         else retE (Ok \<lparr>scsiFd = fd\<rparr>)))"

definition CloseScsi :: "'w kernel \<Rightarrow> ScsiDevice \<Rightarrow> ('w, unit) io" where
  "CloseScsi k d = unix_Close k (scsiFd d)"

definition ScsiType :: "ScsiDevice \<Rightarrow> string" where
  "ScsiType d = ''scsi''"

definition ScsiReadGenericAttributes :: "ScsiDevice \<Rightarrow> GenericAttributes res" where
  "ScsiReadGenericAttributes d = Err ErrUnsupported"

section \<open>The transport\<close>

lemma run_scsiSendCdbSense:
  "cdb \<noteq> [] \<Longrightarrow> run_state (scsiSendCdbSense k fd cdb respBuf) s =
     (case sys_sg k fd SG_IO (sg_hdr cdb respBuf) (world s) of
        ((e, hdr), w) \<Rightarrow>
          (if e \<noteq> 0 then Err (Errno e)
           else map_res (\<lambda>sense. (sense, sg_data hdr respBuf)) (sg_result hdr),
           s\<lparr>world := w, log := log s @ [EvSg fd SG_IO (sg_hdr cdb respBuf)]\<rparr>))"
  by (auto simp: scsiSendCdbSense_def run_bindE ioctl_sg_def split: prod.splits)

lemma sg_result_length: "sg_result hdr = Ok sense \<Longrightarrow> length sense \<le> 96"
  by (auto simp: sg_result_def Let_def scsi_consts subslice_eq_Some split: if_splits)

text \<open>
  A CHECK CONDITION whose sense data fits the buffer hands exactly that data on, whatever the other
  fields of the header hold.
\<close>

lemma sg_sense_result:
  assumes "sgStatus hdr = 2" "unat (sbLenWr hdr) = length sense" "take (length sense) (sbp hdr) = sense"
    and "sense \<noteq> []" "length sense \<le> 96"
  shows "sg_result hdr = Ok sense"
proof -
  have "0 < sbLenWr hdr"
    using assms(2,4) by (metis length_greater_0_conv unat_gt_0 word_coorder.not_eq_extremum)
  moreover have "length sense \<le> length (sbp hdr)"
    using assms(3) by (metis length_take min.cobounded1)
  ultimately show ?thesis
    using assms by (simp add: sg_result_def Let_def scsi_consts overlay_def min_def subslice_eq_Some take_take)
qed

lemma sg_check_result:
  assumes "sense \<noteq> []" "length sense \<le> 96"
  shows "sg_result (snd (sg_check sense hdr)) = Ok sense"
proof -
  have n: "unat (of_nat (length sense) :: u8) = length sense"
    using assms(2) by (simp add: unat_of_nat take_bit_nat_eq_self)
  with assms show ?thesis
    by (intro sg_sense_result) (simp_all add: sg_check_def min_def)
qed

lemma sg_check_errno [simp]: "fst (sg_check sense hdr) = 0"
  by (simp add: sg_check_def)

lemma length_sg_data [simp]: "length (sg_data hdr respBuf) = length respBuf"
  by (simp add: sg_data_def)

text \<open>
  The contract of a transport for CDBs: one event per command, commands touch no descriptor, the
  data buffer keeps its length and the sense data fits the sense buffer.
\<close>

locale cdb_channel =
  fixes send :: "int \<Rightarrow> u8 list \<Rightarrow> u8 list \<Rightarrow> ('w, u8 list \<times> u8 list) io"
    and ev :: "int \<Rightarrow> u8 list \<Rightarrow> u8 list \<Rightarrow> sysevent"
  assumes send_log:
      "cdb \<noteq> [] \<Longrightarrow> log (snd (run_state (send fd cdb resp) s)) = log s @ [ev fd cdb resp]"
    and send_ioctl: "is_ioctl (ev fd cdb resp)"
    and send_length: "run_state (send fd cdb resp) s = (Ok (sense, resp'), s') \<Longrightarrow>
      length resp' = length resp \<and> length sense \<le> 96"
begin

text \<open>A command whose answer only feeds a computation issues exactly that one CDB.\<close>

lemma command_log:
  "cdb \<noteq> [] \<Longrightarrow>
   log (snd (run_state (bindE (send fd cdb resp) (\<lambda>x. retE (g x))) s)) = log s @ [ev fd cdb resp]"
proof -
  assume cdb: "cdb \<noteq> []"
  obtain r s' where run: "run_state (send fd cdb resp) s = (r, s')" by fastforce
  with send_log [OF cdb, of fd resp s] show ?thesis
    by (cases r rule: res_cases) (simp_all add: run_bindE)
qed

lemma send_emits: "cdb \<noteq> [] \<Longrightarrow> P (ev fd cdb resp) \<Longrightarrow> emits P (send fd cdb resp)"
  by (auto simp: emits_def send_log)

lemma send_quiet: "cdb \<noteq> [] \<Longrightarrow> emits is_ioctl (send fd cdb resp)"
  by (rule send_emits) (simp_all add: send_ioctl)

lemma command_quiet:
  "cdb \<noteq> [] \<Longrightarrow> emits is_ioctl (bindE (send fd cdb resp) (\<lambda>x. retE (g x)))"
  by (intro emits_intros send_quiet)

lemma command_panics:
  assumes "fst (run_state (send fd cdb resp) s) \<noteq> None"
    and "\<And>sense resp'. length sense \<le> 96 \<Longrightarrow> length resp' = length resp \<Longrightarrow> g (sense, resp') \<noteq> None"
  shows "fst (run_state (bindE (send fd cdb resp) (\<lambda>x. retE (g x))) s) \<noteq> None"
proof -
  obtain r s' where run: "run_state (send fd cdb resp) s = (r, s')" by fastforce
  show ?thesis
  proof (cases r rule: res_cases)
    case (ok x)
    then obtain sense resp' where "r = Ok (sense, resp')" by (cases x) simp
    then show ?thesis
      using run send_length [of fd cdb resp s sense resp' s'] assms(2)
      by (simp add: run_bindE)
  qed (use run assms(1) in \<open>simp_all add: run_bindE\<close>)
qed

end

interpretation sg: cdb_channel "scsiSendCdbSense k" "\<lambda>fd cdb resp. EvSg fd SG_IO (sg_hdr cdb resp)" for k
proof unfold_locales
  fix cdb :: "u8 list" and fd resp s
  assume "cdb \<noteq> []"
  then show "log (snd (run_state (scsiSendCdbSense k fd cdb resp) s)) =
      log s @ [EvSg fd SG_IO (sg_hdr cdb resp)]"
    by (auto simp: run_scsiSendCdbSense split: prod.splits)
next
  fix fd cdb resp
  show "is_ioctl (EvSg fd SG_IO (sg_hdr cdb resp))" by simp
next
  fix fd cdb resp s sense resp' s'
  assume run: "run_state (scsiSendCdbSense k fd cdb resp) s = (Ok (sense, resp'), s')"
  then have "cdb \<noteq> []" by (auto simp: scsiSendCdbSense_def)
  with run show "length resp' = length resp \<and> length sense \<le> 96"
    by (auto simp: run_scsiSendCdbSense split: prod.splits if_splits dest: sg_result_length)
qed

section \<open>Commands over the transport\<close>

text \<open>
  The documented behaviour of the sg driver that the transport relies on: it never reports more
  sense bytes than the buffer it was given (\<^verbatim>\<open>sb_len_wr <= mx_sb_len\<close>).
\<close>

definition sg_sense_bounded :: "'w kernel \<Rightarrow> bool" where
  "sg_sense_bounded k \<longleftrightarrow>
     (\<forall>fd cmd hdr w. sbLenWr (snd (fst (sys_sg k fd cmd hdr w))) \<le> mxSbLen hdr)"

lemma sg_result_no_panic: "sbLenWr hdr \<le> 96 \<Longrightarrow> sg_result hdr \<noteq> None"
  by (auto simp: sg_result_def Let_def scsi_consts subslice_eq_None word_le_nat_alt)

lemma scsiSendCdbSense_no_panic:
  assumes "sg_sense_bounded k" "cdb \<noteq> []"
  shows "fst (run_state (scsiSendCdbSense k fd cdb resp) s) \<noteq> None"
proof -
  obtain e hdr w where call: "sys_sg k fd SG_IO (sg_hdr cdb resp) (world s) = ((e, hdr), w)"
    by (metis prod.exhaust)
  have "sbLenWr (snd (fst (sys_sg k fd SG_IO (sg_hdr cdb resp) (world s)))) \<le> mxSbLen (sg_hdr cdb resp)"
    using assms(1) by (simp add: sg_sense_bounded_def)
  then have "sbLenWr hdr \<le> mxSbLen (sg_hdr cdb resp)"
    by (simp only: call fst_conv snd_conv)
  then have "sbLenWr hdr \<le> 96"
    by (simp add: sg_hdr_def scsiSenseBufSize_def)
  then show ?thesis
    using assms(2) call sg_result_no_panic [of hdr]
    by (simp add: run_scsiSendCdbSense del: not_None_eq)
qed

lemma run_scsiSendCdb:
  "cdb \<noteq> [] \<Longrightarrow> run_state (scsiSendCdb k fd cdb respBuf) s =
     (case sys_sg k fd SG_IO (sg_hdr cdb respBuf) (world s) of
        ((e, hdr), w) \<Rightarrow>
          (if e \<noteq> 0 then Err (Errno e) else map_res (\<lambda>_. sg_data hdr respBuf) (sg_result hdr),
           s\<lparr>world := w, log := log s @ [EvSg fd SG_IO (sg_hdr cdb respBuf)]\<rparr>))"
  by (cases "sg_result (snd (fst (sys_sg k fd SG_IO (sg_hdr cdb respBuf) (world s))))" rule: res_cases)
    (auto simp: scsiSendCdb_def run_bindE run_scsiSendCdbSense split: prod.splits)

lemma scsiSendCdb_quiet [emits_intros]: "cdb \<noteq> [] \<Longrightarrow> emits is_ioctl (scsiSendCdb k fd cdb resp)"
  unfolding scsiSendCdb_def by (auto intro!: emits_intros sg.send_quiet split: prod.splits)

lemma scsiSendCdb_emits:
  "cdb \<noteq> [] \<Longrightarrow> P (EvSg fd SG_IO (sg_hdr cdb resp)) \<Longrightarrow> emits P (scsiSendCdb k fd cdb resp)"
  unfolding scsiSendCdb_def by (auto intro!: emits_intros sg.send_emits split: prod.splits)

lemma scsiSendCdbSense_panic_free [panic_intros]:
  "sg_sense_bounded k \<Longrightarrow> cdb \<noteq> [] \<Longrightarrow> panic_free (scsiSendCdbSense k fd cdb resp)"
  unfolding panic_free_def by (intro allI scsiSendCdbSense_no_panic)

lemma scsiSendCdb_panic_free [panic_intros]:
  "sg_sense_bounded k \<Longrightarrow> cdb \<noteq> [] \<Longrightarrow> panic_free (scsiSendCdb k fd cdb resp)"
  unfolding scsiSendCdb_def by (auto intro!: panic_intros)

lemma scsiSendCdb_length: "cdb \<noteq> [] \<Longrightarrow> delivers (scsiSendCdb k fd cdb resp) (\<lambda>buf. length buf = length resp)"
  unfolding delivers_def
  by (auto simp: run_scsiSendCdb split: prod.splits if_splits option.splits sum.splits)

lemma put_be16_nonempty [simp]: "put_be16 b i w = [] \<longleftrightarrow> b = []"
  by (simp add: put_be16_def)

lemma cdb_nonempty [simp]: "cdb6 bs \<noteq> []" "cdb10 bs \<noteq> []" "cdb16 bs \<noteq> []"
  by (auto simp: cdb6_def cdb10_def cdb16_def)

lemma length_cdb16: "length bs \<le> 16 \<Longrightarrow> length (cdb16 bs) = 16"
  by (simp add: cdb16_def)

lemma scsiInquiry_emits:
  "(\<And>cdb resp. P (EvSg fd SG_IO (sg_hdr cdb resp))) \<Longrightarrow> emits P (scsiInquiry k fd)"
  unfolding scsiInquiry_def Let_def by (intro emits_intros scsiSendCdb_emits) simp_all

lemma scsiInquiry_panic_free [panic_intros]: "sg_sense_bounded k \<Longrightarrow> panic_free (scsiInquiry k fd)"
  unfolding scsiInquiry_def Let_def
  by (intro panic_intros) (simp_all add: binary_read_def)

text \<open>
  C8. \<^verbatim>\<open>scsiSendCdb\<close> succeeds exactly when the ioctl does and the command either ended in a CHECK
  CONDITION with sense data that fits the buffer or left the driver's \<^verbatim>\<open>info\<close> clean; the data
  buffer it returns is what the kernel wrote over the caller's.
\<close>

theorem scsiSendCdb_outcome:
  assumes "cdb \<noteq> []" "sys_sg k fd SG_IO (sg_hdr cdb resp) (world s) = ((e, hdr), w)"
  shows "fst (run_state (scsiSendCdb k fd cdb resp) s) = Ok buf \<longleftrightarrow>
    e = 0 \<and> buf = sg_data hdr resp \<and>
    (if sgStatus hdr = SAM_STAT_CHECK_CONDITION \<and> sbLenWr hdr > 0 then unat (sbLenWr hdr) \<le> 96
     else sgInfo hdr AND SG_INFO_OK_MASK = SG_INFO_OK)"
  using assms
  by (auto simp: run_scsiSendCdb sg_result_def Let_def subslice_eq_Some scsiSenseBufSize_def)

theorem scsiSendCdb_outcome_witness:
  "fst (run_state (scsiSendCdb (sample_kernel (sg_good [7, 8]) undefined) 3 [1] [0, 0, 5]) sample_sys)
     = Ok [7, 8, 5]"
  by (subst scsiSendCdb_outcome
      [where e = 0 and w = "()" and hdr = "snd (sg_good [7, 8] (sg_hdr [1] [0, 0, 5]))"])
    (simp_all add: sg_good_def sg_hdr_def sg_data_def overlay_def scsi_consts)

text \<open>
  With the documented bound on the driver's sense length, no command panics, whatever the
  device answers.
\<close>

theorem scsiSendCdb_no_panic:
  assumes "sg_sense_bounded k" "cdb \<noteq> []"
  shows "fst (run_state (scsiSendCdb k fd cdb resp) s) \<noteq> None"
  unfolding scsiSendCdb_def split_def
  using assms by (intro sg.command_panics scsiSendCdbSense_no_panic) simp_all

lemma sg_sense_bounded_good: "sg_sense_bounded (sample_kernel (\<lambda>hdr. (0, hdr\<lparr>sbLenWr := 0\<rparr>)) g)"
  by (simp add: sg_sense_bounded_def)

theorem scsiSendCdb_no_panic_witness:
  "fst (run_state (scsiSendCdb (sample_kernel (\<lambda>hdr. (0, hdr\<lparr>sbLenWr := 0\<rparr>)) undefined) 3 [1] [0])
     sample_sys) \<noteq> None"
  by (rule scsiSendCdb_no_panic) (simp_all add: sg_sense_bounded_good)

text \<open>
  A command that the device refuses with a CHECK CONDITION counts as a success of
  \<^verbatim>\<open>scsiSendCdb\<close>, whatever the sense data says: it drops the sense data it is given.
\<close>

theorem scsiSendCdb_swallows_check_condition:
  assumes "cdb \<noteq> []" "sys_sg k fd SG_IO (sg_hdr cdb resp) (world s) = ((0, hdr), w)"
    and "sgStatus hdr = SAM_STAT_CHECK_CONDITION" "0 < sbLenWr hdr" "sbLenWr hdr \<le> 96"
  shows "fst (run_state (scsiSendCdb k fd cdb resp) s) = Ok (sg_data hdr resp)"
  using assms
  by (auto simp: run_scsiSendCdb sg_result_def Let_def scsiSenseBufSize_def word_le_nat_alt)

theorem scsiSendCdb_swallows_check_condition_witness:
  "fst (run_state (scsiSendCdb (sample_kernel (sg_check [0x70, 0, 0x05]) undefined) 3 [0x85] [9]) sample_sys)
     = Ok [9]"
proof -
  let ?k = "sample_kernel (sg_check [0x70, 0, 0x05]) undefined"
  have "fst (run_state (scsiSendCdb ?k 3 [0x85] [9]) sample_sys) =
      Ok (sg_data (snd (sg_check [0x70, 0, 0x05] (sg_hdr [0x85] [9]))) [9])"
    by (rule scsiSendCdb_swallows_check_condition)
      (simp_all add: sg_check_def SAM_STAT_CHECK_CONDITION_def)
  then show ?thesis
    by (simp add: sg_check_def sg_hdr_def sg_data_def overlay_def)
qed

section \<open>INQUIRY, capacity and serial number\<close>

text \<open>The size of a unit: \<open>LastLba + 1\<close> blocks, counted modulo \<open>2\<^sup>3\<^sup>2\<close>.\<close>

lemma unat_capacity_bytes:
  "unat (capacity_bytes l b) = ((unat l + 1) mod 2 ^ 32) * unat b"
proof -
  have "unat (l + 1) = (unat l + 1) mod 2 ^ 32"
    by (simp add: unat_word_ariths)
  moreover have "unat (l + 1) * unat b < 2 ^ 32 * 2 ^ 32"
    using unsigned_less [of "l + 1", where ?'a = nat] unsigned_less [of b, where ?'a = nat]
    by (intro mult_strict_mono') simp_all
  ultimately show ?thesis
    by (simp add: capacity_bytes_def unat_word_ariths unat_ucast_up)
qed

text \<open>
  C40. READ CAPACITY(10): a device that answers with the big-endian last block address \<open>L\<close> and
  block size \<open>B\<close> makes \<^verbatim>\<open>Capacity\<close> return \<open>((L + 1) mod 2\<^sup>3\<^sup>2) * B\<close>. For the answer
  \<open>L = 2\<^sup>3\<^sup>2 - 1\<close>, which stands for a unit too large for this command, that is 0.
\<close>

theorem ScsiCapacity_value:
  fixes L B :: u32
  assumes "sys_sg k (scsiFd d) SG_IO (sg_hdr (cdb10 [SCSI_READ_CAPACITY_10]) (replicate 8 0)) (world s)
      = ((0, hdr), w)"
    and "sgStatus hdr = 0" "sgInfo hdr = 0" "dxferp hdr = Some (be_bytes 4 L @ be_bytes 4 B)"
  shows "\<exists>c. fst (run_state (ScsiCapacity k d) s) = Ok c \<and>
    unat c = ((unat L + 1) mod 2 ^ 32) * unat B"
proof -
  let ?buf = "be_bytes 4 L @ be_bytes 4 B"
  have data: "sg_data hdr (replicate 8 0) = ?buf"
    using assms(4) by (simp add: sg_data_def overlay_def)
  have L: "be_word (be_bytes 4 L) = L" and B: "be_word (be_bytes 4 B) = B"
    by (simp_all add: be_word_be_bytes take_bit_word_eq_self)
  have "binary_read BigEndian Capacity10_type ?buf =
      Ok (VStruct [(''LastLba'', VU32 L), (''LbSize'', VU32 B)])"
    by (simp add: binary_read_def Capacity10_type_def L B)
  then show ?thesis
    using assms(1-3) data
    by (auto simp: ScsiCapacity_def run_bindE run_scsiSendCdb sg_result_def scsi_consts fld_def
        unat_capacity_bytes)
qed

theorem ScsiCapacity_value_witness:
  "\<exists>c. fst (run_state (ScsiCapacity (sample_kernel (sg_good (be_bytes 4 (7 :: u32) @ be_bytes 4 (512 :: u32)))
      undefined) \<lparr>scsiFd = 3\<rparr>) sample_sys) = Ok c \<and> unat c = ((unat (7 :: u32) + 1) mod 2 ^ 32) * unat (512 :: u32)"
  by (rule ScsiCapacity_value [where w = "()" and hdr = "snd (sg_good (be_bytes 4 (7 :: u32) @ be_bytes 4 (512 :: u32))
      (sg_hdr (cdb10 [SCSI_READ_CAPACITY_10]) (replicate 8 0)))"])
    (simp_all add: sg_good_def sg_hdr_def)

lemma vpd_serial_eq:
  assumes "length buf = 256"
  shows "vpd_serial buf =
    (if buf ! 1 \<noteq> 0x80 then Err (Errorf ''invalid INQUIRY return page: %0x'' [AInt (uint (buf ! 1))])
     else if unat (buf ! 3) \<le> 251 then Ok (go_string (take (unat (buf ! 3)) (drop 4 buf)))
     else None)"
proof -
  have n: "unat (4 + buf ! 3) = (4 + unat (buf ! 3)) mod 256"
    by (simp add: unat_word_ariths)
  show ?thesis
  proof (cases "unat (buf ! 3) \<le> 251")
    case True
    then have "unat (4 + buf ! 3) = 4 + unat (buf ! 3)"
      using n by simp
    with True assms show ?thesis
      by (simp add: vpd_serial_def)
  next
    case False
    then have "unat (4 + buf ! 3) = unat (buf ! 3) - 252"
      using n unsigned_less [of "buf ! 3", where ?'a = nat]
      by (simp add: mod_if)
    moreover have "unat (buf ! 3) - 252 < 4"
      using unsigned_less [of "buf ! 3", where ?'a = nat] by simp
    ultimately have "subslice buf 4 (unat (4 + buf ! 3)) = None"
      by (simp add: subslice_eq_None)
    with False assms show ?thesis
      by (simp add: vpd_serial_def)
  qed
qed

text \<open>
  C39. The unit serial number page: a page of length at most 251 gives exactly the bytes behind its
  header; a longer one panics, as \<^verbatim>\<open>4+length\<close> wraps around in 8 bits and the slice bounds cross.
\<close>

theorem vpd_serial_spec:
  assumes "length buf = 256" "buf ! 1 = 0x80"
  shows "vpd_serial buf =
    (if unat (buf ! 3) \<le> 251 then Ok (go_string (take (unat (buf ! 3)) (drop 4 buf))) else None)"
  using assms by (simp add: vpd_serial_eq)

theorem vpd_serial_spec_witness:
  "vpd_serial ([0, 0x80, 0, 2, 65, 66] @ replicate 250 0) = Ok ''AB'' \<and>
   vpd_serial ([0, 0x80, 0, 252] @ replicate 252 0) = None"
  by (subst (1 2) vpd_serial_spec) (simp_all, code_simp)

lemma ScsiInquiry_layout:
  "fsize ScsiInquiry_fields = 36"
  "field_type ScsiInquiry_fields ''Peripheral'' = Some U8" "field_off ScsiInquiry_fields ''Peripheral'' = 0"
  "field_type ScsiInquiry_fields ''RespLength'' = Some U8" "field_off ScsiInquiry_fields ''RespLength'' = 4"
  "field_type ScsiInquiry_fields ''VendorIdent'' = Some (Arr 8 U8)"
  "field_off ScsiInquiry_fields ''VendorIdent'' = 8"
  "field_type ScsiInquiry_fields ''ProductIdent'' = Some (Arr 16 U8)"
  "field_off ScsiInquiry_fields ''ProductIdent'' = 16"
  "field_type ScsiInquiry_fields ''ProductRev'' = Some (Arr 4 U8)"
  "field_off ScsiInquiry_fields ''ProductRev'' = 32"
  by (simp_all add: ScsiInquiry_fields_def)

text \<open>
  The fields of an INQUIRY answer are the bytes at the offsets the SCSI standard gives them;
  an answer shorter than the 36 bytes of the standard data is refused.
\<close>

theorem ScsiInquiry_offsets:
  "(length buf < 36 \<longrightarrow> binary_read BigEndian ScsiInquiry_type buf = Err UnexpectedEOF) \<and>
   (36 \<le> length buf \<longrightarrow>
     (\<exists>v. binary_read BigEndian ScsiInquiry_type buf = Ok v \<and>
       Peripheral (ScsiInquiry_of v) = buf ! 0 \<and>
       RespLength (ScsiInquiry_of v) = buf ! 4 \<and>
       VendorIdent (ScsiInquiry_of v) = take 8 (drop 8 buf) \<and>
       ProductIdent (ScsiInquiry_of v) = take 16 (drop 16 buf) \<and>
       ProductRev (ScsiInquiry_of v) = take 4 (drop 32 buf)))"
proof (cases "length buf < 36")
  case False
  then have "buf \<noteq> []" by auto
  with False show ?thesis
    by (auto simp: binary_read_def ScsiInquiry_type_def ScsiInquiry_of_def fld_dec ScsiInquiry_layout
        vu8_dec0 vu8_dec vbytes_dec simp del: dec.simps)
qed (simp add: binary_read_def ScsiInquiry_type_def ScsiInquiry_layout)

theorem ScsiInquiry_offsets_witness:
  "\<exists>v. binary_read BigEndian ScsiInquiry_type (replicate 36 7) = Ok v \<and> Peripheral (ScsiInquiry_of v) = 7"
  using ScsiInquiry_offsets [of "replicate 36 7"] by auto

section \<open>The text of a transport error\<close>

text \<open>\<^verbatim>\<open>%#02x\<close>: lower case hexadecimal, at least two digits, behind \<^verbatim>\<open>0x\<close>.\<close>

definition hex_digit :: "nat \<Rightarrow> char" where
  "hex_digit d = (if d < 10 then char_of (48 + d) else char_of (87 + d))"

fun hex_digits :: "nat \<Rightarrow> string" where
  "hex_digits n = (if n < 16 then [hex_digit n] else hex_digits (n div 16) @ [hex_digit (n mod 16)])"

declare hex_digits.simps [simp del]

definition sharp02x :: "u32 \<Rightarrow> string" where
  "sharp02x w = ''0x'' @ (if w < 16 then ''0'' else '''') @ hex_digits (unat w)"

definition sgioError_Error :: "u32 \<Rightarrow> u32 \<Rightarrow> u32 \<Rightarrow> string" where
  "sgioError_Error host device driver =
     ''SCSI status: '' @ sharp02x device @ '', transport status: '' @ sharp02x host @
     '', driver status: '' @ sharp02x driver"

definition hex_value :: "char \<Rightarrow> nat" where
  "hex_value c = (let n = of_char c in if n < 58 then n - 48 else n - 87)"

definition read_hex :: "string \<Rightarrow> nat" where
  "read_hex s = foldl (\<lambda>n c. 16 * n + hex_value c) 0 s"

lemma hex_value_digit: "d < 16 \<Longrightarrow> hex_value (hex_digit d) = d"
  by (simp add: hex_value_def hex_digit_def Let_def take_bit_eq_mod)

lemma read_hex_digits: "read_hex (hex_digits n) = n"
proof (induction n rule: hex_digits.induct)
  case (1 n)
  then show ?case by (subst hex_digits.simps) (simp add: read_hex_def hex_value_digit)
qed

text \<open>The status words can be read back from the text.\<close>

lemma sharp02x_reads: "read_hex (drop 2 (sharp02x w)) = unat w"
proof -
  have "hex_value CHR ''0'' = 0" by (simp add: hex_value_def)
  then have "read_hex (CHR ''0'' # s) = read_hex s" for s by (simp add: read_hex_def)
  then show ?thesis by (simp add: sharp02x_def read_hex_digits)
qed

lemma sharp02x_inject: "sharp02x v = sharp02x w \<longleftrightarrow> v = w"
  by (metis sharp02x_reads word_unat_eq_iff)

section \<open>Opening\<close>

lemma OpenScsi_owns: "owns {#} (OpenScsi k name) (\<lambda>d. {#scsiFd d#})"
  unfolding OpenScsi_def Inquiry_def Let_def
  by (auto intro!: owns_intros emits_intros scsiInquiry_emits)

lemma OpenScsi_emits:
  "(\<And>r. P (EvOpen name (or O_RDONLY O_CLOEXEC) r)) \<Longrightarrow> (\<And>fd. P (EvClose fd)) \<Longrightarrow>
   (\<And>fd cdb resp. P (EvSg fd SG_IO (sg_hdr cdb resp))) \<Longrightarrow> emits P (OpenScsi k name)"
  unfolding OpenScsi_def Inquiry_def Let_def
  by (auto intro!: emits_intros scsiInquiry_emits)

interpretation scsi_opener: opener "OpenScsi k" scsiFd for k
  by unfold_locales (auto intro!: OpenScsi_owns OpenScsi_emits)

end
