(* ===== verification/AtaIdentify.thy ===== *)
theory AtaIdentify
  imports GoBinary GoText
begin

text \<open>
  The first half of \<^verbatim>\<open>sata.go\<close>: the page checksum, the ATA IDENTIFY DEVICE page with its field
  layout, and the methods that read it. The lemmas place every field at the word the ATA standard
  gives it and state what the methods compute: the feature predicates on bits, the names as
  unpadded text, the capacity as exact products and its one multiplication that may wrap around.
\<close>

definition SATA_IDENT :: string where "SATA_IDENT = ''ATA     ''"
definition SCSI_ATA_PASSTHRU_16 :: u8 where "SCSI_ATA_PASSTHRU_16 = 0x85"
definition ATA_SMART :: u8 where "ATA_SMART = 0xb0"
definition ATA_IDENTIFY_DEVICE :: u8 where "ATA_IDENTIFY_DEVICE = 0xec"
definition SMART_READ_DATA :: u8 where "SMART_READ_DATA = 0xd0"
definition SMART_READ_THRESHOLDS :: u8 where "SMART_READ_THRESHOLDS = 0xd1"
definition SMART_READ_LOG :: u8 where "SMART_READ_LOG = 0xd5"
definition SMART_RETURN_STATUS :: u8 where "SMART_RETURN_STATUS = 0xda"

section \<open>Checksum\<close>

definition checksum :: "u8 list \<Rightarrow> bool" where
  "checksum data = (foldl (\<lambda>sum b. sum + b) 0 data = 0)"

section \<open>The IDENTIFY page\<close>

text \<open>The named fields, the wire layout in three parts, and the reading of a decoded page.\<close>

record AtaIdentifyDevice =
  GeneralConfig :: u16
  SerialNumberRaw :: "u8 list"
  FirmwareRevisionRaw :: "u8 list"
  ModelNumberRaw :: "u8 list"
  Capabilities :: "u16 list"
  CapacityLba28 :: u32
  QueueDepth :: u16
  SATACap :: u16
  SATACapAddl :: u16
  FeaturesSupported :: u16
  FeaturesEnabled :: u16
  MajorVersion :: u16
  MinorVersion :: u16
  CommandsSupported1 :: u16
  CommandsSupported2 :: u16
  CommandsSupported3 :: u16
  CommandsEnabled1 :: u16
  CommandsEnabled2 :: u16
  CommandsEnabled3 :: u16
  DMAModes :: u16
  CurrentApmLevelRaw :: u16
  ResetResults :: u16
  CapacityLba48 :: u64
  LogicalPerPhisicalSectors :: u16
  InterSeekDelay :: u16
  WWNRaw :: "u16 list"
  LogicalSectorSize :: "u16 list"
  CommandsSupported4 :: u16
  CommandsEnabled4 :: u16
  LogicalSectorOffset :: u16
  RotationRate :: u16
  TransportMajor :: u16

definition AtaIdentify_words_0_79 :: "(string \<times> gtype) list" where
  "AtaIdentify_words_0_79 =
    [(''GeneralConfig'', U16), (''_'', Arr 9 U16), (''SerialNumberRaw'', Arr 20 U8),
     (''_'', Arr 3 U16), (''FirmwareRevisionRaw'', Arr 8 U8), (''ModelNumberRaw'', Arr 40 U8),
     (''_'', Arr 2 U16), (''Capabilities'', Arr 2 U16), (''_'', Arr 9 U16),
     (''CapacityLba28'', U32), (''_'', Arr 13 U16), (''QueueDepth'', U16), (''SATACap'', U16),
     (''SATACapAddl'', U16), (''FeaturesSupported'', U16), (''FeaturesEnabled'', U16)]"

definition AtaIdentify_words_80_92 :: "(string \<times> gtype) list" where
  "AtaIdentify_words_80_92 =
    [(''MajorVersion'', U16), (''MinorVersion'', U16), (''CommandsSupported1'', U16),
     (''CommandsSupported2'', U16), (''CommandsSupported3'', U16), (''CommandsEnabled1'', U16),
     (''CommandsEnabled2'', U16), (''CommandsEnabled3'', U16), (''DMAModes'', U16),
     (''_'', Arr 2 U16), (''CurrentApmLevelRaw'', U16), (''_'', Arr 1 U16)]"

definition AtaIdentify_words_93_255 :: "(string \<times> gtype) list" where
  "AtaIdentify_words_93_255 =
    [(''ResetResults'', U16), (''_'', Arr 6 U16), (''CapacityLba48'', U64), (''_'', Arr 2 U16),
     (''LogicalPerPhisicalSectors'', U16), (''InterSeekDelay'', U16), (''WWNRaw'', Arr 4 U16),
     (''_'', Arr 5 U16), (''LogicalSectorSize'', Arr 2 U16), (''CommandsSupported4'', U16),
     (''CommandsEnabled4'', U16), (''_'', Arr 88 U16), (''LogicalSectorOffset'', U16),
     (''_'', Arr 7 U16), (''RotationRate'', U16), (''_'', Arr 4 U16), (''TransportMajor'', U16),
     (''_'', Arr 33 U16)]"

definition AtaIdentifyDevice_fields :: gfields where
  "AtaIdentifyDevice_fields =
    mkfields (AtaIdentify_words_0_79 @ AtaIdentify_words_80_92 @ AtaIdentify_words_93_255)"

definition AtaIdentifyDevice_type :: gtype where
  "AtaIdentifyDevice_type = Struct AtaIdentifyDevice_fields"

definition AtaIdentifyDevice_of :: "gval \<Rightarrow> AtaIdentifyDevice" where
  "AtaIdentifyDevice_of v =
    \<lparr>GeneralConfig = vu16 (fld v ''GeneralConfig''),
      SerialNumberRaw = vbytes (fld v ''SerialNumberRaw''),
      FirmwareRevisionRaw = vbytes (fld v ''FirmwareRevisionRaw''),
      ModelNumberRaw = vbytes (fld v ''ModelNumberRaw''),
      Capabilities = map vu16 (varr (fld v ''Capabilities'')),
      CapacityLba28 = vu32 (fld v ''CapacityLba28''), QueueDepth = vu16 (fld v ''QueueDepth''),
      SATACap = vu16 (fld v ''SATACap''), SATACapAddl = vu16 (fld v ''SATACapAddl''),
      FeaturesSupported = vu16 (fld v ''FeaturesSupported''),
      FeaturesEnabled = vu16 (fld v ''FeaturesEnabled''),
      MajorVersion = vu16 (fld v ''MajorVersion''), MinorVersion = vu16 (fld v ''MinorVersion''),
      CommandsSupported1 = vu16 (fld v ''CommandsSupported1''),
      CommandsSupported2 = vu16 (fld v ''CommandsSupported2''),
      CommandsSupported3 = vu16 (fld v ''CommandsSupported3''),
      CommandsEnabled1 = vu16 (fld v ''CommandsEnabled1''),
      CommandsEnabled2 = vu16 (fld v ''CommandsEnabled2''),
      CommandsEnabled3 = vu16 (fld v ''CommandsEnabled3''), DMAModes = vu16 (fld v ''DMAModes''),
      CurrentApmLevelRaw = vu16 (fld v ''CurrentApmLevelRaw''),
      ResetResults = vu16 (fld v ''ResetResults''),
      CapacityLba48 = vu64 (fld v ''CapacityLba48''),
      LogicalPerPhisicalSectors = vu16 (fld v ''LogicalPerPhisicalSectors''),
      InterSeekDelay = vu16 (fld v ''InterSeekDelay''),
      WWNRaw = map vu16 (varr (fld v ''WWNRaw'')),
      LogicalSectorSize = map vu16 (varr (fld v ''LogicalSectorSize'')),
      CommandsSupported4 = vu16 (fld v ''CommandsSupported4''),
      CommandsEnabled4 = vu16 (fld v ''CommandsEnabled4''),
      LogicalSectorOffset = vu16 (fld v ''LogicalSectorOffset''),
      RotationRate = vu16 (fld v ''RotationRate''),
      TransportMajor = vu16 (fld v ''TransportMajor'')\<rparr>"

section \<open>Methods\<close>

definition isWordSignatureValid :: "u16 \<Rightarrow> bool" where
  "isWordSignatureValid w = (w AND push_bit 14 3 = push_bit 14 1)"

definition IsGeneralPurposeLoggingCapable :: "AtaIdentifyDevice \<Rightarrow> bool" where
  "IsGeneralPurposeLoggingCapable a =
     (if isWordSignatureValid (CommandsSupported3 a)
      then CommandsSupported3 a AND push_bit 5 1 \<noteq> 0
      else if isWordSignatureValid (CommandsEnabled3 a)
      then CommandsEnabled3 a AND push_bit 5 1 \<noteq> 0
      else False)"

definition EpcSupported :: "AtaIdentifyDevice \<Rightarrow> bool" where
  "EpcSupported i =
     (if CommandsEnabled2 i AND 0x8000 = 0 \<or> \<not> isWordSignatureValid (CommandsSupported4 i) then False
      else CommandsSupported4 i AND push_bit 7 1 \<noteq> 0)"

definition EpcEnabled :: "AtaIdentifyDevice \<Rightarrow> bool" where
  "EpcEnabled i =
     (if CommandsEnabled2 i AND 0x8000 = 0 \<or> \<not> isWordSignatureValid (CommandsEnabled4 i) then False
      else CommandsEnabled4 i AND push_bit 7 1 \<noteq> 0)"

definition ApmSupported :: "AtaIdentifyDevice \<Rightarrow> bool" where
  "ApmSupported i =
     (if \<not> isWordSignatureValid (CommandsSupported2 i) then False
      else CommandsSupported2 i AND push_bit 3 1 \<noteq> 0)"

definition ApmEnabled :: "AtaIdentifyDevice \<Rightarrow> bool" where
  "ApmEnabled i = (CommandsEnabled2 i AND push_bit 3 1 \<noteq> 0)"

definition CurrentApmLevel :: "AtaIdentifyDevice \<Rightarrow> u8" where
  "CurrentApmLevel i = ucast (CurrentApmLevelRaw i)"

definition UnloadSupported :: "AtaIdentifyDevice \<Rightarrow> bool" where
  "UnloadSupported i =
     (if \<not> isWordSignatureValid (CommandsSupported3 i) then False
      else CommandsSupported3 i AND push_bit 13 1 \<noteq> 0)"

text \<open>The indices are within the arrays' lengths (4 and 2), which the type checks in Go.\<close>

definition WWN :: "AtaIdentifyDevice \<Rightarrow> u64" where
  "WWN i =
     (let raw = WWNRaw i in
      push_bit 48 (ucast (raw ! 0)) + push_bit 32 (ucast (raw ! 1)) + push_bit 16 (ucast (raw ! 2))
        + ucast (raw ! 3))"

text \<open>The loop over pairs: \<^verbatim>\<open>in[i+1]\<close> is out of range for the last byte of an odd length.\<close>

fun swap_pairs :: "u8 list \<Rightarrow> u8 list option" where
  "swap_pairs [] = Some []"
| "swap_pairs [a] = None"
| "swap_pairs (a # b # bs) = map_option (\<lambda>r. b # a # r) (swap_pairs bs)"

definition fromAtaString :: "u8 list \<Rightarrow> string option" where
  "fromAtaString inp = do { swapped \<leftarrow> swap_pairs inp; Some (go_string (TrimSpace swapped)) }"

definition AtaModelNumber :: "AtaIdentifyDevice \<Rightarrow> string option" where
  "AtaModelNumber i = fromAtaString (ModelNumberRaw i)"

definition AtaSerialNumber :: "AtaIdentifyDevice \<Rightarrow> string option" where
  "AtaSerialNumber i = fromAtaString (SerialNumberRaw i)"

definition AtaFirmwareRevision :: "AtaIdentifyDevice \<Rightarrow> string option" where
  "AtaFirmwareRevision i = fromAtaString (FirmwareRevisionRaw i)"

text \<open>The five results of \<^verbatim>\<open>Capacity\<close>.\<close>

record AtaCapacity =
  sectors :: u64
  capacity :: u64
  logicalSectorSize :: u64
  physicalSectorSize :: u64
  logicalSectorOffset :: u64

definition AtaIdentify_Capacity :: "AtaIdentifyDevice \<Rightarrow> AtaCapacity" where
  "AtaIdentify_Capacity i =
     (let none = \<lparr>sectors = 0, capacity = 0, logicalSectorSize = 0, physicalSectorSize = 0,
        logicalSectorOffset = 0\<rparr> in
      if Capabilities i ! 0 AND 0x0200 = 0 then none
      else
        let lba28 = ucast (CapacityLba28 i);
            lba48 = (if CommandsSupported2 i AND 0x400 \<noteq> 0 then CapacityLba48 i else 0) in
        if lba28 = 0 \<and> lba48 = 0 then none
        else
          let lls = LogicalPerPhisicalSectors i AND 0x1000 \<noteq> 0;
              lss = (if lls
                then push_bit 1 (push_bit 16 (ucast (LogicalSectorSize i ! 1)) OR
                  ucast (LogicalSectorSize i ! 0)) else 512);
              pss = (if lls then lss else 512);
              pss' = (if LogicalPerPhisicalSectors i AND 0x2000 \<noteq> 0
                then push_bit (unat (LogicalPerPhisicalSectors i AND 0x0f)) pss else pss);
              off = ucast (LogicalSectorOffset i AND 0x3fff) * lss;
              n = (if lba48 \<ge> lba28 \<or> (lba48 \<noteq> 0 \<and> lss > 512) then lba48 else lba28)
          in \<lparr>sectors = n, capacity = n * lss, logicalSectorSize = lss, physicalSectorSize = pss',
               logicalSectorOffset = off\<rparr>)"

section \<open>Layout\<close>

lemma AtaIdentify_layout:
  "fsize AtaIdentifyDevice_fields = 512"
  "field_type AtaIdentifyDevice_fields ''GeneralConfig'' = Some U16"
  "field_off AtaIdentifyDevice_fields ''GeneralConfig'' = 0"
  "field_type AtaIdentifyDevice_fields ''SerialNumberRaw'' = Some (Arr 20 U8)"
  "field_off AtaIdentifyDevice_fields ''SerialNumberRaw'' = 20"
  "field_type AtaIdentifyDevice_fields ''FirmwareRevisionRaw'' = Some (Arr 8 U8)"
  "field_off AtaIdentifyDevice_fields ''FirmwareRevisionRaw'' = 46"
  "field_type AtaIdentifyDevice_fields ''ModelNumberRaw'' = Some (Arr 40 U8)"
  "field_off AtaIdentifyDevice_fields ''ModelNumberRaw'' = 54"
  "field_type AtaIdentifyDevice_fields ''Capabilities'' = Some (Arr 2 U16)"
  "field_off AtaIdentifyDevice_fields ''Capabilities'' = 98"
  "field_type AtaIdentifyDevice_fields ''CapacityLba28'' = Some U32"
  "field_off AtaIdentifyDevice_fields ''CapacityLba28'' = 120"
  "field_type AtaIdentifyDevice_fields ''QueueDepth'' = Some U16"
  "field_off AtaIdentifyDevice_fields ''QueueDepth'' = 150"
  "field_type AtaIdentifyDevice_fields ''SATACap'' = Some U16"
  "field_off AtaIdentifyDevice_fields ''SATACap'' = 152"
  "field_type AtaIdentifyDevice_fields ''SATACapAddl'' = Some U16"
  "field_off AtaIdentifyDevice_fields ''SATACapAddl'' = 154"
  "field_type AtaIdentifyDevice_fields ''FeaturesSupported'' = Some U16"
  "field_off AtaIdentifyDevice_fields ''FeaturesSupported'' = 156"
  "field_type AtaIdentifyDevice_fields ''FeaturesEnabled'' = Some U16"
  "field_off AtaIdentifyDevice_fields ''FeaturesEnabled'' = 158"
  "field_type AtaIdentifyDevice_fields ''MajorVersion'' = Some U16"
  "field_off AtaIdentifyDevice_fields ''MajorVersion'' = 160"
  "field_type AtaIdentifyDevice_fields ''MinorVersion'' = Some U16"
  "field_off AtaIdentifyDevice_fields ''MinorVersion'' = 162"
  "field_type AtaIdentifyDevice_fields ''CommandsSupported1'' = Some U16"
  "field_off AtaIdentifyDevice_fields ''CommandsSupported1'' = 164"
  "field_type AtaIdentifyDevice_fields ''CommandsSupported2'' = Some U16"
  "field_off AtaIdentifyDevice_fields ''CommandsSupported2'' = 166"
  "field_type AtaIdentifyDevice_fields ''CommandsSupported3'' = Some U16"
  "field_off AtaIdentifyDevice_fields ''CommandsSupported3'' = 168"
  "field_type AtaIdentifyDevice_fields ''CommandsEnabled1'' = Some U16"
  "field_off AtaIdentifyDevice_fields ''CommandsEnabled1'' = 170"
  "field_type AtaIdentifyDevice_fields ''CommandsEnabled2'' = Some U16"
  "field_off AtaIdentifyDevice_fields ''CommandsEnabled2'' = 172"
  "field_type AtaIdentifyDevice_fields ''CommandsEnabled3'' = Some U16"
  "field_off AtaIdentifyDevice_fields ''CommandsEnabled3'' = 174"
  "field_type AtaIdentifyDevice_fields ''DMAModes'' = Some U16"
  "field_off AtaIdentifyDevice_fields ''DMAModes'' = 176"
  "field_type AtaIdentifyDevice_fields ''CurrentApmLevelRaw'' = Some U16"
  "field_off AtaIdentifyDevice_fields ''CurrentApmLevelRaw'' = 182"
  "field_type AtaIdentifyDevice_fields ''ResetResults'' = Some U16"
  "field_off AtaIdentifyDevice_fields ''ResetResults'' = 186"
  "field_type AtaIdentifyDevice_fields ''CapacityLba48'' = Some U64"
  "field_off AtaIdentifyDevice_fields ''CapacityLba48'' = 200"
  "field_type AtaIdentifyDevice_fields ''LogicalPerPhisicalSectors'' = Some U16"
  "field_off AtaIdentifyDevice_fields ''LogicalPerPhisicalSectors'' = 212"
  "field_type AtaIdentifyDevice_fields ''InterSeekDelay'' = Some U16"
  "field_off AtaIdentifyDevice_fields ''InterSeekDelay'' = 214"
  "field_type AtaIdentifyDevice_fields ''WWNRaw'' = Some (Arr 4 U16)"
  "field_off AtaIdentifyDevice_fields ''WWNRaw'' = 216"
  "field_type AtaIdentifyDevice_fields ''LogicalSectorSize'' = Some (Arr 2 U16)"
  "field_off AtaIdentifyDevice_fields ''LogicalSectorSize'' = 234"
  "field_type AtaIdentifyDevice_fields ''CommandsSupported4'' = Some U16"
  "field_off AtaIdentifyDevice_fields ''CommandsSupported4'' = 238"
  "field_type AtaIdentifyDevice_fields ''CommandsEnabled4'' = Some U16"
  "field_off AtaIdentifyDevice_fields ''CommandsEnabled4'' = 240"
  "field_type AtaIdentifyDevice_fields ''LogicalSectorOffset'' = Some U16"
  "field_off AtaIdentifyDevice_fields ''LogicalSectorOffset'' = 418"
  "field_type AtaIdentifyDevice_fields ''RotationRate'' = Some U16"
  "field_off AtaIdentifyDevice_fields ''RotationRate'' = 434"
  "field_type AtaIdentifyDevice_fields ''TransportMajor'' = Some U16"
  "field_off AtaIdentifyDevice_fields ''TransportMajor'' = 444"
  by (simp_all add: AtaIdentifyDevice_fields_def AtaIdentify_words_0_79_def
      AtaIdentify_words_80_92_def AtaIdentify_words_93_255_def)

text \<open>\<open>n\<close> 16-bit words of a page, from word \<open>w\<close> on, low word first.\<close>

definition words_at :: "nat \<Rightarrow> nat \<Rightarrow> u8 list \<Rightarrow> 'a::len word" where
  "words_at n w buf = le_word (take (2 * n) (drop (2 * w) buf))"

lemma Arr_u16_at:
  "map vu16 (varr (dec LittleEndian (Arr n U16) (drop (2 * w) buf))) = map (\<lambda>i. words_at 1 (w + i) buf) [0..<n]"
  by (simp add: vu16s_dec words_at_def distrib_left add.commute numeral_2_eq_2 del: dec.simps)

lemma Arr_u16_at_pages:
  "map vu16 (varr (dec LittleEndian (Arr n U16) (drop 98 buf))) = map (\<lambda>i. words_at 1 (49 + i) buf) [0..<n]"
  "map vu16 (varr (dec LittleEndian (Arr n U16) (drop 216 buf))) = map (\<lambda>i. words_at 1 (108 + i) buf) [0..<n]"
  "map vu16 (varr (dec LittleEndian (Arr n U16) (drop 234 buf))) = map (\<lambda>i. words_at 1 (117 + i) buf) [0..<n]"
  using Arr_u16_at [of n 49 buf] Arr_u16_at [of n 108 buf] Arr_u16_at [of n 117 buf] by simp_all

text \<open>
  C19. A 512-byte IDENTIFY page is decoded so that every named field holds the words the ATA
  standard assigns to it; the Go struct has no padding, so its memory layout is the page.
\<close>

theorem AtaIdentifyDevice_words:
  assumes "length buf = 512"
  shows "usize AtaIdentifyDevice_type = 512 \<and> unpadded AtaIdentifyDevice_type \<and>
    (\<exists>v. binary_read LittleEndian AtaIdentifyDevice_type buf = Ok v \<and>
    (let i = AtaIdentifyDevice_of v in
     GeneralConfig i = words_at 1 0 buf \<and>
     SerialNumberRaw i = take 20 (drop (2 * 10) buf) \<and>
     FirmwareRevisionRaw i = take 8 (drop (2 * 23) buf) \<and>
     ModelNumberRaw i = take 40 (drop (2 * 27) buf) \<and>
     Capabilities i = [words_at 1 49 buf, words_at 1 50 buf] \<and>
     CapacityLba28 i = words_at 2 60 buf \<and> QueueDepth i = words_at 1 75 buf \<and>
     SATACap i = words_at 1 76 buf \<and> SATACapAddl i = words_at 1 77 buf \<and>
     FeaturesSupported i = words_at 1 78 buf \<and>
     FeaturesEnabled i = words_at 1 79 buf \<and> MajorVersion i = words_at 1 80 buf \<and>
     MinorVersion i = words_at 1 81 buf \<and> CommandsSupported1 i = words_at 1 82 buf \<and>
     CommandsSupported2 i = words_at 1 83 buf \<and>
     CommandsSupported3 i = words_at 1 84 buf \<and>
     CommandsEnabled1 i = words_at 1 85 buf \<and>
     CommandsEnabled2 i = words_at 1 86 buf \<and>
     CommandsEnabled3 i = words_at 1 87 buf \<and> DMAModes i = words_at 1 88 buf \<and>
     CurrentApmLevelRaw i = words_at 1 91 buf \<and> ResetResults i = words_at 1 93 buf \<and>
     CapacityLba48 i = words_at 4 100 buf \<and>
     LogicalPerPhisicalSectors i = words_at 1 106 buf \<and>
     InterSeekDelay i = words_at 1 107 buf \<and>
     WWNRaw i = [words_at 1 108 buf, words_at 1 109 buf, words_at 1 110 buf, words_at 1 111 buf] \<and>
     LogicalSectorSize i = [words_at 1 117 buf, words_at 1 118 buf] \<and>
     CommandsSupported4 i = words_at 1 119 buf \<and>
     CommandsEnabled4 i = words_at 1 120 buf \<and>
     LogicalSectorOffset i = words_at 1 209 buf \<and>
     RotationRate i = words_at 1 217 buf \<and> TransportMajor i = words_at 1 222 buf))"
proof -
  have "unpadded AtaIdentifyDevice_type"
    by (simp add: AtaIdentifyDevice_type_def AtaIdentifyDevice_fields_def AtaIdentify_words_0_79_def
      AtaIdentify_words_80_92_def AtaIdentify_words_93_255_def)
  moreover from this have "usize AtaIdentifyDevice_type = 512"
    by (simp only: unpadded_size) (simp add: AtaIdentifyDevice_type_def AtaIdentify_layout)
  moreover have "binary_read LittleEndian AtaIdentifyDevice_type buf =
      Ok (dec LittleEndian AtaIdentifyDevice_type buf)"
    using assms by (simp add: binary_read_def AtaIdentifyDevice_type_def AtaIdentify_layout)
  ultimately show ?thesis
    using assms unfolding Let_def
    by (simp add: AtaIdentifyDevice_of_def AtaIdentifyDevice_type_def fld_dec AtaIdentify_layout
        scalar_dec vbytes_dec vbytes_dec0 Arr_u16_at_pages upt_rec words_at_def del: dec.simps)
qed

theorem AtaIdentifyDevice_words_witness:
  "\<exists>v. binary_read LittleEndian AtaIdentifyDevice_type (replicate 512 7) = Ok v \<and>
    QueueDepth (AtaIdentifyDevice_of v) = 0x0707"
proof -
  have "length (replicate 512 (7 :: u8)) = 512" by simp
  from AtaIdentifyDevice_words [OF this] obtain v
    where "binary_read LittleEndian AtaIdentifyDevice_type (replicate 512 7) = Ok v"
      "QueueDepth (AtaIdentifyDevice_of v) = words_at 1 75 (replicate 512 7)"
    unfolding Let_def by blast
  moreover have "words_at 1 75 (replicate 512 (7 :: u8)) = (0x0707 :: u16)"
  proof -
    have "replicate 2 (7 :: u8) = [7, 7]" by (simp add: numeral_2_eq_2)
    then show ?thesis by (simp add: words_at_def)
  qed
  ultimately show ?thesis by metis
qed

section \<open>What the methods compute\<close>

lemma foldl_plus_word: "foldl (\<lambda>x b. x + b) (c :: u8) bs = c + sum_list bs"
  by (induction bs arbitrary: c) (simp_all add: add.assoc)

lemma checksum_sum: "checksum bs \<longleftrightarrow> sum_list bs = 0"
  by (simp add: checksum_def foldl_plus_word)

lemma checksum_mod: "checksum bs \<longleftrightarrow> sum_list (map unat bs) mod 256 = 0"
proof -
  have "unat (sum_list bs) = sum_list (map unat bs) mod 256"
    by (induction bs) (simp_all add: unat_word_ariths mod_add_right_eq)
  then show ?thesis by (metis checksum_sum unat_0_iff)
qed

lemma checksum_single: "checksum (xs @ b # ys) \<Longrightarrow> checksum (xs @ c # ys) \<Longrightarrow> c = b"
proof -
  assume "checksum (xs @ b # ys)" "checksum (xs @ c # ys)"
  then have "b + (sum_list xs + sum_list ys) = c + (sum_list xs + sum_list ys)"
    by (simp add: checksum_sum ac_simps)
  then show "c = b" by simp
qed

text \<open>
  The page checksum is the byte sum modulo 256; a page that passes it no longer does when any
  single byte of it is changed.
\<close>

theorem checksum_detects:
  "(checksum bs \<longleftrightarrow> sum_list (map unat bs) mod 256 = 0) \<and>
   (checksum (xs @ b # ys) \<longrightarrow> checksum (xs @ c # ys) \<longrightarrow> c = b)"
  by (intro conjI impI checksum_mod) (rule checksum_single)

theorem checksum_detects_witness:
  "checksum [1, 0xff] \<and> \<not> checksum [1, 0xfe]"
  using checksum_detects [of "[1, 0xff]" "[1]" "0xff" "[]" "0xfe"] by auto

lemma and_masks:
  "(w :: u16) AND 8 = 0 \<longleftrightarrow> \<not> bit w 3" "w AND 32 = 0 \<longleftrightarrow> \<not> bit w 5" "w AND 128 = 0 \<longleftrightarrow> \<not> bit w 7"
  "w AND 0x200 = 0 \<longleftrightarrow> \<not> bit w 9" "w AND 0x400 = 0 \<longleftrightarrow> \<not> bit w 10" "w AND 0x1000 = 0 \<longleftrightarrow> \<not> bit w 12"
  "w AND 0x2000 = 0 \<longleftrightarrow> \<not> bit w 13" "w AND 0x8000 = 0 \<longleftrightarrow> \<not> bit w 15"
  using and_exp_eq_0_iff_not_bit [of w 3] and_exp_eq_0_iff_not_bit [of w 5]
    and_exp_eq_0_iff_not_bit [of w 7] and_exp_eq_0_iff_not_bit [of w 9]
    and_exp_eq_0_iff_not_bit [of w 10] and_exp_eq_0_iff_not_bit [of w 12]
    and_exp_eq_0_iff_not_bit [of w 13] and_exp_eq_0_iff_not_bit [of w 15]
  by simp_all

lemma word_sig:
  assumes n: "n < 15"
  shows "(w :: u16) AND (2 ^ n OR 2 ^ Suc n) = 2 ^ n \<longleftrightarrow> bit w n \<and> \<not> bit w (Suc n)"
proof -
  have "(w :: u16) AND (2 ^ n OR 2 ^ Suc n) = 2 ^ n \<longleftrightarrow>
      (\<forall>k < 16. (bit w k \<and> (k = n \<or> k = Suc n)) \<longleftrightarrow> k = n)"
    by (simp add: bit_eq_iff [where ?'a = "16 word"] bit_and_iff bit_or_iff bit_exp_iff del: power_Suc)
  also have "\<dots> \<longleftrightarrow> bit w n \<and> \<not> bit w (Suc n)"
  proof
    assume all: "\<forall>k < 16. (bit w k \<and> (k = n \<or> k = Suc n)) \<longleftrightarrow> k = n"
    from all [rule_format, of n] all [rule_format, of "Suc n"] n
    show "bit w n \<and> \<not> bit w (Suc n)" by simp
  qed auto
  finally show ?thesis .
qed

lemma signature_bits: "isWordSignatureValid w \<longleftrightarrow> bit w 14 \<and> \<not> bit w 15"
proof -
  have "push_bit 14 3 = (2 ^ 14 OR 2 ^ Suc 14 :: u16)" "push_bit 14 1 = (2 ^ 14 :: u16)"
    by simp_all
  then show ?thesis
    using word_sig [of 14 w] unfolding isWordSignatureValid_def by simp
qed

text \<open>
  The feature predicates on the bits of the page: a word counts only with its validity
  signature (bit 14 set, bit 15 clear), words 119 and 120 only when bit 15 of word 86 says so, and
  word 84 takes precedence over word 87 for general purpose logging.
\<close>

theorem ata_feature_bits:
  "IsGeneralPurposeLoggingCapable i =
     (let s = CommandsSupported3 i; e = CommandsEnabled3 i in
      if bit s 14 \<and> \<not> bit s 15 then bit s 5 else bit e 14 \<and> \<not> bit e 15 \<and> bit e 5) \<and>
   EpcSupported i = (bit (CommandsEnabled2 i) 15 \<and> bit (CommandsSupported4 i) 14 \<and>
     \<not> bit (CommandsSupported4 i) 15 \<and> bit (CommandsSupported4 i) 7) \<and>
   EpcEnabled i = (bit (CommandsEnabled2 i) 15 \<and> bit (CommandsEnabled4 i) 14 \<and>
     \<not> bit (CommandsEnabled4 i) 15 \<and> bit (CommandsEnabled4 i) 7) \<and>
   ApmSupported i = (bit (CommandsSupported2 i) 14 \<and> \<not> bit (CommandsSupported2 i) 15 \<and>
     bit (CommandsSupported2 i) 3) \<and>
   ApmEnabled i = bit (CommandsEnabled2 i) 3 \<and>
   UnloadSupported i = (bit (CommandsSupported3 i) 14 \<and> \<not> bit (CommandsSupported3 i) 15 \<and>
     bit (CommandsSupported3 i) 13) \<and>
   uint (CurrentApmLevel i) = uint (CurrentApmLevelRaw i) mod 256"
  by (simp add: IsGeneralPurposeLoggingCapable_def EpcSupported_def EpcEnabled_def ApmSupported_def
      ApmEnabled_def UnloadSupported_def CurrentApmLevel_def signature_bits and_masks Let_def
      unsigned_ucast_eq take_bit_eq_mod)

text \<open>
  The world wide name is the four words 108 to 111 put together, the first one highest: the
  additions never carry.
\<close>

theorem WWN_value:
  assumes "WWNRaw i = [a, b, c, d]"
  shows "unat (WWN i) = ((unat a * 2 ^ 16 + unat b) * 2 ^ 16 + unat c) * 2 ^ 16 + unat d"
proof -
  have lt: "unat (x :: u16) < 65536" for x
    using unsigned_less [of x, where ?'a = nat] by simp
  have "WWN i = of_nat (unat a * 2 ^ 48 + unat b * 2 ^ 32 + unat c * 2 ^ 16 + unat d)"
    using assms by (simp add: WWN_def push_bit_eq_mult unsigned_ucast_eq mult.commute)
  moreover have "unat a * 2 ^ 48 + unat b * 2 ^ 32 + unat c * 2 ^ 16 + unat d < 2 ^ 64"
    using lt [of a] lt [of b] lt [of c] lt [of d] by simp
  ultimately have "unat (WWN i) = unat a * 2 ^ 48 + unat b * 2 ^ 32 + unat c * 2 ^ 16 + unat d"
    by (simp only: unat_of_nat) (simp add: take_bit_nat_eq_self)
  then show ?thesis by simp
qed

theorem WWN_value_witness:
  "unat (WWN (AtaIdentifyDevice_of (dec LittleEndian AtaIdentifyDevice_type (replicate 512 0))
     \<lparr>WWNRaw := [0x5000, 0xc500, 1, 2]\<rparr>)) = 0x5000c50000010002"
  by (subst WWN_value [where a = "0x5000" and b = "0xc500" and c = 1 and d = 2]) simp_all

section \<open>Text fields\<close>

lemma swap_pairs_None: "swap_pairs bs = None \<longleftrightarrow> odd (length bs)"
  by (induction bs rule: swap_pairs.induct) auto

lemma swap_pairs_length: "swap_pairs bs = Some r \<Longrightarrow> length r = length bs"
  by (induction bs arbitrary: r rule: swap_pairs.induct) auto

text \<open>
  What the device sends for a text (ATA8-ACS 3.4.9): the text is padded with blanks and packed into
  16-bit words, the first character of a pair in the high byte, and a word is transferred low byte
  first.
\<close>

definition text_words :: "u8 list \<Rightarrow> u16 list" where
  "text_words bs =
     map (\<lambda>i. push_bit 8 (ucast (bs ! (2 * i))) OR ucast (bs ! (2 * i + 1))) [0..<length bs div 2]"

definition word_transfer :: "u16 list \<Rightarrow> u8 list" where
  "word_transfer ws = concat (map (\<lambda>w. [ucast w, ucast (drop_bit 8 w)]) ws)"

definition ata_text :: "string \<Rightarrow> nat \<Rightarrow> u8 list" where
  "ata_text s pad = word_transfer (text_words (go_bytes s @ replicate pad 0x20))"

lemma text_words_Cons2:
  "text_words (a # b # bs) = (push_bit 8 (ucast a) OR ucast b) # text_words bs"
  by (simp add: text_words_def upt_conv_Cons map_Suc_upt [symmetric] del: upt_Suc)

lemma pair_word_bytes:
  "(ucast (push_bit 8 (ucast a) OR ucast b :: u16) :: u8) = b"
  "(ucast (drop_bit 8 (push_bit 8 (ucast a :: u16)) OR drop_bit 8 (ucast b :: u16)) :: u8) = a"
  for a b :: u8
proof -
  have "\<not> bit b (8 + n)" for n
    using bit_imp_le_length [of b "8 + n"] by auto
  then show "(ucast (push_bit 8 (ucast a) OR ucast b :: u16) :: u8) = b"
    and "(ucast (drop_bit 8 (push_bit 8 (ucast a :: u16)) OR drop_bit 8 (ucast b :: u16)) :: u8) = a"
    by (auto intro!: bit_word_eqI simp: bit_simps)
qed

lemma swap_pairs_transfer: "even (length bs) \<Longrightarrow> swap_pairs (word_transfer (text_words bs)) = Some bs"
proof (induction bs rule: swap_pairs.induct)
  case 1
  then show ?case by (simp add: text_words_def word_transfer_def)
next
  case (3 a b bs)
  then show ?case by (simp add: text_words_Cons2 word_transfer_def pair_word_bytes)
qed simp

lemma fromAtaString_None: "fromAtaString bs = None \<longleftrightarrow> odd (length bs)"
  using swap_pairs_None [of bs] by (cases "swap_pairs bs") (auto simp: fromAtaString_def)

text \<open>
  C38. \<^verbatim>\<open>fromAtaString\<close> recovers every text without white space at its ends from the form in which
  a device sends it, whatever the padding: blanks behind it, two characters to a 16-bit word with the
  first one in the high byte, and the words low byte first.
\<close>

theorem fromAtaString_roundtrip:
  assumes "\<not> starts_with space_encodings (go_bytes s)"
    and "\<not> starts_with (map rev space_encodings) (rev (go_bytes s))"
    and "even (length s + pad)"
  shows "fromAtaString (ata_text s pad) = Some s"
proof -
  have "even (length (go_bytes s @ replicate pad 0x20))"
    using assms(3) by (simp add: go_bytes_def)
  then show ?thesis
    using assms(1,2) by (simp add: ata_text_def fromAtaString_def swap_pairs_transfer TrimSpace_pad)
qed

theorem fromAtaString_roundtrip_witness: "fromAtaString (ata_text ''WD 40'' 1) = Some ''WD 40''"
proof (rule fromAtaString_roundtrip)
  have "go_bytes ''WD 40'' = [0x57, 0x44, 0x20, 0x34, 0x30]"
    by (simp add: go_bytes_def char_byte_def)
  then show "\<not> starts_with space_encodings (go_bytes ''WD 40'')"
    and "\<not> starts_with (map rev space_encodings) (rev (go_bytes ''WD 40''))"
    by (simp_all add: starts_with_def space_encodings_def)
qed simp

lemma fromAtaString_bounded: "even (length bs) \<Longrightarrow> \<exists>s. fromAtaString bs = Some s \<and> length s \<le> length bs"
proof -
  assume "even (length bs)"
  then obtain r where r: "swap_pairs bs = Some r"
    using swap_pairs_None [of bs] by auto
  then show ?thesis
    using swap_pairs_length [OF r] TrimSpace_length [of r] by (simp add: fromAtaString_def)
qed

lemma decoded_lengths:
  assumes "binary_read LittleEndian AtaIdentifyDevice_type buf = Ok v" "i = AtaIdentifyDevice_of v"
  shows "length (ModelNumberRaw i) = 40" "length (SerialNumberRaw i) = 20"
    "length (FirmwareRevisionRaw i) = 8"
  using assms
  by (auto simp: binary_read_def AtaIdentifyDevice_of_def AtaIdentifyDevice_type_def fld_dec
      AtaIdentify_layout vbytes_dec split: if_splits simp del: dec.simps)

lemma decoded_names:
  assumes "binary_read LittleEndian AtaIdentifyDevice_type buf = Ok v" "i = AtaIdentifyDevice_of v"
  shows "AtaModelNumber i \<noteq> None \<and> AtaSerialNumber i \<noteq> None \<and> AtaFirmwareRevision i \<noteq> None"
  by (simp add: AtaModelNumber_def AtaSerialNumber_def AtaFirmwareRevision_def fromAtaString_None
      decoded_lengths [OF assms] del: not_None_eq)

text \<open>
  \<^verbatim>\<open>fromAtaString\<close> panics exactly on an odd number of bytes, so model, serial number and firmware
  revision of a decoded page never do: they are parts of the swapped field without its padding.
\<close>

theorem ata_names_no_panic:
  "(fromAtaString bs = None \<longleftrightarrow> odd (length bs)) \<and>
   (binary_read LittleEndian AtaIdentifyDevice_type buf = Ok v \<longrightarrow>
     (let i = AtaIdentifyDevice_of v in
      (\<exists>m. AtaModelNumber i = Some m \<and> length m \<le> 40) \<and>
      (\<exists>n. AtaSerialNumber i = Some n \<and> length n \<le> 20) \<and>
      (\<exists>f. AtaFirmwareRevision i = Some f \<and> length f \<le> 8)))"
  using fromAtaString_bounded decoded_lengths fromAtaString_None
  by (auto simp: Let_def AtaModelNumber_def AtaSerialNumber_def AtaFirmwareRevision_def)
    (metis even_numeral)+

theorem ata_names_no_panic_witness:
  "fromAtaString [1, 2, 3] = None \<and>
   (\<exists>m. AtaModelNumber (AtaIdentifyDevice_of (dec LittleEndian AtaIdentifyDevice_type (replicate 512 65)))
      = Some m \<and> length m \<le> 40)"
proof -
  have "binary_read LittleEndian AtaIdentifyDevice_type (replicate 512 65) =
      Ok (dec LittleEndian AtaIdentifyDevice_type (replicate 512 65))"
    by (simp add: binary_read_def AtaIdentifyDevice_type_def AtaIdentify_layout)
  moreover have "odd (length [1, 2, 3 :: u8])" by simp
  ultimately show ?thesis
    using ata_names_no_panic [of "[1, 2, 3]" "replicate 512 65"] unfolding Let_def by blast
qed

section \<open>Capacity\<close>

text \<open>The size of a logical sector: 512 bytes, or words 117 and 118 counted in words of 2 bytes.\<close>

definition sector_bytes :: "AtaIdentifyDevice \<Rightarrow> nat" where
  "sector_bytes i =
     (if bit (LogicalPerPhisicalSectors i) 12
      then 2 * (unat (LogicalSectorSize i ! 1) * 2 ^ 16 + unat (LogicalSectorSize i ! 0)) else 512)"

lemma unat_u16_less: "unat (x :: u16) < 65536"
  using unsigned_less [of x, where ?'a = nat] by simp

lemma sector_bytes_less: "sector_bytes i < 2 ^ 33"
  using unat_u16_less [of "LogicalSectorSize i ! 0"] unat_u16_less [of "LogicalSectorSize i ! 1"]
  by (simp add: sector_bytes_def)

lemma or_shift_add:
  "push_bit 16 (ucast (h :: u16)) OR ucast (l :: u16) = (of_nat (unat h * 2 ^ 16 + unat l) :: u64)"
proof -
  have "push_bit 16 (ucast h) OR ucast l = (push_bit 16 (ucast h) + ucast l :: u64)"
    by (rule disjunctive_add [symmetric]) (auto simp: bit_simps dest: bit_imp_le_length)
  then show ?thesis
    by (simp add: push_bit_eq_mult unsigned_ucast_eq mult.commute)
qed

lemma unat_lss:
  "unat (push_bit 1 (push_bit 16 (ucast (h :: u16)) OR ucast (l :: u16)) :: u64) =
     2 * (unat h * 2 ^ 16 + unat l)"
proof -
  have "2 * (unat h * 2 ^ 16 + unat l) < 2 ^ 64"
    using unat_u16_less [of h] unat_u16_less [of l] by simp
  then have "unat (of_nat (2 * (unat h * 2 ^ 16 + unat l)) :: u64) = 2 * (unat h * 2 ^ 16 + unat l)"
    by (simp only: unat_of_nat) (simp add: take_bit_nat_eq_self)
  then show ?thesis
    unfolding or_shift_add by (simp only: push_bit_eq_mult) (simp add: mult.commute)
qed

lemma unat_push_bit_small:
  assumes "unat (x :: u64) * 2 ^ k < 2 ^ 64"
  shows "unat (push_bit k x) = unat x * 2 ^ k"
proof -
  have "push_bit k x = of_nat (unat x * 2 ^ k)"
    by (simp add: push_bit_eq_mult)
  with assms show ?thesis
    by (simp only: unat_of_nat) (simp add: take_bit_nat_eq_self)
qed

lemma unat_mult_small:
  "unat (x :: u64) * unat y < 2 ^ 64 \<Longrightarrow> unat (x * y) = unat x * unat y"
  by (simp add: unat_word_ariths)

text \<open>The size of a logical sector as the code computes it.\<close>

definition lss_word :: "AtaIdentifyDevice \<Rightarrow> u64" where
  "lss_word i =
     (if LogicalPerPhisicalSectors i AND 0x1000 \<noteq> 0
      then push_bit 1 (push_bit 16 (ucast (LogicalSectorSize i ! 1)) OR ucast (LogicalSectorSize i ! 0))
      else 512)"

lemma unat_lss_word: "unat (lss_word i) = sector_bytes i"
  unfolding lss_word_def sector_bytes_def and_masks by (simp only: unat_lss split: if_splits) simp

definition lba48_word :: "AtaIdentifyDevice \<Rightarrow> u64" where
  "lba48_word i = (if CommandsSupported2 i AND 0x400 \<noteq> 0 then CapacityLba48 i else 0)"

lemma Capacity_eq:
  "AtaIdentify_Capacity i =
     (if Capabilities i ! 0 AND 0x0200 = 0 \<or> (ucast (CapacityLba28 i) = (0 :: u64) \<and> lba48_word i = 0)
      then \<lparr>sectors = 0, capacity = 0, logicalSectorSize = 0, physicalSectorSize = 0,
        logicalSectorOffset = 0\<rparr>
      else
        (let n = (if lba48_word i \<ge> ucast (CapacityLba28 i) \<or> (lba48_word i \<noteq> 0 \<and> lss_word i > 512)
           then lba48_word i else ucast (CapacityLba28 i)) in
         \<lparr>sectors = n, capacity = n * lss_word i, logicalSectorSize = lss_word i,
          physicalSectorSize = (if LogicalPerPhisicalSectors i AND 0x2000 \<noteq> 0
            then push_bit (unat (LogicalPerPhisicalSectors i AND 0x0f)) (lss_word i) else lss_word i),
          logicalSectorOffset = ucast (LogicalSectorOffset i AND 0x3fff) * lss_word i\<rparr>))"
  unfolding AtaIdentify_Capacity_def Let_def lba48_word_def [symmetric] lss_word_def [symmetric]
  by (cases "LogicalPerPhisicalSectors i AND 0x1000 = 0") (simp_all add: lss_word_def)

lemma low_bits: "unat (w AND 0x0f) = unat (w :: u16) mod 2 ^ 4" "unat (w AND 0x3fff) = unat w mod 2 ^ 14"
proof -
  have low: "unat (take_bit k w) = unat w mod 2 ^ k" for k
    unfolding unsigned_take_bit_eq by (rule take_bit_eq_mod)
  have "w AND 0x0f = take_bit 4 w" "w AND 0x3fff = take_bit 14 w"
    by (simp_all add: take_bit_eq_mask mask_eq_exp_minus_1)
  then show "unat (w AND 0x0f) = unat w mod 2 ^ 4" "unat (w AND 0x3fff) = unat w mod 2 ^ 14"
    by (simp_all only: low)
qed

lemma unat_physical:
  "unat (push_bit (unat (w AND 0x0f :: u16)) (lss_word i)) = sector_bytes i * 2 ^ (unat w mod 16)"
proof -
  have "sector_bytes i * 2 ^ (unat w mod 16) < 2 ^ 33 * 2 ^ 16"
    using sector_bytes_less [of i] by (intro mult_strict_mono power_strict_increasing) simp_all
  then show ?thesis
    by (subst unat_push_bit_small) (simp_all add: low_bits unat_lss_word)
qed

lemma unat_offset:
  "unat (ucast (w AND 0x3fff :: u16) * lss_word i) = unat w mod 2 ^ 14 * sector_bytes i"
proof -
  have "(unat w mod 2 ^ 14) * sector_bytes i < 2 ^ 14 * 2 ^ 33"
    using sector_bytes_less [of i] by (intro mult_strict_mono) simp_all
  then show ?thesis
    by (subst unat_mult_small) (simp_all add: low_bits unat_lss_word)
qed

text \<open>
  C13. \<^verbatim>\<open>Capacity\<close> in exact arithmetic: nothing is reported without LBA support or with both counts
  zero; otherwise the sector sizes and the offset are the exact products, the 48-bit count wins when
  it is the larger one or sectors are larger than 512 bytes, and only the capacity is a product
  modulo \<open>2\<^sup>6\<^sup>4\<close>.
\<close>

theorem AtaIdentify_Capacity_exact:
  "(let c = AtaIdentify_Capacity i; s = sector_bytes i;
        lba28 = unat (CapacityLba28 i);
        lba48 = (if bit (CommandsSupported2 i) 10 then unat (CapacityLba48 i) else 0) in
    if \<not> bit (Capabilities i ! 0) 9 \<or> (lba28 = 0 \<and> lba48 = 0)
    then c = \<lparr>sectors = 0, capacity = 0, logicalSectorSize = 0, physicalSectorSize = 0,
      logicalSectorOffset = 0\<rparr>
    else
      unat (logicalSectorSize c) = s \<and>
      unat (physicalSectorSize c) = (if bit (LogicalPerPhisicalSectors i) 13
        then s * 2 ^ (unat (LogicalPerPhisicalSectors i) mod 16) else s) \<and>
      unat (logicalSectorOffset c) = (unat (LogicalSectorOffset i) mod 2 ^ 14) * s \<and>
      unat (sectors c) = (if lba28 \<le> lba48 \<or> (lba48 \<noteq> 0 \<and> 512 < s) then lba48 else lba28) \<and>
      unat (capacity c) = (unat (sectors c) * s) mod 2 ^ 64)"
proof -
  have n48: "unat (lba48_word i) = (if bit (CommandsSupported2 i) 10 then unat (CapacityLba48 i) else 0)"
    by (simp add: lba48_word_def and_masks)
  have zero: "lba48_word i = 0 \<longleftrightarrow> unat (lba48_word i) = 0" "ucast (CapacityLba28 i) = (0 :: u64) \<longleftrightarrow> unat (CapacityLba28 i) = 0"
    unfolding unat_0_iff [symmetric] by simp_all
  have le: "ucast (CapacityLba28 i) \<le> lba48_word i \<longleftrightarrow> unat (CapacityLba28 i) \<le> unat (lba48_word i)"
      "512 < lss_word i \<longleftrightarrow> 512 < sector_bytes i"
    by (simp_all add: word_le_nat_alt word_less_nat_alt unat_lss_word)
  have cap: "unat (x * lss_word i) = (unat x * sector_bytes i) mod 2 ^ 64" for x
    by (simp add: unat_word_ariths unat_lss_word)
  show ?thesis
    unfolding Let_def Capacity_eq n48 [symmetric]
    by (simp add: zero le cap [of "lba48_word i"] cap [of "ucast (CapacityLba28 i)"] unat_lss_word unat_physical unat_offset and_masks)
qed

text \<open>A disk of \<open>10\<^sup>9\<close> sectors of 512 bytes on physical sectors of 4096 bytes.\<close>

theorem AtaIdentify_Capacity_exact_witness:
  "let c = AtaIdentify_Capacity (AtaIdentifyDevice_of (dec LittleEndian AtaIdentifyDevice_type (replicate 512 0))
       \<lparr>Capabilities := [0x0200, 0], CommandsSupported2 := 0x4400, CapacityLba28 := 0x0fffffff,
        CapacityLba48 := 1000000000, LogicalPerPhisicalSectors := 0x6003, LogicalSectorOffset := 0x4001\<rparr>)
   in unat (logicalSectorSize c) = 512 \<and> unat (physicalSectorSize c) = 4096 \<and>
      unat (logicalSectorOffset c) = 512 \<and> unat (sectors c) = 1000000000 \<and>
      unat (capacity c) = 512000000000"
proof -
  have "unat (logicalSectorSize c) = 512 \<and> unat (physicalSectorSize c) = 4096 \<and>
      unat (logicalSectorOffset c) = 512 \<and> unat (sectors c) = 1000000000 \<and>
      unat (capacity c) = 512000000000"
    if "c = AtaIdentify_Capacity j" and j: "j = i
       \<lparr>Capabilities := [0x0200, 0], CommandsSupported2 := 0x4400, CapacityLba28 := 0x0fffffff,
        CapacityLba48 := 1000000000, LogicalPerPhisicalSectors := 0x6003, LogicalSectorOffset := 0x4001\<rparr>" for i j c
  proof -
    have fields: "Capabilities j ! 0 = 0x0200" "CommandsSupported2 j = 0x4400"
      "CapacityLba28 j = 0x0fffffff" "CapacityLba48 j = 1000000000"
      "LogicalPerPhisicalSectors j = 0x6003" "LogicalSectorOffset j = 0x4001"
      by (simp_all add: j)
    have bits: "bit (0x0200 :: u16) 9" "bit (0x4400 :: u16) 10" "\<not> bit (0x6003 :: u16) 12" "bit (0x6003 :: u16) 13"
      by simp_all
    show ?thesis
      using AtaIdentify_Capacity_exact [of j]
      unfolding Let_def sector_bytes_def that(1) [symmetric] fields if_P [OF bits(2)] if_P [OF bits(4)] if_not_P [OF bits(3)]
      by (simp add: bits)
  qed
  then show ?thesis unfolding Let_def by blast
qed

end
