(* ===== verification/AtaSense.thy ===== *)
theory AtaSense
  imports GoPrelude
begin

text \<open>
  \<^verbatim>\<open>sata_sense.go\<close>: the sense data of a CK_COND ATA PASS-THROUGH command, in descriptor or fixed
  format. An accessor indexes the byte slice and may panic (\<open>None\<close>); the parsers guard their
  accesses by \<^verbatim>\<open>IsValid\<close>. The lemmas show that the guards suffice, that the descriptor walk finds
  what a reference parser of the descriptor area finds, and exactly which sense data is accepted.
\<close>

section \<open>Constants\<close>

definition SCSI_SENSE_RESPONSE_CODE_MASK :: u8 where "SCSI_SENSE_RESPONSE_CODE_MASK = 0x7f"
definition SCSI_SENSE_FORMAT_MASK :: u8 where "SCSI_SENSE_FORMAT_MASK = 0x7e"
definition SCSI_SENSE_FIXED_FORMAT :: u8 where "SCSI_SENSE_FIXED_FORMAT = 0x70"
definition SCSI_SENSE_DESCRIPTOR_FORMAT :: u8 where "SCSI_SENSE_DESCRIPTOR_FORMAT = 0x72"
definition SCSI_SK_RECOVERED_ERROR :: u8 where "SCSI_SK_RECOVERED_ERROR = 0x01"
definition SCSI_ASC_ATA_PT_INFO :: u8 where "SCSI_ASC_ATA_PT_INFO = 0x00"
definition SCSI_ASCQ_ATA_PT_INFO :: u8 where "SCSI_ASCQ_ATA_PT_INFO = 0x1d"
definition SCSI_SK_ILLEGAL_REQUEST :: u8 where "SCSI_SK_ILLEGAL_REQUEST = 0x05"
definition SCSI_ASC_ILLEGAL_FIELD :: u8 where "SCSI_ASC_ILLEGAL_FIELD = 0x24"
definition SCSI_SENSE_DESC_ATA_RETURN :: u8 where "SCSI_SENSE_DESC_ATA_RETURN = 0x09"

definition senseHeaderLen :: nat where "senseHeaderLen = 8"
definition descHeaderLen :: nat where "descHeaderLen = 2"
definition descAtaReturnPayloadLen :: nat where "descAtaReturnPayloadLen = 12"
definition descAtaReturnExtendFlag :: u8 where "descAtaReturnExtendFlag = 0x01"
definition fixedSenseMinLen :: nat where "fixedSenseMinLen = 14"

lemmas sense_consts =
  SCSI_SENSE_RESPONSE_CODE_MASK_def SCSI_SENSE_FORMAT_MASK_def SCSI_SENSE_FIXED_FORMAT_def
  SCSI_SENSE_DESCRIPTOR_FORMAT_def SCSI_SK_RECOVERED_ERROR_def SCSI_ASC_ATA_PT_INFO_def
  SCSI_ASCQ_ATA_PT_INFO_def SCSI_SK_ILLEGAL_REQUEST_def SCSI_ASC_ILLEGAL_FIELD_def
  SCSI_SENSE_DESC_ATA_RETURN_def senseHeaderLen_def descHeaderLen_def descAtaReturnPayloadLen_def
  descAtaReturnExtendFlag_def fixedSenseMinLen_def

section \<open>Descriptor format\<close>

definition desc_SenseKey :: "u8 list \<Rightarrow> u8 option" where "desc_SenseKey s = idx s 1"
definition desc_ASC :: "u8 list \<Rightarrow> u8 option" where "desc_ASC s = idx s 2"
definition desc_ASCQ :: "u8 list \<Rightarrow> u8 option" where "desc_ASCQ s = idx s 3"

definition AdditionalSenseLength :: "u8 list \<Rightarrow> nat option" where
  "AdditionalSenseLength s = map_option unat (idx s 7)"

definition Payload :: "u8 list \<Rightarrow> u8 list option" where
  "Payload s = do { n \<leftarrow> AdditionalSenseLength s; subslice s senseHeaderLen (senseHeaderLen + n) }"

definition desc_IsValid :: "u8 list \<Rightarrow> bool option" where
  "desc_IsValid s =
     (if length s \<ge> senseHeaderLen
      then do { n \<leftarrow> AdditionalSenseLength s; Some (length s \<ge> senseHeaderLen + n) }
      else Some False)"

text \<open>The ATA Status Return descriptor.\<close>

definition ret_Extend :: "u8 list \<Rightarrow> bool option" where
  "ret_Extend d = do { b \<leftarrow> idx d 2; Some (b AND descAtaReturnExtendFlag \<noteq> 0) }"
definition ret_Error :: "u8 list \<Rightarrow> u8 option" where "ret_Error d = idx d 3"
definition ret_SectorCount :: "u8 list \<Rightarrow> u8 option" where "ret_SectorCount d = idx d 5"
definition ret_LBALow :: "u8 list \<Rightarrow> u8 option" where "ret_LBALow d = idx d 7"
definition ret_LBAMid :: "u8 list \<Rightarrow> u8 option" where "ret_LBAMid d = idx d 9"
definition ret_LBAHigh :: "u8 list \<Rightarrow> u8 option" where "ret_LBAHigh d = idx d 11"
definition ret_Device :: "u8 list \<Rightarrow> u8 option" where "ret_Device d = idx d 12"
definition ret_Status :: "u8 list \<Rightarrow> u8 option" where "ret_Status d = idx d 13"

section \<open>Fixed format\<close>

definition fixed_SenseKey :: "u8 list \<Rightarrow> u8 option" where
  "fixed_SenseKey f = map_option (\<lambda>b. b AND 0x0f) (idx f 2)"
definition fixed_Error :: "u8 list \<Rightarrow> u8 option" where "fixed_Error f = idx f 3"
definition fixed_Status :: "u8 list \<Rightarrow> u8 option" where "fixed_Status f = idx f 4"
definition fixed_Device :: "u8 list \<Rightarrow> u8 option" where "fixed_Device f = idx f 5"
definition fixed_SectorCount :: "u8 list \<Rightarrow> u8 option" where "fixed_SectorCount f = idx f 6"
definition fixed_Extend :: "u8 list \<Rightarrow> bool option" where
  "fixed_Extend f = do { b \<leftarrow> idx f 8; Some (b AND 0x80 \<noteq> 0) }"
definition fixed_LBALow :: "u8 list \<Rightarrow> u8 option" where "fixed_LBALow f = idx f 9"
definition fixed_LBAMid :: "u8 list \<Rightarrow> u8 option" where "fixed_LBAMid f = idx f 10"
definition fixed_LBAHigh :: "u8 list \<Rightarrow> u8 option" where "fixed_LBAHigh f = idx f 11"
definition fixed_ASC :: "u8 list \<Rightarrow> u8 option" where "fixed_ASC f = idx f 12"
definition fixed_ASCQ :: "u8 list \<Rightarrow> u8 option" where "fixed_ASCQ f = idx f 13"

definition fixed_IsValid :: "u8 list \<Rightarrow> bool option" where
  "fixed_IsValid f = Some (length f \<ge> fixedSenseMinLen)"

section \<open>The view over both formats\<close>

definition ResponseCode :: "u8 list \<Rightarrow> u8 option" where
  "ResponseCode s = map_option (\<lambda>b. b AND SCSI_SENSE_RESPONSE_CODE_MASK) (idx s 0)"

definition HasResponseCode :: "u8 list \<Rightarrow> bool" where
  "HasResponseCode s = (length s \<ge> 1)"

definition IsFixedFormat :: "u8 list \<Rightarrow> bool option" where
  "IsFixedFormat s =
     map_option (\<lambda>c. c AND SCSI_SENSE_FORMAT_MASK = SCSI_SENSE_FIXED_FORMAT) (ResponseCode s)"

definition IsDescriptorFormat :: "u8 list \<Rightarrow> bool option" where
  "IsDescriptorFormat s =
     map_option (\<lambda>c. c AND SCSI_SENSE_FORMAT_MASK = SCSI_SENSE_DESCRIPTOR_FORMAT) (ResponseCode s)"

definition SenseKey :: "u8 list \<Rightarrow> u8 option" where
  "SenseKey s = do { fixed \<leftarrow> IsFixedFormat s; if fixed then fixed_SenseKey s else desc_SenseKey s }"

definition ASC :: "u8 list \<Rightarrow> u8 option" where
  "ASC s = do { fixed \<leftarrow> IsFixedFormat s; if fixed then fixed_ASC s else desc_ASC s }"

definition ASCQ :: "u8 list \<Rightarrow> u8 option" where
  "ASCQ s = do { fixed \<leftarrow> IsFixedFormat s; if fixed then fixed_ASCQ s else desc_ASCQ s }"

text \<open>The conjunction stops at the first false operand.\<close>

definition IsAtaPassThroughInfo :: "u8 list \<Rightarrow> bool option" where
  "IsAtaPassThroughInfo s = do {
     key \<leftarrow> SenseKey s;
     if key \<noteq> SCSI_SK_RECOVERED_ERROR then Some False
     else do {
       asc \<leftarrow> ASC s;
       if asc \<noteq> SCSI_ASC_ATA_PT_INFO then Some False
       else do { ascq \<leftarrow> ASCQ s; Some (ascq = SCSI_ASCQ_ATA_PT_INFO) } } }"

definition IsValid :: "u8 list \<Rightarrow> bool option" where
  "IsValid s = do {
     d \<leftarrow> IsDescriptorFormat s;
     if d then desc_IsValid s
     else do { f \<leftarrow> IsFixedFormat s; if f then fixed_IsValid s else Some False } }"

section \<open>The descriptor walk\<close>

function walk :: "u8 list \<Rightarrow> nat \<Rightarrow> u8 list option option" where
  "walk payload offset =
     (if offset < length payload then do {
        code \<leftarrow> idx payload offset;
        if offset + descHeaderLen > length payload then Some None
        else do {
          descPayloadLen \<leftarrow> map_option unat (idx payload (offset + 1));
          if offset + descHeaderLen + descPayloadLen > length payload then Some None
          else if code = SCSI_SENSE_DESC_ATA_RETURN \<and> descPayloadLen \<ge> descAtaReturnPayloadLen
          then map_option Some (subslice payload offset (offset + descHeaderLen + descPayloadLen))
          else walk payload (offset + (descHeaderLen + descPayloadLen)) } }
      else Some None)"
  by pat_completeness auto
termination
  by (relation "measure (\<lambda>(payload, offset). length payload - offset)") (auto simp: descHeaderLen_def)

declare walk.simps [simp del]

text \<open>\<open>Some d\<close> for a descriptor and \<^verbatim>\<open>true\<close>, \<open>None\<close> for \<^verbatim>\<open>nil, false\<close>.\<close>

definition findAtaReturnDescriptor :: "u8 list \<Rightarrow> u8 list option option" where
  "findAtaReturnDescriptor sense = do {
     valid \<leftarrow> desc_IsValid sense;
     if \<not> valid then Some None
     else do { payload \<leftarrow> Payload sense; walk payload 0 } }"

section \<open>Status and error registers\<close>

definition ataSenseStatus :: "u8 list \<Rightarrow> (u8 \<times> u8) res" where
  "ataSenseStatus sense =
     (if \<not> HasResponseCode sense
      then Err (Errorf ''sense buffer too short (%d bytes)'' [AInt (int (length sense))])
      else do {
        isDesc \<leftarrow> IsDescriptorFormat sense;
        if isDesc then do {
          valid \<leftarrow> desc_IsValid sense;
          if \<not> valid
          then Err (Errorf ''descriptor format sense buffer too short (%d bytes)'' [AInt (int (length sense))])
          else do {
            ata \<leftarrow> findAtaReturnDescriptor sense;
            info \<leftarrow> IsAtaPassThroughInfo sense;
            if info then
              (case ata of
                 None \<Rightarrow> Err (Errorf ''no ATA Status Return descriptor in sense data'' [])
               | Some d \<Rightarrow> do { st \<leftarrow> ret_Status d; er \<leftarrow> ret_Error d; Ok (st, er) })
            else do {
              key \<leftarrow> desc_SenseKey sense; asc \<leftarrow> desc_ASC sense; ascq \<leftarrow> desc_ASCQ sense;
              (case ata of
                 Some d \<Rightarrow> do {
                   st \<leftarrow> ret_Status d; er \<leftarrow> ret_Error d;
                   Err (Errorf ''command failed: sense key %#02x, ASC/ASCQ %#02x/%#02x, ATA status %#02x, error %#02x''
                     [AInt (uint key), AInt (uint asc), AInt (uint ascq), AInt (uint st), AInt (uint er)]) }
               | None \<Rightarrow>
                   Err (Errorf ''unexpected sense key/ASC/ASCQ: %#02x/%#02x/%#02x''
                     [AInt (uint key), AInt (uint asc), AInt (uint ascq)])) } } }
        else do {
          isFixed \<leftarrow> IsFixedFormat sense;
          if isFixed then do {
            valid \<leftarrow> fixed_IsValid sense;
            if \<not> valid
            then Err (Errorf ''fixed format sense buffer too short (%d bytes)'' [AInt (int (length sense))])
            else do {
              info \<leftarrow> IsAtaPassThroughInfo sense;
              st \<leftarrow> fixed_Status sense; er \<leftarrow> fixed_Error sense;
              if info then Ok (st, er)
              else do {
                key \<leftarrow> fixed_SenseKey sense; asc \<leftarrow> fixed_ASC sense; ascq \<leftarrow> fixed_ASCQ sense;
                Err (Errorf ''command failed: sense key %#02x, ASC/ASCQ %#02x/%#02x, ATA status %#02x, error %#02x''
                  [AInt (uint key), AInt (uint asc), AInt (uint ascq), AInt (uint st), AInt (uint er)]) } } }
          else do {
            b \<leftarrow> idx sense 0;
            Err (Errorf ''unsupported sense data format (response code %#02x)'' [AInt (uint b)]) } } })"

section \<open>A reference parser of the descriptor area\<close>

text \<open>The complete descriptors, up to the first truncated one: code, payload length, payload.\<close>

fun descs :: "u8 list \<Rightarrow> u8 list list" where
  "descs (c # n # rest) =
     (if unat n \<le> length rest then (c # n # take (unat n) rest) # descs (drop (unat n) rest) else [])"
| "descs _ = []"

definition is_ata_return :: "u8 list \<Rightarrow> bool" where
  "is_ata_return d \<longleftrightarrow> d ! 0 = SCSI_SENSE_DESC_ATA_RETURN \<and> descAtaReturnPayloadLen \<le> unat (d ! 1)"

lemma descs_drop:
  assumes "Suc off < length p"
  shows "descs (drop off p) =
    (let n = unat (p ! Suc off) in
     if off + 2 + n \<le> length p
     then take (2 + n) (drop off p) # descs (drop (off + 2 + n) p) else [])"
proof -
  have "drop off p = p ! off # p ! Suc off # drop (off + 2) p"
    using assms by (simp add: Cons_nth_drop_Suc)
  then show ?thesis
    using assms by (auto simp: Let_def add.commute add.left_commute)
qed

lemma walk_find: "walk p off = Some (find is_ata_return (descs (drop off p)))"
proof (induction p off rule: walk.induct)
  case (1 p off)
  consider "length p \<le> off" | "length p = Suc off" | "Suc off < length p" by linarith
  then show ?case
  proof cases
    case 1
    then show ?thesis by (subst walk.simps) simp
  next
    case 2
    then have "drop off p = [p ! off]"
      by (simp add: Cons_nth_drop_Suc [symmetric])
    with 2 show ?thesis by (subst walk.simps) (simp add: descHeaderLen_def)
  next
    case 3
    define n where "n = unat (p ! Suc off)"
    have "is_ata_return (take (2 + n) (drop off p)) \<longleftrightarrow>
        p ! off = SCSI_SENSE_DESC_ATA_RETURN \<and> descAtaReturnPayloadLen \<le> n"
      using 3 by (simp add: is_ata_return_def n_def)
    with 3 "1" show ?thesis
      by (subst walk.simps) (auto simp: descs_drop descHeaderLen_def n_def [symmetric] Let_def)
  qed
qed

lemma descs_complete: "d \<in> set (descs p) \<Longrightarrow> 2 \<le> length d \<and> length d = 2 + unat (d ! 1)"
  by (induction p rule: descs.induct) (auto split: if_splits)

text \<open>The descriptor area of valid descriptor format sense data, and its length check.\<close>

definition desc_ok :: "u8 list \<Rightarrow> bool" where
  "desc_ok s \<longleftrightarrow> 8 \<le> length s \<and> 8 + unat (s ! 7) \<le> length s"

definition desc_area :: "u8 list \<Rightarrow> u8 list" where
  "desc_area s = take (unat (s ! 7)) (drop 8 s)"

lemma desc_IsValid_eq: "desc_IsValid s = Some (desc_ok s)"
  by (auto simp: desc_IsValid_def AdditionalSenseLength_def senseHeaderLen_def desc_ok_def)

lemma findAtaReturnDescriptor_eq:
  "findAtaReturnDescriptor s =
     Some (if desc_ok s then find is_ata_return (descs (desc_area s)) else None)"
  by (auto simp: findAtaReturnDescriptor_def desc_IsValid_eq Payload_def AdditionalSenseLength_def
      senseHeaderLen_def desc_ok_def desc_area_def walk_find)

lemma found_descriptor:
  assumes "find is_ata_return (descs p) = Some d"
  shows "14 \<le> length d" "d ! 0 = 9" "d \<in> set (descs p)"
proof -
  from assms have d: "d \<in> set (descs p)" "is_ata_return d"
    by (auto simp: find_Some_iff)
  then show "14 \<le> length d" "d ! 0 = 9" "d \<in> set (descs p)"
    using descs_complete [of d p] by (auto simp: is_ata_return_def sense_consts)
qed

section \<open>The two formats behind the view\<close>

definition desc_format :: "u8 list \<Rightarrow> bool" where
  "desc_format s \<longleftrightarrow> s ! 0 AND 0x7e = 0x72"

definition fixed_format :: "u8 list \<Rightarrow> bool" where
  "fixed_format s \<longleftrightarrow> s ! 0 AND 0x7e = 0x70"

lemma formats_exclusive: "desc_format s \<Longrightarrow> \<not> fixed_format s"
  by (simp add: desc_format_def fixed_format_def)

lemma format_dispatch:
  assumes "s \<noteq> []"
  shows "IsDescriptorFormat s = Some (desc_format s)" "IsFixedFormat s = Some (fixed_format s)"
  using assms
  by (simp_all add: IsDescriptorFormat_def IsFixedFormat_def ResponseCode_def desc_format_def
      fixed_format_def sense_consts and.assoc)

text \<open>
  What the view needs of a format: its own validity check never panics, and once it has succeeded
  the accessors the view dispatches to do not panic either.
\<close>

locale sense_format =
  fixes fmt :: "u8 list \<Rightarrow> bool" and valid :: "u8 list \<Rightarrow> bool option"
    and key asc ascq :: "u8 list \<Rightarrow> u8 option"
  assumes view: "s \<noteq> [] \<Longrightarrow> fmt s \<Longrightarrow> SenseKey s = key s \<and> ASC s = asc s \<and> ASCQ s = ascq s"
    and valid_total: "valid s \<noteq> None"
    and valid_nonempty: "valid s = Some True \<Longrightarrow> s \<noteq> []"
    and valid_reads: "valid s = Some True \<Longrightarrow> key s \<noteq> None \<and> asc s \<noteq> None \<and> ascq s \<noteq> None"
begin

lemma pass_through_info:
  assumes "fmt s" "valid s = Some True"
  shows "IsAtaPassThroughInfo s =
    Some (key s = Some SCSI_SK_RECOVERED_ERROR \<and> asc s = Some SCSI_ASC_ATA_PT_INFO \<and>
      ascq s = Some SCSI_ASCQ_ATA_PT_INFO)"
  using view [OF valid_nonempty [OF assms(2)] assms(1)] valid_reads [OF assms(2)]
  by (auto simp: IsAtaPassThroughInfo_def)

lemma pass_through_no_panic: "fmt s \<Longrightarrow> valid s = Some True \<Longrightarrow> IsAtaPassThroughInfo s \<noteq> None"
  by (simp add: pass_through_info)

end

interpretation desc_fmt: sense_format desc_format desc_IsValid desc_SenseKey desc_ASC desc_ASCQ
  by unfold_locales
    (auto simp: SenseKey_def ASC_def ASCQ_def format_dispatch formats_exclusive desc_IsValid_eq
      desc_ok_def desc_SenseKey_def desc_ASC_def desc_ASCQ_def)

interpretation fixed_fmt: sense_format fixed_format fixed_IsValid fixed_SenseKey fixed_ASC fixed_ASCQ
  by unfold_locales
    (auto simp: SenseKey_def ASC_def ASCQ_def format_dispatch fixed_IsValid_def fixedSenseMinLen_def
      fixed_SenseKey_def fixed_ASC_def fixed_ASCQ_def)

lemma desc_info:
  "desc_format s \<Longrightarrow> desc_ok s \<Longrightarrow>
   IsAtaPassThroughInfo s = Some (s ! 1 = 1 \<and> s ! 2 = 0 \<and> s ! 3 = 0x1d)"
  using desc_fmt.pass_through_info [of s]
  by (simp add: desc_IsValid_eq desc_ok_def desc_SenseKey_def desc_ASC_def desc_ASCQ_def sense_consts)

lemma fixed_info:
  "fixed_format s \<Longrightarrow> 14 \<le> length s \<Longrightarrow>
   IsAtaPassThroughInfo s = Some (s ! 2 AND 0x0f = 1 \<and> s ! 12 = 0 \<and> s ! 13 = 0x1d)"
  using fixed_fmt.pass_through_info [of s]
  by (simp add: fixed_IsValid_def fixedSenseMinLen_def fixed_SenseKey_def fixed_ASC_def
      fixed_ASCQ_def sense_consts)

section \<open>What is accepted\<close>

text \<open>The signature of a successful CK_COND command, and where its registers are.\<close>

definition desc_success :: "u8 list \<Rightarrow> u8 list \<Rightarrow> bool" where
  "desc_success s d \<longleftrightarrow> s \<noteq> [] \<and> desc_format s \<and> desc_ok s \<and>
     s ! 1 = 1 \<and> s ! 2 = 0 \<and> s ! 3 = 0x1d \<and> find is_ata_return (descs (desc_area s)) = Some d"

definition fixed_success :: "u8 list \<Rightarrow> bool" where
  "fixed_success s \<longleftrightarrow> fixed_format s \<and> 14 \<le> length s \<and>
     s ! 2 AND 0x0f = 1 \<and> s ! 12 = 0 \<and> s ! 13 = 0x1d"

lemma ataSenseStatus_desc:
  assumes "s \<noteq> []" "desc_format s"
  shows "ataSenseStatus s \<noteq> None"
    and "ataSenseStatus s = Ok (st, er) \<longleftrightarrow> (\<exists>d. desc_success s d \<and> st = d ! 13 \<and> er = d ! 3)"
proof -
  have "HasResponseCode s"
    using assms(1) by (simp add: HasResponseCode_def Suc_le_eq)
  note defs = this ataSenseStatus_def format_dispatch [OF assms(1)] assms desc_IsValid_eq
    findAtaReturnDescriptor_eq desc_info desc_success_def
  have "4 \<le> length s" if "desc_ok s"
    using that by (simp add: desc_ok_def)
  then have "(\<exists>r. ataSenseStatus s = Some r) \<and>
      (ataSenseStatus s = Ok (st, er) \<longleftrightarrow> (\<exists>d. desc_success s d \<and> st = d ! 13 \<and> er = d ! 3))"
    using found_descriptor(1) [of "desc_area s"]
    by (cases "find is_ata_return (descs (desc_area s))")
      (auto simp: defs ret_Status_def ret_Error_def desc_SenseKey_def desc_ASC_def desc_ASCQ_def)
  then show "ataSenseStatus s \<noteq> None"
    and "ataSenseStatus s = Ok (st, er) \<longleftrightarrow> (\<exists>d. desc_success s d \<and> st = d ! 13 \<and> er = d ! 3)"
    by auto
qed

lemma ataSenseStatus_fixed:
  assumes "s \<noteq> []" "fixed_format s"
  shows "ataSenseStatus s \<noteq> None"
    and "ataSenseStatus s = Ok (st, er) \<longleftrightarrow> fixed_success s \<and> st = s ! 4 \<and> er = s ! 3"
  using assms formats_exclusive [of s]
  by (auto simp: ataSenseStatus_def HasResponseCode_def Suc_le_eq format_dispatch fixed_info
      fixed_IsValid_def fixedSenseMinLen_def fixed_success_def fixed_Status_def fixed_Error_def
      fixed_SenseKey_def fixed_ASC_def fixed_ASCQ_def)

lemma ataSenseStatus_other:
  assumes "s = [] \<or> \<not> desc_format s \<and> \<not> fixed_format s"
  shows "is_err (ataSenseStatus s)"
  using assms
  by (auto simp: ataSenseStatus_def HasResponseCode_def Suc_le_eq format_dispatch)

lemma ataSenseStatus_total: "ataSenseStatus s \<noteq> None"
  using ataSenseStatus_desc(1) ataSenseStatus_fixed(1) ataSenseStatus_other
  by (metis is_err_simps(3))

text \<open>
  No sense data whatever makes \<^verbatim>\<open>ataSenseStatus\<close> panic: every slice and index it evaluates is
  guarded, and the descriptor walk returns.
\<close>

theorem ataSenseStatus_no_panic: "ataSenseStatus s \<noteq> None"
  by (rule ataSenseStatus_total)

text \<open>
  C1. Exactly which sense data counts as success, and which bytes are returned: descriptor format
  with the ATA PASS-THROUGH signature and a complete ATA Status Return descriptor in its area, or
  fixed format of at least 14 bytes with that signature. Everything else is an error.
\<close>

theorem ataSenseStatus_accepts:
  "ataSenseStatus s = Ok (st, er) \<longleftrightarrow>
     (\<exists>d. desc_success s d \<and> st = d ! 13 \<and> er = d ! 3) \<or>
     (fixed_success s \<and> s \<noteq> [] \<and> st = s ! 4 \<and> er = s ! 3)"
proof -
  consider "s = [] \<or> \<not> desc_format s \<and> \<not> fixed_format s" | "s \<noteq> []" "desc_format s"
    | "s \<noteq> []" "fixed_format s" by blast
  then show ?thesis
  proof cases
    case 1
    then have "ataSenseStatus s \<noteq> Ok (st, er)"
      using ataSenseStatus_other by fastforce
    with 1 show ?thesis by (auto simp: desc_success_def fixed_success_def)
  next
    case 2
    then show ?thesis
      using formats_exclusive [of s] by (simp add: ataSenseStatus_desc(2) fixed_success_def)
  next
    case 3
    then show ?thesis
      using formats_exclusive [of s] by (auto simp: ataSenseStatus_fixed(2) desc_success_def)
  qed
qed

text \<open>
  C2. The descriptor walk refines the reference parser: it returns the first complete ATA Status
  Return descriptor of the area, and nothing when the header or the area is truncated.
\<close>

theorem findAtaReturnDescriptor_refines:
  "findAtaReturnDescriptor s =
     Some (if 8 \<le> length s \<and> 8 + unat (s ! 7) \<le> length s
           then find is_ata_return (descs (take (unat (s ! 7)) (drop 8 s))) else None)"
  unfolding findAtaReturnDescriptor_eq desc_ok_def desc_area_def ..

section \<open>Encoding registers as sense data\<close>

record ataRegisters =
  rExtend :: bool
  rError :: u8
  rSectorCount :: u8
  rLBALow :: u8
  rLBAMid :: u8
  rLBAHigh :: u8
  rDevice :: u8
  rStatus :: u8

definition encode_return :: "ataRegisters \<Rightarrow> u8 list" where
  "encode_return r =
     [9, 12, if rExtend r then 1 else 0, rError r, 0, rSectorCount r, 0, rLBALow r, 0, rLBAMid r, 0,
      rLBAHigh r, rDevice r, rStatus r]"

text \<open>A descriptor other than the ATA Status Return one.\<close>

definition other_desc :: "u8 list \<Rightarrow> bool" where
  "other_desc d \<longleftrightarrow> 2 \<le> length d \<and> length d = 2 + unat (d ! 1) \<and> \<not> is_ata_return d"

definition encode_desc_sense :: "u8 list list \<Rightarrow> ataRegisters \<Rightarrow> u8 list \<Rightarrow> u8 list" where
  "encode_desc_sense ds r rest =
     [0x72, 1, 0, 0x1d, 0, 0, 0, of_nat (length (concat ds) + 14)] @ concat ds @ encode_return r @ rest"

text \<open>
  A fixed format frame: the VALID bit, the byte 1 and the additional length byte 7 of the frame are
  the bridge's, and so are the bytes behind the signature.
\<close>

definition encode_fixed_sense :: "bool \<Rightarrow> u8 \<Rightarrow> u8 \<Rightarrow> ataRegisters \<Rightarrow> u8 list \<Rightarrow> u8 list" where
  "encode_fixed_sense valid segment additional r rest =
     [if valid then 0xf0 else 0x70, segment, 1, rError r, rStatus r, rDevice r, rSectorCount r, additional,
      if rExtend r then 0x80 else 0, rLBALow r, rLBAMid r, rLBAHigh r, 0, 0x1d] @ rest"

lemma descs_Cons_desc:
  assumes "2 \<le> length d" "length d = 2 + unat (d ! 1)"
  shows "descs (d @ r) = d # descs r"
proof -
  obtain c n p where "d = c # n # p"
    using assms(1) by (cases d; cases "tl d") auto
  then show ?thesis using assms(2) by simp
qed

lemma find_after_others:
  "list_all other_desc ds \<Longrightarrow>
   find is_ata_return (descs (concat ds @ encode_return r)) = Some (encode_return r)"
proof (induction ds)
  case Nil
  then show ?case
    using descs_Cons_desc [of "encode_return r" "[]"]
    by (simp add: encode_return_def is_ata_return_def sense_consts)
next
  case (Cons d ds)
  then show ?case by (simp add: descs_Cons_desc other_desc_def)
qed

lemma desc_success_encode:
  assumes "list_all other_desc ds" "length (concat ds) \<le> 241"
  shows "desc_success (encode_desc_sense ds r rest) (encode_return r)"
proof -
  let ?n = "length (concat ds) + 14"
  have n: "unat (of_nat ?n :: u8) = ?n"
    using assms(2) by (simp only: unat_of_nat) (simp add: take_bit_eq_mod)
  then have "desc_area (encode_desc_sense ds r rest) = concat ds @ encode_return r"
    by (simp add: desc_area_def encode_desc_sense_def encode_return_def)
  moreover have "desc_ok (encode_desc_sense ds r rest)"
    using n by (simp add: desc_ok_def encode_desc_sense_def encode_return_def)
  ultimately show ?thesis
    using find_after_others [OF assms(1)]
    by (simp add: desc_success_def desc_format_def encode_desc_sense_def)
qed

text \<open>
  Round trip: registers encoded in descriptor format, behind any other complete descriptors
  and with any bytes after the area, or in fixed format with any bytes behind, are read back as
  they were sent.
\<close>

theorem ataSenseStatus_roundtrip:
  assumes "list_all other_desc ds" "length (concat ds) \<le> 241"
  shows "ataSenseStatus (encode_desc_sense ds r rest) = Ok (rStatus r, rError r) \<and>
    ataSenseStatus (encode_fixed_sense valid segment additional r rest) = Ok (rStatus r, rError r)"
proof
  let ?d = "encode_desc_sense ds r rest" and ?f = "encode_fixed_sense valid segment additional r rest"
  have "desc_success ?d (encode_return r)"
    using assms by (rule desc_success_encode)
  then show "ataSenseStatus ?d = Ok (rStatus r, rError r)"
    using ataSenseStatus_desc(2) [of ?d "rStatus r" "rError r"]
    by (auto simp: desc_success_def encode_return_def)
  have "fixed_success ?f"
    by (simp add: fixed_success_def fixed_format_def encode_fixed_sense_def)
  then show "ataSenseStatus ?f = Ok (rStatus r, rError r)"
    using ataSenseStatus_fixed(2) [of ?f "rStatus r" "rError r"]
    by (simp add: fixed_success_def encode_fixed_sense_def)
qed

theorem ataSenseStatus_roundtrip_witness:
  "ataSenseStatus (encode_desc_sense [[0, 2, 7, 7]]
     \<lparr>rExtend = False, rError = 4, rSectorCount = 0xff, rLBALow = 0, rLBAMid = 0, rLBAHigh = 0,
      rDevice = 0, rStatus = 0x51\<rparr> [1]) = Ok (0x51, 4)"
  by (subst ataSenseStatus_roundtrip [THEN conjunct1]) (simp_all add: other_desc_def is_ata_return_def sense_consts)

end
