(* ===== verification/AtaPower.thy ===== *)
theory AtaPower
  imports AtaSense
begin

text \<open>
  \<^verbatim>\<open>sata_power.go\<close>: the ATA power modes, what CHECK POWER MODE reports in its sense data, and the
  encoding of the standby timer. The lemmas show that the timer encoding is the exact inverse of
  the decoding where it is defined, and which sense data yields which mode.
\<close>

section \<open>Constants\<close>

definition ATA_CHECK_POWER_MODE :: u8 where "ATA_CHECK_POWER_MODE = 0xe5"
definition ATA_STANDBY_IMMEDIATE :: u8 where "ATA_STANDBY_IMMEDIATE = 0xe0"
definition ATA_IDLE_IMMEDIATE :: u8 where "ATA_IDLE_IMMEDIATE = 0xe1"
definition ATA_STANDBY :: u8 where "ATA_STANDBY = 0xe2"
definition ATA_IDLE :: u8 where "ATA_IDLE = 0xe3"
definition ATA_SLEEP :: u8 where "ATA_SLEEP = 0xe6"
definition ATA_SET_FEATURES :: u8 where "ATA_SET_FEATURES = 0xef"

definition ATA_SETFEATURES_EN_APM :: u8 where "ATA_SETFEATURES_EN_APM = 0x05"
definition ATA_SETFEATURES_DIS_APM :: u8 where "ATA_SETFEATURES_DIS_APM = 0x85"
definition ATA_SETFEATURES_EPC :: u8 where "ATA_SETFEATURES_EPC = 0x4a"
definition ATA_EPC_SUBCMD_GO_TO_POWER_CONDITION :: u8 where "ATA_EPC_SUBCMD_GO_TO_POWER_CONDITION = 0x1"

definition ATA_POWER_CONDITION_STANDBY_Z :: u8 where "ATA_POWER_CONDITION_STANDBY_Z = 0x00"
definition ATA_POWER_CONDITION_STANDBY_Y :: u8 where "ATA_POWER_CONDITION_STANDBY_Y = 0x01"
definition ATA_POWER_CONDITION_IDLE_A :: u8 where "ATA_POWER_CONDITION_IDLE_A = 0x81"
definition ATA_POWER_CONDITION_IDLE_B :: u8 where "ATA_POWER_CONDITION_IDLE_B = 0x82"
definition ATA_POWER_CONDITION_IDLE_C :: u8 where "ATA_POWER_CONDITION_IDLE_C = 0x83"

definition ATA_IDLE_UNLOAD_FEATURE :: u8 where "ATA_IDLE_UNLOAD_FEATURE = 0x44"
definition ATA_IDLE_UNLOAD_LBA_LOW :: u8 where "ATA_IDLE_UNLOAD_LBA_LOW = 0x4c"
definition ATA_IDLE_UNLOAD_LBA_MID :: u8 where "ATA_IDLE_UNLOAD_LBA_MID = 0x4e"
definition ATA_IDLE_UNLOAD_LBA_HGH :: u8 where "ATA_IDLE_UNLOAD_LBA_HGH = 0x55"

lemmas power_cmds =
  ATA_CHECK_POWER_MODE_def ATA_STANDBY_IMMEDIATE_def ATA_IDLE_IMMEDIATE_def ATA_STANDBY_def
  ATA_IDLE_def ATA_SLEEP_def ATA_SET_FEATURES_def ATA_SETFEATURES_EN_APM_def
  ATA_SETFEATURES_DIS_APM_def ATA_SETFEATURES_EPC_def ATA_IDLE_UNLOAD_FEATURE_def
  ATA_IDLE_UNLOAD_LBA_LOW_def ATA_IDLE_UNLOAD_LBA_MID_def ATA_IDLE_UNLOAD_LBA_HGH_def

lemmas power_conditions =
  ATA_POWER_CONDITION_STANDBY_Y_def ATA_POWER_CONDITION_IDLE_A_def
  ATA_POWER_CONDITION_IDLE_B_def ATA_POWER_CONDITION_IDLE_C_def

section \<open>Power modes\<close>

text \<open>\<^verbatim>\<open>AtaPowerMode\<close> is a byte; the named constants are values of it.\<close>

type_synonym AtaPowerMode = u8

definition AtaPowerModeStandby :: AtaPowerMode where "AtaPowerModeStandby = 0x00"
definition AtaPowerModeStandbyY :: AtaPowerMode where "AtaPowerModeStandbyY = 0x01"
definition AtaPowerModeIdle :: AtaPowerMode where "AtaPowerModeIdle = 0x80"
definition AtaPowerModeIdleA :: AtaPowerMode where "AtaPowerModeIdleA = 0x81"
definition AtaPowerModeIdleB :: AtaPowerMode where "AtaPowerModeIdleB = 0x82"
definition AtaPowerModeIdleC :: AtaPowerMode where "AtaPowerModeIdleC = 0x83"
definition AtaPowerModeActiveOrIdle :: AtaPowerMode where "AtaPowerModeActiveOrIdle = 0xff"

lemmas power_modes =
  AtaPowerModeStandby_def AtaPowerModeStandbyY_def AtaPowerModeIdle_def AtaPowerModeIdleA_def
  AtaPowerModeIdleB_def AtaPowerModeIdleC_def AtaPowerModeActiveOrIdle_def

text \<open>\<^verbatim>\<open>%#02x\<close> of a byte: \<open>0x\<close> and two lower case digits.\<close>

definition hex_digit :: "nat \<Rightarrow> char" where
  "hex_digit n = ''0123456789abcdef'' ! n"

definition hex_byte :: "u8 \<Rightarrow> string" where
  "hex_byte b = ''0x'' @ [hex_digit (unat b div 16), hex_digit (unat b mod 16)]"

definition AtaPowerMode_String :: "AtaPowerMode \<Rightarrow> string" where
  "AtaPowerMode_String m =
     (if m = AtaPowerModeStandby then ''standby''
      else if m = AtaPowerModeStandbyY then ''standby_y''
      else if m = AtaPowerModeIdle then ''idle''
      else if m = AtaPowerModeIdleA then ''idle_a''
      else if m = AtaPowerModeIdleB then ''idle_b''
      else if m = AtaPowerModeIdleC then ''idle_c''
      else if m = AtaPowerModeActiveOrIdle then ''active or idle''
      else ''unknown (sector count '' @ hex_byte m @ '')'')"

definition known_mode :: "u8 \<Rightarrow> bool" where
  "known_mode m \<longleftrightarrow>
     m = AtaPowerModeStandby \<or> m = AtaPowerModeStandbyY \<or> m = AtaPowerModeIdle \<or>
     m = AtaPowerModeIdleA \<or> m = AtaPowerModeIdleB \<or> m = AtaPowerModeIdleC \<or>
     m = AtaPowerModeActiveOrIdle"

definition ataPowerModeFromSense :: "u8 list \<Rightarrow> AtaPowerMode res" where
  "ataPowerModeFromSense sense =
     (if \<not> HasResponseCode sense
      then Err (Errorf ''sense buffer too short (%d bytes)'' [AInt (int (length sense))])
      else do {
        isDesc \<leftarrow> IsDescriptorFormat sense;
        nsect \<leftarrow>
         (if isDesc then do {
            valid \<leftarrow> desc_IsValid sense;
            if \<not> valid
            then Err (Errorf ''descriptor format sense buffer is inavalid (length: %d bytes)''
                   [AInt (int (length sense))])
            else do {
              info \<leftarrow> IsAtaPassThroughInfo sense;
              if \<not> info then do {
                key \<leftarrow> SenseKey sense; asc \<leftarrow> ASC sense; ascq \<leftarrow> ASCQ sense;
                Err (Errorf ''unexpected sense key/ASC/ASCQ: %#02x/%#02x/%#02x''
                  [AInt (uint key), AInt (uint asc), AInt (uint ascq)]) }
              else do {
                found \<leftarrow> findAtaReturnDescriptor sense;
                case found of
                  None \<Rightarrow> Err (Errorf ''no ATA Status Return descriptor in sense data'' [])
                | Some d \<Rightarrow> map_option Inr (ret_SectorCount d) } } }
          else do {
            isFixed \<leftarrow> IsFixedFormat sense;
            if isFixed then do {
              valid \<leftarrow> fixed_IsValid sense;
              if \<not> valid
              then Err (Errorf ''fixed format sense buffer is invalid (length: %d bytes)''
                     [AInt (int (length sense))])
              else do {
                info \<leftarrow> IsAtaPassThroughInfo sense;
                if \<not> info then do {
                  key \<leftarrow> SenseKey sense; asc \<leftarrow> ASC sense; ascq \<leftarrow> ASCQ sense;
                  Err (Errorf ''unexpected sense key/ASC/ASCQ: %#02x/%#02x/%#02x''
                    [AInt (uint key), AInt (uint asc), AInt (uint ascq)]) }
                else map_option Inr (fixed_SectorCount sense) } }
            else do {
              c \<leftarrow> ResponseCode sense;
              Err (Errorf ''unsupported sense data format (response code %#02x)'' [AInt (uint c)]) } });
        case nsect of
          Inl e \<Rightarrow> Err e
        | Inr n \<Rightarrow>
            if known_mode n then Ok n
            else Err (Errorf ''unexpected sector count value in CHECK POWER MODE response: %#02x''
                   [AInt (uint n)]) })"

section \<open>The standby timer\<close>

text \<open>
  A \<^verbatim>\<open>time.Duration\<close> is a 64-bit count of nanoseconds. None of the computations here leaves its
  range, so an \<open>int\<close> stands for it; \<^verbatim>\<open>/\<close> and \<^verbatim>\<open>%\<close> truncate towards zero (\<open>sdiv\<close>, \<open>smod\<close>).
\<close>

type_synonym duration = int

definition Second :: duration where "Second = 1000000000"
definition Minute :: duration where "Minute = 60 * Second"
definition Hour :: duration where "Hour = 60 * Minute"

lemmas time_units = Second_def Minute_def Hour_def

definition encodeAtaSpinDownTimeout :: "duration \<Rightarrow> u8 res" where
  "encodeAtaSpinDownTimeout d =
     (if d = 0 then Ok 0
      else if d < 0 then Err (Errorf ''duration %s cannot be negative'' [AInt d])
      else if d \<le> 20 * Minute \<and> d smod (5 * Second) = 0 then Ok (of_int (d sdiv (5 * Second)))
      else if d \<le> 5 * Hour + 30 * Minute \<and> d smod (30 * Minute) = 0
      then Ok (of_int (d sdiv (30 * Minute)) + 240)
      else Err (Errorf ''duration %s cannot be encoded as an ATA standby timer value (use 0, multiples of 5s up to 20m, or multiples of 30m up to 5h30m)''
             [AInt d]))"

definition decodeAtaSpinDownTimeout :: "u8 \<Rightarrow> duration" where
  "decodeAtaSpinDownTimeout v =
     (if v = 0 then 0
      else if v \<le> 240 then uint v * 5 * Second
      else if v \<le> 251 then uint (v - 240) * 30 * Minute
      else if v = 252 then 21 * Minute
      else if v = 255 then 21 * Minute + 15 * Second
      else 0)"

section \<open>Power conditions\<close>

text \<open>The condition and the flag \<^verbatim>\<open>ok\<close>.\<close>

definition powerConditionForMode :: "AtaPowerMode \<Rightarrow> u8 \<times> bool" where
  "powerConditionForMode m =
     (if m = AtaPowerModeStandbyY then (ATA_POWER_CONDITION_STANDBY_Y, True)
      else if m = AtaPowerModeIdleA then (ATA_POWER_CONDITION_IDLE_A, True)
      else if m = AtaPowerModeIdleB then (ATA_POWER_CONDITION_IDLE_B, True)
      else if m = AtaPowerModeIdleC then (ATA_POWER_CONDITION_IDLE_C, True)
      else (0, False))"

lemma powerCondition_is_mode:
  "powerConditionForMode m = (c, True) \<longleftrightarrow> c = m \<and> m \<in> {1, 0x81, 0x82, 0x83}"
  by (auto simp: powerConditionForMode_def power_modes power_conditions)

section \<open>The timer encoding\<close>

lemma u8_cases_le: "(v :: u8) \<le> w \<longleftrightarrow> uint v \<le> uint w"
  by (simp add: word_le_def)

lemma uint_byte: "0 \<le> x \<Longrightarrow> x < 256 \<Longrightarrow> uint (of_int x :: u8) = x"
  by (simp add: uint_word_of_int_eq take_bit_eq_mod)

lemma sdiv_nonneg: "0 \<le> (d :: int) \<Longrightarrow> 0 < u \<Longrightarrow> d sdiv u = d div u"
  by (cases "d = 0") (simp_all add: signed_divide_int_def)

lemma smod_nonneg: "0 \<le> (d :: int) \<Longrightarrow> 0 < u \<Longrightarrow> d smod u = d mod u"
  by (cases "d = 0") (simp_all add: signed_modulo_int_def)

text \<open>The three parts of the decoding in terms of the value of the byte.\<close>

lemma decode_low: "uint v \<le> 240 \<Longrightarrow> decodeAtaSpinDownTimeout v = uint v * 5000000000"
  by (auto simp: decodeAtaSpinDownTimeout_def u8_cases_le time_units)

lemma decode_high:
  assumes "240 < uint v" "uint v \<le> 251"
  shows "decodeAtaSpinDownTimeout v = (uint v - 240) * 1800000000000"
proof -
  have "uint (v - 240) = uint v - 240"
    using assms by (simp add: uint_word_ariths)
  moreover have "v \<noteq> 0" using assms(1) by auto
  ultimately show ?thesis
    using assms by (simp add: decodeAtaSpinDownTimeout_def u8_cases_le time_units)
qed

lemma encode_eq:
  "0 < d \<Longrightarrow> d \<le> 1200000000000 \<Longrightarrow> d mod 5000000000 = 0 \<Longrightarrow>
     encodeAtaSpinDownTimeout d = Ok (of_int (d div 5000000000))"
  "1200000000000 < d \<Longrightarrow> d \<le> 19800000000000 \<Longrightarrow> d mod 1800000000000 = 0 \<Longrightarrow>
     encodeAtaSpinDownTimeout d = Ok (of_int (d div 1800000000000) + 240)"
  by (simp_all add: encodeAtaSpinDownTimeout_def time_units sdiv_nonneg smod_nonneg)

lemma encode_ok_cases:
  assumes "encodeAtaSpinDownTimeout d = Ok v"
  obtains (zero) "d = 0" "v = 0"
  | (low) "0 < d" "d \<le> 1200000000000" "d mod 5000000000 = 0" "v = of_int (d div 5000000000)"
  | (high) "1200000000000 < d" "d \<le> 19800000000000" "d mod 1800000000000 = 0"
      "v = of_int (d div 1800000000000) + 240"
proof -
  have "d mod 5000000000 = 0" if "d mod 1800000000000 = 0"
  proof -
    from that have "1800000000000 dvd d" by (rule mod_0_imp_dvd)
    moreover have "(5000000000 :: int) dvd 1800000000000"
      by (rule dvdI [where k = 360]) simp
    ultimately show ?thesis by (meson dvd_imp_mod_0 dvd_trans)
  qed
  with assms that show thesis
    by (auto simp: encodeAtaSpinDownTimeout_def time_units sdiv_nonneg smod_nonneg split: if_splits)
qed

lemma uint_add_240: "0 \<le> x \<Longrightarrow> x < 16 \<Longrightarrow> uint (of_int x + 240 :: u8) = x + 240"
  by (simp add: uint_word_ariths uint_byte)

lemma encode_inverse:
  "encodeAtaSpinDownTimeout d = Ok v \<longleftrightarrow> v \<le> 251 \<and> decodeAtaSpinDownTimeout v = d"
proof
  assume "encodeAtaSpinDownTimeout d = Ok v"
  then show "v \<le> 251 \<and> decodeAtaSpinDownTimeout v = d"
  proof (cases rule: encode_ok_cases)
    case zero
    then show ?thesis by (simp add: decodeAtaSpinDownTimeout_def)
  next
    case low
    then obtain q where q: "d = 5000000000 * q" "0 < q" "q \<le> 240" by (auto dest!: mod_0_imp_dvd elim!: dvdE)
    with low have "uint v = q" by (simp add: uint_byte)
    with q show ?thesis by (simp add: decode_low u8_cases_le)
  next
    case high
    then obtain q where q: "d = 1800000000000 * q" "0 < q" "q \<le> 11" by (auto dest!: mod_0_imp_dvd elim!: dvdE)
    with high have "uint v = q + 240" by (simp add: uint_add_240)
    with q show ?thesis by (simp add: decode_high u8_cases_le)
  qed
next
  assume v: "v \<le> 251 \<and> decodeAtaSpinDownTimeout v = d"
  then have le: "uint v \<le> 251" by (simp add: u8_cases_le)
  consider "v = 0" | "0 < uint v" "uint v \<le> 240" | "240 < uint v" "uint v \<le> 251"
    using le by (metis linorder_not_less uint_0_iff uint_ge_0 order_le_less)
  then show "encodeAtaSpinDownTimeout d = Ok v"
  proof cases
    case 1
    with v have "d = 0" by (simp add: decodeAtaSpinDownTimeout_def)
    with 1 show ?thesis by (simp add: encodeAtaSpinDownTimeout_def)
  next
    case 2
    with v have "d = uint v * 5000000000" by (simp add: decode_low)
    with 2 show ?thesis by (simp add: encode_eq(1))
  next
    case 3
    with v have "d = (uint v - 240) * 1800000000000" by (simp add: decode_high)
    with 3 show ?thesis by (simp add: encode_eq(2))
  qed
qed

text \<open>
  C11. The encoding is the exact inverse of the decoding on the timer values 0 to 251: \<open>d\<close> is
  encoded as \<open>v\<close> if and only if \<open>v\<close> is one of them and stands for \<open>d\<close>. So each accepted duration is
  one a drive understands as that duration, and every duration a value up to 251 stands for is
  accepted.
\<close>

theorem encodeAtaSpinDownTimeout_inverse:
  "encodeAtaSpinDownTimeout d = Ok v \<longleftrightarrow> v \<le> 251 \<and> decodeAtaSpinDownTimeout v = d"
  by (rule encode_inverse)

section \<open>CHECK POWER MODE\<close>

lemma mode_desc:
  assumes "s \<noteq> []" "desc_format s"
  shows "ataPowerModeFromSense s \<noteq> None \<and>
    (ataPowerModeFromSense s = Ok m \<longleftrightarrow> (\<exists>d. desc_success s d \<and> m = d ! 5 \<and> known_mode m))"
proof -
  have "HasResponseCode s"
    using assms(1) by (simp add: HasResponseCode_def Suc_le_eq)
  note defs = this ataPowerModeFromSense_def format_dispatch [OF assms(1)] assms desc_IsValid_eq
    findAtaReturnDescriptor_eq desc_info desc_success_def
  have "4 \<le> length s" if "desc_ok s"
    using that by (simp add: desc_ok_def)
  then show ?thesis
    using found_descriptor(1) [of "desc_area s"] desc_fmt.view [OF assms] formats_exclusive [OF assms(2)]
    by (cases "find is_ata_return (descs (desc_area s))")
      (auto simp: defs ret_SectorCount_def desc_SenseKey_def desc_ASC_def desc_ASCQ_def)
qed

lemma mode_fixed:
  assumes "s \<noteq> []" "fixed_format s"
  shows "ataPowerModeFromSense s \<noteq> None \<and>
    (ataPowerModeFromSense s = Ok m \<longleftrightarrow> fixed_success s \<and> m = s ! 6 \<and> known_mode m)"
  using assms formats_exclusive [of s] fixed_fmt.view [OF assms]
  by (auto simp: ataPowerModeFromSense_def HasResponseCode_def Suc_le_eq format_dispatch fixed_info
      fixed_IsValid_def fixedSenseMinLen_def fixed_success_def fixed_SectorCount_def
      fixed_SenseKey_def fixed_ASC_def fixed_ASCQ_def)

lemma mode_other:
  assumes "s = [] \<or> \<not> desc_format s \<and> \<not> fixed_format s"
  shows "is_err (ataPowerModeFromSense s)"
  using assms
  by (auto simp: ataPowerModeFromSense_def HasResponseCode_def Suc_le_eq format_dispatch
      ResponseCode_def)

text \<open>
  CHECK POWER MODE: the parser never panics, and it reports the mode \<open>m\<close> exactly when the sense
  data is a success that \<^verbatim>\<open>ataSenseStatus\<close> would accept too and its sector count register is \<open>m\<close>, one
  of the seven modes the package names.
\<close>

theorem ataPowerModeFromSense_accepts:
  "ataPowerModeFromSense s \<noteq> None \<and>
   (ataPowerModeFromSense s = Ok m \<longleftrightarrow>
     known_mode m \<and>
     ((\<exists>d. desc_success s d \<and> ataSenseStatus s = Ok (d ! 13, d ! 3) \<and> m = d ! 5) \<or>
      (s \<noteq> [] \<and> fixed_success s \<and> ataSenseStatus s = Ok (s ! 4, s ! 3) \<and> m = s ! 6)))"
proof -
  consider "s = [] \<or> \<not> desc_format s \<and> \<not> fixed_format s" | "s \<noteq> []" "desc_format s"
    | "s \<noteq> []" "fixed_format s" by blast
  then show ?thesis
  proof cases
    case 1
    then show ?thesis
      using mode_other [OF 1] by (auto simp: is_err_iff desc_success_def fixed_success_def)
  next
    case 2
    then show ?thesis
      using formats_exclusive [of s] mode_desc [OF 2] ataSenseStatus_desc(2) [OF 2]
      by (auto simp: fixed_success_def)
  next
    case 3
    then show ?thesis
      using formats_exclusive [of s] mode_fixed [OF 3] ataSenseStatus_fixed(2) [OF 3]
      by (auto simp: desc_success_def)
  qed
qed

lemma mode_roundtrip:
  assumes "known_mode (rSectorCount r)" "list_all other_desc ds" "length (concat ds) \<le> 241"
  shows "ataPowerModeFromSense (encode_desc_sense ds r rest) = Ok (rSectorCount r) \<and>
    ataPowerModeFromSense (encode_fixed_sense valid segment additional r rest) = Ok (rSectorCount r)"
proof
  let ?d = "encode_desc_sense ds r rest" and ?f = "encode_fixed_sense valid segment additional r rest"
  have d: "desc_success ?d (encode_return r)"
    using assms(2,3) by (rule desc_success_encode)
  with assms(1) show "ataPowerModeFromSense ?d = Ok (rSectorCount r)"
    using mode_desc [of ?d "rSectorCount r"] by (auto simp: desc_success_def encode_return_def)
  have "fixed_format ?f" "fixed_success ?f"
    by (simp_all add: fixed_success_def fixed_format_def encode_fixed_sense_def)
  with assms(1) show "ataPowerModeFromSense ?f = Ok (rSectorCount r)"
    using mode_fixed [of ?f "rSectorCount r"] by (simp add: encode_fixed_sense_def)
qed

text \<open>
  Round trip: a drive in mode \<open>m\<close> that reports it in the sector count register, in either
  format and behind any other descriptors, is understood.
\<close>

theorem ataPowerModeFromSense_roundtrip:
  assumes "known_mode (rSectorCount r)" "list_all other_desc ds" "length (concat ds) \<le> 241"
  shows "ataPowerModeFromSense (encode_desc_sense ds r rest) = Ok (rSectorCount r) \<and>
    ataPowerModeFromSense (encode_fixed_sense valid segment additional r rest) = Ok (rSectorCount r)"
  using assms by (rule mode_roundtrip)

theorem ataPowerModeFromSense_roundtrip_witness:
  "ataPowerModeFromSense (encode_desc_sense []
     \<lparr>rExtend = False, rError = 0, rSectorCount = 0x82, rLBALow = 0, rLBAMid = 0, rLBAHigh = 0,
      rDevice = 0, rStatus = 0x50\<rparr> []) = Ok AtaPowerModeIdleB"
  by (subst ataPowerModeFromSense_roundtrip [THEN conjunct1]) (simp_all add: known_mode_def power_modes)

end
