(* ===== verification/AtaSmart.thy ===== *)
theory AtaSmart
  imports AtaIdentify AtaPower
begin

text \<open>
  The SMART part of \<^verbatim>\<open>sata.go\<close>: attribute types and mappings, the pages a drive returns with their
  wire layout, the raw value of an attribute, the attribute and threshold tables built from a page
  and the device statistics log. The default attribute table is the one of
  \<^verbatim>\<open>ata_device_database.go\<close>.
\<close>

section \<open>Attribute types and mappings\<close>

text \<open>The constants are untyped integers in Go; an attribute without a mapping has type 0.\<close>

definition TypeRaw8 :: int where "TypeRaw8 = 1"
definition TypeRaw16 :: int where "TypeRaw16 = 2"
definition TypeRaw48 :: int where "TypeRaw48 = 3"
definition TypeHex48 :: int where "TypeHex48 = 4"
definition TypeRaw56 :: int where "TypeRaw56 = 5"
definition TypeHex56 :: int where "TypeHex56 = 6"
definition TypeRaw64 :: int where "TypeRaw64 = 7"
definition TypeHex64 :: int where "TypeHex64 = 8"
definition TypeRaw16OptRaw16 :: int where "TypeRaw16OptRaw16 = 9"
definition TypeRaw16OptAvg16 :: int where "TypeRaw16OptAvg16 = 10"
definition TypeRaw24OptRaw8 :: int where "TypeRaw24OptRaw8 = 11"
definition TypeRaw24DivRaw24 :: int where "TypeRaw24DivRaw24 = 12"
definition TypeRaw24DivRaw32 :: int where "TypeRaw24DivRaw32 = 13"
definition TypeSec2Hour :: int where "TypeSec2Hour = 14"
definition TypeMin2Hour :: int where "TypeMin2Hour = 15"
definition TypeHalfMin2Hour :: int where "TypeHalfMin2Hour = 16"
definition TypeMsec24Hour32 :: int where "TypeMsec24Hour32 = 17"
definition TypeTempMinMax :: int where "TypeTempMinMax = 18"
definition TypeTemp10X :: int where "TypeTemp10X = 19"

lemmas attr_types =
  TypeRaw8_def
  TypeRaw16_def
  TypeRaw48_def
  TypeHex48_def
  TypeRaw56_def
  TypeHex56_def
  TypeRaw64_def
  TypeHex64_def
  TypeRaw16OptRaw16_def
  TypeRaw16OptAvg16_def
  TypeRaw24OptRaw8_def
  TypeRaw24DivRaw24_def
  TypeRaw24DivRaw32_def
  TypeSec2Hour_def
  TypeMin2Hour_def
  TypeHalfMin2Hour_def
  TypeMsec24Hour32_def
  TypeTempMinMax_def
  TypeTemp10X_def

definition RestrictionNone :: int where "RestrictionNone = 0"
definition RestrictionHDDOnly :: int where "RestrictionHDDOnly = 1"
definition RestrictionSSDOnly :: int where "RestrictionSSDOnly = 2"

record ataDeviceAttr =
  attrName :: string
  attrTyp :: int
  attrByteOrder :: string
  attrRestriction :: int

definition attr :: "string \<Rightarrow> int \<Rightarrow> string \<Rightarrow> int \<Rightarrow> ataDeviceAttr" where
  "attr n t b r = \<lparr>attrName = n, attrTyp = t, attrByteOrder = b, attrRestriction = r\<rparr>"

text \<open>A \<^verbatim>\<open>map[int]ataDeviceAttr\<close>; \<open>presets\<close> of a database record may be \<^verbatim>\<open>nil\<close>.\<close>

type_synonym attrMapping = "int \<rightharpoonup> ataDeviceAttr"

record ataDeviceInfo =
  dbModel :: string
  dbModelRe :: string
  dbFirmwareRe :: string
  dbPresets :: "attrMapping option"
  dbBug :: int

definition ataDefaultAttributesTable :: "(int \<times> ataDeviceAttr) list" where
  "ataDefaultAttributesTable =
   [(1, attr ''Raw_Read_Error_Rate'' TypeRaw48 '''' 0),
    (2, attr ''Throughput_Performance'' TypeRaw48 '''' 0),
    (3, attr ''Spin_Up_Time'' TypeRaw16OptAvg16 '''' 0),
    (4, attr ''Start_Stop_Count'' TypeRaw48 '''' 0),
    (5, attr ''Reallocated_Sector_Ct'' TypeRaw16OptRaw16 '''' 0),
    (6, attr ''Read_Channel_Margin'' TypeRaw48 '''' RestrictionHDDOnly),
    (7, attr ''Seek_Error_Rate'' TypeRaw48 '''' RestrictionHDDOnly),
    (8, attr ''Seek_Time_Performance'' TypeRaw48 '''' RestrictionHDDOnly),
    (9, attr ''Power_On_Hours'' TypeRaw24OptRaw8 '''' 0),
    (10, attr ''Spin_Retry_Count'' TypeRaw48 '''' RestrictionHDDOnly),
    (11, attr ''Calibration_Retry_Count'' TypeRaw48 '''' RestrictionHDDOnly),
    (12, attr ''Power_Cycle_Count'' TypeRaw48 '''' 0),
    (13, attr ''Read_Soft_Error_Rate'' TypeRaw48 '''' 0),
    (22, attr ''Helium_Level'' TypeRaw16OptRaw16 '''' RestrictionHDDOnly),
    (23, attr ''Helium_Condition_Lower'' TypeRaw48 '''' RestrictionHDDOnly),
    (24, attr ''Helium_Condition_Upper'' TypeRaw48 '''' RestrictionHDDOnly),
    (175, attr ''Program_Fail_Count_Chip'' TypeRaw48 '''' RestrictionSSDOnly),
    (176, attr ''Erase_Fail_Count_Chip'' TypeRaw48 '''' RestrictionSSDOnly),
    (177, attr ''Wear_Leveling_Count'' TypeRaw48 '''' RestrictionSSDOnly),
    (178, attr ''Used_Rsvd_Blk_Cnt_Chip'' TypeRaw48 '''' RestrictionSSDOnly),
    (179, attr ''Used_Rsvd_Blk_Cnt_Tot'' TypeRaw48 '''' RestrictionSSDOnly),
    (180, attr ''Unused_Rsvd_Blk_Cnt_Tot'' TypeRaw48 '''' RestrictionSSDOnly),
    (181, attr ''Program_Fail_Cnt_Total'' TypeRaw48 '''' 0),
    (182, attr ''Erase_Fail_Count_Total'' TypeRaw48 '''' RestrictionSSDOnly),
    (183, attr ''Runtime_Bad_Block'' TypeRaw48 '''' 0),
    (184, attr ''End-to-End_Error'' TypeRaw48 '''' 0),
    (187, attr ''Reported_Uncorrect'' TypeRaw48 '''' 0),
    (188, attr ''Command_Timeout'' TypeRaw48 '''' 0),
    (189, attr ''High_Fly_Writes'' TypeRaw48 '''' RestrictionHDDOnly),
    (190, attr ''Airflow_Temperature_Cel'' TypeTempMinMax '''' 0),
    (191, attr ''G-Sense_Error_Rate'' TypeRaw48 '''' RestrictionHDDOnly),
    (192, attr ''Power-Off_Retract_Count'' TypeRaw48 '''' 0),
    (193, attr ''Load_Cycle_Count'' TypeRaw48 '''' RestrictionHDDOnly),
    (194, attr ''Temperature_Celsius'' TypeTempMinMax '''' 0),
    (195, attr ''Hardware_ECC_Recovered'' TypeRaw48 '''' 0),
    (196, attr ''Reallocated_Event_Count'' TypeRaw16OptRaw16 '''' 0),
    (197, attr ''Current_Pending_Sector'' TypeRaw48 '''' 0),
    (198, attr ''Offline_Uncorrectable'' TypeRaw48 '''' 0),
    (199, attr ''UDMA_CRC_Error_Count'' TypeRaw48 '''' 0),
    (200, attr ''Multi_Zone_Error_Rate'' TypeRaw48 '''' RestrictionHDDOnly),
    (201, attr ''Soft_Read_Error_Rate'' TypeRaw48 '''' RestrictionHDDOnly),
    (202, attr ''Data_Address_Mark_Errs'' TypeRaw48 '''' RestrictionHDDOnly),
    (203, attr ''Run_Out_Cancel'' TypeRaw48 '''' 0),
    (204, attr ''Soft_ECC_Correction'' TypeRaw48 '''' 0),
    (205, attr ''Thermal_Asperity_Rate'' TypeRaw48 '''' 0),
    (206, attr ''Flying_Height'' TypeRaw48 '''' RestrictionHDDOnly),
    (207, attr ''Spin_High_Current'' TypeRaw48 '''' RestrictionHDDOnly),
    (208, attr ''Spin_Buzz'' TypeRaw48 '''' RestrictionHDDOnly),
    (209, attr ''Offline_Seek_Performnce'' TypeRaw48 '''' RestrictionHDDOnly),
    (220, attr ''Disk_Shift'' TypeRaw48 '''' RestrictionHDDOnly),
    (221, attr ''G-Sense_Error_Rate'' TypeRaw48 '''' RestrictionHDDOnly),
    (222, attr ''Loaded_Hours'' TypeRaw48 '''' RestrictionHDDOnly),
    (223, attr ''Load_Retry_Count'' TypeRaw48 '''' RestrictionHDDOnly),
    (224, attr ''Load_Friction'' TypeRaw48 '''' RestrictionHDDOnly),
    (225, attr ''Load_Cycle_Count'' TypeRaw48 '''' RestrictionHDDOnly),
    (226, attr ''Load-in_Time'' TypeRaw48 '''' RestrictionHDDOnly),
    (227, attr ''Torq-amp_Count'' TypeRaw48 '''' RestrictionHDDOnly),
    (228, attr ''Power-off_Retract_Count'' TypeRaw48 '''' 0),
    (230, attr ''Head_Amplitude'' TypeRaw48 '''' RestrictionHDDOnly),
    (231, attr ''Temperature_Celsius'' TypeRaw48 '''' RestrictionHDDOnly),
    (232, attr ''Available_Reservd_Space'' TypeRaw48 '''' 0),
    (233, attr ''Media_Wearout_Indicator'' TypeRaw48 '''' RestrictionSSDOnly),
    (240, attr ''Head_Flying_Hours'' TypeRaw24OptRaw8 '''' RestrictionHDDOnly),
    (241, attr ''Total_LBAs_Written'' TypeRaw48 '''' 0),
    (242, attr ''Total_LBAs_Read'' TypeRaw48 '''' 0),
    (250, attr ''Read_Error_Retry_Rate'' TypeRaw48 '''' 0),
    (254, attr ''Free_Fall_Sensor'' TypeRaw48 '''' RestrictionHDDOnly)]"

definition ataDefaultAttributes :: attrMapping where
  "ataDefaultAttributes = map_of ataDefaultAttributesTable"

section \<open>Pages\<close>

record AtaSmartAttrRaw =
  rawId :: u8
  rawFlags :: u16
  rawCurrent :: u8
  rawWorst :: u8
  rawVendorBytes :: "u8 list"
  rawReserved :: u8

definition AtaSmartAttrRaw_fields :: gfields where
  "AtaSmartAttrRaw_fields = mkfields
    [(''Id'', U8), (''Flags'', U16), (''Current'', U8), (''Worst'', U8), (''VendorBytes'', Arr 6 U8),
     (''Reserved'', U8)]"

definition AtaSmartAttrRaw_of :: "gval \<Rightarrow> AtaSmartAttrRaw" where
  "AtaSmartAttrRaw_of v =
     \<lparr>rawId = vu8 (fld v ''Id''), rawFlags = vu16 (fld v ''Flags''), rawCurrent = vu8 (fld v ''Current''),
      rawWorst = vu8 (fld v ''Worst''), rawVendorBytes = vbytes (fld v ''VendorBytes''),
      rawReserved = vu8 (fld v ''Reserved'')\<rparr>"

record AtaSmartPageRaw =
  pageVersion :: u16
  pageAttrs :: "AtaSmartAttrRaw list"

definition AtaSmartPageRaw_fields :: gfields where
  "AtaSmartPageRaw_fields = mkfields
    [(''Version'', U16), (''Attrs'', Arr 30 (Struct AtaSmartAttrRaw_fields))]"

definition AtaSmartPageRaw_of :: "gval \<Rightarrow> AtaSmartPageRaw" where
  "AtaSmartPageRaw_of v =
     \<lparr>pageVersion = vu16 (fld v ''Version''), pageAttrs = map AtaSmartAttrRaw_of (varr (fld v ''Attrs''))\<rparr>"

text \<open>The log pages are kept as decoded values of their types.\<close>

definition AtaSmartLogDirectory_type :: gtype where
  "AtaSmartLogDirectory_type = Struct (mkfields
    [(''Version'', U16), (''Address'', Arr 255 (Struct (mkfields [(''NumPages'', U8), (''_'', U8)])))])"

definition AtaSmartErrorLogSummary_type :: gtype where
  "AtaSmartErrorLogSummary_type = Struct (mkfields
    [(''Version'', U8), (''LogIndex'', U8), (''LogData'', Arr 5 (Arr 90 U8)), (''ErrorCount'', U16),
     (''_'', Arr 57 U8), (''Checksum'', U8)])"

definition AtaSmartSelfTestLog_type :: gtype where
  "AtaSmartSelfTestLog_type = Struct (mkfields
    [(''Version'', U16),
     (''Entry'', Arr 21 (Struct (mkfields
       [(''LBA_7'', U8), (''Status'', U8), (''LifeTimestamp'', U16), (''Checkpoint'', U8), (''LBA'', U32),
        (''VendorSpecific'', Arr 15 U8)]))),
     (''VendorSpecific'', U16), (''Index'', U8), (''_'', U16), (''Checksum'', U8)])"

record AtaSmartThresholdEntry =
  entryId :: u8
  entryThreshold :: u8

definition AtaSmartThresholdEntry_fields :: gfields where
  "AtaSmartThresholdEntry_fields = mkfields [(''Id'', U8), (''Threshold'', U8), (''_'', Arr 10 U8)]"

definition AtaSmartThresholdEntry_of :: "gval \<Rightarrow> AtaSmartThresholdEntry" where
  "AtaSmartThresholdEntry_of v =
     \<lparr>entryId = vu8 (fld v ''Id''), entryThreshold = vu8 (fld v ''Threshold'')\<rparr>"

record AtaSmartThresholdsPageRaw =
  rawRevnumber :: u16
  rawThresholdEntries :: "AtaSmartThresholdEntry list"
  rawChksum :: u8

definition AtaSmartThresholdsPageRaw_fields :: gfields where
  "AtaSmartThresholdsPageRaw_fields = mkfields
    [(''Revnumber'', U16), (''ThresholdEntries'', Arr 30 (Struct AtaSmartThresholdEntry_fields)),
     (''_'', Arr 149 U8), (''Chksum'', U8)]"

definition AtaSmartThresholdsPageRaw_of :: "gval \<Rightarrow> AtaSmartThresholdsPageRaw" where
  "AtaSmartThresholdsPageRaw_of v =
     \<lparr>rawRevnumber = vu16 (fld v ''Revnumber''),
      rawThresholdEntries = map AtaSmartThresholdEntry_of (varr (fld v ''ThresholdEntries'')),
      rawChksum = vu8 (fld v ''Chksum'')\<rparr>"

section \<open>Device statistics\<close>

text \<open>The value of a Go \<^verbatim>\<open>int\<close> or \<^verbatim>\<open>int64\<close> expression: arithmetic wraps around at 64 bits.\<close>

definition go_int :: "int \<Rightarrow> int" where
  "go_int x = sint (of_int x :: u64)"

record AtaDeviceStatistics =
  statRaw :: "u8 list"

definition AtaStatLifetimePowerOnResets :: int where "AtaStatLifetimePowerOnResets = 0x01 * 512 + 0x008"
definition AtaStatPowerOnHours :: int where "AtaStatPowerOnHours = 0x01 * 512 + 0x010"
definition AtaStatLogicalSectorsWritten :: int where "AtaStatLogicalSectorsWritten = 0x01 * 512 + 0x018"
definition AtaStatLogicalSectorsRead :: int where "AtaStatLogicalSectorsRead = 0x01 * 512 + 0x028"
definition AtaStatReportedUncorrectableErrors :: int where
  "AtaStatReportedUncorrectableErrors = 0x04 * 512 + 0x008"
definition AtaStatCurrentTemperature :: int where "AtaStatCurrentTemperature = 0x05 * 512 + 0x008"
definition AtaStatInterfaceCRCErrors :: int where "AtaStatInterfaceCRCErrors = 0x06 * 512 + 0x018"
definition AtaStatPercentageUsedEndurance :: int where
  "AtaStatPercentageUsedEndurance = 0x07 * 512 + 0x008"

text \<open>The value and \<^verbatim>\<open>ok\<close>; \<^verbatim>\<open>s.raw[offset : offset+8]\<close> panics when its bounds are out of range.\<close>

definition AtaDeviceStatistics_Get :: "AtaDeviceStatistics \<Rightarrow> int \<Rightarrow> (u64 \<times> bool) option" where
  "AtaDeviceStatistics_Get s offset =
     (if offset < 0 \<or> go_int (offset + 8) > int (length (statRaw s)) then Some (0, False)
      else if go_int (offset + 8) < 0 then None
      else do {
        bs \<leftarrow> subslice (statRaw s) (nat offset) (nat (go_int (offset + 8)));
        let field = le_word bs;
        if field AND push_bit 63 1 = 0 \<or> field AND push_bit 62 1 = 0 then Some (0, False)
        else Some (field AND (push_bit 56 1 - 1), True) })"

section \<open>Attributes\<close>

record AtaSmartAttr =
  saId :: u8
  saFlags :: u16
  saCurrent :: u8
  saWorst :: u8
  saVendorBytes :: "u8 list"
  saName :: string
  saType :: int
  saValueRaw :: u64

text \<open>
  \<^verbatim>\<open>for _, c := range byteOrder\<close>: the byte each character selects; any other character selects 0.
  \<^verbatim>\<open>vendorBytes\<close> is an array of six bytes.
\<close>

definition select_byte :: "u8 list \<Rightarrow> u8 \<Rightarrow> u8 \<Rightarrow> u8 \<Rightarrow> char \<Rightarrow> u8" where
  "select_byte vendorBytes reserved current worst c =
     (if c = CHR ''0'' then vendorBytes ! 0
      else if c = CHR ''1'' then vendorBytes ! 1
      else if c = CHR ''2'' then vendorBytes ! 2
      else if c = CHR ''3'' then vendorBytes ! 3
      else if c = CHR ''4'' then vendorBytes ! 4
      else if c = CHR ''5'' then vendorBytes ! 5
      else if c = CHR ''r'' then reserved
      else if c = CHR ''v'' then current
      else if c = CHR ''w'' then worst
      else 0)"

definition attr_byte_order :: "ataDeviceAttr \<Rightarrow> string" where
  "attr_byte_order mapping =
     (if attrTyp mapping = TypeRaw64 \<or> attrTyp mapping = TypeHex64 then ''543210wv''
      else if attrTyp mapping = TypeRaw56 \<or> attrTyp mapping = TypeHex56 \<or>
        attrTyp mapping = TypeRaw24DivRaw32 \<or> attrTyp mapping = TypeMsec24Hour32 then ''r543210''
      else ''543210'')"

definition computeAttributeRawValue :: "ataDeviceAttr \<Rightarrow> u8 list \<Rightarrow> u8 \<Rightarrow> u8 \<Rightarrow> u8 \<Rightarrow> u64" where
  "computeAttributeRawValue mapping vendorBytes reserved current worst =
     foldl (\<lambda>rawValue c. push_bit 8 rawValue OR ucast (select_byte vendorBytes reserved current worst c))
       0 (attr_byte_order mapping)"

text \<open>One attribute of the page: name, type and value only when the device's mapping knows its id.\<close>

definition build_attr :: "attrMapping \<Rightarrow> AtaSmartAttrRaw \<Rightarrow> AtaSmartAttr" where
  "build_attr mapping a =
     (let n = \<lparr>saId = rawId a, saFlags = rawFlags a, saCurrent = rawCurrent a, saWorst = rawWorst a,
        saVendorBytes = rawVendorBytes a, saName = '''', saType = 0, saValueRaw = 0\<rparr> in
      case mapping (uint (rawId a)) of
        None \<Rightarrow> n
      | Some m \<Rightarrow> n\<lparr>saValueRaw := computeAttributeRawValue m (rawVendorBytes a) (rawReserved a)
            (rawCurrent a) (rawWorst a),
          saType := attrTyp m, saName := attrName m\<rparr>)"

text \<open>The loop stops at the first unused entry (id 0); an id that occurs again overwrites.\<close>

fun build_attrs :: "attrMapping \<Rightarrow> AtaSmartAttrRaw list \<Rightarrow> (u8 \<rightharpoonup> AtaSmartAttr) \<Rightarrow> (u8 \<rightharpoonup> AtaSmartAttr)" where
  "build_attrs mapping [] m = m"
| "build_attrs mapping (a # as) m =
     (if rawId a = 0 then m
      else build_attrs mapping as (m(rawId a \<mapsto> build_attr mapping a)))"

record AtaSmartPage =
  spVersion :: u16
  spAttrs :: "u8 \<rightharpoonup> AtaSmartAttr"

definition build_page :: "attrMapping \<Rightarrow> AtaSmartPageRaw \<Rightarrow> AtaSmartPage" where
  "build_page mapping raw =
     \<lparr>spVersion = pageVersion raw, spAttrs = build_attrs mapping (pageAttrs raw) Map.empty\<rparr>"

fun build_thresholds :: "AtaSmartThresholdEntry list \<Rightarrow> (u8 \<rightharpoonup> u8) \<Rightarrow> (u8 \<rightharpoonup> u8)" where
  "build_thresholds [] m = m"
| "build_thresholds (e # es) m =
     (if entryId e = 0 then m else build_thresholds es (m(entryId e \<mapsto> entryThreshold e)))"

record AtaSmartThresholdsPage =
  tpRevnumber :: u16
  tpThresholds :: "u8 \<rightharpoonup> u8"

definition build_thresholds_page :: "AtaSmartThresholdsPageRaw \<Rightarrow> AtaSmartThresholdsPage" where
  "build_thresholds_page raw =
     \<lparr>tpRevnumber = rawRevnumber raw,
      tpThresholds = build_thresholds (rawThresholdEntries raw) Map.empty\<rparr>"

section \<open>Layout\<close>

lemma attr_raw_layout:
  "fsize AtaSmartAttrRaw_fields = 12"
  "field_type AtaSmartAttrRaw_fields ''Id'' = Some U8" "field_off AtaSmartAttrRaw_fields ''Id'' = 0"
  "field_type AtaSmartAttrRaw_fields ''Flags'' = Some U16" "field_off AtaSmartAttrRaw_fields ''Flags'' = 1"
  "field_type AtaSmartAttrRaw_fields ''Current'' = Some U8"
  "field_off AtaSmartAttrRaw_fields ''Current'' = 3"
  "field_type AtaSmartAttrRaw_fields ''Worst'' = Some U8" "field_off AtaSmartAttrRaw_fields ''Worst'' = 4"
  "field_type AtaSmartAttrRaw_fields ''VendorBytes'' = Some (Arr 6 U8)"
  "field_off AtaSmartAttrRaw_fields ''VendorBytes'' = 5"
  "field_type AtaSmartAttrRaw_fields ''Reserved'' = Some U8"
  "field_off AtaSmartAttrRaw_fields ''Reserved'' = 11"
  by (simp_all add: AtaSmartAttrRaw_fields_def)

lemma page_raw_layout:
  "fsize AtaSmartPageRaw_fields = 362"
  "field_type AtaSmartPageRaw_fields ''Version'' = Some U16"
  "field_off AtaSmartPageRaw_fields ''Version'' = 0"
  "field_type AtaSmartPageRaw_fields ''Attrs'' = Some (Arr 30 (Struct AtaSmartAttrRaw_fields))"
  "field_off AtaSmartPageRaw_fields ''Attrs'' = 2"
  by (simp_all add: AtaSmartPageRaw_fields_def attr_raw_layout)

lemma thresholds_raw_layout:
  "fsize AtaSmartThresholdEntry_fields = 12"
  "field_type AtaSmartThresholdEntry_fields ''Id'' = Some U8"
  "field_off AtaSmartThresholdEntry_fields ''Id'' = 0"
  "field_type AtaSmartThresholdEntry_fields ''Threshold'' = Some U8"
  "field_off AtaSmartThresholdEntry_fields ''Threshold'' = 1"
  "fsize AtaSmartThresholdsPageRaw_fields = 512"
  "field_type AtaSmartThresholdsPageRaw_fields ''Revnumber'' = Some U16"
  "field_off AtaSmartThresholdsPageRaw_fields ''Revnumber'' = 0"
  "field_type AtaSmartThresholdsPageRaw_fields ''ThresholdEntries'' =
     Some (Arr 30 (Struct AtaSmartThresholdEntry_fields))"
  "field_off AtaSmartThresholdsPageRaw_fields ''ThresholdEntries'' = 2"
  "field_type AtaSmartThresholdsPageRaw_fields ''Chksum'' = Some U8"
  "field_off AtaSmartThresholdsPageRaw_fields ''Chksum'' = 511"
  by (simp_all add: AtaSmartThresholdEntry_fields_def AtaSmartThresholdsPageRaw_fields_def)

text \<open>Every log page is one sector of 512 bytes.\<close>

lemma log_page_sizes:
  "bsize AtaSmartLogDirectory_type = 512" "bsize AtaSmartErrorLogSummary_type = 512"
  "bsize AtaSmartSelfTestLog_type = 512"
  by (simp_all add: AtaSmartLogDirectory_type_def AtaSmartErrorLogSummary_type_def
      AtaSmartSelfTestLog_type_def)

text \<open>Attribute \<open>i\<close> of a SMART page is in the twelve bytes at \<open>2 + 12 * i\<close>.\<close>

definition entry_at :: "u8 list \<Rightarrow> nat \<Rightarrow> AtaSmartAttrRaw" where
  "entry_at buf i =
     (let e = 2 + 12 * i in
      \<lparr>rawId = buf ! e, rawFlags = le_word (take 2 (drop (e + 1) buf)), rawCurrent = buf ! (e + 3),
       rawWorst = buf ! (e + 4), rawVendorBytes = take 6 (drop (e + 5) buf),
       rawReserved = buf ! (e + 11)\<rparr>)"

lemma dec_entry:
  assumes "2 + 12 * i + 12 \<le> length page"
  shows "AtaSmartAttrRaw_of (dec LittleEndian (Struct AtaSmartAttrRaw_fields) (drop (2 + 12 * i) page)) =
    entry_at page i"
proof -
  let ?e = "2 + 12 * i"
  have "AtaSmartAttrRaw_of (dec LittleEndian (Struct AtaSmartAttrRaw_fields) (drop ?e page)) =
      \<lparr>rawId = page ! ?e, rawFlags = le_word (take 2 (drop (?e + 1) page)),
       rawCurrent = page ! (?e + 3), rawWorst = page ! (?e + 4),
       rawVendorBytes = take 6 (drop (?e + 5) page), rawReserved = page ! (?e + 11)\<rparr>"
    using assms
    by (simp add: AtaSmartAttrRaw_of_def fld_dec attr_raw_layout scalar_dec vu8_dec vbytes_dec
        add.commute del: dec.simps)
  then show ?thesis by (simp add: entry_at_def Let_def)
qed

lemma smart_page_raw:
  assumes "length buf = 362"
  shows "map_res AtaSmartPageRaw_of (binary_read LittleEndian (Struct AtaSmartPageRaw_fields) buf) =
    Ok \<lparr>pageVersion = le_word (take 2 buf), pageAttrs = map (entry_at buf) [0..<30]\<rparr>"
proof -
  let ?v = "dec LittleEndian (Struct AtaSmartPageRaw_fields) buf"
  have "fld ?v ''Attrs'' = VArr (map (\<lambda>i. dec LittleEndian (Struct AtaSmartAttrRaw_fields)
      (drop (i * 12) (drop 2 buf))) [0..<30])"
    by (simp add: fld_dec page_raw_layout attr_raw_layout del: dec.simps)
      (simp add: attr_raw_layout del: dec.simps(7))
  then have "map AtaSmartAttrRaw_of (varr (fld ?v ''Attrs'')) = map (entry_at buf) [0..<30]"
    using assms dec_entry [of _ buf] by (auto simp: mult.commute add.commute simp del: dec.simps)
  then show ?thesis
    using assms by (simp add: binary_read_def page_raw_layout AtaSmartPageRaw_of_def fld_dec scalar_dec
        del: dec.simps)
qed

lemma entry_at_take: "i < 30 \<Longrightarrow> entry_at (take 362 buf) i = entry_at buf i"
  by (simp add: entry_at_def Let_def drop_take min_def)

section \<open>Raw values\<close>

lemma foldl_shift_in:
  "foldl (\<lambda>acc c. push_bit 8 acc OR ucast (f c)) 0 cs = (le_word (rev (map f cs)) :: u64)"
  by (induction cs rule: rev_induct) (simp_all add: or.commute)

lemma list6: "length vb = 6 \<Longrightarrow> vb = [vb ! 0, vb ! 1, vb ! 2, vb ! 3, vb ! 4, vb ! 5]"
  by (intro nth_equalityI) (auto simp: less_Suc_eq numeral_eq_Suc)

lemma raw_value_bytes:
  assumes "length vb = 6"
  shows "computeAttributeRawValue m vb r c w =
    (if attrTyp m \<in> {TypeRaw64, TypeHex64} then le_word (c # w # vb)
     else if attrTyp m \<in> {TypeRaw56, TypeHex56, TypeRaw24DivRaw32, TypeMsec24Hour32}
     then le_word (vb @ [r])
     else le_word vb)"
proof -
  let ?f = "select_byte vb r c w"
  have "map ?f ''543210'' = rev vb"
    by (subst (2) list6 [OF assms]) (simp add: select_byte_def)
  moreover have "map ?f ''543210wv'' = rev vb @ [w, c]"
    by (subst (2) list6 [OF assms]) (simp add: select_byte_def)
  moreover have "map ?f ''r543210'' = r # rev vb"
    by (subst (2) list6 [OF assms]) (simp add: select_byte_def)
  ultimately show ?thesis
    by (simp add: computeAttributeRawValue_def foldl_shift_in attr_byte_order_def del: list.map)
qed

text \<open>
  C16. The raw value of an attribute: the vendor bytes as a little-endian number, preceded by the
  worst and the current value for the 64-bit types (current lowest), topped by the reserved byte for
  the 56-bit types. The byte order of the mapping never matters.
\<close>

theorem computeAttributeRawValue_bytes:
  assumes "length vb = 6"
  shows "computeAttributeRawValue m vb r c w =
    (if attrTyp m \<in> {TypeRaw64, TypeHex64} then le_word (c # w # vb)
     else if attrTyp m \<in> {TypeRaw56, TypeHex56, TypeRaw24DivRaw32, TypeMsec24Hour32}
     then le_word (vb @ [r])
     else le_word vb)"
  using assms by (rule raw_value_bytes)

theorem computeAttributeRawValue_bytes_witness:
  "computeAttributeRawValue (attr ''x'' TypeRaw48 ''w01234'' 0) [1, 2, 3, 4, 5, 6] 7 8 9 = 0x060504030201"
  by (subst computeAttributeRawValue_bytes) (simp_all add: attr_def attr_types)

section \<open>Device statistics\<close>

lemma go_int_id: "- (2 ^ 63) \<le> x \<Longrightarrow> x < 2 ^ 63 \<Longrightarrow> go_int x = x"
  by (simp add: go_int_def sint_uint uint_word_of_int_eq signed_take_bit_take_bit
      signed_take_bit_int_eq_self)

lemma go_int_wrap:
  assumes "2 ^ 63 \<le> x" "x < 2 ^ 64"
  shows "go_int x = x - 2 ^ 64"
proof -
  have "(of_int x :: u64) = of_int (x - 2 ^ 64)"
    by (simp add: word_of_int_eq_iff take_bit_eq_mod)
  then have "go_int x = go_int (x - 2 ^ 64)"
    by (simp only: go_int_def)
  also have "\<dots> = x - 2 ^ 64"
    using assms by (intro go_int_id) simp_all
  finally show ?thesis .
qed

lemma le_word_flag:
  assumes "length bs = 8" "n < 64"
  shows "le_word bs AND push_bit n 1 = (0 :: u64) \<longleftrightarrow> \<not> bit (bs ! (n div 8)) (n mod 8)"
proof -
  have "bit (le_word bs :: u64) n \<longleftrightarrow> bit (bs ! (n div 8)) (n mod 8)"
    using assms by (simp add: bit_le_word)
  then show ?thesis
    by (simp add: push_bit_of_1 and_exp_eq_0_iff_not_bit)
qed

lemma le_word_low7:
  assumes "length bs = 8"
  shows "le_word bs AND (push_bit 56 1 - 1) = (le_word (take 7 bs) :: u64)"
proof -
  have "le_word bs AND (push_bit 56 1 - 1) = take_bit 56 (le_word bs :: u64)"
    by (simp add: take_bit_eq_mask mask_eq_exp_minus_1)
  also have "\<dots> = le_word (take 7 bs)"
    using assms by (intro bit_word_eqI) (auto simp: bit_simps bit_le_word)
  finally show ?thesis .
qed

text \<open>
  C14. \<^verbatim>\<open>Get\<close>: an offset outside the log is not present, inside it is present exactly when the top
  byte of the field carries both flags, and then the value is the low seven bytes. The last eight
  offsets of the \<^verbatim>\<open>int\<close> range panic, as \<^verbatim>\<open>offset+8\<close> wraps around to a negative number.
\<close>

theorem AtaDeviceStatistics_Get_spec:
  assumes "int (length (statRaw s)) < 2 ^ 63" "- (2 ^ 63) \<le> offset" "offset < 2 ^ 63"
  shows "AtaDeviceStatistics_Get s offset =
    (if 2 ^ 63 - 8 \<le> offset then None
     else if offset < 0 \<or> int (length (statRaw s)) < offset + 8 then Some (0, False)
     else let field = take 8 (drop (nat offset) (statRaw s)) in
       if bit (field ! 7) 7 \<and> bit (field ! 7) 6 then Some (le_word (take 7 field), True)
       else Some (0, False))"
proof (cases "2 ^ 63 - 8 \<le> offset \<or> offset < 0")
  case True
  have "go_int (offset + 8) = offset + 8 - 2 ^ 64" if "2 ^ 63 - 8 \<le> offset"
    using that assms(3) by (intro go_int_wrap) simp_all
  with True show ?thesis
    using assms by (auto simp: AtaDeviceStatistics_Get_def)
next
  case False
  then have go: "go_int (offset + 8) = offset + 8"
    by (intro go_int_id) simp_all
  show ?thesis
  proof (cases "int (length (statRaw s)) < offset + 8")
    case True
    with False go show ?thesis by (simp add: AtaDeviceStatistics_Get_def)
  next
    case inside: False
    let ?f = "take 8 (drop (nat offset) (statRaw s))"
    have len: "nat offset + 8 \<le> length (statRaw s)"
      using False inside by linarith
    then have "subslice (statRaw s) (nat offset) (nat (offset + 8)) = Some ?f"
      using False by (simp add: nat_add_distrib)
    moreover have "length ?f = 8" using len by simp
    ultimately show ?thesis
      using False inside go
      by (simp add: AtaDeviceStatistics_Get_def le_word_flag [of _ 63, simplified]
          le_word_flag [of _ 62, simplified] le_word_low7 [simplified] Let_def)
  qed
qed

theorem AtaDeviceStatistics_Get_spec_witness:
  "AtaDeviceStatistics_Get \<lparr>statRaw = [0x34, 0x12, 0, 0, 0, 0, 0, 0xc0]\<rparr> 0 = Some (0x1234, True) \<and>
   AtaDeviceStatistics_Get \<lparr>statRaw = []\<rparr> (2 ^ 63 - 1) = None"
proof
  let ?s = "\<lparr>statRaw = [0x34, 0x12, 0, 0, 0, 0, 0, 0xc0]\<rparr>"
  have "int (length (statRaw ?s)) < 2 ^ 63" by simp
  then show "AtaDeviceStatistics_Get ?s 0 = Some (0x1234, True)"
    by (subst AtaDeviceStatistics_Get_spec) (assumption, simp, simp, code_simp)
  show "AtaDeviceStatistics_Get \<lparr>statRaw = []\<rparr> (2 ^ 63 - 1) = None"
    by (subst AtaDeviceStatistics_Get_spec) simp_all
qed

section \<open>Tables\<close>

abbreviation used_entries :: "AtaSmartAttrRaw list \<Rightarrow> AtaSmartAttrRaw list" where
  "used_entries as \<equiv> takeWhile (\<lambda>a. rawId a \<noteq> 0) as"

lemma build_attrs_lookup:
  "build_attrs mp as m i =
     (case find (\<lambda>a. rawId a = i) (rev (used_entries as)) of
        Some a \<Rightarrow> Some (build_attr mp a) | None \<Rightarrow> m i)"
proof (induction as arbitrary: m)
  case (Cons a as)
  have "find P (xs @ [a]) = (case find P xs of Some x \<Rightarrow> Some x | None \<Rightarrow> if P a then Some a else None)"
    for P and xs :: "AtaSmartAttrRaw list"
    by (induction xs) auto
  then show ?case
    by (simp add: Cons.IH split: option.split)
qed simp

lemma build_thresholds_lookup:
  "build_thresholds es m i =
     (case find (\<lambda>e. entryId e = i) (rev (takeWhile (\<lambda>e. entryId e \<noteq> 0) es)) of
        Some e \<Rightarrow> Some (entryThreshold e) | None \<Rightarrow> m i)"
proof (induction es arbitrary: m)
  case (Cons e es)
  have "find P (xs @ [e]) = (case find P xs of Some x \<Rightarrow> Some x | None \<Rightarrow> if P e then Some e else None)"
    for P and xs :: "AtaSmartThresholdEntry list"
    by (induction xs) auto
  then show ?case
    by (simp add: Cons.IH split: option.split)
qed simp

lemma saId_build_attr [simp]: "saId (build_attr mp a) = rawId a"
  by (simp add: build_attr_def Let_def split: option.split)

lemma spAttrs_lookup:
  "spAttrs (build_page mp raw) i =
     map_option (build_attr mp) (find (\<lambda>a. rawId a = i) (rev (used_entries (pageAttrs raw))))"
  by (simp add: build_page_def build_attrs_lookup map_option_case)

lemma tpThresholds_lookup:
  "tpThresholds (build_thresholds_page traw) i =
     map_option entryThreshold
       (find (\<lambda>e. entryId e = i) (rev (takeWhile (\<lambda>e. entryId e \<noteq> 0) (rawThresholdEntries traw))))"
  by (simp add: build_thresholds_page_def build_thresholds_lookup map_option_case)

lemma find_unused: "find (\<lambda>a. f a = c) (rev (takeWhile (\<lambda>a. f a \<noteq> c) xs)) = None"
  by (auto simp: find_None_iff dest: set_takeWhileD)

text \<open>
  The tables built from the pages refine lookups in the raw entries: the entry of an id is the
  last one with that id among the entries before the first unused one, and id 0 has none.
\<close>

theorem build_page_lookup:
  "spAttrs (build_page mp raw) i =
     map_option (build_attr mp)
       (find (\<lambda>a. rawId a = i) (rev (takeWhile (\<lambda>a. rawId a \<noteq> 0) (pageAttrs raw)))) \<and>
   tpThresholds (build_thresholds_page traw) i =
     map_option entryThreshold
       (find (\<lambda>e. entryId e = i) (rev (takeWhile (\<lambda>e. entryId e \<noteq> 0) (rawThresholdEntries traw)))) \<and>
   spAttrs (build_page mp raw) 0 = None \<and> tpThresholds (build_thresholds_page traw) 0 = None"
  by (simp only: spAttrs_lookup tpThresholds_lookup find_unused option.map simp_thms)

lemma page_ids: "spAttrs (build_page mp raw) i = Some a \<Longrightarrow> saId a = i \<and> i \<noteq> 0"
proof -
  assume a: "spAttrs (build_page mp raw) i = Some a"
  then obtain r where r: "find (\<lambda>a. rawId a = i) (rev (used_entries (pageAttrs raw))) = Some r"
      "a = build_attr mp r"
    by (auto simp: spAttrs_lookup)
  from r(1) have "rawId r = i"
    by (auto simp: find_Some_iff)
  moreover have "i \<noteq> 0"
    using r(1) by (intro notI) (simp only: find_unused option.distinct)
  ultimately show ?thesis using r(2) by simp
qed

end
