(* ===== verification/AtaParse.thy ===== *)
theory AtaParse
  imports AtaSmart Device
begin

text \<open>
  The interpretation of SMART attributes in \<^verbatim>\<open>sata.go\<close>: durations, temperatures, and the loop of
  \<^verbatim>\<open>ReadGenericAttributes\<close> over the attribute map. The lemmas give the exact values with their
  wrap-around, the ranges a parsed temperature obeys, when the result does not depend on the
  order in which Go visits the map, and which temperatures it can be on a page of the default table.
\<close>

section \<open>Durations\<close>

text \<open>All arithmetic is on \<^verbatim>\<open>int64\<close>: a conversion of a large \<^verbatim>\<open>uint64\<close> or a large product wraps around.\<close>

definition ParseAsDuration :: "AtaSmartAttr \<Rightarrow> duration res" where
  "ParseAsDuration a =
     (if saType a = TypeMin2Hour
      then Ok (sint ((saValueRaw a AND 0xffffffff) * of_int Minute))
      else if saType a = TypeSec2Hour then Ok (sint (saValueRaw a * of_int Second))
      else if saType a = TypeHalfMin2Hour then Ok (sint (saValueRaw a * 30 * of_int Second))
      else if saType a = TypeMsec24Hour32
      then (let hours = saValueRaw a AND 0xffffffff; milliseconds = drop_bit 32 (saValueRaw a) in
        Ok (sint (hours * of_int Hour + milliseconds * 1000000)))
      else Err (Errorf ''unknown time type: %d'' [AInt (saType a)]))"

section \<open>Temperatures\<close>

definition checkTempWord :: "u16 \<Rightarrow> int" where
  "checkTempWord w =
     (if w \<le> 0x7f then 0x11
      else if w \<le> 0xff then 0x01
      else if 0xff80 \<le> w then 0x10
      else 0x00)"

text \<open>The range \<^verbatim>\<open>lo\<close>, \<^verbatim>\<open>hi\<close> that is stored when the check succeeds; \<^verbatim>\<open>int8\<close> values as integers.\<close>

definition checkTempRange :: "int \<Rightarrow> int \<Rightarrow> int \<Rightarrow> (int \<times> int) option" where
  "checkTempRange t t1 t2 =
     (let (t1, t2) = (if t1 > t2 then (t2, t1) else (t1, t2)) in
      if -60 \<le> t1 \<and> t1 \<le> t \<and> t \<le> t2 \<and> t2 \<le> 120 \<and> \<not> (t1 = -1 \<and> t2 \<le> 0)
      then Some (t1, t2) else None)"

definition int8_at :: "u64 \<Rightarrow> nat \<Rightarrow> int" where
  "int8_at v k = sint (ucast (drop_bit k v) :: u8)"

definition ParseAsTemperature :: "AtaSmartAttr \<Rightarrow> (int \<times> int \<times> int \<times> int) res" where
  "ParseAsTemperature a =
     (if saType a = TypeTemp10X then Ok (uint (saValueRaw a AND 0xffff) div 10, 0, 0, 0)
      else if saType a = TypeTempMinMax then
        (let word0 = ucast (saValueRaw a);
             word1 = ucast (drop_bit 16 (saValueRaw a));
             word2 = ucast (drop_bit 32 (saValueRaw a)) :: u16;
             raw0 = int8_at (saValueRaw a) 0;
             raw1 = int8_at (saValueRaw a) 8;
             raw2 = int8_at (saValueRaw a) 16;
             raw3 = int8_at (saValueRaw a) 24;
             raw4 = int8_at (saValueRaw a) 32;
             ctw0 = checkTempWord word0
         in
         if word2 = 0 then
           if word1 = 0 \<and> ctw0 \<noteq> 0 then Ok (raw0, 0, 0, 0)
           else (case (if ctw0 \<noteq> 0 then checkTempRange raw0 raw2 raw3 else None) of
               Some (lo, hi) \<Rightarrow> Ok (raw0, lo, hi, 0)
             | None \<Rightarrow>
                 (case (if raw3 = 0 then checkTempRange raw0 raw1 raw2 else None) of
                    Some (lo, hi) \<Rightarrow> Ok (raw0, lo, hi, 0)
                  | None \<Rightarrow> Ok (raw0, 0, 0, 0)))
         else if ctw0 \<noteq> 0 then
           (case (if (ctw0 AND checkTempWord word1) AND checkTempWord word2 \<noteq> 0
                  then checkTempRange raw0 raw2 raw4 else None) of
              Some (lo, hi) \<Rightarrow> Ok (raw0, lo, hi, 0)
            | None \<Rightarrow>
                (case (if word2 < 0x7fff then checkTempRange raw0 raw2 raw3 else None) of
                   Some (lo, hi) \<Rightarrow>
                     if hi \<ge> 40 then Ok (raw0, lo, hi, uint word2) else Ok (raw0, 0, 0, 0)
                 | None \<Rightarrow> Ok (raw0, 0, 0, 0)))
         else Ok (raw0, 0, 0, 0))
      else Err (Errorf ''unknown temperature min/max type: %d'' [AInt (saType a)]))"

section \<open>Hours as a float64\<close>

text \<open>
  \<^verbatim>\<open>Duration.Hours\<close> is \<^verbatim>\<open>float64(d/Hour) + float64(d%Hour)/(60*60*1e9)\<close>, computed in IEEE double
  precision (53 significant bits, round to nearest even). A non-negative double below \<open>2\<^sup>5\<^sup>3\<close> is a
  pair: a numerator \<open>m\<close> over \<open>2 ^ k\<close>; \<open>scale p q\<close> is the \<open>k\<close> that gives \<open>p / q\<close> 53 bits.
\<close>

definition round_half_even :: "nat \<Rightarrow> nat \<Rightarrow> nat" where
  "round_half_even p q =
     (let d = p div q; r = p mod q in
      if 2 * r < q \<or> (2 * r = q \<and> even d) then d else d + 1)"

function scale :: "nat \<Rightarrow> nat \<Rightarrow> nat" where
  "scale p q = (if p = 0 \<or> 2 ^ 52 * q \<le> p then 0 else Suc (scale (2 * p) q))"
  by pat_completeness auto
termination
  by (relation "measure (\<lambda>(p, q). 2 ^ 52 * q - p)") auto

declare scale.simps [simp del]

definition float_quot :: "nat \<Rightarrow> nat \<Rightarrow> nat \<times> nat" where
  "float_quot p q = (let k = scale p q in (round_half_even (p * 2 ^ k) q, k))"

definition float_add :: "nat \<Rightarrow> nat \<times> nat \<Rightarrow> nat \<times> nat" where
  "float_add h x = (case x of (m, k) \<Rightarrow> float_quot (h * 2 ^ k + m) (2 ^ k))"

definition float_trunc :: "nat \<times> nat \<Rightarrow> nat" where
  "float_trunc x = (case x of (m, k) \<Rightarrow> m div 2 ^ k)"

definition hours_trunc :: "nat \<Rightarrow> nat" where
  "hours_trunc d =
     float_trunc (float_add (d div nat Hour) (float_quot (d mod nat Hour) (nat Hour)))"

text \<open>
  \<^verbatim>\<open>uint64(d.Hours())\<close>. For a result of -1 or less Go leaves the conversion to the implementation:
  it is the parameter \<open>conv\<close>.
\<close>

definition hours_u64 :: "(nat \<Rightarrow> u64) \<Rightarrow> duration \<Rightarrow> u64" where
  "hours_u64 conv d =
     (if 0 \<le> d then of_nat (hours_trunc (nat d))
      else let h = hours_trunc (nat (- d)) in if h = 0 then 0 else conv h)"

section \<open>Generic attributes\<close>

definition generic_step :: "(nat \<Rightarrow> u64) \<Rightarrow> AtaSmartAttr \<Rightarrow> GenericAttributes \<Rightarrow> GenericAttributes res" where
  "generic_step conv x a =
     (if saName x = ''Airflow_Temperature_Cel'' \<or> saName x = ''Temperature_Celsius'' \<or>
         saName x = ''Temperature_Celsius_X10''
      then bind_res (ParseAsTemperature x) (\<lambda>(current, _). Ok (a\<lparr>gaTemperature := of_int current\<rparr>))
      else if saName x = ''Total_LBAs_Read'' then Ok (a\<lparr>gaRead := saValueRaw x\<rparr>)
      else if saName x = ''Total_LBAs_Written'' then Ok (a\<lparr>gaWritten := saValueRaw x\<rparr>)
      else if saName x = ''Power_On_Hours'' then
        (case ParseAsDuration x of
           None \<Rightarrow> None
         | Some (Inr d) \<Rightarrow> Ok (a\<lparr>gaPowerOnHours := hours_u64 conv d\<rparr>)
         | Some (Inl e) \<Rightarrow> Ok (a\<lparr>gaPowerOnHours := saValueRaw x\<rparr>))
      else if saName x = ''Power_Cycle_Count'' then Ok (a\<lparr>gaPowerCycles := saValueRaw x\<rparr>)
      else Ok a)"

text \<open>The range over the attribute map, for the order in which it happens to be visited.\<close>

definition generic_attributes :: "(nat \<Rightarrow> u64) \<Rightarrow> AtaSmartAttr list \<Rightarrow> GenericAttributes res" where
  "generic_attributes conv attrs = fold_res (generic_step conv) attrs GenericAttributes_zero"

text \<open>The orders in which a map may be visited: each entry once.\<close>

definition visits :: "(u8 \<rightharpoonup> AtaSmartAttr) \<Rightarrow> AtaSmartAttr list \<Rightarrow> bool" where
  "visits m xs \<longleftrightarrow> distinct (map saId xs) \<and> (\<forall>i a. m i = Some a \<longleftrightarrow> a \<in> set xs \<and> saId a = i)"

section \<open>Durations are exact or wrapped\<close>

text \<open>The time an attribute stands for, in nanoseconds, without bounds.\<close>

definition nominal_ns :: "AtaSmartAttr \<Rightarrow> int" where
  "nominal_ns a =
     (let v = uint (saValueRaw a) in
      if saType a = TypeMin2Hour then (v mod 2 ^ 32) * 60000000000
      else if saType a = TypeSec2Hour then v * 1000000000
      else if saType a = TypeHalfMin2Hour then v * 30000000000
      else (v mod 2 ^ 32) * 3600000000000 + (v div 2 ^ 32) * 1000000)"

lemma low32: "(w :: u64) AND 0xffffffff = of_int (uint w mod 2 ^ 32)"
proof -
  have "w AND 0xffffffff = take_bit 32 w"
    by (simp add: take_bit_eq_mask mask_eq_exp_minus_1)
  moreover have "uint (take_bit 32 w) = uint w mod 2 ^ 32"
    unfolding unsigned_take_bit_eq by (rule take_bit_eq_mod)
  ultimately show ?thesis
    by (metis word_of_int_uint)
qed

lemma high32: "drop_bit 32 (w :: u64) = of_int (uint w div 2 ^ 32)"
proof -
  have "uint (drop_bit 32 w) = uint w div 2 ^ 32"
    unfolding unsigned_drop_bit_eq using unsigned_less [of w, where ?'a = int]
    by (simp add: drop_bit_eq_div take_bit_int_eq_self)
  then show ?thesis by (metis word_of_int_uint)
qed

lemma ParseAsDuration_time:
  assumes "saType a \<in> {TypeMin2Hour, TypeSec2Hour, TypeHalfMin2Hour, TypeMsec24Hour32}"
  shows "ParseAsDuration a = Ok (go_int (nominal_ns a))"
proof -
  let ?v = "uint (saValueRaw a)"
  have v: "saValueRaw a = of_int ?v" by simp
  have "(of_int ?v * of_int Second :: u64) = of_int (?v * 1000000000)"
    "(of_int ?v * 30 * of_int Second :: u64) = of_int (?v * 30000000000)"
    "(of_int (?v mod 2 ^ 32) * of_int Minute :: u64) = of_int ((?v mod 2 ^ 32) * 60000000000)"
    "(of_int (?v mod 2 ^ 32) * of_int Hour + of_int (?v div 2 ^ 32) * 1000000 :: u64) =
      of_int ((?v mod 2 ^ 32) * 3600000000000 + (?v div 2 ^ 32) * 1000000)"
    by (simp_all add: time_units)
  with assms v show ?thesis
    unfolding ParseAsDuration_def nominal_ns_def go_int_def low32 high32 Let_def
    by (auto simp: attr_types)
qed

text \<open>
  C35. A duration attribute is its nominal time reduced to the range of \<^verbatim>\<open>int64\<close> nanoseconds, so it is
  exact below \<open>2\<^sup>6\<^sup>3\<close> ns (292 years) and wrong beyond; the four time types are the only ones accepted.
\<close>

theorem ParseAsDuration_value:
  "(saType a \<in> {TypeMin2Hour, TypeSec2Hour, TypeHalfMin2Hour, TypeMsec24Hour32} \<longrightarrow>
     ParseAsDuration a = Ok (go_int (nominal_ns a)) \<and>
     (nominal_ns a < 2 ^ 63 \<longrightarrow> ParseAsDuration a = Ok (nominal_ns a))) \<and>
   (saType a \<notin> {TypeMin2Hour, TypeSec2Hour, TypeHalfMin2Hour, TypeMsec24Hour32} \<longrightarrow>
     is_err (ParseAsDuration a))"
proof -
  have "0 \<le> nominal_ns a"
    by (simp add: nominal_ns_def Let_def pos_imp_zdiv_nonneg_iff)
  then have "go_int (nominal_ns a) = nominal_ns a" if "nominal_ns a < 2 ^ 63"
    using that by (intro go_int_id) simp_all
  then show ?thesis
    using ParseAsDuration_time [of a] by (simp add: ParseAsDuration_def)
qed

theorem ParseAsDuration_value_witness:
  "ParseAsDuration \<lparr>saId = 9, saFlags = 0, saCurrent = 0, saWorst = 0, saVendorBytes = [], saName = '''',
     saType = TypeSec2Hour, saValueRaw = 7261\<rparr> = Ok 7261000000000"
proof -
  let ?a = "\<lparr>saId = 9, saFlags = 0, saCurrent = 0, saWorst = 0, saVendorBytes = [], saName = '''',
     saType = TypeSec2Hour, saValueRaw = 7261\<rparr>"
  have "nominal_ns ?a = 7261000000000" by (simp add: nominal_ns_def attr_types)
  then have "nominal_ns ?a < 2 ^ 63" by simp
  moreover have "saType ?a \<in> {TypeMin2Hour, TypeSec2Hour, TypeHalfMin2Hour, TypeMsec24Hour32}" by simp
  ultimately have "ParseAsDuration ?a = Ok (nominal_ns ?a)"
    using ParseAsDuration_value [of ?a] by blast
  then show ?thesis using \<open>nominal_ns ?a = 7261000000000\<close> by (simp only:)
qed

section \<open>Whole hours\<close>

lemma round_half_even_bounds:
  assumes "0 < q"
  shows "p div q \<le> round_half_even p q" "2 * round_half_even p q * q \<le> 2 * p + q"
proof -
  show "p div q \<le> round_half_even p q"
    by (simp add: round_half_even_def Let_def)
  have split: "p = p div q * q + p mod q" by simp
  have "2 * (p div q) * q \<le> 2 * p"
    using split by (metis le_add1 mult.assoc mult_le_mono2)
  moreover have "2 * (p div q + 1) * q \<le> 2 * p + q" if "q \<le> 2 * (p mod q)"
  proof -
    have "2 * (p div q + 1) * q = 2 * (p div q * q) + 2 * q" by (simp add: algebra_simps)
    also have "\<dots> \<le> 2 * (p div q * q) + (2 * (p mod q) + q)" using that by simp
    also have "\<dots> = 2 * (p div q * q + p mod q) + q" by (simp only: distrib_left)
    finally show ?thesis using split by simp
  qed
  ultimately show "2 * round_half_even p q * q \<le> 2 * p + q"
    by (auto simp: round_half_even_def Let_def intro: order_trans [OF _ le_add1])
qed

lemma scale_reaches: "0 < p \<Longrightarrow> 2 ^ 52 * q \<le> p * 2 ^ scale p q"
proof (induction p q rule: scale.induct)
  case (1 p q)
  show ?case
  proof (cases "2 ^ 52 * q \<le> p")
    case True
    then show ?thesis by (subst scale.simps) simp
  next
    case False
    with "1" have "2 ^ 52 * q \<le> (2 * p) * 2 ^ scale (2 * p) q" by simp
    moreover have "scale p q = Suc (scale (2 * p) q)"
      using False "1.prems" by (subst scale.simps) simp
    ultimately show ?thesis by simp
  qed
qed

text \<open>
  A fraction that stays \<open>10\<^sup>6\<close> below its bound keeps below it in double precision, alone and added to
  fewer than \<open>2\<^sup>2\<^sup>2\<close> hours.
\<close>

lemma float_fraction:
  assumes "n + 1000000 \<le> 3600000000000" "float_quot n 3600000000000 = (m, k)"
  shows "m * 3600000000000 \<le> 2 ^ k * 3599999000001"
proof (cases "n = 0")
  case True
  then have "scale n 3600000000000 = 0" by (subst scale.simps) simp
  with True assms(2) show ?thesis
    by (auto simp: float_quot_def round_half_even_def)
next
  case False
  let ?K = "2 ^ k :: nat"
  from assms(2) have k: "k = scale n 3600000000000" and m: "m = round_half_even (n * ?K) 3600000000000"
    by (auto simp: float_quot_def Let_def)
  have "2 * m * 3600000000000 \<le> 2 * (n * ?K) + 3600000000000"
    using m round_half_even_bounds(2) [of 3600000000000 "n * ?K"] by simp
  moreover have "n * ?K \<le> 3599999000000 * ?K"
    using assms(1) by (intro mult_le_mono1) simp
  moreover have "2 ^ 52 * 3600000000000 \<le> n * ?K"
    using False k scale_reaches [of n 3600000000000] by simp
  moreover have "2 * m * 3600000000000 \<le> 2 * X + 3600000000000 \<Longrightarrow> X \<le> 3599999000000 * K \<Longrightarrow>
      2 ^ 52 * 3600000000000 \<le> X \<Longrightarrow> m * 3600000000000 \<le> K * 3599999000001" for X K :: nat
    by simp
  ultimately show ?thesis by blast
qed

lemma hours_trunc_exact:
  assumes "d < 2 ^ 63" "d mod 1000000 = 0"
  shows "hours_trunc d = d div 3600000000000"
proof -
  define h where "h = d div 3600000000000"
  define n where "n = d mod 3600000000000"
  obtain m k where mk: "float_quot n 3600000000000 = (m, k)" by fastforce
  define p where "p = h * 2 ^ k + m"
  define k' where "k' = scale p (2 ^ k)"
  define m' where "m' = round_half_even (p * 2 ^ k') (2 ^ k)"
  have trunc: "hours_trunc d = m' div 2 ^ k'"
  proof -
    have "nat Hour = 3600000000000" by (simp add: time_units)
    then have "hours_trunc d = float_trunc (float_add h (m, k))"
      by (simp only: hours_trunc_def h_def [symmetric] n_def [symmetric] mk)
    then show ?thesis
      by (simp add: float_add_def float_quot_def float_trunc_def Let_def p_def m'_def k'_def)
  qed
  have n_lt: "n + 1000000 \<le> 3600000000000"
  proof -
    have "1000000 dvd n"
      using assms(2) unfolding n_def by (intro dvd_mod) (auto intro: mod_0_imp_dvd)
    then obtain t where "n = 1000000 * t" ..
    moreover have "n < 3600000000000" by (simp add: n_def)
    ultimately show ?thesis by simp
  qed
  note m = float_fraction [OF n_lt mk]
  have h: "h < 2 ^ 22"
    using assms(1) by (simp add: h_def less_mult_imp_div_less)
  have lower: "h * 2 ^ k' \<le> m'"
  proof -
    have "h * 2 ^ k' * 2 ^ k \<le> p * 2 ^ k'" by (simp add: p_def algebra_simps)
    then have "h * 2 ^ k' \<le> p * 2 ^ k' div 2 ^ k"
      by (simp add: less_eq_div_iff_mult_less_eq)
    also have "\<dots> \<le> m'" unfolding m'_def by (rule round_half_even_bounds) simp
    finally show ?thesis .
  qed
  have upper: "m' < (h + 1) * 2 ^ k'"
  proof (cases "p = 0")
    case True
    then show ?thesis by (simp add: m'_def round_half_even_def)
  next
    case False
    let ?H = "3600000000000 :: nat" and ?K = "2 ^ k :: nat" and ?L = "2 ^ k' :: nat"
    have pH: "p * ?H \<le> ?K * (h * ?H + 3599999000001)"
      using m by (simp add: p_def algebra_simps)
    have "2 * m' * ?K \<le> 2 * (p * ?L) + ?K"
      unfolding m'_def by (rule round_half_even_bounds) simp
    then have "2 * m' * ?K * ?H \<le> (2 * (p * ?L) + ?K) * ?H" by (rule mult_le_mono1)
    also have "\<dots> = 2 * ?L * (p * ?H) + ?K * ?H" by (simp add: algebra_simps)
    also have "\<dots> \<le> 2 * ?L * (?K * (h * ?H + 3599999000001)) + ?K * ?H"
      using pH by (intro add_right_mono mult_le_mono2)
    finally have "?K * (2 * m' * ?H) \<le> ?K * (2 * ?L * (h * ?H + 3599999000001) + ?H)"
      by (simp add: algebra_simps)
    then have m'H: "2 * m' * ?H \<le> 2 * ?L * (h * ?H + 3599999000001) + ?H" by simp
    have "2 ^ 52 * ?K \<le> p * ?L"
      using False scale_reaches [of p "2 ^ k"] by (simp add: k'_def)
    moreover have "p \<le> 2 ^ 22 * ?K"
    proof -
      have "m \<le> ?K" using m by simp
      then have "p \<le> (h + 1) * ?K" by (simp add: p_def)
      also have "\<dots> \<le> 2 ^ 22 * ?K" using h by (intro mult_le_mono1) simp
      finally show ?thesis .
    qed
    then have "p * ?L \<le> 2 ^ 22 * ?K * ?L" by (rule mult_le_mono1)
    ultimately have "2 ^ 52 * ?K \<le> 2 ^ 22 * ?K * ?L" by (rule order_trans)
    then have "?K * 2 ^ 52 \<le> ?K * (2 ^ 22 * ?L)" by (simp add: algebra_simps)
    then have "2 ^ 52 \<le> 2 ^ 22 * ?L" by (simp only: mult_le_cancel1) simp
    then have "?H < 2 * ?L * 999999" by simp
    with m'H have "2 * m' * ?H < 2 * ((h + 1) * ?L) * ?H"
      by (simp add: algebra_simps)
    then show ?thesis by simp
  qed
  have "m' div 2 ^ k' = h"
    using lower upper by (intro div_nat_eqI) (simp_all add: mult.commute)
  then show ?thesis by (simp add: trunc h_def)
qed

lemma nominal_ns_ms: "nominal_ns a mod 1000000 = 0" "0 \<le> nominal_ns a"
proof -
  have "(1000000 :: int) dvd 60000000000" "(1000000 :: int) dvd 1000000000"
    "(1000000 :: int) dvd 30000000000" "(1000000 :: int) dvd 3600000000000"
    by simp_all
  then have "1000000 dvd nominal_ns a"
    by (simp add: nominal_ns_def Let_def)
  then show "nominal_ns a mod 1000000 = 0" by simp
  show "0 \<le> nominal_ns a"
    by (simp add: nominal_ns_def Let_def pos_imp_zdiv_nonneg_iff)
qed

lemma hours_u64_exact:
  assumes "0 \<le> d" "d < 2 ^ 63" "d mod 1000000 = 0"
  shows "hours_u64 conv d = of_int (d div 3600000000000)"
proof -
  obtain n where n: "d = int n" using assms(1) nonneg_int_cases by blast
  have "int (n mod 1000000) = 0" using assms(3) n by (simp add: zmod_int)
  then have "n mod 1000000 = 0" by simp
  moreover have "n < 2 ^ 63" using assms(2) n by simp
  ultimately have "hours_trunc n = n div 3600000000000" by (intro hours_trunc_exact)
  moreover have "int n div 3600000000000 = int (n div 3600000000000)" by (simp add: zdiv_int)
  ultimately show ?thesis by (simp add: hours_u64_def n)
qed

text \<open>
  C36. The power-on time of a drive that reports it in one of the time units is the number of whole
  hours, below 292 years: the detour over floating point never rounds up to the next hour.
\<close>

theorem power_on_hours_exact:
  assumes "saName x = ''Power_On_Hours''" "nominal_ns x < 2 ^ 63"
    and "saType x \<in> {TypeMin2Hour, TypeSec2Hour, TypeHalfMin2Hour, TypeMsec24Hour32}"
  shows "generic_step conv x a = Ok (a\<lparr>gaPowerOnHours := of_int (nominal_ns x div 3600000000000)\<rparr>)"
proof -
  have "go_int (nominal_ns x) = nominal_ns x"
    using assms(2) nominal_ns_ms(2) [of x] by (intro go_int_id) simp_all
  then have "ParseAsDuration x = Ok (nominal_ns x)"
    using assms(3) ParseAsDuration_time [of x] by simp
  then show ?thesis
    using assms(1,2) nominal_ns_ms [of x] by (simp add: generic_step_def hours_u64_exact)
qed

theorem power_on_hours_exact_witness:
  "generic_step (\<lambda>n. - of_nat n) \<lparr>saId = 9, saFlags = 0, saCurrent = 0, saWorst = 0, saVendorBytes = [],
     saName = ''Power_On_Hours'', saType = TypeMin2Hour, saValueRaw = 119\<rparr> GenericAttributes_zero =
   Ok (GenericAttributes_zero\<lparr>gaPowerOnHours := 1\<rparr>)"
proof -
  let ?a = "\<lparr>saId = 9, saFlags = 0, saCurrent = 0, saWorst = 0, saVendorBytes = [],
     saName = ''Power_On_Hours'', saType = TypeMin2Hour, saValueRaw = 119\<rparr>"
  have ns: "nominal_ns ?a = 7140000000000" by (simp add: nominal_ns_def attr_types)
  have "generic_step (\<lambda>n. - of_nat n) ?a GenericAttributes_zero =
      Ok (GenericAttributes_zero\<lparr>gaPowerOnHours := of_int (nominal_ns ?a div 3600000000000)\<rparr>)"
    by (rule power_on_hours_exact) (simp_all add: ns)
  then show ?thesis by (simp add: ns)
qed

section \<open>Temperature ranges\<close>

lemma checkTempRange_bounds:
  "checkTempRange t t1 t2 = Some (lo, hi) \<Longrightarrow> -60 \<le> lo \<and> lo \<le> t \<and> t \<le> hi \<and> hi \<le> 120"
  by (auto simp: checkTempRange_def split: if_splits)

text \<open>What a parsed min/max temperature \<open>t\<close> must satisfy, and how the branches keep it.\<close>

definition temp_ok :: "int \<Rightarrow> (int \<times> int \<times> int \<times> int) res \<Rightarrow> bool" where
  "temp_ok t r \<longleftrightarrow> (\<exists>lo hi c. r = Ok (t, lo, hi, c) \<and>
     ((lo = 0 \<and> hi = 0 \<and> c = 0) \<or>
      (-60 \<le> lo \<and> lo \<le> t \<and> t \<le> hi \<and> hi \<le> 120 \<and> (c = 0 \<or> 40 \<le> hi \<and> 0 < c \<and> c < 0x7fff))))"

lemma temp_ok_plain: "temp_ok t (Ok (t, 0, 0, 0))"
  by (simp add: temp_ok_def)

lemma temp_ok_if: "(P \<Longrightarrow> temp_ok t r) \<Longrightarrow> (\<not> P \<Longrightarrow> temp_ok t s) \<Longrightarrow> temp_ok t (if P then r else s)"
  by simp

lemma temp_ok_case:
  assumes "\<And>lo hi. P \<Longrightarrow> -60 \<le> lo \<and> lo \<le> t \<and> t \<le> hi \<and> hi \<le> 120 \<Longrightarrow> temp_ok t (f (lo, hi))"
    and "temp_ok t r"
  shows "temp_ok t (case (if P then checkTempRange t x y else None) of Some z \<Rightarrow> f z | None \<Rightarrow> r)"
  using assms checkTempRange_bounds [of t x y] by (auto split: option.split)

lemma temp_ok_range: "-60 \<le> lo \<and> lo \<le> t \<and> t \<le> hi \<and> hi \<le> 120 \<Longrightarrow> temp_ok t (Ok (t, lo, hi, 0))"
  by (simp add: temp_ok_def)

lemma temp_ok_count:
  fixes w :: u16
  assumes "-60 \<le> lo \<and> lo \<le> t \<and> t \<le> hi \<and> hi \<le> 120" "40 \<le> hi" "w \<noteq> 0" "w < 0x7fff"
  shows "temp_ok t (Ok (t, lo, hi, uint w))"
proof -
  have "0 < uint w \<and> uint w < 0x7fff"
    using assms(3,4) by (simp add: word_less_def uint_0_iff order_less_le)
  with assms show ?thesis by (simp add: temp_ok_def)
qed

lemma ParseAsTemperature_minmax:
  assumes "saType a = TypeTempMinMax"
  shows "temp_ok (sint (ucast (saValueRaw a) :: u8)) (ParseAsTemperature a)"
proof -
  have "int8_at (saValueRaw a) 0 = sint (ucast (saValueRaw a) :: u8)"
    by (simp add: int8_at_def)
  then show ?thesis
    using assms unfolding ParseAsTemperature_def Let_def
    by (simp only: attr_types refl if_True if_False num.simps numeral_eq_iff prod.case cong: if_cong)
      (intro temp_ok_if temp_ok_case temp_ok_plain; simp only: prod.case;
       intro temp_ok_if temp_ok_plain temp_ok_range temp_ok_count; assumption)
qed

lemma ParseAsTemperature_total: "ParseAsTemperature a \<noteq> None"
proof (cases "saType a = TypeTempMinMax")
  case True
  from ParseAsTemperature_minmax [OF True] show ?thesis
    unfolding temp_ok_def by (elim exE conjE) (simp only: option.distinct not_False_eq_True)
qed (simp add: ParseAsTemperature_def)

text \<open>
  C12. What \<^verbatim>\<open>ParseAsTemperature\<close> returns, by type. A min/max attribute yields its low byte as a signed
  temperature; its range is either absent (all zero) or contains that temperature and lies within -60
  to 120 degrees, and an over-temperature count only comes with a maximum of at least 40. A tenths
  attribute yields its low 16 bits over 10 and no range, although the comment on the type says
  \<^verbatim>\<open>raw[0:32]/10\<close>. Every other type is an error.
\<close>

theorem ParseAsTemperature_range:
  "(if saType a = TypeTemp10X
    then ParseAsTemperature a = Ok (uint (saValueRaw a) mod 2 ^ 16 div 10, 0, 0, 0)
    else if saType a = TypeTempMinMax
    then \<exists>lo hi c. ParseAsTemperature a = Ok (sint (ucast (saValueRaw a) :: u8), lo, hi, c) \<and>
      ((lo = 0 \<and> hi = 0 \<and> c = 0) \<or>
       (-60 \<le> lo \<and> lo \<le> sint (ucast (saValueRaw a) :: u8) \<and>
        sint (ucast (saValueRaw a) :: u8) \<le> hi \<and> hi \<le> 120 \<and> (c = 0 \<or> 40 \<le> hi \<and> 0 < c \<and> c < 0x7fff)))
    else is_err (ParseAsTemperature a))"
proof -
  have low16: "uint (w AND 0xffff) = uint (w :: u64) mod 2 ^ 16" for w
  proof -
    have "w AND 0xffff = take_bit 16 w"
      by (simp add: take_bit_eq_mask mask_eq_exp_minus_1)
    moreover have "uint (take_bit 16 w) = uint w mod 2 ^ 16"
      unfolding unsigned_take_bit_eq by (rule take_bit_eq_mod)
    ultimately show ?thesis by simp
  qed
  consider "saType a = TypeTemp10X" | "saType a \<noteq> TypeTemp10X" "saType a = TypeTempMinMax"
    | "saType a \<noteq> TypeTemp10X" "saType a \<noteq> TypeTempMinMax" by blast
  then show ?thesis
  proof cases
    case 2
    then show ?thesis
      using ParseAsTemperature_minmax [OF 2(2)] unfolding temp_ok_def by (simp only: if_not_P if_P if_False simp_thms)
  qed (simp_all add: ParseAsTemperature_def low16)
qed

section \<open>The order of the loop\<close>

datatype generic_slot = Temperature | DataRead | DataWritten | PowerOnHours | PowerCycles

definition attr_slot :: "AtaSmartAttr \<Rightarrow> generic_slot option" where
  "attr_slot x =
     (if saName x = ''Airflow_Temperature_Cel'' \<or> saName x = ''Temperature_Celsius'' \<or>
         saName x = ''Temperature_Celsius_X10'' then Some Temperature
      else if saName x = ''Total_LBAs_Read'' then Some DataRead
      else if saName x = ''Total_LBAs_Written'' then Some DataWritten
      else if saName x = ''Power_On_Hours'' then Some PowerOnHours
      else if saName x = ''Power_Cycle_Count'' then Some PowerCycles
      else None)"

text \<open>The step by the slot it writes.\<close>

definition hours_of :: "(nat \<Rightarrow> u64) \<Rightarrow> AtaSmartAttr \<Rightarrow> u64" where
  "hours_of conv x =
     (case ParseAsDuration x of Some (Inr d) \<Rightarrow> hours_u64 conv d | _ \<Rightarrow> saValueRaw x)"

definition slot_step :: "(nat \<Rightarrow> u64) \<Rightarrow> AtaSmartAttr \<Rightarrow> generic_slot option \<Rightarrow> GenericAttributes \<Rightarrow> GenericAttributes res" where
  "slot_step conv x k a =
     (case k of
        None \<Rightarrow> Ok a
      | Some Temperature \<Rightarrow>
          bind_res (ParseAsTemperature x) (\<lambda>r. Ok (a\<lparr>gaTemperature := of_int (fst r)\<rparr>))
      | Some DataRead \<Rightarrow> Ok (a\<lparr>gaRead := saValueRaw x\<rparr>)
      | Some DataWritten \<Rightarrow> Ok (a\<lparr>gaWritten := saValueRaw x\<rparr>)
      | Some PowerOnHours \<Rightarrow> Ok (a\<lparr>gaPowerOnHours := hours_of conv x\<rparr>)
      | Some PowerCycles \<Rightarrow> Ok (a\<lparr>gaPowerCycles := saValueRaw x\<rparr>))"

lemma generic_step_slot: "generic_step conv x a = slot_step conv x (attr_slot x) a"
proof -
  have dur: "(case ParseAsDuration x of
       None \<Rightarrow> None
     | Some (Inr d) \<Rightarrow> Ok (a\<lparr>gaPowerOnHours := hours_u64 conv d\<rparr>)
     | Some (Inl e) \<Rightarrow> Ok (a\<lparr>gaPowerOnHours := saValueRaw x\<rparr>)) = slot_step conv x (Some PowerOnHours) a"
  proof -
    have "ParseAsDuration x \<noteq> None"
      by (simp add: ParseAsDuration_def Let_def)
    then show ?thesis
      by (cases "ParseAsDuration x" rule: res_cases) (simp_all add: slot_step_def hours_of_def)
  qed
  show ?thesis
    unfolding generic_step_def attr_slot_def dur
    by (simp only: slot_step_def option.case generic_slot.case split_def split: if_split) blast
qed

lemma slot_step_commute:
  assumes "j \<noteq> k"
  shows "bind_res (slot_step conv x j s) (slot_step conv y k) = bind_res (slot_step conv y k s) (slot_step conv x j)"
proof (cases "j = Some Temperature \<or> k = Some Temperature")
  case True
  with assms show ?thesis
    using ParseAsTemperature_total [of x] ParseAsTemperature_total [of y]
    by (cases "ParseAsTemperature x" rule: res_cases; cases "ParseAsTemperature y" rule: res_cases)
      (auto simp: slot_step_def split: option.split generic_slot.split)
next
  case False
  with assms show ?thesis
    by (auto simp: slot_step_def split: option.split generic_slot.split)
qed

interpretation generic: slotted_fold "generic_step conv" attr_slot for conv
  by unfold_locales (simp_all add: generic_step_slot [abs_def] slot_step_commute slot_step_def [of _ _ None])

text \<open>
  C17. Whenever no two attributes feed the same generic attribute, the result of
  \<^verbatim>\<open>ReadGenericAttributes\<close> is the same for every order in which Go may visit the attribute map,
  errors included.
\<close>

theorem generic_attributes_order:
  assumes "mset xs = mset ys"
    and "\<And>k. size (filter_mset (\<lambda>x. attr_slot x = Some k) (mset xs)) \<le> 1"
  shows "generic_attributes conv xs = generic_attributes conv ys"
  using assms by (auto simp: generic_attributes_def generic.slots_once_def intro!: generic.fold_order)

text \<open>The attributes 190 and 194 as the default table names them.\<close>

definition default_attr :: "u8 \<Rightarrow> u64 \<Rightarrow> AtaSmartAttr" where
  "default_attr i v =
     (let n = the (ataDefaultAttributes (uint i)) in
      \<lparr>saId = i, saFlags = 0, saCurrent = 0, saWorst = 0, saVendorBytes = [], saName = attrName n,
       saType = attrTyp n, saValueRaw = v\<rparr>)"

theorem generic_attributes_order_witness:
  "generic_attributes (\<lambda>n. - of_nat n) [default_attr 12 5, default_attr 241 6] =
   generic_attributes (\<lambda>n. - of_nat n) [default_attr 241 6, default_attr 12 5]"
proof (rule generic_attributes_order)
  fix k
  have "attr_slot (default_attr 12 5) = Some PowerCycles" "attr_slot (default_attr 241 6) = Some DataWritten"
    by (simp_all add: default_attr_def ataDefaultAttributes_def ataDefaultAttributesTable_def attr_def attr_slot_def)
  then show "size (filter_mset (\<lambda>x. attr_slot x = Some k) (mset [default_attr 12 5, default_attr 241 6])) \<le> 1"
    by (cases k) simp_all
qed simp

section \<open>Temperatures of the default table\<close>

text \<open>Every attribute of a page comes from one of its entries.\<close>

lemma page_attr:
  assumes "spAttrs (build_page mp raw) i = Some x"
  shows "\<exists>r\<in>set (pageAttrs raw). rawId r = i \<and> x = build_attr mp r"
proof -
  obtain r where r: "find (\<lambda>a. rawId a = i) (rev (used_entries (pageAttrs raw))) = Some r" "x = build_attr mp r"
    using assms by (auto simp: spAttrs_lookup)
  from r(1) have "r \<in> set (rev (used_entries (pageAttrs raw)))" "rawId r = i"
    by (auto simp: find_Some_iff simp del: set_rev)
  with r(2) show ?thesis by (auto dest: set_takeWhileD)
qed

lemma default_temperatures:
  "ataDefaultAttributes 190 = Some (attr ''Airflow_Temperature_Cel'' TypeTempMinMax '''' 0)"
  "ataDefaultAttributes 194 = Some (attr ''Temperature_Celsius'' TypeTempMinMax '''' 0)"
  "ataDefaultAttributes 231 = Some (attr ''Temperature_Celsius'' TypeRaw48 '''' RestrictionHDDOnly)"
  by (simp_all add: ataDefaultAttributes_def ataDefaultAttributesTable_def)

lemma default_temperature_ids:
  assumes "ataDefaultAttributes i = Some n"
    and "attrName n \<in> {''Airflow_Temperature_Cel'', ''Temperature_Celsius'', ''Temperature_Celsius_X10''}"
  shows "i \<in> {190, 194, 231}"
proof -
  have "list_all (\<lambda>(i, n). attrName n \<in> {''Airflow_Temperature_Cel'', ''Temperature_Celsius'',
      ''Temperature_Celsius_X10''} \<longrightarrow> i \<in> {190, 194, 231}) ataDefaultAttributesTable"
    by (simp add: ataDefaultAttributesTable_def attr_def)
  with assms show ?thesis
    by (auto simp: ataDefaultAttributes_def list_all_iff dest!: map_of_SomeD)
qed

lemma temperature_slot:
  "attr_slot x = Some Temperature \<longleftrightarrow>
   saName x \<in> {''Airflow_Temperature_Cel'', ''Temperature_Celsius'', ''Temperature_Celsius_X10''}"
  by (auto simp: attr_slot_def)

lemma le_word_low: "(ucast (le_word (b # bs) :: u64) :: u8) = b"
  by (rule bit_word_eqI) (simp add: bit_simps bit_le_word)

lemma build_temperature:
  "rawId r = 190 \<or> rawId r = 194 \<Longrightarrow> length (rawVendorBytes r) = 6 \<Longrightarrow>
    attr_slot (build_attr ataDefaultAttributes r) = Some Temperature \<and>
    (\<exists>lo hi c. ParseAsTemperature (build_attr ataDefaultAttributes r) =
      Ok (sint (saVendorBytes (build_attr ataDefaultAttributes r) ! 0), lo, hi, c))"
  "rawId r = 231 \<Longrightarrow> attr_slot (build_attr ataDefaultAttributes r) = Some Temperature \<and>
    is_err (ParseAsTemperature (build_attr ataDefaultAttributes r))"
proof -
  assume id: "rawId r = 190 \<or> rawId r = 194" and len: "length (rawVendorBytes r) = 6"
  let ?x = "build_attr ataDefaultAttributes r"
  have ty: "saType ?x = TypeTempMinMax"
    and name: "saName ?x \<in> {''Airflow_Temperature_Cel'', ''Temperature_Celsius''}"
    and vb: "saVendorBytes ?x = rawVendorBytes r"
    and raw: "saValueRaw ?x = le_word (rawVendorBytes r)"
    using id by (auto simp: build_attr_def default_temperatures attr_def raw_value_bytes [OF len] attr_types)
  obtain b bs where "rawVendorBytes r = b # bs" using len by (cases "rawVendorBytes r") auto
  then have "(ucast (saValueRaw ?x) :: u8) = saVendorBytes ?x ! 0"
    unfolding raw vb by (simp add: le_word_low del: le_word.simps)
  with ParseAsTemperature_minmax [OF ty] name show "attr_slot ?x = Some Temperature \<and>
      (\<exists>lo hi c. ParseAsTemperature ?x = Ok (sint (saVendorBytes ?x ! 0), lo, hi, c))"
    unfolding temp_ok_def temperature_slot by (auto simp only: insert_iff)
next
  assume "rawId r = 231"
  then show "attr_slot (build_attr ataDefaultAttributes r) = Some Temperature \<and>
    is_err (ParseAsTemperature (build_attr ataDefaultAttributes r))"
    by (simp add: temperature_slot build_attr_def default_temperatures attr_def ParseAsTemperature_def attr_types)
qed

text \<open>The temperature a visit leaves is that of its last temperature attribute.\<close>

lemma generic_fold_temperature:
  assumes "\<And>x. x \<in> set xs \<Longrightarrow> attr_slot x = Some Temperature \<Longrightarrow> \<exists>lo hi c. ParseAsTemperature x = Ok (f x, lo, hi, c)"
  shows "\<exists>g. fold_res (generic_step conv) xs s = Ok g \<and>
    gaTemperature g = (let ts = filter (\<lambda>x. attr_slot x = Some Temperature) xs in
      if ts = [] then gaTemperature s else of_int (f (last ts)))"
  using assms
proof (induction xs arbitrary: s)
  case (Cons x xs)
  have "\<exists>t. generic_step conv x s = Ok t \<and>
      gaTemperature t = (if attr_slot x = Some Temperature then of_int (f x) else gaTemperature s)"
  proof (cases "attr_slot x = Some Temperature")
    case True
    with Cons.prems [of x] show ?thesis by (auto simp: generic_step_slot slot_step_def)
  qed (auto simp: generic_step_slot slot_step_def split: option.split generic_slot.split)
  then obtain t where t: "generic_step conv x s = Ok t"
      "gaTemperature t = (if attr_slot x = Some Temperature then of_int (f x) else gaTemperature s)"
    by blast
  have "\<exists>g. fold_res (generic_step conv) xs t = Ok g \<and>
      gaTemperature g = (let ts = filter (\<lambda>x. attr_slot x = Some Temperature) xs in
        if ts = [] then gaTemperature t else of_int (f (last ts)))"
    using Cons.prems by (intro Cons.IH) simp_all
  with t show ?case by (auto simp: Let_def)
qed simp

lemma generic_fold_err:
  assumes "x \<in> set xs" "attr_slot x = Some Temperature" "is_err (ParseAsTemperature x)"
  shows "is_err (fold_res (generic_step conv) xs s)"
  using assms(1)
proof (induction xs arbitrary: s)
  case (Cons y ys)
  show ?case
  proof (cases "generic_step conv y s" rule: res_cases)
    case panic
    then show ?thesis
      using ParseAsTemperature_total [of y]
      by (auto simp: generic_step_slot slot_step_def bind_res_def split: option.splits generic_slot.splits sum.splits)
  next
    case (ok t)
    moreover have "x \<noteq> y"
      using assms(2,3) ok by (auto simp: generic_step_slot slot_step_def is_err_iff)
    ultimately show ?thesis using Cons by simp
  qed simp
qed simp

text \<open>A visit runs over the values of the map; a map has one that ends with any two of its values.\<close>

lemma visits_set: "visits m xs \<Longrightarrow> set xs = ran m"
  by (auto simp: visits_def ran_def)

lemma visits_exist:
  fixes m :: "u8 \<rightharpoonup> AtaSmartAttr"
  assumes "\<And>i x. m i = Some x \<Longrightarrow> saId x = i" "set ys \<subseteq> ran m" "distinct ys"
  shows "\<exists>zs. visits m (zs @ ys)"
proof -
  have "finite (ran m)" by (intro finite_ran) simp
  then obtain zs where zs: "set zs = ran m - set ys" "distinct zs"
    using finite_distinct_list [of "ran m - set ys"] by auto
  have all: "set (zs @ ys) = ran m" using zs(1) assms(2) by auto
  have "inj_on saId (ran m)" using assms(1) by (auto simp: inj_on_def ran_def)
  then have "distinct (map saId (zs @ ys))"
    using zs assms(3) by (subst distinct_map) (auto simp only: all distinct_append)
  moreover have "m i = Some a \<longleftrightarrow> a \<in> set (zs @ ys) \<and> saId a = i" for i a
    unfolding all using assms(1) by (auto simp: ran_def)
  ultimately show ?thesis by (auto simp: visits_def)
qed

lemma default_page_temperatures:
  assumes "m = spAttrs (build_page ataDefaultAttributes raw)"
    and "\<forall>r\<in>set (pageAttrs raw). length (rawVendorBytes r) = 6"
    and "m 190 = Some a" "m 194 = Some b" "m 231 = None"
  shows "{x \<in> ran m. attr_slot x = Some Temperature} = {a, b}"
    and "x \<in> {a, b} \<Longrightarrow> \<exists>lo hi c. ParseAsTemperature x = Ok (sint (saVendorBytes x ! 0), lo, hi, c)"
proof -
  have entry: "\<exists>r\<in>set (pageAttrs raw). rawId r = i \<and> x = build_attr ataDefaultAttributes r"
    if "m i = Some x" for i x
    using that assms(1) page_attr by blast
  show "x \<in> {a, b} \<Longrightarrow> \<exists>lo hi c. ParseAsTemperature x = Ok (sint (saVendorBytes x ! 0), lo, hi, c)"
    using assms(2) entry [OF assms(3)] entry [OF assms(4)] build_temperature(1) by blast
  have "x = a \<or> x = b" if x: "x \<in> ran m" "attr_slot x = Some Temperature" for x
  proof -
    obtain i where i: "m i = Some x" using x(1) by (auto simp: ran_def)
    then obtain r where r: "rawId r = i" "x = build_attr ataDefaultAttributes r"
      using entry by blast
    obtain n where "ataDefaultAttributes (uint i) = Some n" "attrName n = saName x"
      using x(2) r by (cases "ataDefaultAttributes (uint i)") (auto simp: temperature_slot build_attr_def Let_def)
    then have "uint i \<in> {190, 194, 231}"
      using x(2) default_temperature_ids [of "uint i" n] by (simp add: temperature_slot)
    then have "i \<in> {190, 194, 231}"
      by (simp add: word_uint_eq_iff)
    with i assms(3-5) show ?thesis by auto
  qed
  then show "{x \<in> ran m. attr_slot x = Some Temperature} = {a, b}"
    using assms(2-4) entry [OF assms(3)] entry [OF assms(4)]
    by (auto simp: build_temperature(1) intro: ranI)
qed

text \<open>With two temperature attributes a visit reports that of the one it reaches last, and either may be.\<close>

lemma generic_two_temperatures:
  fixes m :: "u8 \<rightharpoonup> AtaSmartAttr"
  assumes "\<And>i x. m i = Some x \<Longrightarrow> saId x = i" "{x \<in> ran m. attr_slot x = Some Temperature} = {a, b}"
    and "\<And>x. x \<in> {a, b} \<Longrightarrow> \<exists>lo hi c. ParseAsTemperature x = Ok (f x, lo, hi, c)"
  shows "visits m xs \<Longrightarrow> is_ok (generic_attributes conv xs)"
    and "{gaTemperature g | xs g. visits m xs \<and> generic_attributes conv xs = Ok g} = {of_int (f a), of_int (f b)}"
proof -
  let ?temp = "\<lambda>x. attr_slot x = Some Temperature"
  have run: "\<exists>g. generic_attributes conv xs = Ok g \<and> gaTemperature g = of_int (f (last (filter ?temp xs))) \<and>
      last (filter ?temp xs) \<in> {a, b}" if v: "visits m xs" for xs
  proof -
    have ts: "set (filter ?temp xs) = {a, b}"
      using visits_set [OF v] assms(2) by auto
    then have "filter ?temp xs \<noteq> []" by (metis empty_set insert_not_empty)
    moreover from this have "last (filter ?temp xs) \<in> {a, b}"
      using last_in_set [of "filter ?temp xs"] unfolding ts by simp
    moreover have "\<exists>g. fold_res (generic_step conv) xs GenericAttributes_zero = Ok g \<and>
        gaTemperature g = (let ts = filter ?temp xs in
          if ts = [] then gaTemperature GenericAttributes_zero else of_int (f (last ts)))"
      using assms(2,3) visits_set [OF v] by (intro generic_fold_temperature) blast
    ultimately show ?thesis
      unfolding generic_attributes_def Let_def by auto
  qed
  have both: "\<exists>xs. visits m xs \<and> last (filter ?temp xs) = x" if x: "x \<in> {a, b}" for x
  proof -
    have "x \<in> ran m" "?temp x" using x assms(2) by blast+
    then obtain zs where "visits m (zs @ [x])"
      using visits_exist [of m "[x]"] assms(1) by auto
    moreover have "last (filter ?temp (zs @ [x])) = x" using \<open>?temp x\<close> by simp
    ultimately show ?thesis by blast
  qed
  show "visits m xs \<Longrightarrow> is_ok (generic_attributes conv xs)"
    using run by (auto simp: is_ok_iff)
  show "{gaTemperature g | xs g. visits m xs \<and> generic_attributes conv xs = Ok g} = {of_int (f a), of_int (f b)}"
  proof (intro set_eqI iffI)
    fix t :: u64
    assume "t \<in> {of_int (f a), of_int (f b)}"
    then obtain x where x: "x \<in> {a, b}" "t = of_int (f x)" by blast
    from both [OF x(1)] obtain xs where "visits m xs" "last (filter ?temp xs) = x" by blast
    moreover from this run [of xs] obtain g where "generic_attributes conv xs = Ok g" "t = gaTemperature g"
      using x(2) by auto
    ultimately show "t \<in> {gaTemperature g | xs g. visits m xs \<and> generic_attributes conv xs = Ok g}"
      by blast
  qed (use run in fastforce)
qed

text \<open>
  C18. Attributes 190 (\<^verbatim>\<open>Airflow_Temperature_Cel\<close>) and 194 (\<^verbatim>\<open>Temperature_Celsius\<close>) of the default table both
  write the temperature. On a page that holds both, the temperatures \<^verbatim>\<open>ReadGenericAttributes\<close> may report,
  over all the orders in which Go may visit the attribute map, are exactly the first vendor byte of the
  one and of the other. Attribute 231, which the default table also calls \<^verbatim>\<open>Temperature_Celsius\<close> but gives
  the type raw48 (for hard disks only, a restriction nothing reads), is worse: a page that holds it makes
  the call fail in every order.
\<close>

theorem generic_attributes_ambiguous:
  assumes "m = spAttrs (build_page ataDefaultAttributes raw)"
    and "\<forall>r\<in>set (pageAttrs raw). length (rawVendorBytes r) = 6"
    and "m 190 = Some a" "m 194 = Some b"
  shows "(m 231 = None \<longrightarrow>
      (\<forall>xs. visits m xs \<longrightarrow> is_ok (generic_attributes conv xs)) \<and>
      {gaTemperature g | xs g. visits m xs \<and> generic_attributes conv xs = Ok g} =
        {of_int (sint (saVendorBytes a ! 0)), of_int (sint (saVendorBytes b ! 0))}) \<and>
    (m 231 \<noteq> None \<longrightarrow>
      (\<exists>xs. visits m xs) \<and> (\<forall>xs. visits m xs \<longrightarrow> is_err (generic_attributes conv xs)))"
proof (intro conjI impI)
  have ids: "saId x = i" if "m i = Some x" for i x
    using that assms(1) page_ids by blast
  note two = generic_two_temperatures [OF ids default_page_temperatures(1) [OF assms]
      default_page_temperatures(2) [OF assms]]
  show "m 231 = None \<Longrightarrow> \<forall>xs. visits m xs \<longrightarrow> is_ok (generic_attributes conv xs)"
    using two(1) by blast
  show "m 231 = None \<Longrightarrow> {gaTemperature g | xs g. visits m xs \<and> generic_attributes conv xs = Ok g} =
      {of_int (sint (saVendorBytes a ! 0)), of_int (sint (saVendorBytes b ! 0))}"
    by (rule two(2))
  show "\<exists>xs. visits m xs" using visits_exist [of m "[]"] ids by auto
  assume "m 231 \<noteq> None"
  then obtain c where c: "m 231 = Some c" by blast
  then obtain r where "rawId r = 231" "c = build_attr ataDefaultAttributes r"
    using assms(1) page_attr by blast
  then show "\<forall>xs. visits m xs \<longrightarrow> is_err (generic_attributes conv xs)"
    unfolding generic_attributes_def
    using visits_set build_temperature(2) c by (auto intro!: generic_fold_err [of c] ranI)
qed

theorem generic_attributes_ambiguous_witness:
  "{gaTemperature g | xs g. visits (spAttrs (build_page ataDefaultAttributes
      \<lparr>pageVersion = 0, pageAttrs =
        [\<lparr>rawId = 190, rawFlags = 0, rawCurrent = 60, rawWorst = 50, rawVendorBytes = [40, 0, 0, 0, 0, 0], rawReserved = 0\<rparr>,
         \<lparr>rawId = 194, rawFlags = 0, rawCurrent = 70, rawWorst = 50, rawVendorBytes = [30, 0, 0, 0, 0, 0], rawReserved = 0\<rparr>]\<rparr>)) xs \<and>
      generic_attributes (\<lambda>n. - of_nat n) xs = Ok g} = {40, 30}"
proof -
  let ?p = "\<lparr>pageVersion = 0, pageAttrs =
        [\<lparr>rawId = 190, rawFlags = 0, rawCurrent = 60, rawWorst = 50, rawVendorBytes = [40, 0, 0, 0, 0, 0], rawReserved = 0\<rparr>,
         \<lparr>rawId = 194, rawFlags = 0, rawCurrent = 70, rawWorst = 50, rawVendorBytes = [30, 0, 0, 0, 0, 0], rawReserved = 0\<rparr>]\<rparr>"
  let ?m = "spAttrs (build_page ataDefaultAttributes ?p)"
  have "?m 190 = Some (build_attr ataDefaultAttributes (pageAttrs ?p ! 0))"
    "?m 194 = Some (build_attr ataDefaultAttributes (pageAttrs ?p ! 1))" "?m 231 = None"
    by (simp_all add: spAttrs_lookup)
  with generic_attributes_ambiguous [of ?m ?p _ _ "\<lambda>n. - of_nat n"] show ?thesis
    by (simp add: build_attr_def default_temperatures attr_def)
qed

end
