(* ===== verification/GoRegexp.thy ===== *)
theory GoRegexp
  imports GoPrelude
begin

text \<open>
  What the package uses of Go's \<^verbatim>\<open>regexp\<close>: \<^verbatim>\<open>regexp.MatchString\<close>, which compiles a pattern and reports whether
  some part of the subject matches it. The patterns of the device database need literals, \<^verbatim>\<open>.\<close>, classes,
  groups, alternatives, the operators \<^verbatim>\<open>*\<close>, \<^verbatim>\<open>+\<close> and \<^verbatim>\<open>?\<close>, \<^verbatim>\<open>{d}\<close> behind a class, and escaped punctuation;
  \<open>parse\<close> reads exactly these and rejects everything else, for which \<open>MatchString\<close> takes a parameter.
\<close>

section \<open>Runes\<close>

text \<open>
  The code points of a byte string, as \<^verbatim>\<open>utf8.DecodeRune\<close> reads them: a byte that starts no valid
  encoding counts as U+FFFD. Bytes are given as numbers.
\<close>

definition cont :: "nat \<Rightarrow> bool" where
  "cont b \<longleftrightarrow> 0x80 \<le> b \<and> b \<le> 0xbf"

definition wide2 :: "nat \<Rightarrow> nat \<Rightarrow> bool" where
  "wide2 a b \<longleftrightarrow> 0xc2 \<le> a \<and> a \<le> 0xdf \<and> cont b"

definition wide3 :: "nat \<Rightarrow> nat \<Rightarrow> nat \<Rightarrow> bool" where
  "wide3 a b c \<longleftrightarrow> 0xe0 \<le> a \<and> a \<le> 0xef \<and> cont b \<and> cont c \<and>
     (a = 0xe0 \<longrightarrow> 0xa0 \<le> b) \<and> (a = 0xed \<longrightarrow> b \<le> 0x9f)"

definition wide4 :: "nat \<Rightarrow> nat \<Rightarrow> nat \<Rightarrow> nat \<Rightarrow> bool" where
  "wide4 a b c d \<longleftrightarrow> 0xf0 \<le> a \<and> a \<le> 0xf4 \<and> cont b \<and> cont c \<and> cont d \<and>
     (a = 0xf0 \<longrightarrow> 0x90 \<le> b) \<and> (a = 0xf4 \<longrightarrow> b \<le> 0x8f)"

fun runes_of :: "nat list \<Rightarrow> nat list" where
  "runes_of (a # b # c # d # bs) =
     (if a < 0x80 then a # runes_of (b # c # d # bs)
      else if wide2 a b then ((a - 0xc0) * 0x40 + (b - 0x80)) # runes_of (c # d # bs)
      else if wide3 a b c then ((a - 0xe0) * 0x1000 + (b - 0x80) * 0x40 + (c - 0x80)) # runes_of (d # bs)
      else if wide4 a b c d
      then ((a - 0xf0) * 0x40000 + (b - 0x80) * 0x1000 + (c - 0x80) * 0x40 + (d - 0x80)) # runes_of bs
      else 0xfffd # runes_of (b # c # d # bs))"
| "runes_of [a, b, c] =
     (if a < 0x80 then a # runes_of [b, c]
      else if wide2 a b then ((a - 0xc0) * 0x40 + (b - 0x80)) # runes_of [c]
      else if wide3 a b c then [(a - 0xe0) * 0x1000 + (b - 0x80) * 0x40 + (c - 0x80)]
      else 0xfffd # runes_of [b, c])"
| "runes_of [a, b] =
     (if a < 0x80 then a # runes_of [b]
      else if wide2 a b then [(a - 0xc0) * 0x40 + (b - 0x80)]
      else 0xfffd # runes_of [b])"
| "runes_of [a] = [if a < 0x80 then a else 0xfffd]"
| "runes_of [] = []"

definition runes :: "string \<Rightarrow> nat list" where
  "runes s = runes_of (map of_char s)"

section \<open>Patterns\<close>

text \<open>
  \<open>Class neg rs\<close> is the class of the ranges \<open>rs\<close>, or of everything else; \<open>Group\<close> is a pair of parentheses.
\<close>

datatype rx =
    Lit nat
  | AnyNotNL
  | Class bool "(nat \<times> nat) list"
  | Empty
  | Cat rx rx
  | Alt rx rx
  | Rep0 rx
  | Rep1 rx
  | Opt rx
  | Times nat rx
  | Group rx

text \<open>What a pattern matches: the textbook meaning of its operators.\<close>

inductive_set iter :: "'a list set \<Rightarrow> 'a list set" for A where
  iter_Nil: "[] \<in> iter A"
| iter_step: "u \<in> A \<Longrightarrow> v \<in> iter A \<Longrightarrow> u @ v \<in> iter A"

definition conc :: "'a list set \<Rightarrow> 'a list set \<Rightarrow> 'a list set" where
  "conc A B = {u @ v | u v. u \<in> A \<and> v \<in> B}"

primrec power :: "nat \<Rightarrow> 'a list set \<Rightarrow> 'a list set" where
  "power 0 A = {[]}"
| "power (Suc n) A = conc A (power n A)"

definition in_class :: "bool \<Rightarrow> (nat \<times> nat) list \<Rightarrow> nat \<Rightarrow> bool" where
  "in_class neg rs c \<longleftrightarrow> neg \<noteq> list_ex (\<lambda>(lo, hi). lo \<le> c \<and> c \<le> hi) rs"

primrec lang :: "rx \<Rightarrow> nat list set" where
  "lang (Lit a) = {[a]}"
| "lang AnyNotNL = {[c] | c. c \<noteq> 10}"
| "lang (Class neg rs) = {[c] | c. in_class neg rs c}"
| "lang Empty = {[]}"
| "lang (Cat p q) = conc (lang p) (lang q)"
| "lang (Alt p q) = lang p \<union> lang q"
| "lang (Rep0 p) = iter (lang p)"
| "lang (Rep1 p) = conc (lang p) (iter (lang p))"
| "lang (Opt p) = lang p \<union> {[]}"
| "lang (Times n p) = power n (lang p)"
| "lang (Group p) = lang p"

section \<open>Matching\<close>

text \<open>
  \<open>ends p w\<close> are the rests of \<open>w\<close> behind the prefixes that \<open>p\<close> matches; repetition goes on only where
  the subject has become shorter.
\<close>

function ends_iter :: "('a list \<Rightarrow> 'a list list) \<Rightarrow> 'a list \<Rightarrow> 'a list list" where
  "ends_iter f w = w # concat (map (ends_iter f) (filter (\<lambda>t. length t < length w) (f w)))"
  by pat_completeness auto
termination
  by (relation "measure (\<lambda>(f, w). length w)") auto

declare ends_iter.simps [simp del]

primrec ends_times :: "nat \<Rightarrow> ('a list \<Rightarrow> 'a list list) \<Rightarrow> 'a list \<Rightarrow> 'a list list" where
  "ends_times 0 f w = [w]"
| "ends_times (Suc n) f w = concat (map (ends_times n f) (f w))"

definition ends_char :: "(nat \<Rightarrow> bool) \<Rightarrow> nat list \<Rightarrow> nat list list" where
  "ends_char P w = (case w of [] \<Rightarrow> [] | c # t \<Rightarrow> if P c then [t] else [])"

primrec ends :: "rx \<Rightarrow> nat list \<Rightarrow> nat list list" where
  "ends (Lit a) w = ends_char (\<lambda>c. c = a) w"
| "ends AnyNotNL w = ends_char (\<lambda>c. c \<noteq> 10) w"
| "ends (Class neg rs) w = ends_char (in_class neg rs) w"
| "ends Empty w = [w]"
| "ends (Cat p q) w = concat (map (ends q) (ends p w))"
| "ends (Alt p q) w = ends p w @ ends q w"
| "ends (Rep0 p) w = ends_iter (ends p) w"
| "ends (Rep1 p) w = concat (map (ends_iter (ends p)) (ends p w))"
| "ends (Opt p) w = ends p w @ [w]"
| "ends (Times n p) w = ends_times n (ends p) w"
| "ends (Group p) w = ends p w"

text \<open>An unanchored search tries every position.\<close>

fun search :: "rx \<Rightarrow> nat list \<Rightarrow> bool" where
  "search p [] = (ends p [] \<noteq> [])"
| "search p (c # w) = (ends p (c # w) \<noteq> [] \<or> search p w)"

section \<open>Reading a pattern\<close>

text \<open>
  Inside a class: single characters and ranges up to the closing bracket. An opening bracket or a
  backslash, which may start a named class, and a closing bracket in the first position are not read.
\<close>

definition class_char :: "char \<Rightarrow> bool" where
  "class_char c \<longleftrightarrow> c \<noteq> CHR ''['' \<and> c \<noteq> CHR 0x5c \<and> c \<noteq> CHR '']'' \<and> (of_char c :: nat) < 0x80"

fun parse_class :: "string \<Rightarrow> ((nat \<times> nat) list \<times> string) option" where
  "parse_class (c # d # e # s) =
     (if c = CHR '']'' then Some ([], d # e # s)
      else if \<not> class_char c then None
      else if d = CHR ''-'' \<and> e \<noteq> CHR '']'' then
        (if class_char e \<and> (of_char c :: nat) \<le> of_char e
         then map_option (\<lambda>(rs, t). ((of_char c, of_char e) # rs, t)) (parse_class s) else None)
      else map_option (\<lambda>(rs, t). ((of_char c, of_char c) # rs, t)) (parse_class (d # e # s)))"
| "parse_class [c, d] =
     (if c = CHR '']'' then Some ([], [d])
      else if \<not> class_char c then None
      else if d = CHR '']'' then Some ([(of_char c, of_char c)], []) else None)"
| "parse_class [c] = (if c = CHR '']'' then Some ([], []) else None)"
| "parse_class [] = None"

definition read_class :: "string \<Rightarrow> (rx \<times> string) option" where
  "read_class s =
     (let neg = (take 1 s = ''^''); s' = (if neg then drop 1 s else s) in
      if take 1 s' = '']'' then None
      else map_option (\<lambda>(rs, t). (Class neg rs, t)) (parse_class s'))"

text \<open>The alternatives and the sequence read so far, both innermost last, as one pattern.\<close>

fun seq :: "rx list \<Rightarrow> rx" where
  "seq [] = Empty"
| "seq [r] = r"
| "seq (r # rs) = Cat (seq rs) r"

fun alts :: "rx list \<Rightarrow> rx \<Rightarrow> rx" where
  "alts [] r = r"
| "alts (a # as) r = Alt (alts as a) r"

text \<open>What an operator may follow: no operator directly, for Go rejects or reinterprets the pair.\<close>

fun operand :: "rx \<Rightarrow> bool" where
  "operand (Rep0 _) = False"
| "operand (Rep1 _) = False"
| "operand (Opt _) = False"
| "operand (Times _ _) = False"
| "operand _ = True"

fun is_class :: "rx \<Rightarrow> bool" where
  "is_class (Class _ _) = True"
| "is_class _ = False"

fun apply_op :: "(rx \<Rightarrow> rx) \<Rightarrow> rx list \<Rightarrow> rx list option" where
  "apply_op f (r # rs) = (if operand r then Some (f r # rs) else None)"
| "apply_op f [] = None"

definition plain :: "char \<Rightarrow> bool" where
  "plain c \<longleftrightarrow> (of_char c :: nat) < 0x80 \<and> c \<noteq> CHR ''^'' \<and> c \<noteq> CHR ''$''"

definition punct :: "char \<Rightarrow> bool" where
  "punct c \<longleftrightarrow> c \<in> set ''.()[]{}*+?|^$'' \<or> c = CHR 0x5c"

lemma parse_class_shorter: "parse_class s = Some (rs, t) \<Longrightarrow> length t < length s"
  by (induction s arbitrary: rs t rule: parse_class.induct) (fastforce split: if_splits)+

lemma read_class_shorter: "read_class s = Some (r, t) \<Longrightarrow> length t < length s"
  by (auto simp: read_class_def Let_def dest!: parse_class_shorter split: if_splits)

text \<open>
  One pass over the pattern with a stack of open groups: each holds the alternatives and the sequence
  in front of its parenthesis.
\<close>

function parse_rx :: "(rx list \<times> rx list) list \<Rightarrow> rx list \<Rightarrow> rx list \<Rightarrow> string \<Rightarrow> rx option" where
  "parse_rx st as rs [] = (if st = [] then Some (alts as (seq rs)) else None)"
| "parse_rx st as rs (c # s) =
     (if c = CHR ''('' then (if take 1 s = ''?'' \<or> 200 \<le> length st then None
                              else parse_rx ((as, rs) # st) [] [] s)
      else if c = CHR '')'' then
        (case st of [] \<Rightarrow> None | (as', rs') # st' \<Rightarrow> parse_rx st' as' (Group (alts as (seq rs)) # rs') s)
      else if c = CHR ''|'' then parse_rx st (seq rs # as) [] s
      else if c = CHR ''['' then
        (case read_class s of None \<Rightarrow> None | Some (r, t) \<Rightarrow> parse_rx st as (r # rs) t)
      else if c = CHR ''*'' then
        (case apply_op Rep0 rs of None \<Rightarrow> None | Some rs' \<Rightarrow> parse_rx st as rs' s)
      else if c = CHR ''+'' then
        (case apply_op Rep1 rs of None \<Rightarrow> None | Some rs' \<Rightarrow> parse_rx st as rs' s)
      else if c = CHR ''?'' then
        (case apply_op Opt rs of None \<Rightarrow> None | Some rs' \<Rightarrow> parse_rx st as rs' s)
      else if c = CHR ''{'' then
        (case s of
           d # e # t \<Rightarrow>
             (if e = CHR ''}'' \<and> 0x31 \<le> (of_char d :: nat) \<and> (of_char d :: nat) \<le> 0x39 then
                (case rs of [] \<Rightarrow> None
                 | r # rs' \<Rightarrow> if is_class r then parse_rx st as (Times (of_char d - 0x30) r # rs') t else None)
              else None)
         | _ \<Rightarrow> None)
      else if c = CHR ''.'' then parse_rx st as (AnyNotNL # rs) s
      else if c = CHR 0x5c then
        (case s of d # t \<Rightarrow> if punct d then parse_rx st as (Lit (of_char d) # rs) t else None | [] \<Rightarrow> None)
      else if plain c then parse_rx st as (Lit (of_char c) # rs) s
      else None)"
  by pat_completeness auto
termination
  by (relation "measure (\<lambda>(st, as, rs, s). length s)") (auto dest: read_class_shorter)

text \<open>
  The bounds keep a pattern far below the limits at which Go refuses to compile it (nesting depth 1000).
\<close>

definition parse :: "string \<Rightarrow> rx option" where
  "parse p = (if length p \<le> 5000 then parse_rx [] [] [] p else None)"

text \<open>A subject is searched for a match; \<open>rest\<close> is \<^verbatim>\<open>MatchString\<close> on the patterns outside the subset.\<close>

definition MatchString :: "(string \<Rightarrow> string \<Rightarrow> bool res) \<Rightarrow> string \<Rightarrow> string \<Rightarrow> bool res" where
  "MatchString rest p s =
     (case parse p of None \<Rightarrow> rest p s | Some r \<Rightarrow> Ok (search r (runes s)))"

section \<open>Which patterns are read\<close>

text \<open>
  \<open>readable\<close> follows \<open>parse_rx\<close> with the depth of the stack and the kind of the last item alone. It decides
  whether a pattern is read, and does so with one equation per character on a literal pattern.
\<close>

datatype item_kind = KNone | KOperand | KClass | KOp

definition kind :: "rx list \<Rightarrow> item_kind" where
  "kind rs = (case rs of [] \<Rightarrow> KNone
     | r # _ \<Rightarrow> if is_class r then KClass else if operand r then KOperand else KOp)"

fun skip_class :: "string \<Rightarrow> string option" where
  "skip_class (c # d # e # s) =
     (if c = CHR '']'' then Some (d # e # s)
      else if \<not> class_char c then None
      else if d = CHR ''-'' \<and> e \<noteq> CHR '']'' then
        (if class_char e \<and> (of_char c :: nat) \<le> of_char e then skip_class s else None)
      else skip_class (d # e # s))"
| "skip_class [c, d] =
     (if c = CHR '']'' then Some [d]
      else if \<not> class_char c then None
      else if d = CHR '']'' then Some [] else None)"
| "skip_class [c] = (if c = CHR '']'' then Some [] else None)"
| "skip_class [] = None"

lemma skip_class_eq: "skip_class s = map_option snd (parse_class s)"
  by (induction s rule: parse_class.induct) (auto simp: option.map_comp o_def case_prod_beta split: if_splits)

definition skip :: "string \<Rightarrow> string option" where
  "skip s = (let s' = (if take 1 s = ''^'' then drop 1 s else s) in
     if take 1 s' = '']'' then None else skip_class s')"

lemma skip_eq: "skip s = map_option snd (read_class s)"
  by (auto simp: skip_def read_class_def Let_def skip_class_eq option.map_comp o_def case_prod_beta)

lemma skip_shorter: "skip s = Some t \<Longrightarrow> length t < length s"
  by (auto simp: skip_eq dest: read_class_shorter)

lemma read_class_is_class: "read_class s = Some (r, t) \<Longrightarrow> is_class r"
  by (auto simp: read_class_def Let_def split: if_splits)

function readable :: "nat \<Rightarrow> item_kind \<Rightarrow> string \<Rightarrow> bool" where
  "readable n k [] = (n = 0)"
| "readable n k (c # s) =
     (if c = CHR ''('' then n < 200 \<and> readable (Suc n) KNone s
      else if c = CHR '')'' then (case n of 0 \<Rightarrow> False | Suc m \<Rightarrow> readable m KOperand s)
      else if c = CHR ''|'' then readable n KNone s
      else if c = CHR ''['' then (case skip s of None \<Rightarrow> False | Some t \<Rightarrow> readable n KClass t)
      else if c = CHR ''*'' \<or> c = CHR ''+'' \<or> c = CHR ''?'' then
        (k = KOperand \<or> k = KClass) \<and> readable n KOp s
      else if c = CHR ''{'' then
        (case s of
           d # e # t \<Rightarrow>
             e = CHR ''}'' \<and> 0x31 \<le> (of_char d :: nat) \<and> (of_char d :: nat) \<le> 0x39 \<and> k = KClass \<and>
             readable n KOp t
         | _ \<Rightarrow> False)
      else if c = CHR ''.'' then readable n KOperand s
      else if c = CHR 0x5c then (case s of d # t \<Rightarrow> punct d \<and> readable n KOperand t | [] \<Rightarrow> False)
      else plain c \<and> readable n KOperand s)"
  by pat_completeness auto
termination
  by (relation "measure (\<lambda>(n, k, s). length s)") (auto dest: skip_shorter)

lemma kind_simps [simp]:
  "kind [] = KNone"
  "kind (Group r # rs) = KOperand"
  "kind (Lit a # rs) = KOperand"
  "kind (AnyNotNL # rs) = KOperand"
  "kind (Rep0 r # rs) = KOp"
  "kind (Rep1 r # rs) = KOp"
  "kind (Opt r # rs) = KOp"
  "kind (Times n r # rs) = KOp"
  "kind (Class neg cs # rs) = KClass"
  by (simp_all add: kind_def)

lemma kind_class: "is_class r \<Longrightarrow> kind (r # rs) = KClass"
  by (simp add: kind_def)

lemma kind_operand: "kind (r # rs) = KOperand \<or> kind (r # rs) = KClass \<longleftrightarrow> operand r"
  by (cases r) (auto simp: kind_def)

lemma kind_is_class: "kind (r # rs) = KClass \<longleftrightarrow> is_class r"
  by (auto simp: kind_def)

text \<open>A question mark behind an opening parenthesis has nothing to repeat.\<close>

lemma readable_question: "take 1 s = ''?'' \<Longrightarrow> \<not> readable n KNone s"
  by (cases s) auto

lemma parse_rx_readable: "(\<exists>r. parse_rx st as rs s = Some r) \<longleftrightarrow> readable (length st) (kind rs) s"
proof (induction st as rs s rule: parse_rx.induct)
  case (1 st as rs)
  then show ?case by simp
next
  case (2 st as rs c s)
  consider "c = CHR ''(''" | "c = CHR '')''" | "c = CHR ''|''" | "c = CHR ''[''"
    | "c = CHR ''*''" | "c = CHR ''+''" | "c = CHR ''?''" | "c = CHR ''{''" | "c = CHR ''.''" | "c = CHR 0x5c"
    | "c \<notin> set ''()|[*+?{.'' \<and> c \<noteq> CHR 0x5c" by auto
  then show ?case
  proof cases
    case 1
    then show ?thesis using "2.IH"(1) readable_question [of s "Suc (length st)"] by auto
  next
    case 2
    then show ?thesis using "2.IH"(2) by (cases st) (auto split: prod.split)
  next
    case 4
    then show ?thesis using "2.IH"(4)
      by (auto simp: skip_eq kind_class dest: read_class_is_class split: option.split)
  next
    case 8
    then show ?thesis using "2.IH"(8)
      by (auto simp: kind_is_class split: list.split)
  next
    case 3
    then show ?thesis using "2.IH"(3) by simp
  next
    case 5
    then show ?thesis using "2.IH"(5)
      by (cases rs) (simp_all add: kind_operand)
  next
    case 6
    then show ?thesis using "2.IH"(6)
      by (cases rs) (simp_all add: kind_operand)
  next
    case 7
    then show ?thesis using "2.IH"(7)
      by (cases rs) (simp_all add: kind_operand)
  next
    case 9
    then show ?thesis using "2.IH"(9) by simp
  next
    case 10
    then show ?thesis using "2.IH"(10) by (auto split: list.split)
  next
    case 11
    then show ?thesis using "2.IH"(11) by simp
  qed
qed

lemma parse_readable: "(\<exists>r. parse p = Some r) \<longleftrightarrow> length p \<le> 5000 \<and> readable 0 KNone p"
  using parse_rx_readable [of "[]" "[]" "[]" p] by (auto simp: parse_def)

definition readable_class :: "nat \<Rightarrow> string \<Rightarrow> bool" where
  "readable_class n s = (case skip_class s of None \<Rightarrow> False | Some t \<Rightarrow> readable n KClass t)"

lemma readable_class_open:
  "c \<noteq> CHR ''^'' \<Longrightarrow> c \<noteq> CHR '']'' \<Longrightarrow> readable n k (CHR ''['' # c # s) = readable_class n (c # s)"
  "c \<noteq> CHR '']'' \<Longrightarrow> readable n k (CHR ''['' # CHR ''^'' # c # s) = readable_class n (c # s)"
  by (simp_all add: readable_class_def skip_def)

lemma skip_class_close: "skip_class (CHR '']'' # s) = Some s"
  by (cases s; cases "tl s") auto

lemma skip_class_hyphen: "skip_class (CHR ''-'' # CHR '']'' # s) = Some s"
  by (cases s) (simp_all add: class_char_def skip_class_close)

lemma readable_class_close: "readable_class n (CHR '']'' # s) = readable n KClass s"
  by (simp add: readable_class_def skip_class_close)

lemma readable_class_single:
  "class_char c \<Longrightarrow> d \<noteq> CHR ''-'' \<Longrightarrow> readable_class n (c # d # s) = readable_class n (d # s)"
  by (cases s) (auto simp: readable_class_def class_char_def)

lemma readable_class_range:
  "class_char c \<Longrightarrow> class_char e \<Longrightarrow> (of_char c :: nat) \<le> of_char e \<Longrightarrow>
   readable_class n (c # CHR ''-'' # e # s) = readable_class n s"
  by (auto simp: readable_class_def class_char_def)

lemma readable_class_hyphen:
  "class_char c \<Longrightarrow> readable_class n (c # CHR ''-'' # CHR '']'' # s) = readable n KClass s"
  by (simp only: readable_class_def skip_class.simps) (simp add: class_char_def skip_class_hyphen)

lemmas readable_class_eval = readable_class_open readable_class_close readable_class_single
  readable_class_range readable_class_hyphen

lemma readable_operators:
  "readable n k (CHR ''('' # s) = (n < 200 \<and> readable (Suc n) KNone s)"
  "readable (Suc n) k (CHR '')'' # s) = readable n KOperand s"
  "readable n k (CHR ''|'' # s) = readable n KNone s"
  "readable n KOperand (CHR ''*'' # s) = readable n KOp s"
  "readable n KOperand (CHR ''+'' # s) = readable n KOp s"
  "readable n KOperand (CHR ''?'' # s) = readable n KOp s"
  "readable n KClass (CHR ''*'' # s) = readable n KOp s"
  "readable n KClass (CHR ''+'' # s) = readable n KOp s"
  "readable n KClass (CHR ''?'' # s) = readable n KOp s"
  "readable n k (CHR ''.'' # s) = readable n KOperand s"
  "readable n k (CHR 0x5c # d # s) = (punct d \<and> readable n KOperand s)"
  "readable n KClass (CHR ''{'' # CHR ''1'' # CHR ''}'' # s) = readable n KOp s"
  "readable n KClass (CHR ''{'' # CHR ''2'' # CHR ''}'' # s) = readable n KOp s"
  "readable n KClass (CHR ''{'' # CHR ''3'' # CHR ''}'' # s) = readable n KOp s"
  "readable n KClass (CHR ''{'' # CHR ''4'' # CHR ''}'' # s) = readable n KOp s"
  "readable n KClass (CHR ''{'' # CHR ''5'' # CHR ''}'' # s) = readable n KOp s"
  "readable n KClass (CHR ''{'' # CHR ''6'' # CHR ''}'' # s) = readable n KOp s"
  "readable n KClass (CHR ''{'' # CHR ''7'' # CHR ''}'' # s) = readable n KOp s"
  "readable n KClass (CHR ''{'' # CHR ''8'' # CHR ''}'' # s) = readable n KOp s"
  "readable n KClass (CHR ''{'' # CHR ''9'' # CHR ''}'' # s) = readable n KOp s"
  by simp_all

lemma readable_plain:
  "readable n k (CHR ''A'' # s) = readable n KOperand s"
  "readable n k (CHR ''B'' # s) = readable n KOperand s"
  "readable n k (CHR ''C'' # s) = readable n KOperand s"
  "readable n k (CHR ''D'' # s) = readable n KOperand s"
  "readable n k (CHR ''E'' # s) = readable n KOperand s"
  "readable n k (CHR ''F'' # s) = readable n KOperand s"
  "readable n k (CHR ''G'' # s) = readable n KOperand s"
  "readable n k (CHR ''H'' # s) = readable n KOperand s"
  "readable n k (CHR ''I'' # s) = readable n KOperand s"
  "readable n k (CHR ''J'' # s) = readable n KOperand s"
  "readable n k (CHR ''K'' # s) = readable n KOperand s"
  "readable n k (CHR ''L'' # s) = readable n KOperand s"
  "readable n k (CHR ''M'' # s) = readable n KOperand s"
  "readable n k (CHR ''N'' # s) = readable n KOperand s"
  "readable n k (CHR ''O'' # s) = readable n KOperand s"
  "readable n k (CHR ''P'' # s) = readable n KOperand s"
  "readable n k (CHR ''Q'' # s) = readable n KOperand s"
  "readable n k (CHR ''R'' # s) = readable n KOperand s"
  "readable n k (CHR ''S'' # s) = readable n KOperand s"
  "readable n k (CHR ''T'' # s) = readable n KOperand s"
  "readable n k (CHR ''U'' # s) = readable n KOperand s"
  "readable n k (CHR ''V'' # s) = readable n KOperand s"
  "readable n k (CHR ''W'' # s) = readable n KOperand s"
  "readable n k (CHR ''X'' # s) = readable n KOperand s"
  "readable n k (CHR ''Y'' # s) = readable n KOperand s"
  "readable n k (CHR ''Z'' # s) = readable n KOperand s"
  "readable n k (CHR ''a'' # s) = readable n KOperand s"
  "readable n k (CHR ''b'' # s) = readable n KOperand s"
  "readable n k (CHR ''c'' # s) = readable n KOperand s"
  "readable n k (CHR ''d'' # s) = readable n KOperand s"
  "readable n k (CHR ''e'' # s) = readable n KOperand s"
  "readable n k (CHR ''f'' # s) = readable n KOperand s"
  "readable n k (CHR ''g'' # s) = readable n KOperand s"
  "readable n k (CHR ''h'' # s) = readable n KOperand s"
  "readable n k (CHR ''i'' # s) = readable n KOperand s"
  "readable n k (CHR ''j'' # s) = readable n KOperand s"
  "readable n k (CHR ''k'' # s) = readable n KOperand s"
  "readable n k (CHR ''l'' # s) = readable n KOperand s"
  "readable n k (CHR ''m'' # s) = readable n KOperand s"
  "readable n k (CHR ''n'' # s) = readable n KOperand s"
  "readable n k (CHR ''o'' # s) = readable n KOperand s"
  "readable n k (CHR ''p'' # s) = readable n KOperand s"
  "readable n k (CHR ''q'' # s) = readable n KOperand s"
  "readable n k (CHR ''r'' # s) = readable n KOperand s"
  "readable n k (CHR ''s'' # s) = readable n KOperand s"
  "readable n k (CHR ''t'' # s) = readable n KOperand s"
  "readable n k (CHR ''u'' # s) = readable n KOperand s"
  "readable n k (CHR ''v'' # s) = readable n KOperand s"
  "readable n k (CHR ''w'' # s) = readable n KOperand s"
  "readable n k (CHR ''x'' # s) = readable n KOperand s"
  "readable n k (CHR ''y'' # s) = readable n KOperand s"
  "readable n k (CHR ''z'' # s) = readable n KOperand s"
  "readable n k (CHR ''0'' # s) = readable n KOperand s"
  "readable n k (CHR ''1'' # s) = readable n KOperand s"
  "readable n k (CHR ''2'' # s) = readable n KOperand s"
  "readable n k (CHR ''3'' # s) = readable n KOperand s"
  "readable n k (CHR ''4'' # s) = readable n KOperand s"
  "readable n k (CHR ''5'' # s) = readable n KOperand s"
  "readable n k (CHR ''6'' # s) = readable n KOperand s"
  "readable n k (CHR ''7'' # s) = readable n KOperand s"
  "readable n k (CHR ''8'' # s) = readable n KOperand s"
  "readable n k (CHR ''9'' # s) = readable n KOperand s"
  "readable n k (CHR '' '' # s) = readable n KOperand s"
  "readable n k (CHR ''-'' # s) = readable n KOperand s"
  "readable n k (CHR ''/'' # s) = readable n KOperand s"
  "readable n k (CHR ''_'' # s) = readable n KOperand s"
  "readable n k (CHR '','' # s) = readable n KOperand s"
  "readable n k (CHR ''\"'' # s) = readable n KOperand s"
  by (simp_all add: plain_def)

lemmas readable_eval = readable.simps(1) readable_operators readable_plain readable_class_eval
  class_char_def punct_def

declare readable.simps [simp del] parse_rx.simps [simp del]

section \<open>The matcher decides the language\<close>

lemma ends_char_iff: "t \<in> set (ends_char P w) \<longleftrightarrow> (\<exists>c. w = c # t \<and> P c)"
  by (cases w) (auto simp: ends_char_def)

lemma conc_iff: "w \<in> conc A B \<longleftrightarrow> (\<exists>u v. w = u @ v \<and> u \<in> A \<and> v \<in> B)"
  by (auto simp: conc_def)

text \<open>An iteration only needs non-empty steps.\<close>

lemma iter_cases_nonempty:
  assumes "w \<in> iter A"
  shows "w = [] \<or> (\<exists>u v. w = u @ v \<and> u \<noteq> [] \<and> u \<in> A \<and> v \<in> iter A)"
  using assms
proof induction
  case iter_Nil
  show ?case by simp
next
  case (iter_step u v)
  show ?case
  proof (cases "u = []")
    case True
    with iter_step.IH show ?thesis by simp
  next
    case False
    with iter_step.hyps show ?thesis by blast
  qed
qed

definition decides :: "('a list \<Rightarrow> 'a list list) \<Rightarrow> 'a list set \<Rightarrow> bool" where
  "decides f A \<longleftrightarrow> (\<forall>w t. t \<in> set (f w) \<longleftrightarrow> (\<exists>u. w = u @ t \<and> u \<in> A))"

lemma decides_iff: "decides f A \<Longrightarrow> t \<in> set (f w) \<longleftrightarrow> (\<exists>u. w = u @ t \<and> u \<in> A)"
  by (simp add: decides_def)

lemma decides_conc:
  assumes f: "decides f A" and g: "decides g B"
  shows "decides (\<lambda>w. concat (map g (f w))) (conc A B)"
proof -
  have "t \<in> set (concat (map g (f w))) \<longleftrightarrow> (\<exists>u. w = u @ t \<and> u \<in> conc A B)" for w t
  proof -
    have "t \<in> set (concat (map g (f w))) \<longleftrightarrow> (\<exists>r. r \<in> set (f w) \<and> t \<in> set (g r))" by auto
    also have "\<dots> \<longleftrightarrow> (\<exists>u v. w = u @ v @ t \<and> u \<in> A \<and> v \<in> B)"
      unfolding decides_iff [OF f] decides_iff [OF g] by blast
    also have "\<dots> \<longleftrightarrow> (\<exists>u. w = u @ t \<and> u \<in> conc A B)"
      unfolding conc_iff by (metis append_assoc)
    finally show ?thesis .
  qed
  then show ?thesis unfolding decides_def by blast
qed

lemma decides_iter:
  assumes f: "decides f A"
  shows "decides (ends_iter f) (iter A)"
proof -
  have shorter: "length r < length w \<longleftrightarrow> u \<noteq> []" if "w = u @ r" for w u r :: "'a list"
    using that by simp
  have "t \<in> set (ends_iter f w) \<longleftrightarrow> (\<exists>u. w = u @ t \<and> u \<in> iter A)" for t w
  proof (induction w arbitrary: t rule: length_induct)
    case (1 w)
    have IH: "t \<in> set (ends_iter f r) \<longleftrightarrow> (\<exists>v. r = v @ t \<and> v \<in> iter A)" if "w = u @ r" "u \<noteq> []" for u r
      using 1 [rule_format, of r t] that by simp
    have "t \<in> set (ends_iter f w) \<longleftrightarrow>
        t = w \<or> (\<exists>r. r \<in> set (f w) \<and> length r < length w \<and> t \<in> set (ends_iter f r))"
      by (subst ends_iter.simps) auto
    also have "\<dots> \<longleftrightarrow> t = w \<or> (\<exists>u r. w = u @ r \<and> u \<noteq> [] \<and> u \<in> A \<and> t \<in> set (ends_iter f r))"
      unfolding decides_iff [OF f] using shorter [of w] by blast
    also have "\<dots> \<longleftrightarrow> t = w \<or> (\<exists>u r. w = u @ r \<and> u \<noteq> [] \<and> u \<in> A \<and> (\<exists>v. r = v @ t \<and> v \<in> iter A))"
      using IH by metis
    also have "\<dots> \<longleftrightarrow> t = w \<or> (\<exists>u v. w = (u @ v) @ t \<and> u \<noteq> [] \<and> u \<in> A \<and> v \<in> iter A)"
      unfolding append_assoc by blast
    also have "\<dots> \<longleftrightarrow> (\<exists>u. w = u @ t \<and> u \<in> iter A)"
    proof
      assume "t = w \<or> (\<exists>u v. w = (u @ v) @ t \<and> u \<noteq> [] \<and> u \<in> A \<and> v \<in> iter A)"
      then show "\<exists>u. w = u @ t \<and> u \<in> iter A" by (metis append_Nil iter_Nil iter_step)
    next
      assume "\<exists>u. w = u @ t \<and> u \<in> iter A"
      then obtain u where u: "w = u @ t" "u \<in> iter A" by blast
      show "t = w \<or> (\<exists>u v. w = (u @ v) @ t \<and> u \<noteq> [] \<and> u \<in> A \<and> v \<in> iter A)"
        using iter_cases_nonempty [OF u(2)] unfolding u(1) by (elim disjE exE conjE) (simp, blast)
    qed
    finally show ?case .
  qed
  then show ?thesis by (simp add: decides_def)
qed

lemma decides_times: "decides f A \<Longrightarrow> decides (ends_times n f) (power n A)"
proof (induction n)
  case 0
  then show ?case by (auto simp: decides_def)
next
  case (Suc n)
  then have "decides (\<lambda>w. concat (map (ends_times n f) (f w))) (conc A (power n A))"
    by (intro decides_conc) auto
  then show ?case by (simp add: decides_def)
qed

lemma decides_ends: "decides (ends p) (lang p)"
proof (induction p)
  case (Cat p q)
  from decides_conc [OF Cat] show ?case by (simp add: decides_def)
next
  case (Rep1 p)
  from decides_conc [OF Rep1 decides_iter [OF Rep1]] show ?case by (simp add: decides_def)
next
  case (Rep0 p)
  from decides_iter [OF Rep0] show ?case by (simp add: decides_def)
next
  case (Times n p)
  from decides_times [OF Times] show ?case by (simp add: decides_def)
qed (auto simp: decides_def ends_char_iff)

lemma ends_nonempty: "ends p w \<noteq> [] \<longleftrightarrow> (\<exists>u t. w = u @ t \<and> u \<in> lang p)"
  using decides_iff [OF decides_ends, of _ p w] by (metis last_in_set empty_iff empty_set)

lemma search_iff: "search p w \<longleftrightarrow> (\<exists>a u b. w = a @ u @ b \<and> u \<in> lang p)"
proof (induction w)
  case Nil
  then show ?case by (simp add: ends_nonempty)
next
  case (Cons c w)
  have "(\<exists>a u b. c # w = a @ u @ b \<and> u \<in> lang p) \<longleftrightarrow>
      (\<exists>u b. c # w = u @ b \<and> u \<in> lang p) \<or> (\<exists>a u b. w = a @ u @ b \<and> u \<in> lang p)"
    by (auto simp: Cons_eq_append_conv) (metis append_Nil)+
  then show ?case using Cons by (simp add: ends_nonempty)
qed

section \<open>Patterns joined by a bar\<close>

text \<open>A pattern that is read on its own is read the same way in front of a bar.\<close>

lemma parse_class_close: "parse_class (CHR '']'' # s) = Some ([], s)"
  by (cases s; cases "tl s") auto

lemma parse_class_append: "parse_class s = Some (rs, t) \<Longrightarrow> parse_class (s @ z) = Some (rs, t @ z)"
proof (induction s arbitrary: rs rule: parse_class.induct)
  case (1 c d e s)
  then show ?case by (auto split: if_splits)
next
  case (2 c d)
  then show ?case by (cases z) (auto simp: parse_class_close split: if_splits)
next
  case (3 c)
  then show ?case by (auto simp: parse_class_close split: if_splits)
qed auto

lemma read_class_append: "read_class s = Some (r, t) \<Longrightarrow> read_class (s @ z) = Some (r, t @ z)"
  by (cases s; cases "tl s") (auto simp: read_class_def Let_def dest: parse_class_append split: if_splits)

lemma lang_alts: "lang (alts as r) = \<Union> (lang ` set as) \<union> lang r"
  by (induction as r rule: alts.induct) auto

lemma rx_char_cases:
  obtains "c = CHR ''(''" | "c = CHR '')''" | "c = CHR ''|''" | "c = CHR ''[''"
    | "c = CHR ''*''" | "c = CHR ''+''" | "c = CHR ''?''" | "c = CHR ''{''" | "c = CHR ''.''" | "c = CHR 0x5c"
    | "c \<notin> set ''()|[*+?{.'' \<and> c \<noteq> CHR 0x5c"
  by auto

lemma parse_rx_bar:
  "parse_rx st as rs x = Some r \<Longrightarrow>
   \<exists>as'. parse_rx st as rs (x @ CHR ''|'' # y) = parse_rx [] as' [] y \<and> \<Union> (lang ` set as') = lang r"
proof (induction st as rs x rule: parse_rx.induct)
  case (1 st as rs)
  then show ?case
    by (intro exI [of _ "seq rs # as"]) (auto simp: parse_rx.simps lang_alts split: if_splits)
next
  case (2 st as rs c s)
  note some = "2.prems"
  show ?case
  proof (cases c rule: rx_char_cases)
    case 1
    with some have "s \<noteq> []" by (auto simp: parse_rx.simps split: if_splits)
    with 1 show ?thesis using some "2.IH"(1) by (cases s) (auto simp: parse_rx.simps(2) [of _ _ _ "CHR ''(''"] split: if_splits)
  next
    case 2
    then show ?thesis using some "2.IH"(2) by (cases st) (auto simp: parse_rx.simps(2) [of _ _ _ "CHR '')''"])
  next
    case 3
    then show ?thesis using some "2.IH"(3) by (auto simp: parse_rx.simps(2) [of st as rs])
  next
    case 4
    then show ?thesis using some "2.IH"(4)
      by (auto simp: parse_rx.simps(2) [of st as rs] read_class_append split: option.splits prod.splits)
  next
    case 5
    then show ?thesis using some "2.IH"(5) by (auto simp: parse_rx.simps(2) [of st as rs] split: option.splits)
  next
    case 6
    then show ?thesis using some "2.IH"(6) by (auto simp: parse_rx.simps(2) [of st as rs] split: option.splits)
  next
    case 7
    then show ?thesis using some "2.IH"(7) by (auto simp: parse_rx.simps(2) [of st as rs] split: option.splits)
  next
    case 8
    then show ?thesis using some "2.IH"(8)
      by (auto simp: parse_rx.simps(2) [of st as rs] split: list.splits if_splits)
  next
    case 9
    then show ?thesis using some "2.IH"(9) by (simp add: parse_rx.simps(2) [of st as rs])
  next
    case 10
    then show ?thesis using some "2.IH"(10)
      by (auto simp: parse_rx.simps(2) [of st as rs] split: list.splits if_splits)
  next
    case 11
    then show ?thesis using some "2.IH"(11) by (auto simp: parse_rx.simps(2) [of st as rs] split: if_splits)
  qed
qed

text \<open>
  Alternatives in front of a pattern join its language: \<open>more es\<close> relates two states of the parser of
  which the second has the alternatives \<open>es\<close> on top at the outermost level.
\<close>

inductive more :: "rx list \<Rightarrow> (rx list \<times> rx list) list \<Rightarrow> rx list \<Rightarrow> (rx list \<times> rx list) list \<Rightarrow> rx list \<Rightarrow> bool"
  for es where
  more_bottom: "set as' = set es \<union> set as \<Longrightarrow> more es [] as [] as'"
| more_push: "more es st as st' as' \<Longrightarrow> more es ((as, rs) # st) bs ((as', rs) # st') bs"

inductive_cases more_NilE: "more es [] as st' as'"
inductive_cases more_ConsE: "more es (f # st) as st' as'"

lemma more_Nil: "more es [] as st' as' \<Longrightarrow> st' = [] \<and> set as' = set es \<union> set as"
  by (auto elim: more_NilE)

lemma more_cons: "more es st as st' as' \<Longrightarrow> more es st (r # as) st' (r # as')"
  by (induction rule: more.cases) (auto intro: more.intros)

lemma more_length: "more es st as st' as' \<Longrightarrow> length st' = length st"
  by (induction rule: more.induct) auto

lemma parse_rx_more:
  "parse_rx st as rs x = Some r \<Longrightarrow> more es st as st' as' \<Longrightarrow>
   \<exists>r'. parse_rx st' as' rs x = Some r' \<and> lang r' = \<Union> (lang ` set es) \<union> lang r"
proof (induction st as rs x arbitrary: st' as' rule: parse_rx.induct)
  case (1 st as rs)
  then have "st = []" and r: "r = alts as (seq rs)" by (auto simp: parse_rx.simps split: if_splits)
  with 1(2) more_Nil [of es as st' as'] have "st' = []" "set as' = set es \<union> set as" by auto
  with r show ?case by (auto simp: parse_rx.simps lang_alts)
next
  case (2 st as rs c s)
  note some = "2.prems"(1) and more = "2.prems"(2)
  note step = parse_rx.simps(2) [of st as rs] parse_rx.simps(2) [of st' as' rs]
  show ?case
  proof (cases c rule: rx_char_cases)
    case 1
    then show ?thesis using some "2.IH"(1) [OF _ _ _ more_push [OF more]] more_length [OF more]
      by (auto simp: step split: if_splits)
  next
    case 2
    show ?thesis
    proof (cases st)
      case Nil
      with some 2 show ?thesis by (simp add: parse_rx.simps(2))
    next
      case (Cons f st0)
      with more obtain a a' q st0' where
        f: "f = (a, q)" and st': "st' = (a', q) # st0'" and as': "as' = as" and more0: "more es st0 a st0' a'"
        by (auto elim: more_ConsE)
      have c: "parse_rx ((b, q) # u) as rs (CHR '')'' # s) = parse_rx u b (Group (alts as (seq rs)) # q) s" for b u
        by (simp add: parse_rx.simps(2))
      have "parse_rx st0 a (Group (alts as (seq rs)) # q) s = Some r"
        using some unfolding 2 Cons f c .
      from "2.IH"(2) [OF _ 2 Cons f [symmetric] this more0] 2 show ?thesis unfolding 2 st' as' c by simp
    qed
  next
    case 3
    then show ?thesis using some "2.IH"(3) [OF _ _ _ _ more_cons [OF more]] by (auto simp: step)
  next
    case 4
    then show ?thesis using some "2.IH"(4) [OF _ _ _ _ _ _ _ more]
      by (auto simp: step split: option.splits prod.splits)
  next
    case 5
    then show ?thesis using some "2.IH"(5) [OF _ _ _ _ _ _ _ more] by (auto simp: step split: option.splits)
  next
    case 6
    then show ?thesis using some "2.IH"(6) [OF _ _ _ _ _ _ _ _ more] by (auto simp: step split: option.splits)
  next
    case 7
    then show ?thesis using some "2.IH"(7) [OF _ _ _ _ _ _ _ _ _ more] by (auto simp: step split: option.splits)
  next
    case 8
    then show ?thesis using some "2.IH"(8) more by (auto simp: step split: list.splits if_splits)
  next
    case 9
    then show ?thesis using some "2.IH"(9) more by (simp add: step)
  next
    case 10
    then show ?thesis using some "2.IH"(10) more by (auto simp: step split: list.splits if_splits)
  next
    case 11
    then show ?thesis using some "2.IH"(11) more by (auto simp: step split: if_splits)
  qed
qed

text \<open>What a bar means: either side matches.\<close>

lemma parse_alternatives:
  assumes x: "parse x = Some p" and y: "parse y = Some q" and len: "length x + length y < 5000"
  shows "\<exists>r. parse (x @ CHR ''|'' # y) = Some r \<and> lang r = lang p \<union> lang q"
proof -
  have px: "parse_rx [] [] [] x = Some p" and py: "parse_rx [] [] [] y = Some q"
    using x y by (auto simp: parse_def split: if_splits)
  from parse_rx_bar [OF px, of y] obtain es where
    es: "parse_rx [] [] [] (x @ CHR ''|'' # y) = parse_rx [] es [] y" "\<Union> (lang ` set es) = lang p" by blast
  have "more es [] [] [] es" by (rule more_bottom) simp
  from parse_rx_more [OF py this] es len show ?thesis by (auto simp: parse_def)
qed

end
