(* ===== verification/AttrDb.thy ===== *)
theory AttrDb
  imports AtaSmart GoRegexp
begin

text \<open>
  The look-up of a drive in the device database (\<^verbatim>\<open>findMatchingDbRecord\<close>, \<^verbatim>\<open>findAttributesMapping\<close> in
  \<^verbatim>\<open>sata.go\<close>). The database records and \<^verbatim>\<open>regexp.MatchString\<close>, which takes a pattern and a subject and may
  reject the pattern, are parameters here; \<^verbatim>\<open>DeviceDb\<close> instantiates both. The lemmas show that the first
  matching record wins and that its presets override the default attributes one by one.
\<close>

type_synonym matcher = "string \<Rightarrow> string \<Rightarrow> bool res"

fun findMatchingDbRecord ::
  "matcher \<Rightarrow> ataDeviceInfo list \<Rightarrow> string \<Rightarrow> string \<Rightarrow> ataDeviceInfo option res" where
  "findMatchingDbRecord rx [] model firmware = Ok None"
| "findMatchingDbRecord rx (db # dbs) model firmware =
     bind_res (rx (dbModelRe db) model) (\<lambda>matched.
       if \<not> matched then findMatchingDbRecord rx dbs model firmware
       else if dbFirmwareRe db \<noteq> '''' then
         bind_res (rx (dbFirmwareRe db) firmware) (\<lambda>matched.
           if \<not> matched then findMatchingDbRecord rx dbs model firmware else Ok (Some db))
       else Ok (Some db))"

text \<open>The mapping and the firmware bug flags; \<^verbatim>\<open>maps.Copy\<close> twice is \<open>++\<close>.\<close>

definition findAttributesMapping ::
  "matcher \<Rightarrow> ataDeviceInfo list \<Rightarrow> string \<Rightarrow> string \<Rightarrow> (attrMapping \<times> int) res" where
  "findAttributesMapping rx dbs model firmware =
     bind_res (findMatchingDbRecord rx dbs model firmware) (\<lambda>found.
       case found of
         None \<Rightarrow> Ok (ataDefaultAttributes, 0)
       | Some db \<Rightarrow>
           (case dbPresets db of
              None \<Rightarrow> Ok (ataDefaultAttributes, dbBug db)
            | Some presets \<Rightarrow> Ok ((Map.empty ++ ataDefaultAttributes) ++ presets, dbBug db)))"

section \<open>Entries of the database\<close>

text \<open>The firmware bug flags, and the literal \<^verbatim>\<open>ataDeviceInfo{...}\<close> with a map literal or \<^verbatim>\<open>nil\<close> as presets.\<close>

definition ataFirmwareBugNoLogDir :: int where "ataFirmwareBugNoLogDir = 1"
definition ataFirmwareBugSamsung :: int where "ataFirmwareBugSamsung = 2"
definition ataFirmwareBugSamsung2 :: int where "ataFirmwareBugSamsung2 = 4"
definition ataFirmwareBugSamsung3 :: int where "ataFirmwareBugSamsung3 = 8"
definition ataFirmwareBugXErrorLBA :: int where "ataFirmwareBugXErrorLBA = 16"

definition dev ::
  "string \<Rightarrow> string \<Rightarrow> string \<Rightarrow> (int \<times> ataDeviceAttr) list option \<Rightarrow> int \<Rightarrow> ataDeviceInfo" where
  "dev m mre fre p b = \<lparr>dbModel = m, dbModelRe = mre, dbFirmwareRe = fre,
     dbPresets = map_option map_of p, dbBug = b\<rparr>"

abbreviation bsl :: string where
  "bsl \<equiv> [CHR 0x5c]"

text \<open>The patterns of an entry are of the subset that \<open>parse\<close> reads.\<close>

definition readable_entry :: "ataDeviceInfo \<Rightarrow> bool" where
  "readable_entry db \<longleftrightarrow>
     (\<exists>r. parse (dbModelRe db) = Some r) \<and> (dbFirmwareRe db = '''' \<or> (\<exists>r. parse (dbFirmwareRe db) = Some r))"

lemma readable_entry_dev:
  "readable_entry (dev m mre fre p b) \<longleftrightarrow>
     length mre \<le> 5000 \<and> readable 0 KNone mre \<and>
     (fre = '''' \<or> length fre \<le> 5000 \<and> readable 0 KNone fre)"
  by (simp add: readable_entry_def dev_def parse_readable)

text \<open>
  A well-formed attribute: its id is a byte, its type and restriction are among the constants, and its name is not
  \<^verbatim>\<open>Temperature_Celsius_X10\<close>, which \<^verbatim>\<open>ReadGenericAttributes\<close> looks for.
\<close>

definition wf_type :: "int \<Rightarrow> bool" where
  "wf_type t \<longleftrightarrow> 1 \<le> t \<and> t \<le> 19"

definition wf_restriction :: "int \<Rightarrow> bool" where
  "wf_restriction r \<longleftrightarrow> r = RestrictionNone \<or> r = RestrictionHDDOnly \<or> r = RestrictionSSDOnly"

definition wf_attr :: "int \<times> ataDeviceAttr \<Rightarrow> bool" where
  "wf_attr x = (case x of (i, a) \<Rightarrow> 0 < i \<and> i < 256 \<and> wf_type (attrTyp a) \<and>
     wf_restriction (attrRestriction a) \<and>
     attrName a \<noteq> ''Temperature_Celsius_X10'')"

lemma wf_attr_attr:
  "wf_attr (i, attr n t b r) \<longleftrightarrow> 0 < i \<and> i < 256 \<and> wf_type t \<and>
     wf_restriction r \<and> n \<noteq> ''Temperature_Celsius_X10''"
  by (simp add: wf_attr_def attr_def)

lemma wf_types:
  "wf_type TypeRaw8" "wf_type TypeRaw16" "wf_type TypeRaw48" "wf_type TypeHex48" "wf_type TypeRaw56"
  "wf_type TypeHex56" "wf_type TypeRaw64" "wf_type TypeHex64" "wf_type TypeRaw16OptRaw16"
  "wf_type TypeRaw16OptAvg16" "wf_type TypeRaw24OptRaw8" "wf_type TypeRaw24DivRaw24"
  "wf_type TypeRaw24DivRaw32" "wf_type TypeSec2Hour" "wf_type TypeMin2Hour" "wf_type TypeHalfMin2Hour"
  "wf_type TypeMsec24Hour32" "wf_type TypeTempMinMax" "wf_type TypeTemp10X"
  by (simp_all add: wf_type_def TypeRaw8_def TypeRaw16_def TypeRaw48_def TypeHex48_def TypeRaw56_def TypeHex56_def
      TypeRaw64_def TypeHex64_def TypeRaw16OptRaw16_def TypeRaw16OptAvg16_def TypeRaw24OptRaw8_def
      TypeRaw24DivRaw24_def TypeRaw24DivRaw32_def TypeSec2Hour_def TypeMin2Hour_def TypeHalfMin2Hour_def
      TypeMsec24Hour32_def TypeTempMinMax_def TypeTemp10X_def)

definition wf_mapping :: "attrMapping \<Rightarrow> bool" where
  "wf_mapping m \<longleftrightarrow> (\<forall>i a. m i = Some a \<longrightarrow> wf_attr (i, a))"

definition wf_entry :: "ataDeviceInfo \<Rightarrow> bool" where
  "wf_entry db \<longleftrightarrow> (case dbPresets db of None \<Rightarrow> True | Some m \<Rightarrow> wf_mapping m)"

lemma wf_mapping_of: "list_all wf_attr l \<Longrightarrow> wf_mapping (map_of l)"
  by (auto simp: wf_mapping_def list_all_iff dest!: map_of_SomeD)

lemma wf_mapping_add: "wf_mapping m \<Longrightarrow> wf_mapping n \<Longrightarrow> wf_mapping (m ++ n)"
  by (auto simp: wf_mapping_def map_add_Some_iff)

lemma wf_entry_dev:
  "wf_entry (dev m mre fre None b)"
  "list_all wf_attr l \<Longrightarrow> wf_entry (dev m mre fre (Some l) b)"
  by (simp_all add: wf_entry_def dev_def wf_mapping_of)

lemma wf_restrictions: "wf_restriction 0" "wf_restriction RestrictionHDDOnly" "wf_restriction RestrictionSSDOnly"
  by (simp_all add: wf_restriction_def RestrictionNone_def)

lemmas wf_entry_eval = wf_entry_dev wf_attr_attr wf_types wf_restrictions

lemma wf_defaults: "wf_mapping ataDefaultAttributes"
  unfolding ataDefaultAttributes_def
  by (rule wf_mapping_of) (simp add: ataDefaultAttributesTable_def wf_attr_attr wf_types wf_restrictions)

section \<open>First match wins\<close>

text \<open>A record fits a drive when its model pattern matches, and its firmware pattern if it has one.\<close>

definition fits :: "(string \<Rightarrow> string \<Rightarrow> bool) \<Rightarrow> string \<Rightarrow> string \<Rightarrow> ataDeviceInfo \<Rightarrow> bool" where
  "fits m model firmware db \<longleftrightarrow>
     m (dbModelRe db) model \<and> (dbFirmwareRe db = '''' \<or> m (dbFirmwareRe db) firmware)"

text \<open>No pattern of the database is rejected, which the generator's output is expected to satisfy.\<close>

definition patterns_ok :: "matcher \<Rightarrow> (string \<Rightarrow> string \<Rightarrow> bool) \<Rightarrow> ataDeviceInfo list \<Rightarrow> bool" where
  "patterns_ok rx m dbs \<longleftrightarrow>
     (\<forall>db \<in> set dbs. \<forall>s. rx (dbModelRe db) s = Ok (m (dbModelRe db) s) \<and>
        (dbFirmwareRe db \<noteq> '''' \<longrightarrow> rx (dbFirmwareRe db) s = Ok (m (dbFirmwareRe db) s)))"

lemma findMatchingDbRecord_find:
  "patterns_ok rx m dbs \<Longrightarrow>
   findMatchingDbRecord rx dbs model firmware = Ok (find (fits m model firmware) dbs)"
  by (induction dbs) (auto simp: patterns_ok_def fits_def)

lemma findMatchingDbRecord_total:
  "(\<And>p s. rx p s \<noteq> None) \<Longrightarrow> findMatchingDbRecord rx dbs model firmware \<noteq> None"
proof (induction dbs)
  case (Cons db dbs)
  show ?case
    by (cases "rx (dbModelRe db) model" rule: res_cases;
        cases "rx (dbFirmwareRe db) firmware" rule: res_cases)
      (use Cons in auto)
qed simp

lemma findAttributesMapping_total:
  assumes "\<And>p s. rx p s \<noteq> None"
  shows "findAttributesMapping rx dbs model firmware \<noteq> None"
  using findMatchingDbRecord_total [of rx dbs model firmware, OF assms]
  by (cases "findMatchingDbRecord rx dbs model firmware" rule: res_cases)
    (auto simp: findAttributesMapping_def split: option.split)

lemma findAttributesMapping_ok:
  assumes "\<And>p s. is_ok (rx p s)"
  shows "is_ok (findAttributesMapping rx dbs model firmware)"
proof -
  have "is_ok (findMatchingDbRecord rx dbs model firmware)"
  proof (induction dbs)
    case (Cons db dbs)
    then show ?case
      using assms [of "dbModelRe db" model] assms [of "dbFirmwareRe db" firmware]
      by (auto simp: is_ok_iff)
  qed simp
  then show ?thesis
    by (auto simp: is_ok_iff findAttributesMapping_def split: option.split)
qed

text \<open>
  With a database whose patterns are all valid, a drive gets the default mapping overridden,
  attribute by attribute, by the presets of the first record that fits it, and that record's bug
  flags; without a fitting record it gets the defaults.
\<close>

theorem findAttributesMapping_first:
  assumes "patterns_ok rx m dbs"
  shows "\<exists>mp bug. findAttributesMapping rx dbs model firmware = Ok (mp, bug) \<and>
    (case find (fits m model firmware) dbs of
       None \<Rightarrow> mp = ataDefaultAttributes \<and> bug = 0
     | Some db \<Rightarrow> bug = dbBug db \<and>
         (\<forall>i. mp i = (case Option.bind (dbPresets db) (\<lambda>p. p i) of
            Some a \<Rightarrow> Some a | None \<Rightarrow> ataDefaultAttributes i)))"
  using findMatchingDbRecord_find [OF assms, of model firmware]
  by (auto simp: findAttributesMapping_def map_add_def split: option.split)

theorem findAttributesMapping_first_witness:
  "\<exists>mp bug. findAttributesMapping (\<lambda>p s. Ok (p = s))
     [\<lparr>dbModel = ''a'', dbModelRe = ''X'', dbFirmwareRe = '''', dbPresets = None, dbBug = 1\<rparr>,
      \<lparr>dbModel = ''b'', dbModelRe = ''X'', dbFirmwareRe = '''', dbPresets = None, dbBug = 2\<rparr>] ''X'' ''f''
     = Ok (mp, bug) \<and> bug = 1"
proof -
  let ?dbs = "[\<lparr>dbModel = ''a'', dbModelRe = ''X'', dbFirmwareRe = '''', dbPresets = None, dbBug = 1\<rparr>,
      \<lparr>dbModel = ''b'', dbModelRe = ''X'', dbFirmwareRe = '''', dbPresets = None, dbBug = 2\<rparr>]"
  have "patterns_ok (\<lambda>p s. Ok (p = s)) (=) ?dbs" by (simp add: patterns_ok_def)
  from findAttributesMapping_first [OF this, of "''X''" "''f''"] show ?thesis
    by (auto simp: fits_def)
qed

end
