(* ===== verification/SataDevice.thy ===== *)
theory SataDevice
  imports Scsi AtaParse AttrDb
begin

text \<open>
  \<^verbatim>\<open>sata_linux.go\<close> and \<^verbatim>\<open>sata_power_linux.go\<close>: opening a SATA device through the SCSI layer, the SMART
  read commands and the power management commands. The lemmas give the CDB each operation issues,
  when it succeeds, that no answer of the device makes it panic, and that opening leaks no
  descriptor.
\<close>

section \<open>The device\<close>

record SataDevice =
  sataFd :: int
  sataMapping :: attrMapping
  sataBug :: int

text \<open>
  \<^verbatim>\<open>cdb := cdb16{_SCSI_ATA_PASSTHRU_16}\<close> with protocol and transfer flags of a PIO data-in command:
  \<^verbatim>\<open>cdb[1] = 0x08; cdb[2] = 0x0e\<close>.
\<close>

definition ata_in_cdb :: "u8 list" where
  "ata_in_cdb = (cdb16 [SCSI_ATA_PASSTHRU_16])[1 := 0x08, 2 := 0x0e]"

definition ata_identify_cdb :: "u8 list" where
  "ata_identify_cdb = ata_in_cdb[14 := ATA_IDENTIFY_DEVICE]"

definition Identify :: "'w kernel \<Rightarrow> SataDevice \<Rightarrow> ('w, AtaIdentifyDevice) io" where
  "Identify k d =
     bindE (wrapE ''sendCDB ATA IDENTIFY: %w'' (scsiSendCdb k (sataFd d) ata_identify_cdb (replicate 512 0)))
       (\<lambda>respBuf. retE (map_res AtaIdentifyDevice_of (binary_read LittleEndian AtaIdentifyDevice_type respBuf)))"

definition OpenSata ::
  "'w kernel \<Rightarrow> matcher \<Rightarrow> ataDeviceInfo list \<Rightarrow> string \<Rightarrow> ('w, SataDevice) io" where
  "OpenSata k rx dbs name =
     bindE (unix_Open k name (or O_RDONLY O_CLOEXEC) open_mode) (\<lambda>fd.
       closing k fd (scsiInquiry k fd) (\<lambda>i.
         let deviceType = Peripheral i AND 0x1f in
         if deviceType \<noteq> 0
         then close_fail k fd (Errorf ''not a direct access block device (type=%d)'' [AInt (uint deviceType)])
         else
           let isLikelySAT = (VendorIdent i = go_bytes SATA_IDENT);
               dev = \<lparr>sataFd = fd, sataMapping = Map.empty, sataBug = 0\<rparr> in
           closing k fd
             (if \<not> isLikelySAT
              then wrapE ''device does not respond to ATA IDENTIFY (not a SATA/SAT device): %w''
                (bindE (scsiSendCdb k fd ata_identify_cdb (replicate 512 0)) (\<lambda>_. retE (Ok ())))
              else retE (Ok ())) (\<lambda>_.
           closing k fd (Identify k dev) (\<lambda>id.
           closing k fd (retE (do {
               model \<leftarrow> AtaModelNumber id;
               firmware \<leftarrow> AtaFirmwareRevision id;
               findAttributesMapping rx dbs model firmware })) (\<lambda>(mapping, bug).
           retE (Ok (dev\<lparr>sataMapping := mapping, sataBug := bug\<rparr>)))))))"

definition CloseSata :: "'w kernel \<Rightarrow> SataDevice \<Rightarrow> ('w, unit) io" where
  "CloseSata k d = unix_Close k (sataFd d)"

definition SataType :: "SataDevice \<Rightarrow> string" where
  "SataType d = ''sata''"

section \<open>SMART reads\<close>

definition smart_cdb :: "u8 \<Rightarrow> u8 list" where
  "smart_cdb feature = ata_in_cdb[4 := feature, 10 := 0x4f, 12 := 0xc2, 14 := ATA_SMART]"

definition readSMARTLog :: "'w kernel \<Rightarrow> SataDevice \<Rightarrow> u8 \<Rightarrow> ('w, u8 list) io" where
  "readSMARTLog k d logPage =
     wrapE ''scsiSendCdb SMART READ LOG: %w''
       (scsiSendCdb k (sataFd d) ((smart_cdb SMART_READ_LOG)[6 := 0x01, 8 := logPage]) (replicate 512 0))"

definition readSMARTData :: "'w kernel \<Rightarrow> SataDevice \<Rightarrow> ('w, AtaSmartPageRaw) io" where
  "readSMARTData k d =
     bindE (wrapE ''scsiSendCdb SMART READ DATA: %w''
         (scsiSendCdb k (sataFd d) (smart_cdb SMART_READ_DATA) (replicate 512 0)))
       (\<lambda>respBuf. retE (do {
          page \<leftarrow> subslice respBuf 0 362;
          map_res AtaSmartPageRaw_of (binary_read LittleEndian (Struct AtaSmartPageRaw_fields) page) }))"

definition ReadSMARTData :: "'w kernel \<Rightarrow> SataDevice \<Rightarrow> ('w, AtaSmartPage) io" where
  "ReadSMARTData k d = bindE (readSMARTData k d) (\<lambda>pageRaw. retE (Ok (build_page (sataMapping d) pageRaw)))"

definition ReadSMARTLogDirectory :: "'w kernel \<Rightarrow> SataDevice \<Rightarrow> ('w, gval) io" where
  "ReadSMARTLogDirectory k d =
     bindE (readSMARTLog k d 0x00) (\<lambda>buf. retE (binary_read LittleEndian AtaSmartLogDirectory_type buf))"

definition ReadSMARTErrorLogSummary :: "'w kernel \<Rightarrow> SataDevice \<Rightarrow> ('w, gval) io" where
  "ReadSMARTErrorLogSummary k d =
     bindE (readSMARTLog k d 0x01) (\<lambda>buf. retE (binary_read LittleEndian AtaSmartErrorLogSummary_type buf))"

definition ReadSMARTSelfTestLog :: "'w kernel \<Rightarrow> SataDevice \<Rightarrow> ('w, gval) io" where
  "ReadSMARTSelfTestLog k d =
     bindE (readSMARTLog k d 0x06) (\<lambda>buf. retE (binary_read LittleEndian AtaSmartSelfTestLog_type buf))"

definition readSMARTThresholds :: "'w kernel \<Rightarrow> SataDevice \<Rightarrow> ('w, AtaSmartThresholdsPageRaw) io" where
  "readSMARTThresholds k d =
     bindE (wrapE ''scsiSendCdb SMART READ THRESHOLD: %w''
         (scsiSendCdb k (sataFd d) ((smart_cdb SMART_READ_THRESHOLDS)[8 := 0x1]) (replicate 512 0)))
       (\<lambda>respBuf.
          if \<not> checksum respBuf then retE (Err (Errorf ''invalid checksum for SMART THRESHOLD data'' []))
          else retE (map_res AtaSmartThresholdsPageRaw_of
            (binary_read LittleEndian (Struct AtaSmartThresholdsPageRaw_fields) respBuf)))"

definition ReadSMARTThresholds :: "'w kernel \<Rightarrow> SataDevice \<Rightarrow> ('w, AtaSmartThresholdsPage) io" where
  "ReadSMARTThresholds k d =
     bindE (readSMARTThresholds k d) (\<lambda>pageRaw. retE (Ok (build_thresholds_page pageRaw)))"

definition ReadStatistics :: "'w kernel \<Rightarrow> SataDevice \<Rightarrow> ('w, AtaDeviceStatistics) io" where
  "ReadStatistics k d =
     bindE (wrapE ''scsiSendCdb SMART READ LOG (device statistics): %w''
         (scsiSendCdb k (sataFd d) ((smart_cdb SMART_READ_LOG)[6 := 8, 8 := 0x04]) (replicate (512 * 8) 0)))
       (\<lambda>respBuf. retE (Ok \<lparr>statRaw = respBuf\<rparr>))"

text \<open>
  The order in which Go visits the attribute map is the parameter \<open>order\<close>; \<open>conv\<close> is the conversion
  of negative floating point hours.
\<close>

definition SataReadGenericAttributes ::
  "'w kernel \<Rightarrow> (nat \<Rightarrow> u64) \<Rightarrow> ((u8 \<rightharpoonup> AtaSmartAttr) \<Rightarrow> AtaSmartAttr list) \<Rightarrow> SataDevice
    \<Rightarrow> ('w, GenericAttributes) io" where
  "SataReadGenericAttributes k conv order d =
     bindE (ReadSMARTData k d) (\<lambda>page. retE (generic_attributes conv (order (spAttrs page))))"

section \<open>Power management\<close>

definition ataNonDataCdb :: "u8 \<Rightarrow> u8 list" where
  "ataNonDataCdb cmd = (cdb16 [SCSI_ATA_PASSTHRU_16])[1 := 0x06, 2 := 0x20, 14 := cmd]"

text \<open>
  The end every non-data command shares: \<^verbatim>\<open>sense, err := scsiSendCdbSense(d.fd, cdb[:], nil)\<close>, return
  the error or that of \<^verbatim>\<open>ataSenseStatus(sense)\<close>.
\<close>

definition send_checked :: "'w kernel \<Rightarrow> SataDevice \<Rightarrow> u8 list \<Rightarrow> ('w, unit) io" where
  "send_checked k d cdb =
     bindE (scsiSendCdbSense k (sataFd d) cdb []) (\<lambda>x. retE (map_res (\<lambda>_. ()) (ataSenseStatus (fst x))))"

definition ataSendNonData :: "'w kernel \<Rightarrow> SataDevice \<Rightarrow> u8 \<Rightarrow> ('w, unit) io" where
  "ataSendNonData k d cmd = send_checked k d (ataNonDataCdb cmd)"

definition CheckPowerMode :: "'w kernel \<Rightarrow> SataDevice \<Rightarrow> ('w, AtaPowerMode) io" where
  "CheckPowerMode k d =
     bindE (wrapE ''scsiSendCdbSense CHECK POWER MODE: %w''
         (scsiSendCdbSense k (sataFd d) (ataNonDataCdb ATA_CHECK_POWER_MODE) []))
       (\<lambda>(sense, _). wrapE ''CHECK POWER MODE: %w'' (retE (ataPowerModeFromSense sense)))"

definition setPowerCondition :: "'w kernel \<Rightarrow> SataDevice \<Rightarrow> u8 \<Rightarrow> ('w, unit) io" where
  "setPowerCondition k d cond =
     send_checked k d ((ataNonDataCdb ATA_SET_FEATURES)[4 := ATA_SETFEATURES_EPC, 6 := cond])"

definition Sleep :: "'w kernel \<Rightarrow> SataDevice \<Rightarrow> ('w, unit) io" where
  "Sleep k d = ataSendNonData k d ATA_SLEEP"

definition Standby :: "'w kernel \<Rightarrow> SataDevice \<Rightarrow> ('w, unit) io" where
  "Standby k d = ataSendNonData k d ATA_STANDBY_IMMEDIATE"

definition Idle :: "'w kernel \<Rightarrow> SataDevice \<Rightarrow> ('w, unit) io" where
  "Idle k d = ataSendNonData k d ATA_IDLE_IMMEDIATE"

definition SetPowerMode :: "'w kernel \<Rightarrow> SataDevice \<Rightarrow> AtaPowerMode \<Rightarrow> ('w, unit) io" where
  "SetPowerMode k d mode =
     (if mode = AtaPowerModeIdle then Idle k d
      else if mode = AtaPowerModeStandby then Standby k d
      else case powerConditionForMode mode of (cond, ok) \<Rightarrow>
        if \<not> ok
        then retE (Err (Errorf ''power mode %s cannot be set by command (active is entered by I/O only)''
               [AStr (AtaPowerMode_String mode)]))
        else setPowerCondition k d cond)"

definition setSpinDownTimer :: "'w kernel \<Rightarrow> SataDevice \<Rightarrow> u8 \<Rightarrow> ('w, unit) io" where
  "setSpinDownTimer k d cnt = send_checked k d ((ataNonDataCdb ATA_STANDBY)[6 := cnt])"

definition SetStandbyTimer :: "'w kernel \<Rightarrow> SataDevice \<Rightarrow> duration \<Rightarrow> ('w, unit) io" where
  "SetStandbyTimer k d timeout = bindE (retE (encodeAtaSpinDownTimeout timeout)) (setSpinDownTimer k d)"

definition SetStandbyTimerRaw :: "'w kernel \<Rightarrow> SataDevice \<Rightarrow> u8 \<Rightarrow> ('w, unit) io" where
  "SetStandbyTimerRaw k d raw = setSpinDownTimer k d raw"

definition setIdleTimerRaw :: "'w kernel \<Rightarrow> SataDevice \<Rightarrow> u8 \<Rightarrow> ('w, unit) io" where
  "setIdleTimerRaw k d cnt = send_checked k d ((ataNonDataCdb ATA_IDLE)[6 := cnt])"

definition SetIdleTimer :: "'w kernel \<Rightarrow> SataDevice \<Rightarrow> duration \<Rightarrow> ('w, unit) io" where
  "SetIdleTimer k d timeout = bindE (retE (encodeAtaSpinDownTimeout timeout)) (setIdleTimerRaw k d)"

definition SetIdleTimerRaw :: "'w kernel \<Rightarrow> SataDevice \<Rightarrow> u8 \<Rightarrow> ('w, unit) io" where
  "SetIdleTimerRaw k d raw = setIdleTimerRaw k d raw"

definition SetAPMLevel :: "'w kernel \<Rightarrow> SataDevice \<Rightarrow> u8 \<Rightarrow> ('w, unit) io" where
  "SetAPMLevel k d level =
     (if level < 1 \<or> level > 254
      then retE (Err (Errorf ''APM level %d out of range (1..254)'' [AInt (uint level)]))
      else send_checked k d ((ataNonDataCdb ATA_SET_FEATURES)[4 := ATA_SETFEATURES_EN_APM, 6 := level]))"

definition DisableAPM :: "'w kernel \<Rightarrow> SataDevice \<Rightarrow> ('w, unit) io" where
  "DisableAPM k d = send_checked k d ((ataNonDataCdb ATA_SET_FEATURES)[4 := ATA_SETFEATURES_DIS_APM])"

definition IdleUnload :: "'w kernel \<Rightarrow> SataDevice \<Rightarrow> ('w, unit) io" where
  "IdleUnload k d =
     send_checked k d ((ataNonDataCdb ATA_IDLE_IMMEDIATE)[4 := ATA_IDLE_UNLOAD_FEATURE,
       7 := ATA_IDLE_UNLOAD_LBA_LOW, 9 := ATA_IDLE_UNLOAD_LBA_MID, 11 := ATA_IDLE_UNLOAD_LBA_HGH])"

section \<open>Which CDBs the power commands issue\<close>

lemma nonempty_update [simp]: "xs[i := v] = [] \<longleftrightarrow> xs = []"
  by (cases xs; cases i) auto

lemma ata_cdbs_nonempty [simp]:
  "ataNonDataCdb cmd \<noteq> []" "ata_in_cdb \<noteq> []" "ata_identify_cdb \<noteq> []" "smart_cdb f \<noteq> []"
  by (simp_all add: ataNonDataCdb_def ata_in_cdb_def ata_identify_cdb_def smart_cdb_def)

lemma send_checked_log:
  "cdb \<noteq> [] \<Longrightarrow>
   log (snd (run_state (send_checked k d cdb) s)) = log s @ [EvSg (sataFd d) SG_IO (sg_hdr cdb [])]"
  unfolding send_checked_def by (rule sg.command_log)

text \<open>
  A non-data ATA PASS-THROUGH(16) command as it goes to the device: CK_COND set, and the feature,
  count and command registers; the LBA registers are 0 but for \<open>IdleUnload\<close>.
\<close>

definition nondata_cdb :: "u8 \<Rightarrow> u8 \<Rightarrow> u8 \<Rightarrow> u8 list" where
  "nondata_cdb feature cnt cmd =
     [0x85, 0x06, 0x20, 0, feature, 0, cnt, 0, 0, 0, 0, 0, 0, 0, cmd, 0]"

definition issued :: "int \<Rightarrow> u8 list \<Rightarrow> sysevent" where
  "issued fd cdb = EvSg fd SG_IO (sg_hdr cdb [])"

lemma nondata_cdbs:
  "ataNonDataCdb cmd = nondata_cdb 0 0 cmd"
  "(nondata_cdb f c cmd)[6 := c'] = nondata_cdb f c' cmd"
  "(nondata_cdb f c cmd)[4 := f'] = nondata_cdb f' c cmd"
  by (simp_all add: ataNonDataCdb_def nondata_cdb_def cdb16_def SCSI_ATA_PASSTHRU_16_def numeral_eq_Suc)

lemma nondata_cdb_nonempty [simp]: "nondata_cdb f c cmd \<noteq> []"
  by (simp add: nondata_cdb_def)

lemmas power_command_defs =
  ataSendNonData_def setPowerCondition_def Sleep_def Standby_def Idle_def setSpinDownTimer_def
  SetStandbyTimerRaw_def setIdleTimerRaw_def SetIdleTimerRaw_def DisableAPM_def

abbreviation log_after :: "('w, 'a) io \<Rightarrow> 'w sys \<Rightarrow> sysevent list" where
  "log_after m s \<equiv> log (snd (run_state m s))"


text \<open>
  C21. \<open>SetPowerMode\<close> by mode: 80h (idle) issues IDLE IMMEDIATE, although the comment on the function
  says that no ATA command can force idle, and 0 (standby) STANDBY IMMEDIATE; the four conditions only
  EPC knows go by SET FEATURES (4Ah) with the mode itself as the condition and all other registers 0,
  the subcommand in the LBA register included; every other mode, active among them, is refused
  without a command.
\<close>

theorem SetPowerMode_commands:
  "(if mode = 0x80 then log_after (SetPowerMode k d mode) s = log s @ [issued (sataFd d) (nondata_cdb 0 0 0xe1)]
    else if mode = 0 then log_after (SetPowerMode k d mode) s = log s @ [issued (sataFd d) (nondata_cdb 0 0 0xe0)]
    else if mode \<in> {0x01, 0x81, 0x82, 0x83}
    then log_after (SetPowerMode k d mode) s = log s @ [issued (sataFd d) (nondata_cdb 0x4a mode 0xef)]
    else is_err (fst (run_state (SetPowerMode k d mode) s)) \<and> log_after (SetPowerMode k d mode) s = log s)"
proof -
  have cond: "powerConditionForMode mode = (if mode \<in> {0x01, 0x81, 0x82, 0x83} then (mode, True) else (0, False))"
    by (auto simp: powerConditionForMode_def power_modes power_conditions)
  have idle: "log_after (Idle k d) s = log s @ [issued (sataFd d) (nondata_cdb 0 0 0xe1)]"
    and standby: "log_after (Standby k d) s = log s @ [issued (sataFd d) (nondata_cdb 0 0 0xe0)]"
    and epc: "log_after (setPowerCondition k d c) s = log s @ [issued (sataFd d) (nondata_cdb 0x4a c 0xef)]" for c
    by (simp_all add: power_command_defs nondata_cdbs power_cmds send_checked_log issued_def)
  show ?thesis
    by (simp add: SetPowerMode_def cond idle standby epc AtaPowerModeIdle_def AtaPowerModeStandby_def)
qed

text \<open>
  C22. Setting a timer: a duration that one of the timer values 0 to 251 stands for is sent as that
  value \<open>v\<close>, which the drive understands as that very duration; any other is refused without a
  command. The two values beyond that do stand for a duration, 252 for 21 minutes and 255 for 21 minutes
  15 seconds, are never sent: these durations are refused too.
\<close>

theorem set_timers:
  "((\<exists>v. v \<le> 251 \<and> decodeAtaSpinDownTimeout v = t \<and>
      log_after (SetStandbyTimer k d t) s = log s @ [issued (sataFd d) (nondata_cdb 0 v 0xe2)] \<and>
      log_after (SetIdleTimer k d t) s = log s @ [issued (sataFd d) (nondata_cdb 0 v 0xe3)]) \<or>
    ((\<forall>v \<le> 251. decodeAtaSpinDownTimeout v \<noteq> t) \<and>
     is_err (fst (run_state (SetStandbyTimer k d t) s)) \<and> log_after (SetStandbyTimer k d t) s = log s \<and>
     is_err (fst (run_state (SetIdleTimer k d t) s)) \<and> log_after (SetIdleTimer k d t) s = log s)) \<and>
   decodeAtaSpinDownTimeout 252 = 21 * Minute \<and> decodeAtaSpinDownTimeout 255 = 21 * Minute + 15 * Second \<and>
   (t = 21 * Minute \<or> t = 21 * Minute + 15 * Second \<longrightarrow>
     is_err (fst (run_state (SetStandbyTimer k d t) s)) \<and> log_after (SetStandbyTimer k d t) s = log s \<and>
     is_err (fst (run_state (SetIdleTimer k d t) s)) \<and> log_after (SetIdleTimer k d t) s = log s)"
  (is "(?sent \<or> ?refused) \<and> ?d1 \<and> ?d2 \<and> (?odd \<longrightarrow> ?failed)")
proof -
  have failed: ?failed if "encodeAtaSpinDownTimeout t = Err e" for e
    using that by (simp add: SetStandbyTimer_def SetIdleTimer_def run_bindE)
  have "?sent \<or> ?refused"
  proof (cases "encodeAtaSpinDownTimeout t" rule: res_cases)
    case (ok v)
    then have "v \<le> 251 \<and> decodeAtaSpinDownTimeout v = t"
      by (simp add: encode_inverse)
    with ok show ?thesis
      by (intro disjI1 exI [of _ v]) (simp add: SetStandbyTimer_def SetIdleTimer_def run_bindE
          power_command_defs nondata_cdbs power_cmds send_checked_log issued_def)
  next
    case (err e)
    then have "\<forall>v \<le> 251. decodeAtaSpinDownTimeout v \<noteq> t"
      using encode_inverse [of t] by auto
    with failed [OF err] show ?thesis by blast
  next
    case panic
    then show ?thesis by (simp add: encodeAtaSpinDownTimeout_def split: if_splits)
  qed
  moreover have ?d1 ?d2 by code_simp+
  moreover have "is_err (encodeAtaSpinDownTimeout (21 * Minute))"
      "is_err (encodeAtaSpinDownTimeout (21 * Minute + 15 * Second))" by code_simp+
  ultimately show ?thesis using failed unfolding is_err_iff by blast
qed

section \<open>When power commands succeed\<close>

theorem set_timers_witness:
  "log_after (SetStandbyTimer (sample_kernel (sg_good []) undefined)
      \<lparr>sataFd = 3, sataMapping = Map.empty, sataBug = 0\<rparr> (30 * Minute)) sample_sys =
    log sample_sys @ [issued 3 (nondata_cdb 0 241 0xe2)]"
proof -
  let ?d = "\<lparr>sataFd = 3, sataMapping = Map.empty, sataBug = 0\<rparr>"
  have dec: "decodeAtaSpinDownTimeout 241 = 30 * Minute" by code_simp
  have uniq: "v = 241" if "v \<le> 251" "decodeAtaSpinDownTimeout v = 30 * Minute" for v
    using that dec encode_inverse [of "30 * Minute" v] encode_inverse [of "30 * Minute" 241] by simp
  show ?thesis
    using set_timers [of "30 * Minute" "sample_kernel (sg_good []) undefined" ?d sample_sys] dec
    by (auto dest: uniq)
qed

text \<open>
  A power command succeeds only if the ioctl does and the sense data the driver hands back is an
  ATA PASS-THROUGH report: unlike \<^verbatim>\<open>scsiSendCdb\<close>, a CHECK CONDITION with any other sense data is an
  error. With a bounded sense length it never panics.
\<close>

theorem send_checked_outcome:
  assumes "cdb \<noteq> []" "sys_sg k (sataFd d) SG_IO (sg_hdr cdb []) (world s) = ((e, hdr), w)"
    and "sbLenWr hdr \<le> 96"
  shows "fst (run_state (send_checked k d cdb) s) \<noteq> None \<and>
    (fst (run_state (send_checked k d cdb) s) = Ok () \<longleftrightarrow>
      e = 0 \<and> (\<exists>sense st er. sg_result hdr = Ok sense \<and> ataSenseStatus sense = Ok (st, er)))"
proof -
  have "sg_result hdr \<noteq> None"
    using assms(3) by (rule sg_result_no_panic)
  then show ?thesis
    using assms(1,2) ataSenseStatus_total
    by (cases "sg_result hdr" rule: res_cases)
      (auto simp: send_checked_def run_bindE run_scsiSendCdbSense simp del: not_None_eq)
qed

theorem send_checked_outcome_witness:
  "fst (run_state (send_checked (sample_kernel (sg_check [0x70, 0, 0x05, 0, 0, 0, 0, 10, 0, 0, 0, 0, 0x24, 0]) undefined)
     \<lparr>sataFd = 3, sataMapping = Map.empty, sataBug = 0\<rparr> [0x85]) sample_sys) \<noteq> Ok ()"
proof -
  let ?sense = "[0x70, 0, 0x05, 0, 0, 0, 0, 10, 0, 0, 0, 0, 0x24, 0] :: u8 list"
  let ?hdr = "snd (sg_check ?sense (sg_hdr [0x85] []))"
  have "sg_result ?hdr = Ok ?sense" by (rule sg_check_result) simp_all
  moreover have "is_err (ataSenseStatus ?sense)" by code_simp
  ultimately show ?thesis
    using send_checked_outcome [of "[0x85]" "sample_kernel (sg_check ?sense) undefined"
        "\<lparr>sataFd = 3, sataMapping = Map.empty, sataBug = 0\<rparr>" sample_sys 0 ?hdr "()"]
    by (auto simp: is_err_iff sg_check_def)
qed

section \<open>No panic\<close>

lemma Identify_panic_free [panic_intros]: "sg_sense_bounded k \<Longrightarrow> panic_free (Identify k d)"
  unfolding Identify_def by (intro panic_intros) (simp_all add: binary_read_def)

lemma Identify_names:
  "delivers (Identify k d) (\<lambda>i. AtaModelNumber i \<noteq> None \<and> AtaFirmwareRevision i \<noteq> None)"
  unfolding delivers_def
proof (intro allI impI)
  fix s i s'
  assume "run_state (Identify k d) s = (Ok i, s')"
  then obtain buf v where "binary_read LittleEndian AtaIdentifyDevice_type buf = Ok v" "i = AtaIdentifyDevice_of v"
    by (auto simp: Identify_def run_bindE split: prod.splits option.splits sum.splits)
  then show "AtaModelNumber i \<noteq> None \<and> AtaFirmwareRevision i \<noteq> None"
    using decoded_names by blast
qed

lemma names_total:
  assumes "\<And>p s. rx p s \<noteq> None" "AtaModelNumber i \<noteq> None \<and> AtaFirmwareRevision i \<noteq> None"
  shows "do { model \<leftarrow> AtaModelNumber i; firmware \<leftarrow> AtaFirmwareRevision i;
     findAttributesMapping rx dbs model firmware } \<noteq> None"
proof -
  obtain m f where "AtaModelNumber i = Some m" "AtaFirmwareRevision i = Some f"
    using assms(2) by (meson option.exhaust)
  then show ?thesis
    using findAttributesMapping_total [OF assms(1)] by (simp del: not_None_eq)
qed

lemma OpenSata_panic_free:
  assumes "sg_sense_bounded k" "\<And>p s. rx p s \<noteq> None"
  shows "panic_free (OpenSata k rx dbs name)"
proof -
  have if_free: "panic_free m \<Longrightarrow> panic_free n \<Longrightarrow> panic_free (if P then m else n)" for P and m n :: "('a, 'b) io"
    by simp
  have probe: "panic_free (if P then wrapE t (bindE (scsiSendCdb k fd ata_identify_cdb buf) (\<lambda>_. retE (Ok ())))
      else retE (Ok ()))" for P t fd buf
    using assms(1) by (auto intro!: panic_intros)
  have finish: "panic_free (closing k fd (Identify k dev) (\<lambda>i. closing k fd
      (retE (do { model \<leftarrow> AtaModelNumber i; firmware \<leftarrow> AtaFirmwareRevision i;
         findAttributesMapping rx dbs model firmware })) (\<lambda>x. retE (f x))))"
    if "\<And>x. f x \<noteq> None" for fd dev and f :: "attrMapping \<times> int \<Rightarrow> SataDevice res"
    by (rule panic_free_closing_delivers [OF Identify_panic_free [OF assms(1)] Identify_names])
      (rule panic_free_closing, rule panic_free_retE, erule names_total [OF assms(2)],
       rule panic_free_retE, rule that)
  show ?thesis
    unfolding OpenSata_def Let_def split_def
    by (intro panic_free_bindE panic_free_open, rule panic_free_closing,
        rule scsiInquiry_panic_free [OF assms(1)], rule if_free, rule panic_free_close_fail,
        rule panic_free_closing, rule probe, rule finish, simp)
qed

lemma generic_attributes_total: "generic_attributes conv xs \<noteq> None"
proof -
  have step: "generic_step conv x a \<noteq> None" for x a
    using ParseAsTemperature_total [of x]
    by (cases "ParseAsTemperature x" rule: res_cases)
      (auto simp: generic_step_slot slot_step_def split: option.split generic_slot.split)
  have "fold_res (generic_step conv) xs a \<noteq> None" for a
  proof (induction xs arbitrary: a)
    case (Cons x xs)
    then show ?case using step [of x a]
      by (cases "generic_step conv x a" rule: res_cases) simp_all
  qed simp
  then show ?thesis by (simp add: generic_attributes_def)
qed

lemma readSMARTData_panic_free [panic_intros]:
  "sg_sense_bounded k \<Longrightarrow> panic_free (readSMARTData k d)"
  unfolding readSMARTData_def
  by (rule panic_free_bindE_delivers [OF _ delivers_wrapE [OF scsiSendCdb_length]])
    (auto intro!: panic_intros simp: binary_read_def)

lemma smart_reads_panic_free [panic_intros]:
  assumes "sg_sense_bounded k"
  shows "panic_free (readSMARTLog k d p)" "panic_free (ReadSMARTData k d)" "panic_free (ReadSMARTThresholds k d)"
    "panic_free (ReadStatistics k d)"
    and log_reads_panic_free: "panic_free (ReadSMARTLogDirectory k d)" "panic_free (ReadSMARTErrorLogSummary k d)"
    "panic_free (ReadSMARTSelfTestLog k d)"
  using assms
  by (auto simp: readSMARTLog_def ReadSMARTData_def ReadSMARTThresholds_def readSMARTThresholds_def
      ReadStatistics_def ReadSMARTLogDirectory_def ReadSMARTErrorLogSummary_def ReadSMARTSelfTestLog_def
      binary_read_def intro!: panic_intros)

lemma send_checked_panic_free [panic_intros]:
  "sg_sense_bounded k \<Longrightarrow> cdb \<noteq> [] \<Longrightarrow> panic_free (send_checked k d cdb)"
  unfolding send_checked_def using ataSenseStatus_total by (intro panic_intros) (auto simp del: not_None_eq)

lemma ataPowerModeFromSense_total: "ataPowerModeFromSense s \<noteq> None"
  using mode_desc [of s] mode_fixed [of s] mode_other [of s] by (metis is_err_simps(3))

lemma CheckPowerMode_panic_free: "sg_sense_bounded k \<Longrightarrow> panic_free (CheckPowerMode k d)"
  unfolding CheckPowerMode_def split_def
  using ataPowerModeFromSense_total by (intro panic_intros) (auto simp del: not_None_eq)

lemma power_ops_panic_free:
  assumes "sg_sense_bounded k"
  shows "panic_free (SetPowerMode k d mode)" "panic_free (SetStandbyTimer k d t)"
    "panic_free (SetIdleTimer k d t)" "panic_free (SetAPMLevel k d v)" "panic_free (IdleUnload k d)"
    and plain_power_ops_panic_free: "panic_free (Sleep k d)" "panic_free (Standby k d)" "panic_free (Idle k d)"
    "panic_free (SetStandbyTimerRaw k d v)" "panic_free (SetIdleTimerRaw k d v)" "panic_free (DisableAPM k d)"
proof -
  have enc: "encodeAtaSpinDownTimeout t \<noteq> None"
    by (simp add: encodeAtaSpinDownTimeout_def)
  have sent: "panic_free (send_checked k d (xs[i := v]))" if "xs \<noteq> []" for xs i v
    using assms that by (intro panic_intros) simp_all
  show "panic_free (SetPowerMode k d mode)"
    using assms by (auto simp: SetPowerMode_def power_command_defs intro!: panic_intros split: prod.splits)
  show "panic_free (SetStandbyTimer k d t)" "panic_free (SetIdleTimer k d t)"
    unfolding SetStandbyTimer_def SetIdleTimer_def setSpinDownTimer_def setIdleTimerRaw_def
    using enc by (intro panic_free_bindE panic_free_retE sent; simp del: not_None_eq)+
  show "panic_free (SetAPMLevel k d v)" "panic_free (IdleUnload k d)"
    using assms by (auto simp: SetAPMLevel_def IdleUnload_def intro!: panic_intros)
  show "panic_free (Sleep k d)" "panic_free (Standby k d)" "panic_free (Idle k d)"
    "panic_free (SetStandbyTimerRaw k d v)" "panic_free (SetIdleTimerRaw k d v)" "panic_free (DisableAPM k d)"
    using assms by (auto simp: power_command_defs intro!: panic_intros)
qed

text \<open>
  C15. No operation on a SATA device panics, opening and closing one included, whatever the devices and
  the kernel answer, under two assumptions on code outside the repository: sg keeps to its contract
  that it never writes more sense bytes than the 96 of the buffer (\<open>sg_sense_bounded\<close>), and the regexp
  engine, which only \<^verbatim>\<open>OpenSata\<close> calls, returns a result or an error but does not panic.
\<close>

theorem sata_no_panic:
  assumes "sg_sense_bounded k" "\<And>p s. rx p s \<noteq> None"
  shows "panic_free (OpenSata k rx dbs name) \<and> panic_free (CloseSata k d) \<and> panic_free (Identify k d) \<and>
    panic_free (readSMARTLog k d p) \<and> panic_free (ReadSMARTData k d) \<and>
    panic_free (ReadSMARTLogDirectory k d) \<and> panic_free (ReadSMARTErrorLogSummary k d) \<and>
    panic_free (ReadSMARTSelfTestLog k d) \<and> panic_free (ReadSMARTThresholds k d) \<and>
    panic_free (ReadStatistics k d) \<and> panic_free (SataReadGenericAttributes k conv order d) \<and>
    panic_free (CheckPowerMode k d) \<and> panic_free (SetPowerMode k d mode) \<and>
    panic_free (Sleep k d) \<and> panic_free (Standby k d) \<and> panic_free (Idle k d) \<and>
    panic_free (IdleUnload k d) \<and>
    panic_free (SetStandbyTimer k d t) \<and> panic_free (SetStandbyTimerRaw k d v) \<and>
    panic_free (SetIdleTimer k d t) \<and> panic_free (SetIdleTimerRaw k d v) \<and>
    panic_free (SetAPMLevel k d v) \<and> panic_free (DisableAPM k d)"
proof -
  have "panic_free (SataReadGenericAttributes k conv order d)"
    unfolding SataReadGenericAttributes_def
    by (intro panic_intros assms(1) generic_attributes_total)
  moreover have "panic_free (CloseSata k d)"
    unfolding CloseSata_def by (intro panic_intros)
  ultimately show ?thesis
    using assms by (simp add: OpenSata_panic_free Identify_panic_free smart_reads_panic_free log_reads_panic_free
        CheckPowerMode_panic_free power_ops_panic_free plain_power_ops_panic_free)
qed

theorem sata_no_panic_witness:
  "panic_free (OpenSata (sample_kernel (\<lambda>hdr. (0, hdr\<lparr>sbLenWr := 0\<rparr>)) undefined) (\<lambda>_ _. Ok True) [] ''/dev/sda'')"
  using sata_no_panic [of "sample_kernel (\<lambda>hdr. (0, hdr\<lparr>sbLenWr := 0\<rparr>)) undefined" "\<lambda>_ _. Ok True"]
  by (simp add: sg_sense_bounded_good)

section \<open>Opening\<close>

lemma Identify_quiet: "emits is_ioctl (Identify k d)"
  unfolding Identify_def by (intro emits_intros) simp_all

lemma OpenSata_owns: "owns {#} (OpenSata k rx dbs name) (\<lambda>d. {#sataFd d#})"
  unfolding OpenSata_def Let_def
  by (auto intro!: owns_intros emits_intros scsiInquiry_emits Identify_quiet split: prod.splits)

lemma OpenSata_emits:
  assumes "\<And>r. P (EvOpen name (or O_RDONLY O_CLOEXEC) r)" "\<And>fd. P (EvClose fd)"
    and "\<And>fd cdb resp. P (EvSg fd SG_IO (sg_hdr cdb resp))"
  shows "emits P (OpenSata k rx dbs name)"
  unfolding OpenSata_def Identify_def Let_def
  using assms by (auto intro!: emits_intros scsiInquiry_emits scsiSendCdb_emits split: prod.splits)

interpretation sata_opener: opener "OpenSata k rx dbs" sataFd for k rx dbs
  by unfold_locales (auto intro!: OpenSata_owns OpenSata_emits)

section \<open>Devices that refuse ATA commands\<close>

text \<open>
  A disk that answers INQUIRY as a direct access block device and every ATA PASS-THROUGH with a
  CHECK CONDITION, as a SCSI disk without ATA behind it does.
\<close>

definition refuses_ata :: "'w kernel \<Rightarrow> bool" where
  "refuses_ata k \<longleftrightarrow>
     (\<forall>fd s. \<exists>i s'. run_state (scsiInquiry k fd) s = (Ok i, s') \<and> Peripheral i AND 0x1f = 0) \<and>
     (\<forall>fd hdr w. cmdp hdr = ata_identify_cdb \<longrightarrow>
        (case sys_sg k fd SG_IO hdr w of ((e, hdr'), w') \<Rightarrow>
           e = 0 \<and> sgStatus hdr' = SAM_STAT_CHECK_CONDITION \<and> 0 < sbLenWr hdr' \<and> sbLenWr hdr' \<le> 96))"

lemma refused_command:
  assumes "refuses_ata k"
  shows "\<exists>buf s'. run_state (scsiSendCdb k fd ata_identify_cdb resp) s = (Ok buf, s') \<and> length buf = length resp"
proof -
  obtain e hdr w where call: "sys_sg k fd SG_IO (sg_hdr ata_identify_cdb resp) (world s) = ((e, hdr), w)"
    by (metis prod.exhaust)
  have cmd: "cmdp (sg_hdr ata_identify_cdb resp) = ata_identify_cdb" by (simp add: sg_hdr_def)
  have "case sys_sg k fd SG_IO (sg_hdr ata_identify_cdb resp) (world s) of ((e, hdr'), w') \<Rightarrow>
      e = 0 \<and> sgStatus hdr' = SAM_STAT_CHECK_CONDITION \<and> 0 < sbLenWr hdr' \<and> sbLenWr hdr' \<le> 96"
    by (rule conjunct2 [OF assms [unfolded refuses_ata_def], rule_format, OF cmd])
  then have "e = 0" "sgStatus hdr = SAM_STAT_CHECK_CONDITION" "0 < sbLenWr hdr" "unat (sbLenWr hdr) \<le> 96"
    by (simp_all add: call word_le_nat_alt)
  then show ?thesis
    by (simp add: run_scsiSendCdb call sg_result_def Let_def scsiSenseBufSize_def)
qed

lemma refused_Identify:
  assumes "refuses_ata k"
  shows "\<exists>i s'. run_state (Identify k d) s = (Ok i, s') \<and> AtaModelNumber i \<noteq> None \<and> AtaFirmwareRevision i \<noteq> None"
proof -
  obtain buf s' where "run_state (scsiSendCdb k (sataFd d) ata_identify_cdb (replicate 512 0)) s = (Ok buf, s')"
    and len: "length buf = length (replicate 512 (0 :: u8))"
    using refused_command [OF assms] by blast
  moreover have "binary_read LittleEndian AtaIdentifyDevice_type buf = Ok (dec LittleEndian AtaIdentifyDevice_type buf)"
    using len by (simp add: binary_read_def AtaIdentifyDevice_type_def AtaIdentify_layout)
  ultimately have run: "run_state (Identify k d) s =
      (Ok (AtaIdentifyDevice_of (dec LittleEndian AtaIdentifyDevice_type buf)), s')"
    by (simp add: Identify_def run_bindE run_wrapE)
  then show ?thesis
    using Identify_names [of k d] unfolding delivers_def by blast
qed

text \<open>
  C34. \<^verbatim>\<open>OpenSata\<close> takes such a disk for a SATA device: the probe of devices that do not say \<^verbatim>\<open>ATA\<close>
  never fails, because \<^verbatim>\<open>scsiSendCdb\<close> reports the refusal as a success, and neither does
  \<^verbatim>\<open>Identify\<close>, which then reads a page the device never sent.
\<close>

theorem OpenSata_accepts_refusing_disk:
  assumes "refuses_ata k" "sys_open k name (or O_RDONLY O_CLOEXEC) open_mode (world s) = (Inr fd, w)"
    and "\<And>p t. is_ok (rx p t)"
  shows "\<exists>d. fst (run_state (OpenSata k rx dbs name) s) = Ok d \<and> sataFd d = fd"
proof -
  have mapping: "is_ok (findAttributesMapping rx dbs m f)" for m f
    using assms(3) by (rule findAttributesMapping_ok)
  obtain s1 where opened: "run_state (unix_Open k name (or O_RDONLY O_CLOEXEC) open_mode) s = (Ok fd, s1)"
    using assms(2) by (simp add: unix_Open_def)
  obtain i s2 where inq: "run_state (scsiInquiry k fd) s1 = (Ok i, s2)" "Peripheral i AND 0x1f = 0"
    using assms(1) unfolding refuses_ata_def by blast
  define probe where "probe = (if VendorIdent i \<noteq> go_bytes SATA_IDENT
     then wrapE ''device does not respond to ATA IDENTIFY (not a SATA/SAT device): %w''
       (bindE (scsiSendCdb k fd ata_identify_cdb (replicate 512 0)) (\<lambda>_. retE (Ok ())))
     else retE (Ok ()))"
  have "\<exists>s3. run_state probe s2 = (Ok (), s3)"
    using refused_command [OF assms(1), of fd "replicate 512 0" s2]
    by (auto simp: probe_def run_wrapE run_bindE)
  then obtain s3 where probe: "run_state probe s2 = (Ok (), s3)" ..
  let ?dev = "\<lparr>sataFd = fd, sataMapping = Map.empty, sataBug = 0\<rparr>"
  obtain id s4 m f where ident: "run_state (Identify k ?dev) s3 = (Ok id, s4)"
      "AtaModelNumber id = Some m" "AtaFirmwareRevision id = Some f"
    using refused_Identify [OF assms(1), of ?dev s3] by auto
  obtain mp bug where "findAttributesMapping rx dbs m f = Ok (mp, bug)"
    using mapping [of m f] by (auto simp: is_ok_iff)
  then show ?thesis
    using opened inq probe ident unfolding OpenSata_def Let_def probe_def
    by (simp add: run_bindE run_closing)
qed

theorem OpenSata_accepts_refusing_disk_witness:
  "\<exists>d. fst (run_state (OpenSata (sample_kernel
       (\<lambda>hdr. if cmdp hdr = ata_identify_cdb then sg_check [0x70, 0, 5] hdr else sg_good (replicate 36 0) hdr)
       undefined) (\<lambda>_ _. Ok False) [] ''/dev/sda'') sample_sys) = Ok d \<and> sataFd d = 3"
proof (rule OpenSata_accepts_refusing_disk)
  let ?k = "sample_kernel (\<lambda>hdr. if cmdp hdr = ata_identify_cdb then sg_check [0x70, 0, 5] hdr
      else sg_good (replicate 36 0) hdr) undefined"
  let ?cdb = "put_be16 (cdb6 [SCSI_INQUIRY]) 3 36"
  have ne: "?cdb \<noteq> ata_identify_cdb"
    by (simp add: put_be16_def cdb6_def ata_identify_cdb_def ata_in_cdb_def cdb16_def SCSI_INQUIRY_def
        SCSI_ATA_PASSTHRU_16_def numeral_eq_Suc)
  have "run_state (scsiSendCdb ?k fd ?cdb (replicate 36 0)) s = (Ok (replicate 36 0), s\<lparr>world := (),
      log := log s @ [EvSg fd SG_IO (sg_hdr ?cdb (replicate 36 0))]\<rparr>)" for fd s
    using ne by (simp add: run_scsiSendCdb sg_good_def sg_hdr_def sg_data_def overlay_def sg_result_def scsi_consts)
  then have "\<exists>i s'. run_state (scsiInquiry ?k fd) s = (Ok i, s') \<and> Peripheral i AND 0x1f = 0" for fd s
    by (simp add: scsiInquiry_def Let_def run_bindE binary_read_def ScsiInquiry_type_def ScsiInquiry_layout
        ScsiInquiry_of_def fld_dec vu8_dec0 vu8_dec vbytes_dec del: dec.simps)
  then show "refuses_ata ?k"
    by (simp add: refuses_ata_def sg_check_def SAM_STAT_CHECK_CONDITION_def)
qed simp_all

section \<open>Commands from end to end\<close>

text \<open>
  C9. \<^verbatim>\<open>ReadSMARTData\<close> on a device that returns a data buffer: the page is built from that buffer, so
  attribute \<open>i\<close> is the last of the 30 twelve-byte entries with id \<open>i\<close> before the first unused entry,
  with its vendor bytes at offset 5 of the entry.
\<close>

theorem ReadSMARTData_entries:
  assumes "run_state (scsiSendCdb k (sataFd d) (smart_cdb SMART_READ_DATA) (replicate 512 0)) s = (Ok buf, s')"
  shows "\<exists>p. run_state (ReadSMARTData k d) s = (Ok p, s') \<and>
    spVersion p = le_word (take 2 buf) \<and>
    (\<forall>i. spAttrs p i = map_option (build_attr (sataMapping d))
       (find (\<lambda>a. rawId a = i) (rev (takeWhile (\<lambda>a. rawId a \<noteq> 0) (map (entry_at buf) [0..<30])))))"
proof -
  have "length buf = 512"
    using scsiSendCdb_length [of "smart_cdb SMART_READ_DATA"] assms unfolding delivers_def by fastforce
  moreover have "map (entry_at (take 362 buf)) [0..<30] = map (entry_at buf) [0..<30]"
    by (intro map_cong refl entry_at_take) simp
  ultimately have "run_state (readSMARTData k d) s =
      (Ok \<lparr>pageVersion = le_word (take 2 buf), pageAttrs = map (entry_at buf) [0..<30]\<rparr>, s')"
    using assms smart_page_raw [of "take 362 buf"]
    by (simp add: readSMARTData_def run_bindE run_wrapE min_def del: map_res_eq)
  then have "run_state (ReadSMARTData k d) s = (Ok (build_page (sataMapping d)
      \<lparr>pageVersion = le_word (take 2 buf), pageAttrs = map (entry_at buf) [0..<30]\<rparr>), s')"
    by (simp add: ReadSMARTData_def run_bindE)
  then show ?thesis
    by (simp add: spAttrs_lookup) (simp add: build_page_def)
qed

lemma sample_smart_run:
  "run_state (scsiSendCdb (sample_kernel (sg_good data) g) fd (smart_cdb f) (replicate n 0)) s =
     (Ok (overlay data (replicate n 0)),
      s\<lparr>world := (), log := log s @ [EvSg fd SG_IO (sg_hdr (smart_cdb f) (replicate n 0))]\<rparr>)"
  by (simp add: run_scsiSendCdb sg_good_def sg_hdr_def sg_data_def sg_result_def scsi_consts overlay_def)

theorem ReadSMARTData_entries_witness:
  "\<exists>p. fst (run_state (ReadSMARTData (sample_kernel (sg_good (replicate 512 9)) undefined)
      \<lparr>sataFd = 3, sataMapping = Map.empty, sataBug = 0\<rparr>) sample_sys) = Ok p \<and> spVersion p = 0x0909"
proof -
  let ?d = "\<lparr>sataFd = 3, sataMapping = Map.empty, sataBug = 0\<rparr>"
  have "overlay (replicate 512 9) (replicate 512 0) = replicate 512 (9 :: u8)"
    by (simp add: overlay_def)
  then obtain s' where run: "run_state (scsiSendCdb (sample_kernel (sg_good (replicate 512 9)) undefined)
      (sataFd ?d) (smart_cdb SMART_READ_DATA) (replicate 512 0)) sample_sys = (Ok (replicate 512 9), s')"
    by (simp add: sample_smart_run)
  have "le_word (take 2 (replicate 512 (9 :: u8))) = (0x0909 :: u16)"
  proof -
    have "take 2 (replicate 512 (9 :: u8)) = [9, 9]"
      unfolding take_replicate by (simp add: numeral_2_eq_2)
    then show ?thesis by simp
  qed
  with ReadSMARTData_entries [OF run] show ?thesis by (auto simp del: take_replicate)
qed

text \<open>
  C37. \<^verbatim>\<open>ReadSMARTThresholds\<close> returns a table only for a page whose bytes sum to 0 modulo 256; a page
  with a single byte changed from such a page is an error.
\<close>

theorem ReadSMARTThresholds_checked:
  assumes "run_state (scsiSendCdb k (sataFd d) ((smart_cdb SMART_READ_THRESHOLDS)[8 := 0x1]) (replicate 512 0)) s
      = (Ok buf, s')"
  shows "(sum_list (map unat buf) mod 256 = 0 \<longleftrightarrow> is_ok (fst (run_state (ReadSMARTThresholds k d) s))) \<and>
    (i < 512 \<and> b \<noteq> buf ! i \<and> sum_list (map unat (buf[i := b])) mod 256 = 0 \<longrightarrow>
     is_err (fst (run_state (ReadSMARTThresholds k d) s)))"
proof -
  have len: "length buf = 512"
    using scsiSendCdb_length [of "(smart_cdb SMART_READ_THRESHOLDS)[8 := 0x1]"] assms
    unfolding delivers_def by fastforce
  have run: "fst (run_state (ReadSMARTThresholds k d) s) =
      (if checksum buf then Ok (build_thresholds_page (AtaSmartThresholdsPageRaw_of
         (dec LittleEndian (Struct AtaSmartThresholdsPageRaw_fields) buf)))
       else Err (Errorf ''invalid checksum for SMART THRESHOLD data'' []))"
    using assms len
    by (simp add: ReadSMARTThresholds_def readSMARTThresholds_def run_bindE run_wrapE binary_read_def
        thresholds_raw_layout del: dec.simps)
  have "b = buf ! i" if "i < 512" "checksum buf" "checksum (buf[i := b])"
  proof -
    have "buf = take i buf @ buf ! i # drop (Suc i) buf" "buf[i := b] = take i buf @ b # drop (Suc i) buf"
      using that(1) len by (simp_all add: id_take_nth_drop upd_conv_take_nth_drop)
    with that show ?thesis using checksum_single by metis
  qed
  then show ?thesis
    using run by (auto simp: checksum_mod)
qed

theorem ReadSMARTThresholds_checked_witness:
  "is_ok (fst (run_state (ReadSMARTThresholds (sample_kernel (sg_good [1, 255]) undefined)
      \<lparr>sataFd = 3, sataMapping = Map.empty, sataBug = 0\<rparr>) sample_sys))"
proof -
  let ?d = "\<lparr>sataFd = 3, sataMapping = Map.empty, sataBug = 0\<rparr>"
  have "run_state (scsiSendCdb (sample_kernel (sg_good [1, 255]) undefined) (sataFd ?d)
      ((smart_cdb SMART_READ_THRESHOLDS)[8 := 0x1]) (replicate 512 0)) sample_sys =
      (Ok ([1, 255] @ replicate 510 0), sample_sys\<lparr>log := [EvSg 3 SG_IO
        (sg_hdr ((smart_cdb SMART_READ_THRESHOLDS)[8 := 0x1]) (replicate 512 0))]\<rparr>)"
    by (simp add: run_scsiSendCdb sg_good_def sg_hdr_def sg_data_def sg_result_def scsi_consts overlay_def
        sample_sys_def)
  from ReadSMARTThresholds_checked [OF this] show ?thesis
    by (simp add: sum_list_replicate)
qed



end
