(* ===== verification/SmartOpen.thy ===== *)
theory SmartOpen
  imports NvmeDevice SataDevice
begin

text \<open>
  \<^verbatim>\<open>smart.go\<close>: the device interface and \<^verbatim>\<open>Open\<close>, which tries NVMe, SATA and SCSI in turn. That code is
  shared by all platforms; the functions of the platform-specific files are records of operations, of
  which there are three sets: the \<^verbatim>\<open>_linux.go\<close> files, the \<^verbatim>\<open>_other.go\<close> stubs, and \<^verbatim>\<open>nvme_darwin.go\<close>, which
  uses the stubs for SATA and SCSI. The C functions behind the latter are a parameter.
\<close>

section \<open>Platform operations\<close>

record ('w, 'n) nvme_ops =
  noOpen :: "string \<Rightarrow> ('w, 'n) io"
  noClose :: "'n \<Rightarrow> ('w, unit) io"
  noReadSMART :: "'n \<Rightarrow> ('w, NvmeSMARTLog) io"
  noReadController :: "'n \<Rightarrow> ('w, NvmeIdentController) io"
  noReadNamespace :: "'n \<Rightarrow> int \<Rightarrow> ('w, NvmeIdentNamespace) io"

record 'w scsi_ops =
  coOpen :: "string \<Rightarrow> ('w, ScsiDevice) io"
  coClose :: "ScsiDevice \<Rightarrow> ('w, unit) io"
  coCapacity :: "ScsiDevice \<Rightarrow> ('w, u64) io"
  coInquiry :: "ScsiDevice \<Rightarrow> ('w, ScsiInquiry) io"
  coSerialNumber :: "ScsiDevice \<Rightarrow> ('w, string) io"

record 'w sata_ops =
  soOpen :: "string \<Rightarrow> ('w, SataDevice) io"
  soClose :: "SataDevice \<Rightarrow> ('w, unit) io"
  soIdentify :: "SataDevice \<Rightarrow> ('w, AtaIdentifyDevice) io"
  soReadSMARTLog :: "SataDevice \<Rightarrow> u8 \<Rightarrow> ('w, u8 list) io"
  soReadSMARTData :: "SataDevice \<Rightarrow> ('w, AtaSmartPageRaw) io"
  soReadSMARTLogDirectory :: "SataDevice \<Rightarrow> ('w, gval) io"
  soReadSMARTErrorLogSummary :: "SataDevice \<Rightarrow> ('w, gval) io"
  soReadSMARTSelfTestLog :: "SataDevice \<Rightarrow> ('w, gval) io"
  soReadSMARTThresholds :: "SataDevice \<Rightarrow> ('w, AtaSmartThresholdsPageRaw) io"
  soReadStatistics :: "SataDevice \<Rightarrow> ('w, AtaDeviceStatistics) io"
  soCheckPowerMode :: "SataDevice \<Rightarrow> ('w, AtaPowerMode) io"
  soSetPowerMode :: "SataDevice \<Rightarrow> AtaPowerMode \<Rightarrow> ('w, unit) io"
  soSetStandbyTimer :: "SataDevice \<Rightarrow> duration \<Rightarrow> ('w, unit) io"
  soSetStandbyTimerRaw :: "SataDevice \<Rightarrow> u8 \<Rightarrow> ('w, unit) io"
  soSetIdleTimer :: "SataDevice \<Rightarrow> duration \<Rightarrow> ('w, unit) io"
  soSetIdleTimerRaw :: "SataDevice \<Rightarrow> u8 \<Rightarrow> ('w, unit) io"
  soSetAPMLevel :: "SataDevice \<Rightarrow> u8 \<Rightarrow> ('w, unit) io"
  soDisableAPM :: "SataDevice \<Rightarrow> ('w, unit) io"
  soIdleUnload :: "SataDevice \<Rightarrow> ('w, unit) io"
  soSleep :: "SataDevice \<Rightarrow> ('w, unit) io"
  soStandby :: "SataDevice \<Rightarrow> ('w, unit) io"
  soIdle :: "SataDevice \<Rightarrow> ('w, unit) io"

record ('w, 'n) platform =
  pNvme :: "('w, 'n) nvme_ops"
  pSata :: "'w sata_ops"
  pScsi :: "'w scsi_ops"

section \<open>Linux\<close>

definition nvme_linux :: "'w kernel \<Rightarrow> ('w, NVMeDevice) nvme_ops" where
  "nvme_linux k =
     \<lparr>noOpen = OpenNVMe k, noClose = CloseNVMe k, noReadSMART = ReadSMART k,
      noReadController = readControllerIdentifyData k, noReadNamespace = readNamespaceIdentifyData k\<rparr>"

definition scsi_linux :: "'w kernel \<Rightarrow> 'w scsi_ops" where
  "scsi_linux k =
     \<lparr>coOpen = OpenScsi k, coClose = CloseScsi k, coCapacity = ScsiCapacity k, coInquiry = Inquiry k,
      coSerialNumber = ScsiSerialNumber k\<rparr>"

definition sata_linux :: "'w kernel \<Rightarrow> matcher \<Rightarrow> ataDeviceInfo list \<Rightarrow> 'w sata_ops" where
  "sata_linux k rx dbs =
     \<lparr>soOpen = OpenSata k rx dbs, soClose = CloseSata k, soIdentify = Identify k,
      soReadSMARTLog = readSMARTLog k, soReadSMARTData = readSMARTData k,
      soReadSMARTLogDirectory = ReadSMARTLogDirectory k,
      soReadSMARTErrorLogSummary = ReadSMARTErrorLogSummary k,
      soReadSMARTSelfTestLog = ReadSMARTSelfTestLog k, soReadSMARTThresholds = readSMARTThresholds k,
      soReadStatistics = ReadStatistics k, soCheckPowerMode = CheckPowerMode k,
      soSetPowerMode = SetPowerMode k, soSetStandbyTimer = SetStandbyTimer k,
      soSetStandbyTimerRaw = SetStandbyTimerRaw k, soSetIdleTimer = SetIdleTimer k,
      soSetIdleTimerRaw = SetIdleTimerRaw k, soSetAPMLevel = SetAPMLevel k, soDisableAPM = DisableAPM k,
      soIdleUnload = IdleUnload k, soSleep = Sleep k, soStandby = Standby k, soIdle = Idle k\<rparr>"

definition linux :: "'w kernel \<Rightarrow> matcher \<Rightarrow> ataDeviceInfo list \<Rightarrow> ('w, NVMeDevice) platform" where
  "linux k rx dbs = \<lparr>pNvme = nvme_linux k, pSata = sata_linux k rx dbs, pScsi = scsi_linux k\<rparr>"

section \<open>The stubs\<close>

definition unsupported :: "('w, 'a) io" where
  "unsupported = retE (Err ErrOSUnsupported)"

definition nvme_other :: "('w, unit) nvme_ops" where
  "nvme_other =
     \<lparr>noOpen = (\<lambda>name. unsupported), noClose = (\<lambda>d. unsupported), noReadSMART = (\<lambda>d. unsupported),
      noReadController = (\<lambda>d. unsupported), noReadNamespace = (\<lambda>d nsid. unsupported)\<rparr>"

definition scsi_other :: "'w scsi_ops" where
  "scsi_other =
     \<lparr>coOpen = (\<lambda>name. unsupported), coClose = (\<lambda>d. unsupported), coCapacity = (\<lambda>d. unsupported),
      coInquiry = (\<lambda>d. unsupported), coSerialNumber = (\<lambda>d. unsupported)\<rparr>"

definition sata_other :: "'w sata_ops" where
  "sata_other =
     \<lparr>soOpen = (\<lambda>name. unsupported), soClose = (\<lambda>d. unsupported), soIdentify = (\<lambda>d. unsupported),
      soReadSMARTLog = (\<lambda>d logPage. unsupported), soReadSMARTData = (\<lambda>d. unsupported),
      soReadSMARTLogDirectory = (\<lambda>d. unsupported), soReadSMARTErrorLogSummary = (\<lambda>d. unsupported),
      soReadSMARTSelfTestLog = (\<lambda>d. unsupported), soReadSMARTThresholds = (\<lambda>d. unsupported),
      soReadStatistics = (\<lambda>d. unsupported), soCheckPowerMode = (\<lambda>d. unsupported),
      soSetPowerMode = (\<lambda>d mode. unsupported), soSetStandbyTimer = (\<lambda>d timeout. unsupported),
      soSetStandbyTimerRaw = (\<lambda>d raw. unsupported), soSetIdleTimer = (\<lambda>d timeout. unsupported),
      soSetIdleTimerRaw = (\<lambda>d raw. unsupported), soSetAPMLevel = (\<lambda>d level. unsupported),
      soDisableAPM = (\<lambda>d. unsupported), soIdleUnload = (\<lambda>d. unsupported), soSleep = (\<lambda>d. unsupported),
      soStandby = (\<lambda>d. unsupported), soIdle = (\<lambda>d. unsupported)\<rparr>"

definition other :: "('w, unit) platform" where
  "other = \<lparr>pNvme = nvme_other, pSata = sata_other, pScsi = scsi_other\<rparr>"

section \<open>macOS\<close>

text \<open>
  The C functions of \<^verbatim>\<open>nvme_darwin.h\<close>: an \<^verbatim>\<open>unsigned int\<close> result, 0 for success, and what they store
  through their pointer arguments. A device pointer is an address.
\<close>

record 'w iokit =
  smart_nvme_open_darwin :: "string \<Rightarrow> 'w \<Rightarrow> (u32 \<times> u64) \<times> 'w"
  smart_nvme_identify_darwin :: "u64 \<Rightarrow> u32 \<Rightarrow> 'w \<Rightarrow> (u32 \<times> u8 list) \<times> 'w"
  smart_nvme_readsmart_darwin :: "u64 \<Rightarrow> 'w \<Rightarrow> (u32 \<times> u8 list) \<times> 'w"
  smart_nvme_close_darwin :: "u64 \<Rightarrow> 'w \<Rightarrow> 'w"

record NVMeDarwin =
  darwinPtr :: u64

definition OpenNVMeDarwin :: "'w iokit \<Rightarrow> string \<Rightarrow> ('w, NVMeDarwin) io" where
  "OpenNVMeDarwin c name = State (\<lambda>s.
     case smart_nvme_open_darwin c name (world s) of ((res, p), w) \<Rightarrow>
       (if res \<noteq> 0 then Err (Errorf ''open darwin device error: 0x%x'' [AInt (uint res)])
        else Ok \<lparr>darwinPtr = p\<rparr>, s\<lparr>world := w\<rparr>))"

text \<open>The device is left with a nil pointer.\<close>

definition CloseNVMeDarwin :: "'w iokit \<Rightarrow> NVMeDarwin \<Rightarrow> ('w, NVMeDarwin) io" where
  "CloseNVMeDarwin c d = State (\<lambda>s.
     (Ok (d\<lparr>darwinPtr := 0\<rparr>), s\<lparr>world := smart_nvme_close_darwin c (darwinPtr d) (world s)\<rparr>))"

text \<open>A call that fills \<open>buf\<close>.\<close>

definition call_darwin :: "('w \<Rightarrow> (u32 \<times> u8 list) \<times> 'w) \<Rightarrow> string \<Rightarrow> u8 list \<Rightarrow> ('w, u8 list) io" where
  "call_darwin f fmt buf = State (\<lambda>s.
     case f (world s) of ((res, b), w) \<Rightarrow>
       (if res \<noteq> 0 then Err (Errorf fmt [AInt (uint res)]) else Ok (overlay b buf), s\<lparr>world := w\<rparr>))"

definition ReadSMARTDarwin :: "'w iokit \<Rightarrow> NVMeDarwin \<Rightarrow> ('w, NvmeSMARTLog) io" where
  "ReadSMARTDarwin c d =
     bindE (call_darwin (smart_nvme_readsmart_darwin c (darwinPtr d)) ''smart_nvme_readsmart_darwin: %v'' (replicate 512 0))
       (\<lambda>buf. retE (map_res NvmeSMARTLog_of (binary_read LittleEndian NvmeSMARTLog_type buf)))"

definition readControllerDarwin :: "'w iokit \<Rightarrow> NVMeDarwin \<Rightarrow> ('w, NvmeIdentController) io" where
  "readControllerDarwin c d =
     bindE (call_darwin (smart_nvme_identify_darwin c (darwinPtr d) 0) ''smart_nvme_identify_darwin: %v'' (replicate 4096 0))
       (\<lambda>buf. retE (map_res NvmeIdentController_of (binary_read LittleEndian NvmeIdentController_type buf)))"

text \<open>Here the C code writes straight into the memory of the Go struct.\<close>

definition readNamespaceDarwin :: "'w iokit \<Rightarrow> NVMeDarwin \<Rightarrow> int \<Rightarrow> ('w, NvmeIdentNamespace) io" where
  "readNamespaceDarwin c d i =
     bindE (call_darwin (smart_nvme_identify_darwin c (darwinPtr d) (of_int i)) ''smart_nvme_identify_darwin: %X''
         (replicate (usize NvmeIdentNamespace_type) 0))
       (\<lambda>mem. retE (Ok (NvmeIdentNamespace_of (mdec NvmeIdentNamespace_type mem))))"

definition nvme_darwin :: "'w iokit \<Rightarrow> ('w, NVMeDarwin) nvme_ops" where
  "nvme_darwin c =
     \<lparr>noOpen = OpenNVMeDarwin c, noClose = (\<lambda>d. bindE (CloseNVMeDarwin c d) (\<lambda>_. retE (Ok ()))),
      noReadSMART = ReadSMARTDarwin c, noReadController = readControllerDarwin c,
      noReadNamespace = readNamespaceDarwin c\<rparr>"

definition darwin :: "'w iokit \<Rightarrow> ('w, NVMeDarwin) platform" where
  "darwin c = \<lparr>pNvme = nvme_darwin c, pSata = sata_other, pScsi = scsi_other\<rparr>"

section \<open>Open\<close>

datatype 'n Device = DevNvme 'n | DevSata SataDevice | DevScsi ScsiDevice

text \<open>\<^verbatim>\<open>strings.Contains\<close>.\<close>

fun contains :: "string \<Rightarrow> string \<Rightarrow> bool" where
  "contains [] sub = (sub = [])"
| "contains (c # cs) sub = (take (length sub) (c # cs) = sub \<or> contains cs sub)"

text \<open>
  \<^verbatim>\<open>x, err := m(); if err == nil { ... } else { ... }\<close>: either continuation goes on; a panic ends the run.
\<close>

definition caseE :: "('w, 'a) io \<Rightarrow> ('a \<Rightarrow> ('w, 'b) io) \<Rightarrow> (gerror \<Rightarrow> ('w, 'b) io) \<Rightarrow> ('w, 'b) io" where
  "caseE m f g = do {
     r \<leftarrow> m;
     case r of
       None \<Rightarrow> State_Monad.return None
     | Some (Inl e) \<Rightarrow> g e
     | Some (Inr x) \<Rightarrow> f x }"

text \<open>The part of \<^verbatim>\<open>Open\<close> behind the NVMe attempt, whose error it is given.\<close>

definition open_ata_scsi :: "('w, 'n) platform \<Rightarrow> string \<Rightarrow> gerror option \<Rightarrow> ('w, 'n Device) io" where
  "open_ata_scsi p path nvmeErr =
     caseE (soOpen (pSata p) path) (\<lambda>a. retE (Ok (DevSata a))) (\<lambda>sataErr.
       caseE (coOpen (pScsi p) path) (\<lambda>s. retE (Ok (DevScsi s))) (\<lambda>scsiErr.
         retE (Err (case nvmeErr of
             Some e \<Rightarrow> Joined [e, sataErr, scsiErr]
           | None \<Rightarrow> Joined [sataErr, scsiErr]))))"

definition Open :: "('w, 'n) platform \<Rightarrow> string \<Rightarrow> ('w, 'n Device) io" where
  "Open p path =
     (if contains path ''/nvme'' then
        caseE (noOpen (pNvme p) path)
          (\<lambda>n. caseE (NvmeIdentify (noReadController (pNvme p) n) (noReadNamespace (pNvme p) n))
            (\<lambda>_. retE (Ok (DevNvme n)))
            (\<lambda>idErr.
              let rest = open_ata_scsi p path (Some (Wrapf ''nvme identify: %w'' idErr))
              in caseE (noClose (pNvme p) n) (\<lambda>_. rest) (\<lambda>_. rest)))
          (\<lambda>nvmeErr. open_ata_scsi p path (Some nvmeErr))
      else open_ata_scsi p path None)"

text \<open>Methods of the \<^verbatim>\<open>Device\<close> interface.\<close>

fun deviceType :: "'n Device \<Rightarrow> string" where
  "deviceType (DevNvme n) = ''nvme''"
| "deviceType (DevSata d) = SataType d"
| "deviceType (DevScsi d) = ScsiType d"

fun deviceClose :: "('w, 'n) platform \<Rightarrow> 'n Device \<Rightarrow> ('w, unit) io" where
  "deviceClose p (DevNvme n) = noClose (pNvme p) n"
| "deviceClose p (DevSata d) = soClose (pSata p) d"
| "deviceClose p (DevScsi d) = coClose (pScsi p) d"

section \<open>Rules for \<open>caseE\<close>\<close>

lemma run_caseE:
  "run_state (caseE m f g) s =
     (case run_state m s of
        (None, s') \<Rightarrow> (None, s')
      | (Some (Inl e), s') \<Rightarrow> run_state (g e) s'
      | (Some (Inr x), s') \<Rightarrow> run_state (f x) s')"
  by (auto simp: caseE_def split: option.splits sum.splits prod.splits)

lemma emits_caseE [emits_intros]:
  "emits P m \<Longrightarrow> (\<And>x. emits P (f x)) \<Longrightarrow> (\<And>e. emits P (g e)) \<Longrightarrow> emits P (caseE m f g)"
  unfolding caseE_def by (auto intro!: emits_intros split: option.splits sum.splits)

lemma panic_free_caseE [panic_intros]:
  "panic_free m \<Longrightarrow> (\<And>x. panic_free (f x)) \<Longrightarrow> (\<And>e. panic_free (g e)) \<Longrightarrow> panic_free (caseE m f g)"
  unfolding panic_free_def [of "caseE m f g"] run_caseE
  by (auto dest: panic_freeD split: prod.splits option.splits sum.splits) (simp_all add: panic_free_def)

lemma run_caseE_result:
  assumes "run_state (caseE m f g) s = (r, s')" "r \<noteq> None"
  obtains (ok) x t where "run_state m s = (Ok x, t)" "run_state (f x) t = (r, s')"
  | (err) e t where "run_state m s = (Err e, t)" "run_state (g e) t = (r, s')"
  using assms by (auto simp: run_caseE split: prod.splits option.splits sum.splits)

lemma ownsI_run:
  assumes "\<And>s r s'. M \<subseteq># live (log s) \<Longrightarrow> run_state m s = (r, s') \<Longrightarrow> r \<noteq> None \<Longrightarrow>
    \<exists>t K m'. live (log t) = live (log s) - M + K \<and> owns K m' H \<and> run_state m' t = (r, s')"
  shows "owns M m H"
proof (rule ownsI)
  fix s e s' assume M: "M \<subseteq># live (log s)" and run: "run_state m s = (Err e, s')"
  from assms [OF this] obtain t K m' where "live (log t) = live (log s) - M + K" "owns K m' H" "run_state m' t = (Err e, s')"
    by blast
  then show "live (log s') = live (log s) - M" using owns_err [of K m' H t e s'] by simp
next
  fix s x s' assume M: "M \<subseteq># live (log s)" and run: "run_state m s = (Ok x, s')"
  from assms [OF this] obtain t K m' where "live (log t) = live (log s) - M + K" "owns K m' H" "run_state m' t = (Ok x, s')"
    by blast
  then show "live (log s') = live (log s) - M + H x" using owns_ok [of K m' H t x s'] by simp
qed

text \<open>An attempt that opens, a command on an open device, and closing it again.\<close>

lemma owns_case_open:
  assumes m: "owns {#} m (\<lambda>x. {#fd x#})" and f: "\<And>x. owns {#fd x#} (f x) H" and g: "\<And>e. owns {#} (g e) H"
  shows "owns {#} (caseE m f g) H"
proof (rule ownsI_run)
  fix s r s' assume "run_state (caseE m f g) s = (r, s')" "r \<noteq> None"
  then show "\<exists>t K m'. live (log t) = live (log s) - {#} + K \<and> owns K m' H \<and> run_state m' t = (r, s')"
  proof (cases rule: run_caseE_result)
    case (ok x t)
    then have "live (log t) = live (log s) - {#} + {#fd x#}"
      using owns_ok [OF m _ ok(1)] by simp
    then show ?thesis using f [of x] ok(2) by blast
  next
    case (err e t)
    then have "live (log t) = live (log s) - {#} + {#}"
      using owns_err [OF m _ err(1)] by simp
    then show ?thesis using g [of e] err(2) by blast
  qed
qed

lemma owns_case_quiet:
  fixes m :: "('a, 'b) io"
  assumes m: "emits is_ioctl m" and f: "\<And>x. owns M (f x) H" and g: "\<And>e. owns M (g e) H"
  shows "owns M (caseE m f g) H"
proof (rule ownsI_run)
  fix s s' :: "'a sys" and r assume "M \<subseteq># live (log s)"
  then have M: "live (log s) - M + M = live (log s)" by simp
  assume "run_state (caseE m f g) s = (r, s')" "r \<noteq> None"
  then show "\<exists>t K m'. live (log t) = live (log s) - M + K \<and> owns K m' H \<and> run_state m' t = (r, s')"
  proof (cases rule: run_caseE_result)
    case (ok x t)
    then show ?thesis using quiet_live [OF m ok(1)] f [of x] M by metis
  next
    case (err e t)
    then show ?thesis using quiet_live [OF m err(1)] g [of e] M by metis
  qed
qed

lemma owns_case_close:
  assumes "owns {#} rest H"
  shows "owns {#fd#} (caseE (unix_Close k fd) (\<lambda>_. rest) (\<lambda>_. rest)) H"
proof (rule ownsI_run)
  fix s r s' assume "run_state (caseE (unix_Close k fd) (\<lambda>_. rest) (\<lambda>_. rest)) s = (r, s')" "r \<noteq> None"
  then obtain c t where "run_state (unix_Close k fd) s = (c, t)" "run_state rest t = (r, s')"
    by (cases rule: run_caseE_result) auto
  then show "\<exists>t K m'. live (log t) = live (log s) - {#fd#} + K \<and> owns K m' H \<and> run_state m' t = (r, s')"
    using live_close assms by (metis add.right_neutral)
qed

section \<open>Descriptors and system calls of \<open>Open\<close>\<close>

fun device_fd :: "NVMeDevice Device \<Rightarrow> int" where
  "device_fd (DevNvme n) = nvmeFd n"
| "device_fd (DevSata d) = sataFd d"
| "device_fd (DevScsi d) = scsiFd d"

lemma linux_sel [simp]:
  "noOpen (pNvme (linux k rx dbs)) = OpenNVMe k" "noClose (pNvme (linux k rx dbs)) = CloseNVMe k"
  "noReadController (pNvme (linux k rx dbs)) = readControllerIdentifyData k"
  "noReadNamespace (pNvme (linux k rx dbs)) = readNamespaceIdentifyData k"
  "soOpen (pSata (linux k rx dbs)) = OpenSata k rx dbs" "soClose (pSata (linux k rx dbs)) = CloseSata k"
  "coOpen (pScsi (linux k rx dbs)) = OpenScsi k" "coClose (pScsi (linux k rx dbs)) = CloseScsi k"
  by (simp_all add: linux_def nvme_linux_def sata_linux_def scsi_linux_def)

lemma open_ata_scsi_owns: "owns {#} (open_ata_scsi (linux k rx dbs) path e) (\<lambda>d. {#device_fd d#})"
  unfolding open_ata_scsi_def linux_sel
  by (intro owns_case_open [OF OpenSata_owns] owns_case_open [OF OpenScsi_owns] owns_retOk)
    (simp_all add: retE_def owns_return_err)

lemma identify_quiet: "emits is_ioctl (nvmeIdentifyLinux k d)"
  by (rule nvmeIdentify_emits) simp_all

lemma Open_owns: "owns {#} (Open (linux k rx dbs) path) (\<lambda>d. {#device_fd d#})"
proof (cases "contains path ''/nvme''")
  case True
  then show ?thesis
    unfolding Open_def Let_def linux_sel CloseNVMe_def if_P [OF True]
    by (intro owns_case_open [OF OpenNVMe_owns] owns_case_quiet [OF identify_quiet] owns_case_close
        open_ata_scsi_owns owns_retOk) simp
qed (simp add: Open_def open_ata_scsi_owns)

lemma open_ata_scsi_emits [emits_intros]:
  "(\<And>r. P (EvOpen path (or O_RDONLY O_CLOEXEC) r)) \<Longrightarrow> (\<And>fd. P (EvClose fd)) \<Longrightarrow>
   (\<And>fd cdb resp. P (EvSg fd SG_IO (sg_hdr cdb resp))) \<Longrightarrow> emits P (open_ata_scsi (linux k rx dbs) path e)"
  unfolding open_ata_scsi_def linux_sel
  by (intro emits_intros OpenSata_emits OpenScsi_emits)

lemma Open_emits:
  assumes "\<And>r. P (EvOpen path (or O_RDONLY O_CLOEXEC) r)" "\<And>fd. P (EvClose fd)"
    "\<And>fd cdb resp. P (EvSg fd SG_IO (sg_hdr cdb resp))"
    and "\<And>fd cmd. contains path ''/nvme'' \<Longrightarrow> P (EvNvme64 fd nvmeIoctlAdmin64Cmd cmd)"
      "\<And>fd cmd. contains path ''/nvme'' \<Longrightarrow> P (EvNvme32 fd nvmeIoctlAdminCmd cmd)"
  shows "emits P (Open (linux k rx dbs) path)"
proof (cases "contains path ''/nvme''")
  case True
  show ?thesis
    unfolding Open_def Let_def linux_sel CloseNVMe_def if_P [OF True] using assms(4,5) True
    by (intro emits_intros OpenNVMe_emits nvmeIdentify_emits assms(1-3)) simp_all
next
  case False
  then show ?thesis by (simp add: Open_def open_ata_scsi_emits assms)
qed

interpretation smart_opener: opener "Open (linux k rx dbs)" device_fd for k rx dbs
  by unfold_locales (auto intro!: Open_owns Open_emits)

lemma deviceClose_linux: "deviceClose (linux k rx dbs) d = unix_Close k (device_fd d)"
  by (cases d) (simp_all add: CloseNVMe_def CloseSata_def CloseScsi_def)

text \<open>
  C3. \<^verbatim>\<open>Open\<close> never leaks a descriptor, whatever the kernel answers: after an error exactly the descriptors
  that were open before are open, after a success the one of the returned device is open in addition, and
  closing the device restores what was open before. Every descriptor is opened close-on-exec.
\<close>

theorem Open_descriptors:
  assumes "run_state (Open (linux k rx dbs) path) s = (r, s')"
  shows "(\<forall>e. r = Err e \<longrightarrow> live (log s') = live (log s)) \<and>
    (\<forall>d. r = Ok d \<longrightarrow> live (log s') = add_mset (device_fd d) (live (log s)) \<and>
      live (log (snd (run_state (deviceClose (linux k rx dbs) d) s'))) = live (log s)) \<and>
    (\<exists>evs. log s' = log s @ evs \<and> list_all cloexec evs)"
proof (intro conjI allI impI)
  fix e assume "r = Err e"
  then show "live (log s') = live (log s)" using assms smart_opener.failed_open_live by blast
next
  fix d assume "r = Ok d"
  then have run: "run_state (Open (linux k rx dbs) path) s = (Ok d, s')" using assms by simp
  show "live (log s') = add_mset (device_fd d) (live (log s))"
    by (rule smart_opener.opened_live [OF run])
  show "live (log (snd (run_state (deviceClose (linux k rx dbs) d) s'))) = live (log s)"
    unfolding deviceClose_linux by (rule smart_opener.open_close_live [OF run]) (rule surjective_pairing)
next
  show "\<exists>evs. log s' = log s @ evs \<and> list_all cloexec evs"
    using smart_opener.op_cloexec assms by (metis emitsE)
qed

theorem Open_descriptors_witness:
  "\<exists>d s'. run_state (Open (linux (sample_kernel undefined (\<lambda>arg. (0, []))) (\<lambda>_ _. Ok True) []) ''/dev/nvme0'') sample_sys = (Ok d, s') \<and>
     live (log s') = {#3#}"
proof -
  let ?k = "sample_kernel undefined (\<lambda>arg. (0, []))"
  have "icNn (NvmeIdentController_of (dec LittleEndian NvmeIdentController_type (replicate 4096 0))) = 0"
    by (simp add: NvmeIdentController_of_def NvmeIdentController_type_def fld_dec NvmeIdentController_layout scalar_dec
        del: dec.simps) (simp add: numeral_eq_Suc)
  then obtain d s' where run: "run_state (Open (linux ?k (\<lambda>_ _. Ok True) []) ''/dev/nvme0'') sample_sys = (Ok d, s')" "device_fd d = 3"
    by (simp add: Open_def run_caseE OpenNVMe_def run_bindE unix_Open_def NvmeIdentify_def readControllerIdentifyData_def
        readIdentifyData_def run_admin_passthru Let_def binary_read_def NvmeIdentController_type_def
        NvmeIdentController_layout sample_sys_def)
  from Open_descriptors [OF run(1)] run(2) have "live (log s') = {#3#}"
    by (simp add: sample_sys_def live_def)
  with run show ?thesis by blast
qed

text \<open>
  The paths that are probed as NVMe devices are those that contain \<^verbatim>\<open>/nvme\<close> as a substring.
\<close>

lemma contains_sublist: "contains s sub \<longleftrightarrow> sublist sub s"
proof (induction s)
  case (Cons c cs)
  have "take (length sub) xs = sub \<longleftrightarrow> prefix sub xs" for xs
    unfolding prefix_def by (metis append_eq_conv_conj append_take_drop_id)
  then show ?case using Cons by (simp add: sublist_Cons_right)
qed auto

fun nvme_ioctl :: "sysevent \<Rightarrow> bool" where
  "nvme_ioctl (EvNvme64 _ _ _) = True"
| "nvme_ioctl (EvNvme32 _ _ _) = True"
| "nvme_ioctl _ = False"

text \<open>
  C5. A path that does not contain \<^verbatim>\<open>/nvme\<close> never gets an NVMe admin command, which some USB bridges do not
  survive, whatever the outcome of \<^verbatim>\<open>Open\<close>.
\<close>

theorem Open_no_nvme_command:
  assumes "\<not> sublist ''/nvme'' path" "run_state (Open (linux k rx dbs) path) s = (r, s')"
  shows "\<exists>evs. log s' = log s @ evs \<and> list_all (\<lambda>ev. \<not> nvme_ioctl ev) evs"
proof -
  have "emits (\<lambda>ev. \<not> nvme_ioctl ev) (Open (linux k rx dbs) path)"
    using assms(1) by (intro Open_emits) (simp_all add: contains_sublist)
  then show ?thesis using assms(2) by (rule emitsE) blast
qed

theorem Open_no_nvme_command_witness:
  "list_all (\<lambda>ev. \<not> nvme_ioctl ev)
     (log_after (Open (linux (sample_kernel (sg_good []) undefined) (\<lambda>_ _. Ok True) []) ''/dev/sda'') sample_sys)"
proof -
  have "\<not> sublist ''/nvme'' ''/dev/sda''" by (simp add: contains_sublist [symmetric])
  from Open_no_nvme_command [OF this surjective_pairing, of "sample_kernel (sg_good []) undefined" "\<lambda>_ _. Ok True" "[]" sample_sys]
  show ?thesis by (auto simp: sample_sys_def)
qed

text \<open>Open panics only if an operation it uses does.\<close>

lemma Open_panic_free:
  assumes "sg_sense_bounded k" "\<And>p s. rx p s \<noteq> None"
  shows "panic_free (Open (linux k rx dbs) path)"
proof -
  have tail: "panic_free (open_ata_scsi (linux k rx dbs) path e)" for e
    unfolding open_ata_scsi_def linux_sel OpenScsi_def Inquiry_def
    using assms by (intro panic_intros OpenSata_panic_free) (auto intro!: panic_intros)
  show ?thesis
    unfolding Open_def Let_def linux_sel OpenNVMe_def CloseNVMe_def
    by (auto intro!: panic_intros tail)
qed

section \<open>Other platforms\<close>

text \<open>
  C33. Elsewhere every path fails with \<^verbatim>\<open>ErrOSUnsupported\<close> joined from all attempts and nothing is touched. On
  macOS only a path that contains \<^verbatim>\<open>/nvme\<close> ever reaches IOKit: any other path, such as the names of the
  form \<^verbatim>\<open>disk0\<close> that \<^verbatim>\<open>smart_nvme_open_darwin\<close> expects, fails without a call.
\<close>

theorem Open_unsupported:
  "run_state (Open other path) s =
     (Err (Joined (replicate (if sublist ''/nvme'' path then 3 else 2) ErrOSUnsupported)), s) \<and>
   (\<not> sublist ''/nvme'' path \<longrightarrow>
     run_state (Open (darwin c) path) s = (Err (Joined [ErrOSUnsupported, ErrOSUnsupported]), s))"
  by (simp add: Open_def open_ata_scsi_def run_caseE other_def darwin_def nvme_other_def sata_other_def
      scsi_other_def unsupported_def contains_sublist numeral_eq_Suc)

theorem Open_unsupported_witness:
  "\<forall>(c :: unit iokit) s. run_state (Open (darwin c) ''disk0'') s = (Err (Joined [ErrOSUnsupported, ErrOSUnsupported]), s)"
proof (intro allI)
  fix c :: "unit iokit" and s
  have "\<not> sublist ''/nvme'' ''disk0''" by (simp add: contains_sublist [symmetric])
  then show "run_state (Open (darwin c) ''disk0'') s = (Err (Joined [ErrOSUnsupported, ErrOSUnsupported]), s)"
    using Open_unsupported [of "''disk0''" s c] by blast
qed

text \<open>
  Reading a namespace's page straight into the memory of the Go struct, as the macOS code does, gives the
  same as decoding the bytes with \<^verbatim>\<open>binary.Read\<close>: the struct has the page's layout.
\<close>

theorem readNamespaceDarwin_decodes:
  "readNamespaceDarwin c d i =
     bindE (call_darwin (smart_nvme_identify_darwin c (darwinPtr d) (of_int i)) ''smart_nvme_identify_darwin: %X'' (replicate 4096 0))
       (\<lambda>buf. retE (map_res NvmeIdentNamespace_of (binary_read LittleEndian NvmeIdentNamespace_type buf)))"
proof (rule io_eqI)
  fix s
  have size: "usize NvmeIdentNamespace_type = 4096" "bsize NvmeIdentNamespace_type = 4096"
    using ns_unpadded by (simp_all add: unpadded_size) (simp_all add: NvmeIdentNamespace_type_def NvmeIdentNamespace_layout)
  show "run_state (readNamespaceDarwin c d i) s = run_state (bindE (call_darwin
      (smart_nvme_identify_darwin c (darwinPtr d) (of_int i)) ''smart_nvme_identify_darwin: %X'' (replicate 4096 0))
      (\<lambda>buf. retE (map_res NvmeIdentNamespace_of (binary_read LittleEndian NvmeIdentNamespace_type buf)))) s"
    by (auto simp: readNamespaceDarwin_def size call_darwin_def run_bindE binary_read_def unpadded_mdec ns_unpadded
        split: prod.splits)
qed

end
