(* ===== verification/DeviceTable1.thy ===== *)
theory DeviceTable1
  imports AttrDb
begin

text \<open>
  Part 1 of the device database (\<^verbatim>\<open>ataDevicesDatabase\<close> in \<^verbatim>\<open>ata_device_database.go\<close>, lines 6 to 39), entry by
  entry, with the checks that \<open>parse\<close> reads its patterns and that its attributes are well formed.
\<close>

definition ataDevices1 :: "ataDeviceInfo list" where
  "ataDevices1 = [
    dev ''Swissbit C440 Industrial CompactFlash Card''
     ''SFCF(2048|4096|8192|16GB|32GB|64GB)H[0-9]BU[24]TO-(C|I)-(MS|QT|NU)-5[0-9]7-STD''
     ''''
      (Some [(196, attr ''Spare_Blocks'' TypeRaw24DivRaw24 '''' 0),
        (213, attr ''Spare_Blocks_Worst_Chip'' TypeRaw24DivRaw24 '''' 0),
        (229, attr ''Erase_Count'' TypeRaw48 '''' 0),
        (203, attr ''Total_ECC_Errors'' TypeRaw48 '''' 0),
        (232, attr ''Total_Number_of_Reads'' TypeRaw48 '''' 0),
        (214, attr ''Reserved_Attribute'' TypeRaw48 '''' 0),
        (215, attr ''Current_TRIM_Percent'' TypeRaw48 '''' 0)]) 0,
    dev ''Swissbit X-600m Series Industrial mSATA SSD''
     ''SFSA(008|016|032|064|128)GU[0-9]AA[124]TO-(C|I)-(DB|QC|NC)-2[0-9]6-STD''
     ''''
      (Some [(160, attr ''Uncorrectable_Error_Cnt'' TypeRaw48 '''' 0),
        (161, attr ''Spare_Blocks_Remaining'' TypeRaw48 '''' 0),
        (163, attr ''Initial_Bad_Block_Count'' TypeRaw48 '''' 0),
        (164, attr ''Total_Erase_Count'' TypeRaw48 '''' 0),
        (165, attr ''Max_Erase_Count'' TypeRaw48 '''' 0),
        (166, attr ''Min_Erase_Count'' TypeRaw48 '''' 0),
        (167, attr ''Average_Erase_Count'' TypeRaw48 '''' 0),
        (168, attr ''Max_Erase_Count_of_Spec'' TypeRaw48 '''' 0),
        (169, attr ''Power_On_Uncorr_Err_Cnt'' TypeRaw48 '''' 0),
        (192, attr ''Init_Spare_Blocks_Avail'' TypeRaw48 '''' 0),
        (193, attr ''Dynamic_Remaps'' TypeRaw48 '''' 0),
        (199, attr ''SATA_CRC_Error_Count'' TypeRaw48 '''' 0),
        (215, attr ''TRIM_Count'' TypeRaw48 '''' 0),
        (235, attr ''Flash_Writes_LBAs_Low'' TypeHex56 '''' 0),
        (237, attr ''Flash_Writes_LBAs_High'' TypeHex48 '''' 0),
        (241, attr ''Total_LBAs_Written_Low'' TypeHex56 '''' 0),
        (242, attr ''Total_LBAs_Read_Low'' TypeHex56 '''' 0),
        (243, attr ''Total_LBAs_Written_High'' TypeHex48 '''' 0),
        (244, attr ''Total_LBAs_Read_High'' TypeHex48 '''' 0),
        (248, attr ''Perc_Rated_Life_Remain'' TypeRaw48 '''' 0),
        (249, attr ''Spares_Remaining_Perc'' TypeRaw48 '''' 0)]) 0,
    dev ''Swissbit X-7x Family SATA SSD''
     ''SFSA....[MQSUV].AK.T[ABO].............''
     ''''
      (Some [(16, attr ''Avg_Erase_Count_pSLC'' TypeRaw48 '''' 0),
        (17, attr ''Rated_Erase_Count_pSLC'' TypeRaw48 '''' 0),
        (160, attr ''UECC_Sector_Count'' TypeRaw48 '''' 0),
        (161, attr ''Spare_Block_Count'' TypeRaw48 '''' 0),
        (163, attr ''Initial_Bad_Block_Count'' TypeRaw48 '''' 0),
        (164, attr ''Total_Erase_Count'' TypeRaw48 '''' 0),
        (165, attr ''Maximum_Erase_Count'' TypeRaw48 '''' 0),
        (166, attr ''Minimum_Erase_Count'' TypeRaw48 '''' 0),
        (167, attr ''Average_Erase_Count'' TypeRaw48 '''' 0),
        (168, attr ''Rated_Erase_Count'' TypeRaw48 '''' 0),
        (169, attr ''Power_On_UECC_Err_Cnt'' TypeRaw48 '''' 0),
        (193, attr ''Dynamic_Remaps'' TypeRaw48 '''' 0),
        (215, attr ''Number_of_TRIM_Commands'' TypeRaw48 '''' 0),
        (231, attr ''Life_Remaining_Percent'' TypeRaw48 '''' 0),
        (235, attr ''Flash_LBAs_Written'' TypeRaw48 '''' 0),
        (237, attr ''Flash_LBAs_Written_Exp'' TypeRaw48 '''' 0),
        (243, attr ''Host_LBA_Write_Exp'' TypeRaw48 '''' 0),
        (244, attr ''Host_LBA_Read_Exp'' TypeRaw48 '''' 0),
        (248, attr ''SSD_Remaining_Life_Perc'' TypeRaw48 '''' 0)]) 0,
    dev ''Swissbit X-8x Family SATA SSD''
     ''SFSA....M.AO.TO.............''
     ''''
      (Some [(165, attr ''Maximum_Erase_Count'' TypeRaw48 '''' 0),
        (167, attr ''Average_Erase_Count'' TypeRaw48 '''' 0),
        (168, attr ''Rated_Erase_Count'' TypeRaw48 '''' 0),
        (169, attr ''Power_On_Data_Repairs'' TypeRaw48 '''' 0),
        (185, attr ''E2E_ErrCnt_SATA-Flash'' TypeRaw48 '''' 0),
        (196, attr ''Total_Spare_Block_Cnt'' TypeRaw48 '''' 0),
        (200, attr ''SATA_COM_Reset'' TypeRaw48 '''' 0),
        (213, attr ''Spare_Block_Cnt_Worst'' TypeRaw48 '''' 0),
        (215, attr ''Trim_Status'' TypeRaw48 '''' 0),
        (229, attr ''Total_Flash_Blk_Erases'' TypeRaw48 '''' 0),
        (232, attr ''Total_Read_Cnt'' TypeRaw48 '''' 0),
        (241, attr ''Total_Host_LBA_Written'' TypeRaw48 '''' 0),
        (242, attr ''Total_Host_LBA_Read'' TypeRaw48 '''' 0),
        (248, attr ''Remaining_Life'' TypeRaw48 '''' 0)]) 0,
    dev ''Apacer SDM4 Series SSD Module''
     ''(2|4|8|16|32|64)GB SATA Flash Drive''
     ''SF(DDA01C|I2101D)''
      (Some [(160, attr ''Initial_Bad_Block_Count'' TypeRaw48 '''' 0),
        (161, attr ''Bad_Block_Count'' TypeRaw48 '''' 0),
        (162, attr ''Spare_Block_Count'' TypeRaw48 '''' 0),
        (163, attr ''Max_Erase_Count'' TypeRaw48 '''' 0),
        (164, attr ''Average_Erase_Count'' TypeRaw48 '''' 0),
        (165, attr ''Average_Erase_Count'' TypeRaw48 '''' 0)]) 0,
    dev ''Apacer SDM5/5A/5A-M Series SSD Module''
     ''(1|2|4|8|16|32|64)GB SATA Flash Drive''
     ''SF(DK004A|DE001A)''
      (Some [(163, attr ''Max_Erase_Count'' TypeRaw48 '''' 0),
        (164, attr ''Average_Erase_Count'' TypeRaw48 '''' 0),
        (166, attr ''Grown_Bad_Block_Count'' TypeRaw48 '''' 0),
        (167, attr ''SSD_Write_Protect_Mode'' TypeRaw48 '''' 0),
        (168, attr ''SATA_PHY_Err_Ct'' TypeRaw48 '''' 0),
        (175, attr ''Bad_Cluster_Table_Count'' TypeRaw48 '''' 0),
        (192, attr ''Unexpect_Power_Loss_Ct'' TypeRaw48 '''' 0)]) 0,
    dev ''Apacer AS340/350 SSDs''
     ''Apacer AS3[45]0 ((12[08]|240|256|480|512|960)G|1T)B''
     ''''
      (Some [(163, attr ''Max_Erase_Count'' TypeRaw48 '''' 0),
        (164, attr ''Average_Erase_Count'' TypeRaw48 '''' 0),
        (166, attr ''Later_Bad_Block_Count'' TypeRaw48 '''' 0),
        (167, attr ''SSD_Protect_Mode'' TypeRaw48 '''' 0),
        (168, attr ''SATA_PHY_Error_Count'' TypeRaw48 '''' 0),
        (171, attr ''Program_Fail_Count'' TypeRaw48 '''' 0),
        (172, attr ''Erase_Fail_Count'' TypeRaw48 '''' 0),
        (175, attr ''Bad_Cluster_Table_Count'' TypeRaw48 '''' 0),
        (192, attr ''Unexpect_Power_Loss_Ct'' TypeRaw48 '''' 0),
        (231, attr ''Lifetime_Left'' TypeRaw48 '''' 0)]) 0,
    dev ''Apacer SSDs''
     ''([1248]|1[056]|20|3[02]|40|60|64|80|12[08]|160|240|256|320|480|512|640|960|1024|1280|1920|2048|3840|4096)(GB|TB) SATA Flash Drive|1TB SATA SSD|S[GHTV]250-(M2[48][02]|25) ([1248]|1[056]|20|3[02]|40|60|64|80|12[08]|160|240|256|320|480|512|640|960|1024|1280|1920|2048|3840|4096)(GB|TB) SSD''
     ''AP613PE0|SFM[BCDEGHJ][0-9A-Z][0-9A-Z][1-9A-Z][0-9A-Z]''
      (Some [(163, attr ''Maximum_Erase_Count'' TypeRaw48 '''' 0),
        (164, attr ''Average_Erase_Count'' TypeRaw48 '''' 0),
        (166, attr ''Total_Later_Bad_Blk_Ct'' TypeRaw48 '''' 0),
        (167, attr ''SSD_Protect_Mode'' TypeRaw48 '''' 0),
        (168, attr ''SATA_PHY_Error_Count'' TypeRaw48 '''' 0),
        (171, attr ''Program_Fail_Count'' TypeRaw48 '''' 0),
        (172, attr ''Erase_Fail_Count'' TypeRaw48 '''' 0),
        (175, attr ''Bad_Cluster_Table_Ct'' TypeRaw48 '''' 0),
        (192, attr ''Unexpect_Power_Loss_Ct'' TypeRaw48 '''' 0),
        (231, attr ''Lifetime_Left'' TypeRaw48 '''' 0)]) 0,
    dev ''Apple SD/SM/TS...E/F/G SSDs''
     ''APPLE SSD (S[DM]|TS)0?(64|128|256|512|768|1024)[EFG]''
     ''''
      (Some [(169, attr ''Unknown_Apple_Attrib'' TypeRaw16 '''' 0),
        (173, attr ''Block_Erase_Count'' TypeRaw16 '''' 0),
        (174, attr ''Host_Reads_MiB'' TypeRaw48 '''' 0),
        (175, attr ''Host_Writes_MiB'' TypeRaw48 '''' 0)]) 0,
    dev ''ATP SATA III Value Line SSDs''
     ''ATP SATA III (M.2 (2242|2280)|mSATA|mSATA SSD|2.5 inch)''
     ''SBFMB1.1|SBFMBB.3|SBFMT1.3''
      (Some [(1, attr ''Raw_Read_Error_Count'' TypeRaw48 '''' 0),
        (168, attr ''SATA_PHY_Error_Count'' TypeRaw48 '''' 0),
        (170, attr ''Bad_Bl_Ct_LATER_0_EARLY'' TypeRaw16 '''' 0),
        (173, attr ''Erase_Count_0_AVG_MAX'' TypeRaw16 '''' 0),
        (192, attr ''Unexpected_Power_Loss'' TypeRaw48 '''' 0),
        (218, attr ''CRC_Errors'' TypeRaw48 '''' 0),
        (231, attr ''Percent_Lifetime_Remain'' TypeRaw48 '''' 0),
        (241, attr ''Host_Writes_GiB'' TypeRaw48 '''' 0)]) 0,
    dev ''ATP SATA III Superior Line SSDs''
     ''ATP (SATA III|SATAIII|I-Temp. SATA III|I-Temp. SATAIII) (M.2 (2242|2280)|mSATA|2.5 inch) SSD''
     ''T0205B|U0316B''
      (Some [(1, attr ''Raw_Read_Error_Count'' TypeRaw48 '''' 0),
        (5, attr ''Realloc_Flash_Blocks_Ct'' TypeRaw16OptRaw16 '''' 0),
        (14, attr ''Device_Raw_Capacity'' TypeRaw48 '''' 0),
        (15, attr ''Device_User_Capacity'' TypeRaw48 '''' 0),
        (16, attr ''Initial_Spare_Blocks'' TypeRaw48 '''' 0),
        (17, attr ''Remaining_Spare_Blocks'' TypeRaw48 '''' 0),
        (100, attr ''Total_Erease_Count'' TypeRaw48 '''' 0),
        (160, attr ''Uncorrectable_Sectors'' TypeRaw48 '''' 0),
        (172, attr ''Block_Erase_Failures'' TypeRaw48 '''' 0),
        (173, attr ''Maximum_Erase_Count'' TypeRaw48 '''' 0),
        (174, attr ''Unexpected_Power_Loss'' TypeRaw48 '''' 0),
        (175, attr ''Average_Erase_Count'' TypeRaw48 '''' 0),
        (181, attr ''Block_Program_Failures'' TypeRaw48 '''' 0),
        (187, attr ''Reported_Uncorr_Errors'' TypeRaw48 '''' 0),
        (197, attr ''Current_Pending_ECC_Cnt'' TypeRaw48 '''' 0),
        (198, attr ''Offline_UErr_Media_Scan'' TypeRaw48 '''' 0),
        (199, attr ''SATA_FIS_CRC_Errors'' TypeRaw48 '''' 0),
        (202, attr ''Percent_Lifetime_Used'' TypeRaw48 '''' 0),
        (205, attr ''Thermal_Asperity_Rate'' TypeRaw48 '''' 0),
        (231, attr ''Controller_Temperature'' TypeTempMinMax '''' 0),
        (234, attr ''Sectors_Read_from_NAND'' TypeRaw48 '''' 0),
        (235, attr ''Sectors_Written_to_SSD'' TypeRaw48 '''' 0),
        (241, attr ''Sectors_Written_to_NAND'' TypeRaw48 '''' 0),
        (242, attr ''Sectors_Read_from_SSD'' TypeRaw48 '''' 0),
        (248, attr ''Percent_Lifetime_Remain'' TypeRaw48 '''' 0),
        (249, attr ''Spare_Blocks_Remaining'' TypeRaw48 '''' 0)]) 0,
    dev ''ATP SATA III aMLC M.2 2242/80 Embedded SSDs''
     (''ATP I-Temp M'' @ bsl @ ''.2 22(42|80)'')
     ''''
      (Some [(1, attr ''Raw_Read_Error_Count'' TypeRaw48 '''' 0),
        (14, attr ''Device_Raw_Capacity'' TypeRaw48 '''' 0),
        (15, attr ''Device_User_Capacity'' TypeRaw48 '''' 0),
        (16, attr ''Initial_Spare_Blocks'' TypeRaw48 '''' 0),
        (17, attr ''Remaining_Spare_Blocks'' TypeRaw48 '''' 0),
        (100, attr ''Total_Erease_Count'' TypeRaw48 '''' 0),
        (160, attr ''Uncorrectable_Sectors'' TypeRaw48 '''' 0),
        (172, attr ''Block_Erase_Failure'' TypeRaw48 '''' 0),
        (173, attr ''Max_Erase_Count'' TypeRaw48 '''' 0),
        (174, attr ''Unexpected_Power_Cycle'' TypeRaw48 '''' 0),
        (175, attr ''Average_Erase_Count'' TypeRaw48 '''' 0),
        (181, attr ''Program_Fail_Blocks'' TypeRaw48 '''' 0),
        (187, attr ''Reported_UE_Counts'' TypeRaw48 '''' 0),
        (194, attr ''Device_Temperature'' TypeRaw48 '''' 0),
        (199, attr ''SATA_CRC_Error_Count'' TypeRaw48 '''' 0),
        (202, attr ''Percent_Lifetime_Used'' TypeRaw48 '''' 0),
        (205, attr ''Thermal_Asperity_Rate'' TypeRaw48 '''' 0),
        (231, attr ''Controller_Temperature'' TypeRaw48 '''' 0),
        (234, attr ''Nand_Sectors_Read'' TypeRaw48 '''' 0),
        (235, attr ''Device_Sectors_Written'' TypeRaw48 '''' 0),
        (241, attr ''Nand_Sectors_Written'' TypeRaw48 '''' 0),
        (242, attr ''Device_Bytes_Read'' TypeRaw48 '''' 0),
        (248, attr ''PCT_Life_Remaining'' TypeRaw48 '''' 0),
        (249, attr ''Spare_Block_Remaining'' TypeRaw48 '''' 0)]) 0,
    dev ''Crucial/Micron RealSSD C300/P300''
     ''C300-CTFDDA[AC](064|128|256)MAG|(C300-)?MTFDBAK(064|128|256)MAG(-1G1)?|P300-MTFDDAC(050|100|200)SAL''
     ''''
      (Some [(170, attr ''Grown_Failing_Block_Ct'' TypeRaw48 '''' 0),
        (171, attr ''Program_Fail_Count'' TypeRaw48 '''' 0),
        (172, attr ''Erase_Fail_Count'' TypeRaw48 '''' 0),
        (173, attr ''Wear_Leveling_Count'' TypeRaw48 '''' 0),
        (174, attr ''Unexpect_Power_Loss_Ct'' TypeRaw48 '''' 0),
        (181, attr ''Non4k_Aligned_Access'' TypeRaw16 '''' 0),
        (183, attr ''SATA_Iface_Downshift'' TypeRaw48 '''' 0),
        (189, attr ''Factory_Bad_Block_Ct'' TypeRaw48 '''' 0),
        (202, attr ''Percent_Lifetime_Used'' TypeRaw48 '''' 0),
        (206, attr ''Write_Error_Rate'' TypeRaw48 '''' 0)]) 0,
    dev ''Crucial/Micron RealSSD m4/C400/P400''
     ''C400-MTFDDA[ACK](064|128|256|512)MAM|M4-CT(032|064|128|256|512)M4SSD[123]|MTFDDA[AK](064|128|256|512|050|100|200|400)MA[MNR]-1[JKS]1.*''
     ''030[9-Z]|03[1-Z].|0[4-Z]..|[1-Z]....*''
      (Some [(170, attr ''Grown_Failing_Block_Ct'' TypeRaw48 '''' 0),
        (171, attr ''Program_Fail_Count'' TypeRaw48 '''' 0),
        (172, attr ''Erase_Fail_Count'' TypeRaw48 '''' 0),
        (173, attr ''Wear_Leveling_Count'' TypeRaw48 '''' 0),
        (174, attr ''Unexpect_Power_Loss_Ct'' TypeRaw48 '''' 0),
        (181, attr ''Non4k_Aligned_Access'' TypeRaw16 '''' 0),
        (183, attr ''SATA_Iface_Downshift'' TypeRaw48 '''' 0),
        (189, attr ''Factory_Bad_Block_Ct'' TypeRaw48 '''' 0),
        (202, attr ''Perc_Rated_Life_Used'' TypeRaw48 '''' 0),
        (206, attr ''Write_Error_Rate'' TypeRaw48 '''' 0),
        (225, attr ''Unknown_Marvell_Attr'' TypeRaw48 '''' 0),
        (231, attr ''Unknown_Marvell_Attr'' TypeRaw48 '''' 0),
        (242, attr ''Host_Reads'' TypeRaw48 '''' 0)]) 0,
    dev ''Crucial/Micron RealSSD m4/C400''
     ''C400-MTFDDA[ACK](064|128|256|512)MAM|M4-CT(032|064|128|256|512)M4SSD[123]''
     ''''
      (Some [(170, attr ''Grown_Failing_Block_Ct'' TypeRaw48 '''' 0),
        (171, attr ''Program_Fail_Count'' TypeRaw48 '''' 0),
        (172, attr ''Erase_Fail_Count'' TypeRaw48 '''' 0),
        (173, attr ''Wear_Leveling_Count'' TypeRaw48 '''' 0),
        (174, attr ''Unexpect_Power_Loss_Ct'' TypeRaw48 '''' 0),
        (181, attr ''Non4k_Aligned_Access'' TypeRaw16 '''' 0),
        (183, attr ''SATA_Iface_Downshift'' TypeRaw48 '''' 0),
        (189, attr ''Factory_Bad_Block_Ct'' TypeRaw48 '''' 0),
        (202, attr ''Perc_Rated_Life_Used'' TypeRaw48 '''' 0),
        (206, attr ''Write_Error_Rate'' TypeRaw48 '''' 0)]) 0,
    dev ''Crucial/Micron Client SSDs''
     ''Crucial_CT(128|256|512)MX100SSD1|Crucial_CT(200|250|256|500|512|1000|1024)MX200SSD[1346]|Crucial_CT(275|525|750|1050|2050)MX300SSD[14]|Crucial_CT(120|240|480|960)M500SSD[134]|Crucial_CT(128|256|512|1024)M550SSD[134]|CT(120|240|480)BX300SSD1|CT(120|240|480|960|[124]000)BX500SSD1|CT(250|500|[124]000)MX500SSD[14][A-Z]?|Micron_M500_MTFDDA[KTV](120|240|480|960)MAV|Micron_M500DC_(EE|MT)FDDA[AK](120|240|480|800)MBB|(Micron[_ ])?M500IT[_ ]MTFDDA[KTY](032|050|060|064|120|128|240|256)[MS]BD|(Micron_)?M510[_-]MTFDDA[KTV](128|256)MAZ|MICRON_M510DC_(EE|MT)FDDAK(120|240|480|800|960)MBP|(Micron_)?M550[_-]MTFDDA[KTV](064|128|256|512|1T0)MAY|(Micron_M600_)?(EE|MT)FDDA[KTV](128|256|512|1T0)MBF[25Z]?(-.*)?|(Micron_1100_)?MTFDDA[KV](256|512|1T0|2T0)TBN(-.*)?|Micron 1100 SATA (256G|512G|1T|2T)B|(Micron_1300_)?(EE|MT)FDDA[KV](256|512|1T0|2T0)TDL(-.*)?''
     ''''
      (Some [(5, attr ''Reallocate_NAND_Blk_Cnt'' TypeRaw48 '''' 0),
        (170, attr ''Reserved_Block_Count'' TypeRaw48 '''' 0),
        (171, attr ''Program_Fail_Count'' TypeRaw48 '''' 0),
        (172, attr ''Erase_Fail_Count'' TypeRaw48 '''' 0),
        (173, attr ''Ave_Block-Erase_Count'' TypeRaw48 '''' 0),
        (174, attr ''Unexpect_Power_Loss_Ct'' TypeRaw48 '''' 0),
        (180, attr ''Unused_Reserve_NAND_Blk'' TypeRaw48 '''' 0),
        (183, attr ''SATA_Interfac_Downshift'' TypeRaw48 '''' 0),
        (184, attr ''Error_Correction_Count'' TypeRaw48 '''' 0),
        (195, attr ''Cumulativ_Corrected_ECC'' TypeRaw48 '''' 0),
        (197, attr ''Current_Pending_ECC_Cnt'' TypeRaw48 '''' 0),
        (202, attr ''Percent_Lifetime_Remain'' TypeRaw48 '''' 0),
        (206, attr ''Write_Error_Rate'' TypeRaw48 '''' 0),
        (210, attr ''Success_RAIN_Recov_Cnt'' TypeRaw48 '''' 0),
        (223, attr ''Tot_Bg_Scan_ECC_Fail_Ct'' TypeRaw48 '''' 0),
        (246, attr ''Total_LBAs_Written'' TypeRaw48 '''' 0),
        (247, attr ''Host_Program_Page_Count'' TypeRaw48 '''' 0),
        (248, attr ''FTL_Program_Page_Count'' TypeRaw48 '''' 0),
        (249, attr ''Total_Refresh_ISP_Count'' TypeRaw48 '''' 0),
        (250, attr ''Total_Do_RefCal_Count'' TypeRaw48 '''' 0),
        (251, attr ''Tot_NAND_Rd_Plane_Cnt_L'' TypeHex48 '''' 0),
        (252, attr ''Tot_NAND_Rd_Plane_Cnt_H'' TypeHex48 '''' 0),
        (253, attr ''Tot_Blk_Remap_Pass_Cnt'' TypeRaw48 '''' 0),
        (254, attr ''Tot_Bg_Scan_Over_Limit'' TypeRaw48 '''' 0)]) 0,
    dev ''Maxio based SSDs (variant 1)''
     ''ADATA_IM2S3164-(064|128|256|512)G[DP]A|ADATA_IM2S3168-((064|128|256|512)G|001T)[DP]|NT-(128|256|512)|P3-(128|256|512|[124]TB)|ZHITAI SC001 (Active ((256|512)GB|1TB) SSD|XT (250|500|1000)GB)''
     ''S180718z|T18[0-9]{4}|ZT[0-9A-Z]{6}''
      (Some [(5, attr ''New_Bad_Block_Count'' TypeRaw16OptRaw16 '''' 0),
        (167, attr ''SSD_Protect_Mode'' TypeRaw48 '''' 0),
        (168, attr ''SATA_PHY_Error_Count'' TypeRaw48 '''' 0),
        (169, attr ''Bad_Block_Count'' TypeRaw16OptRaw16 '''' 0),
        (170, attr ''Max_Bad_Block_Count'' TypeRaw48 '''' 0),
        (171, attr ''Program_Fail_Count'' TypeRaw48 '''' 0),
        (172, attr ''Erase_Fail_Count'' TypeRaw48 '''' 0),
        (173, attr ''Erase_Count'' TypeRaw16 '''' 0),
        (175, attr ''Bad_Cluster_Count'' TypeRaw48 '''' 0),
        (180, attr ''Spare_Blk_Count_Left'' TypeRaw48 '''' 0),
        (183, attr ''SATA_Downshift_Count'' TypeRaw48 '''' 0),
        (190, attr ''Temperature_Celsius'' TypeTempMinMax '''' 0),
        (192, attr ''Unexpect_Power_Loss_Ct'' TypeRaw48 '''' 0),
        (196, attr ''Reallocated_Event_Count'' TypeRaw48 '''' 0),
        (206, attr ''Min_Erase_Count'' TypeRaw48 '''' 0),
        (207, attr ''Max_Erase_Count'' TypeRaw48 '''' 0),
        (208, attr ''Avg_Erase_Count'' TypeRaw48 '''' 0),
        (209, attr ''SLC_Min_Erase_Count'' TypeRaw48 '''' 0),
        (210, attr ''SLC_Max_Erase_Count'' TypeRaw48 '''' 0),
        (211, attr ''SLC_Avg_Erase_Count'' TypeRaw48 '''' 0),
        (231, attr ''SSD_Life_Left'' TypeRaw48 '''' 0),
        (233, attr ''NAND_Write_Sector_Cnt'' TypeRaw48 '''' 0),
        (234, attr ''NAND_Read_Sector_Cnt'' TypeRaw48 '''' 0),
        (243, attr ''NAND_Temperature'' TypeRaw48 '''' 0),
        (245, attr ''Bit_Error_Count'' TypeRaw16OptRaw16 '''' 0)]) 0,
    dev ''Maxio based SSDs (variant 2)''
     ''Fanxiang S101 ((128|256|500|512)G|[124]T)B|FORESEE ((128|256|512)G|[12]T)B SSD|HP SSD S600 (120|240)GB|HS-SSD-E100N? (128|256|512|1024)G|Lexar 128GB SSD|P3-(128|256|512|[124]TB)|Patriot Burst Elite (120|240|480|960|1920)GB|SPCC Solid State Disk|SSDPR-CX400-(128|256|512|01T|02T)-G2|Verbatim Vi560 SATA III M.2 SSD''
     ''03[01]fAA20|J00fae20|H(19[0-9]{4}[DH]?|2212[0-9]{2}a?)|SN(0(73|89|94)|81|1(18|41))[0-9]{2}|V1.2.7''
      (Some [(5, attr ''New_Bad_Blk_Count'' TypeRaw16OptRaw16 '''' 0),
        (7, attr ''Unknown_Maxio_Attribute'' TypeRaw48 '''' 0),
        (8, attr ''Unknown_Maxio_Attribute'' TypeRaw48 '''' 0),
        (10, attr ''Unknown_Maxio_Attribute'' TypeRaw48 '''' 0),
        (167, attr ''SSD_Protect_Mode'' TypeRaw48 '''' 0),
        (168, attr ''SATA_PHY_Error_Count'' TypeRaw48 '''' 0),
        (169, attr ''Bad_Block_Count'' TypeRaw16OptRaw16 '''' 0),
        (170, attr ''Unknown_Maxio_Attribute'' TypeRaw48 '''' 0),
        (171, attr ''Program_Fail_Count'' TypeRaw48 '''' 0),
        (172, attr ''Erase_Fail_Count'' TypeRaw48 '''' 0),
        (173, attr ''Erase_Count'' TypeRaw16 '''' 0),
        (174, attr ''Unknown_Maxio_Attribute'' TypeRaw48 '''' 0),
        (175, attr ''Bad_Cluster_Count'' TypeRaw48 '''' 0),
        (177, attr ''Read_Retry_Count'' TypeRaw48 '''' 0),
        (180, attr ''Spare_Blk_Count_Left'' TypeRaw48 '''' 0),
        (192, attr ''Unexpect_Power_Loss_Ct'' TypeRaw48 '''' 0),
        (206, attr ''Min_Erase_Count'' TypeRaw48 '''' 0),
        (207, attr ''Max_Erase_Count'' TypeRaw48 '''' 0),
        (208, attr ''Avg_Erase_Count'' TypeRaw48 '''' 0),
        (209, attr ''SLC_Min_Erase_Count'' TypeRaw48 '''' 0),
        (210, attr ''SLC_Max_Erase_Count'' TypeRaw48 '''' 0),
        (211, attr ''SLC_Avg_Erase_Count'' TypeRaw48 '''' 0),
        (231, attr ''SSD_Life_Left'' TypeRaw48 '''' 0),
        (234, attr ''Unknown_Maxio_Attribute'' TypeRaw48 '''' 0),
        (241, attr ''Host_Writes_GiB'' TypeRaw48 '''' 0),
        (242, attr ''Host_Reads_GiB'' TypeRaw48 '''' 0),
        (243, attr ''Unknown_Maxio_Attribute'' TypeRaw16OptRaw16 '''' 0),
        (245, attr ''Bit_Error_Count'' TypeRaw16OptRaw16 '''' 0)]) 0,
    dev ''Maxio based SSDs (variant 3)''
     ''(128|256|512)GB SSD|V Series SATA SSD (120|240|250|480|500|960)GB|Lexar (512G|[12]T)B SSD|Lexar SSD NQ100 (24|48|96)0GB|Patriot Burst Elite (120|240|480|960|1920)GB|PNY 1TB SATA SSD|Verbatim Vi550 S3|Verbatim Vi560 S3''
     ''SN1(19|25|31|59)[0-9]{2}|H2209[0-9]{2}a?''
      (Some [(5, attr ''New_Bad_Blk_Count'' TypeRaw16OptRaw16 '''' 0),
        (164, attr ''Erase_Count'' TypeRaw16 '''' 0),
        (165, attr ''Max_Erase_Count'' TypeRaw48 '''' 0),
        (166, attr ''Min_Erase_Count'' TypeRaw48 '''' 0),
        (167, attr ''Average_Erase_Count'' TypeRaw48 '''' 0),
        (168, attr ''SATA_Phy_Error_Count'' TypeRaw48 '''' 0),
        (169, attr ''Bad_Block_Count'' TypeRaw16OptRaw16 '''' 0),
        (170, attr ''Unknown_Maxio_Attribute'' TypeRaw48 '''' 0),
        (171, attr ''Program_Fail_Count'' TypeRaw48 '''' 0),
        (172, attr ''Erase_Fail_Count'' TypeRaw48 '''' 0),
        (174, attr ''Unknown_Maxio_Attribute'' TypeRaw48 '''' 0),
        (175, attr ''Bad_Cluster_Count'' TypeRaw48 '''' 0),
        (180, attr ''Spare_Blk_Count_Left'' TypeRaw48 '''' 0),
        (192, attr ''Unexpect_Power_Loss_Ct'' TypeRaw48 '''' 0),
        (209, attr ''SLC_Min_Erase_Count'' TypeRaw48 '''' 0),
        (210, attr ''SLC_Max_Erase_Count'' TypeRaw48 '''' 0),
        (211, attr ''SLC_Avg_Erase_Count'' TypeRaw48 '''' 0),
        (231, attr ''SSD_Life_Left'' TypeRaw48 '''' 0),
        (241, attr ''Host_Writes_GiB'' TypeRaw48 '''' 0),
        (242, attr ''Host_Reads_GiB'' TypeRaw48 '''' 0),
        (243, attr ''Unknown_Maxio_Attribute'' TypeRaw48 '''' 0),
        (245, attr ''Bit_Error_Count'' TypeRaw16OptRaw16 '''' 0)]) 0]"

definition ataDevices2 :: "ataDeviceInfo list" where
  "ataDevices2 = [
    dev ''Maxio based SSDs (variant 4)''
     ''Lexar SSD NS100 ((128|256|512)G|[12]T)B''
     ''SN177[0-9]{2}''
      (Some [(5, attr ''New_Bad_Blk_Count'' TypeRaw16OptRaw16 '''' 0),
        (164, attr ''Erase_Count'' TypeRaw16 '''' 0),
        (165, attr ''Max_Erase_Count'' TypeRaw48 '''' 0),
        (166, attr ''Min_Erase_Count'' TypeRaw48 '''' 0),
        (167, attr ''Average_Erase_Count'' TypeRaw48 '''' 0),
        (241, attr ''Host_Writes_32MiB'' TypeRaw48 '''' 0),
        (242, attr ''Host_Reads_32MiB'' TypeRaw48 '''' 0)]) 0,
    dev ''Hosin Global HG2258 based SSDs''
     ''M.2 2280 SATA SSD|Verbatim Vi550 S3''
     (''[HP]AFE[AC]2'' @ bsl @ ''.0'')
      (Some [(161, attr ''Valid_Spare_Block_Cnt'' TypeRaw48 '''' 0),
        (163, attr ''Initial_Bad_Block_Count'' TypeRaw48 '''' 0),
        (165, attr ''Max_Erase_Count'' TypeRaw48 '''' 0),
        (166, attr ''Min_Erase_Count'' TypeRaw48 '''' 0),
        (167, attr ''Average_Erase_Count'' TypeRaw48 '''' 0),
        (172, attr ''Erase_Fail_Count'' TypeRaw48 '''' 0),
        (173, attr ''Unkn_HosinGlobal_Attr'' TypeRaw48 '''' 0),
        (192, attr ''Unexpect_Power_Loss_Ct'' TypeRaw48 '''' 0),
        (241, attr ''Host_Writes_GiB'' TypeRaw48 '''' 0),
        (242, attr ''Host_Reads_GiB'' TypeRaw48 '''' 0),
        (249, attr ''Unkn_HosinGlobal_Attr'' TypeRaw48 '''' 0)]) 0,
    dev ''Hosin Global HG2259 based SSDs''
     ''Patriot P220 (128|256|512)GB''
     (''HDFEB3'' @ bsl @ ''.2'')
      (Some [(160, attr ''Uncorrectable_Error_Cnt'' TypeRaw48 '''' 0),
        (161, attr ''Valid_Spare_Block_Cnt'' TypeRaw48 '''' 0),
        (163, attr ''Initial_Bad_Block_Count'' TypeRaw48 '''' 0),
        (164, attr ''Total_Erase_Count'' TypeRaw48 '''' 0),
        (165, attr ''Max_Erase_Count'' TypeRaw48 '''' 0),
        (166, attr ''Min_Erase_Count'' TypeRaw48 '''' 0),
        (167, attr ''Average_Erase_Count'' TypeRaw48 '''' 0),
        (172, attr ''Erase_Fail_Count'' TypeRaw48 '''' 0),
        (173, attr ''Unkn_HosinGlobal_Attr'' TypeRaw48 '''' 0),
        (192, attr ''Unexpect_Power_Loss_Ct'' TypeRaw48 '''' 0),
        (241, attr ''Host_Writes_32MiB'' TypeRaw48 '''' 0),
        (242, attr ''Host_Reads_32MiB'' TypeRaw48 '''' 0),
        (249, attr ''Unkn_HosinGlobal_Attr'' TypeRaw48 '''' 0)]) 0,
    dev ''Micron 5100 / 52x0 / 5300 / 5400 SSDs''
     ''(Micron_5100_)?(EE|MT)FDDA[KV](240|480|960|1T9|3T8|7T6)T(BY|CB|CC)(_SED)?|(Micron_5200_)?MTFDDAK(240|480|960|1T9|3T8|7T6)TD(C|D|N)|Micron_5210_MTFDDAK(480|960|1T9|3T8|7T6)QDE|(Micron_5300(HC)?_)?MTFDDA[KV](240|480|960|1T9|3T8|7T6)TD[STU]([-_].*)?|(Micron_5400_)?(EE|MT)FDDA[KV](240|480|960|1T9|3T8|7T6)TG[ABC](_SED)?|VK001920G(WSXK|XAWN)''
     ''''
      (Some [(170, attr ''Reserved_Block_Pct'' TypeRaw48 '''' 0),
        (171, attr ''Program_Fail_Count'' TypeRaw48 '''' 0),
        (172, attr ''Erase_Fail_Count'' TypeRaw48 '''' 0),
        (173, attr ''Avg_Block-Erase_Count'' TypeRaw48 '''' 0),
        (174, attr ''Unexpect_Power_Loss_Ct'' TypeRaw48 '''' 0),
        (183, attr ''SATA_Int_Downshift_Ct'' TypeRaw48 '''' 0),
        (202, attr ''Percent_Lifetime_Remain'' TypeRaw48 '''' 0),
        (206, attr ''Write_Error_Rate'' TypeRaw48 '''' 0),
        (210, attr ''RAIN_Success_Recovered'' TypeRaw48 '''' 0),
        (211, attr ''Integ_Scan_Complete_Cnt'' TypeRaw48 '''' 0),
        (212, attr ''Integ_Scan_Folding_Cnt'' TypeRaw48 '''' 0),
        (213, attr ''Integ_Scan_Progress'' TypeRaw48 '''' 0),
        (246, attr ''Total_LBAs_Written'' TypeRaw48 '''' 0),
        (247, attr ''Host_Program_Page_Count'' TypeRaw48 '''' 0),
        (248, attr ''Bckgnd_Program_Page_Cnt'' TypeRaw48 '''' 0)]) 0,
    dev ''Micron M500DC/M510DC Enterprise SSDs''
     ''Micron_M500DC_(EE|MT)FDDA[AK](120|240|480|800)MBB|MICRON_M510DC_(EE|MT)FDDAK(120|240|480|800|960)MBP''
     ''''
      (Some [(5, attr ''Reallocated_Block_Count'' TypeRaw48 '''' 0),
        (170, attr ''Reserved_Block_Count'' TypeRaw48 '''' 0),
        (171, attr ''Program_Fail_Count'' TypeRaw48 '''' 0),
        (172, attr ''Erase_Fail_Count'' TypeRaw48 '''' 0),
        (173, attr ''Ave_Block-Erase_Count'' TypeRaw48 '''' 0),
        (174, attr ''Unexpect_Power_Loss_Ct'' TypeRaw48 '''' 0),
        (184, attr ''Error_Correction_Count'' TypeRaw48 '''' 0),
        (188, attr ''Command_Timeouts'' TypeRaw48 '''' 0),
        (195, attr ''Cumulativ_Corrected_ECC'' TypeRaw48 '''' 0),
        (202, attr ''Percent_Lifetime_Remain'' TypeRaw48 '''' 0),
        (206, attr ''Write_Error_Rate'' TypeRaw48 '''' 0),
        (247, attr ''Host_Program_Page_Count'' TypeRaw48 '''' 0),
        (248, attr ''Bckgnd_Program_Page_Cnt'' TypeRaw48 '''' 0)]) 0,
    dev ''SandForce Driven SSDs''
     ''Corsair Force LS SSD''
     (''S9FM01'' @ bsl @ ''.8'')
      (Some [(1, attr ''Raw_Read_Error_Rate'' TypeRaw24DivRaw32 '''' 0),
        (5, attr ''Retired_Block_Count'' TypeRaw48 '''' 0),
        (9, attr ''Power_On_Hours_and_Msec'' TypeMsec24Hour32 '''' 0),
        (162, attr ''Unknown_SandForce_Attr'' TypeRaw48 '''' 0),
        (170, attr ''Reserve_Block_Count'' TypeRaw48 '''' 0),
        (172, attr ''Erase_Fail_Count'' TypeRaw48 '''' 0),
        (173, attr ''Unknown_SandForce_Attr'' TypeRaw48 '''' 0),
        (174, attr ''Unexpect_Power_Loss_Ct'' TypeRaw48 '''' 0),
        (181, attr ''Program_Fail_Count'' TypeRaw48 '''' 0),
        (218, attr ''Unknown_SandForce_Attr'' TypeRaw48 '''' 0),
        (231, attr ''SSD_Life_Left'' TypeRaw48 '''' 0),
        (241, attr ''Lifetime_Writes_GiB'' TypeRaw48 '''' 0),
        (242, attr ''Lifetime_Reads_GiB'' TypeRaw48 '''' 0)]) 0,
    dev ''SandForce Driven SSDs''
     ''SanDisk SDSSDA(120|240|480)G|SanDisk SD8S[BFN]AT128G1(00|12)2''
     ''''
      (Some [(5, attr ''Retired_Block_Count'' TypeRaw48 '''' 0),
        (166, attr ''Min_PE_Cycles'' TypeRaw48 '''' 0),
        (167, attr ''Max_Bad_Blocks_Per_Die'' TypeRaw48 '''' 0),
        (168, attr ''Max_PE_Cycles'' TypeRaw48 '''' 0),
        (169, attr ''Total_Bad_Blocks'' TypeRaw48 '''' 0),
        (170, attr ''Grown_Bad_Blocks'' TypeRaw48 '''' 0),
        (171, attr ''Program_Fail_Count'' TypeRaw48 '''' 0),
        (172, attr ''Erase_Fail_Count'' TypeRaw48 '''' 0),
        (173, attr ''Average_PE_Cycles'' TypeRaw48 '''' 0),
        (174, attr ''Unexpect_Power_Loss_Ct'' TypeRaw48 '''' 0),
        (230, attr ''Media_Wearout_Indicator'' TypeRaw48 '''' 0),
        (233, attr ''NAND_GiB_Written'' TypeRaw48 '''' 0),
        (241, attr ''Lifetime_Writes_GiB'' TypeRaw48 '''' 0),
        (242, attr ''Lifetime_Reads_GiB'' TypeRaw48 '''' 0)]) 0,
    dev ''SandForce Driven SSDs''
     (''SandForce 1st Ed'' @ bsl @ ''.|ADATA SSD DP900 (64|128|256|512)GB-DL3|ADATA SSD S(396|510|599) .?..GB|ADATA SP[389]00|ADATA SSD S[PX]900 (64|128|256|512)GB-DL2|ADATA XM11 (128|256)GB|ATP Velocity MIV (60|120|240|480)GB|Axiom Signature Series III SSD|Comay BladeDrive E28 (800|1600|3200)GB|Corsair CSSD-F(40|60|80|115|120|160|240)GBP?2.*|Corsair Voyager GTX|Corsair Force ((3 |LS )?SSD|GS|GT)|FM-25S2S-(60|120|240)GBP2|FTM(06|12|24|48)CT25H|KINGSTON RBU-SC400S37(64|128|256)G|KINGSTON SE50S37?(100|240|480)G|KINGSTON SH10[03]S3(90|120|240|480)G|KINGSTON SKC(300S37A|380S3)(60|120|180|240|480)G|KINGSTON SVP200S3(7A)?(60|90|120|240|480)G|KINGSTON SMS200S3(30|60|120)G|KINGSTON SMS450S3(32|64|128)G|KINGSTON (SV300|SKC100|SE100)S3.*G|KINGSTON SHFS37A(120|240|480)G|KINGSTON SNS4151S316GD|MKNSSDCR(45|60|90|120|180|240|360|480)GB(-(7|DX7?|MX|G2))?|MKNSSDEC(60|120|240|480|512)GB|MKNSSDAT(30|40|60|120|180|240|480)GB(-(DX|V))?|Mushkin MKNSSDCL(40|60|80|90|115|120|180|240|480)GB-DX2?|MXSSD3MDSF-(60|120)G|OCZ[ -](AGILITY2([ -]EX)?|COLOSSUS2|ONYX2|VERTEX(2|-LE))( [123]'' @ bsl @ ''..*)?|OCZ-NOCTI|OCZ-REVODRIVE3?( X2)?|OCZ-REVODRIVE350|OCZ[ -](VELO|VERTEX2[ -](EX|PRO))( [123]'' @ bsl @ ''..*)?|D2[CR]STK251...-....('' @ bsl @ ''.C)?|OCZ-(AGILITY3|SOLID3|VERTEX3('' @ bsl @ ''.20| LT| MI)?)|OCZ Z-DRIVE R4 [CR]M8[48]|OCZ Z-DRIVE 4500|OCZ-VELO DRIVE|TALOS2|(APOC|DENC|DENEVA|FTNC|GFGC|MANG|MMOC|NIMC|TMSC).*|(DENR|DRSAK|EC188|NIMR|PSIR|TRSAK).*|OWC Aura Pro( 6G SSD)?|OWC Mercury Electra (Pro )?[36]G SSD|OWC Mercury E(xtreme|XTREME) Pro (6G |RE )?SSD|Patriot Pyro|SanDisk SDSSDX(60|120|240|480)GG25|SuperSSpeed S301 [0-9]*GB|SG9XCS2D(0?50|100|200|400)GESLT|SSD9SC(120|240|480)GED[EA]|(TX32|TX31C1|VN0.?..GCNMK).*|(TX22D1|TX21B1).*|TX52D1.*|TS(64|128|256|512)GSSD[37]20|UGB(88P|99S)GC...H[BF].|SG9XCS(1F|2D)(50|100|200|400)GE01|VisionTek GoDrive (60|120|240|480)GB'')
     ''''
      (Some [(1, attr ''Raw_Read_Error_Rate'' TypeRaw24DivRaw32 '''' 0),
        (5, attr ''Retired_Block_Count'' TypeRaw48 '''' 0),
        (9, attr ''Power_On_Hours_and_Msec'' TypeMsec24Hour32 '''' 0),
        (13, attr ''Soft_Read_Error_Rate'' TypeRaw24DivRaw32 '''' 0),
        (100, attr ''Gigabytes_Erased'' TypeRaw48 '''' 0),
        (162, attr ''Unknown_SandForce_Attr'' TypeRaw48 '''' 0),
        (170, attr ''Reserve_Block_Count'' TypeRaw48 '''' 0),
        (171, attr ''Program_Fail_Count'' TypeRaw48 '''' 0),
        (172, attr ''Erase_Fail_Count'' TypeRaw48 '''' 0),
        (173, attr ''Unknown_SandForce_Attr'' TypeRaw48 '''' 0),
        (174, attr ''Unexpect_Power_Loss_Ct'' TypeRaw48 '''' 0),
        (177, attr ''Wear_Range_Delta'' TypeRaw48 '''' 0),
        (181, attr ''Program_Fail_Count'' TypeRaw48 '''' 0),
        (182, attr ''Erase_Fail_Count'' TypeRaw48 '''' 0),
        (184, attr ''IO_Error_Detect_Code_Ct'' TypeRaw48 '''' 0),
        (189, attr ''Airflow_Temperature_Cel'' TypeTempMinMax '''' 0),
        (195, attr ''ECC_Uncorr_Error_Count'' TypeRaw24DivRaw32 '''' 0),
        (198, attr ''Uncorrectable_Sector_Ct'' TypeRaw24DivRaw32 ''210zr54'' 0),
        (199, attr ''SATA_CRC_Error_Count'' TypeRaw48 '''' 0),
        (201, attr ''Unc_Soft_Read_Err_Rate'' TypeRaw24DivRaw32 '''' 0),
        (204, attr ''Soft_ECC_Correct_Rate'' TypeRaw24DivRaw32 '''' 0),
        (218, attr ''Unknown_SandForce_Attr'' TypeRaw48 '''' 0),
        (230, attr ''Life_Curve_Status'' TypeRaw48 '''' 0),
        (231, attr ''SSD_Life_Left'' TypeRaw48 '''' 0),
        (233, attr ''SandForce_Internal'' TypeRaw48 '''' 0),
        (234, attr ''SandForce_Internal'' TypeRaw48 '''' 0),
        (235, attr ''SuperCap_Health'' TypeRaw48 '''' 0),
        (241, attr ''Lifetime_Writes_GiB'' TypeRaw48 '''' 0),
        (242, attr ''Lifetime_Reads_GiB'' TypeRaw48 '''' 0)]) 0,
    dev ''StorFly CFast SATA 6Gbps SSDs''
     ''StorFly VSFCS2C[CI](016|030|060|120|240)G-...''
     ''''
      (Some [(192, attr ''Unsafe_Shutdown_Count'' TypeRaw48 '''' 0),
        (160, attr ''Uncorrectable_Error_Cnt'' TypeRaw48 '''' 0),
        (161, attr ''Spares_Remaining'' TypeRaw48 '''' 0),
        (241, attr ''Host_Writes_32MiB'' TypeRaw48 '''' 0),
        (242, attr ''Host_Reads_32MiB'' TypeRaw48 '''' 0),
        (169, attr ''Lifetime_Remaining%'' TypeRaw48 '''' 0),
        (248, attr ''Lifetime_Remaining%'' TypeRaw48 '''' 0),
        (249, attr ''Spares_Remaining_Perc'' TypeRaw48 '''' 0)]) 0,
    dev ''Phison Driven SSDs''
     ''BP4 mSATA SSD|Corsair Force LE(200)? SSD|CUBEX CS500 (128|256|480|960|1024)GB|DGSR2(128|256|512)GP13T|FOXLINE FLSSD(120|128|240|256|480|512|960|1024)X5SE|GIGABYTE GP-GSTFS31((120|240|256|480)G|100T)NTD|GOODRAM IRIDIUM PRO|Hoodisk SSD|IRP?-SSDPR-S25[AC]-(120|240|256|480|512|960|0[12]T)|KINGSTON O(C|M[48S])P0S3(64|128|256|512)B-[0A]0|KINGSTON RBUSNS(4|8)180S3(32|64|128|256|512)GJ|KINGSTON SEDC400S37(400|480|800|960|1600|1800)G|KINGSTON SEDC(450R|500[MR]|600ME?)(480|960|1920|3840|7680)G|KINGSTON SM2280S3(G2)?(120|240|480)G|KINGSTON SUV300S37A(120|240|480)G|KINGSTON SKC310S3B?7A960G|KINGSTON SKC400S37(128G|256G|512G|1T)|KINGSTON SV310S3(7A|D7|N7A|B7A)960G|KINGSTON SHSS3B?7A(120|240|480|960)G|KINGSTON SS200S330G|KINGSTON  ?SA400(M8|S37)(120|240|480|960)G|KIOXIA-EXCERIA SATA SSD|MSI S270 (120|240|480|960)GB|Patriot (Blast|Blaze|Flare|Ignite)|Patriot Burst( (120|240|480|960)GB)?|PNY CS(900|1311|2211) ((12|2[45]|48|50|96)0G|[12]T)B SSD|PNY ELITE PSSD|S11-(128|256|512)G-PHISON-SSD-B27|SSD Smartbuy (60|64|120|128|240|256|480|512|960|1024|2000)GB|SSD PHISON (128|256)GB PS3110-S10C|SSDPR-CX400-(128|256|512|1024)|TEAM L3 EVO SSD (120|240|480|960)GB|SSM28(128|256|512)GPTCB3B-S11[24]61[123]|SVM2S46(128|256|512)GNPI51UF''
     ''''
      (Some [(2, attr ''Not_In_Use'' TypeRaw48 '''' 0),
        (3, attr ''Not_In_Use'' TypeRaw48 '''' 0),
        (5, attr ''Retired_Block_Count'' TypeRaw48 '''' 0),
        (7, attr ''Not_In_Use'' TypeRaw48 '''' 0),
        (8, attr ''Not_In_Use'' TypeRaw48 '''' 0),
        (10, attr ''Not_In_Use'' TypeRaw48 '''' 0),
        (167, attr ''Write_Protect_Mode'' TypeRaw48 '''' 0),
        (168, attr ''SATA_Phy_Error_Count'' TypeRaw48 '''' 0),
        (169, attr ''Bad_Block_Rate'' TypeRaw48 '''' 0),
        (170, attr ''Bad_Blk_Ct_Lat/Erl'' TypeRaw24DivRaw24 ''z54z10'' 0),
        (172, attr ''Erase_Fail_Count'' TypeRaw48 '''' 0),
        (173, attr ''MaxAvgErase_Ct'' TypeRaw16OptAvg16 '''' 0),
        (175, attr ''Not_In_Use'' TypeRaw48 '''' 0),
        (181, attr ''Program_Fail_Count'' TypeRaw48 '''' 0),
        (182, attr ''Erase_Fail_Count'' TypeRaw48 '''' 0),
        (183, attr ''Unknown_Phison_Attr'' TypeRaw48 '''' 0),
        (192, attr ''Unsafe_Shutdown_Count'' TypeRaw48 '''' 0),
        (193, attr ''Power_Fail_Uncompl_Cnt'' TypeRaw48 '''' 0),
        (195, attr ''Power_Fail_Health'' TypeRaw48 '''' 0),
        (197, attr ''Not_In_Use'' TypeRaw48 '''' 0),
        (199, attr ''SATA_CRC_Error_Count'' TypeRaw48 '''' 0),
        (207, attr ''Thermal_Throttling_Cnt'' TypeRaw48 '''' 0),
        (218, attr ''CRC_Error_Count'' TypeRaw48 '''' 0),
        (231, attr ''SSD_Life_Left'' TypeRaw48 '''' 0),
        (232, attr ''Read_Fail_Count'' TypeRaw48 '''' 0),
        (233, attr ''Flash_Writes_GiB'' TypeRaw48 '''' 0),
        (240, attr ''Not_In_Use'' TypeRaw48 '''' 0),
        (241, attr ''Lifetime_Writes_GiB'' TypeRaw48 '''' 0),
        (242, attr ''Lifetime_Reads_GiB'' TypeRaw48 '''' 0),
        (244, attr ''Average_Erase_Count'' TypeRaw48 '''' 0),
        (245, attr ''Max_Erase_Count'' TypeRaw48 '''' 0),
        (246, attr ''Total_Erase_Count'' TypeRaw48 '''' 0)]) 0,
    dev ''Phison Driven OEM SSDs''
     ''Gigastone SSD|GOODRAM|INTENSO|INTENSO SATA III SSD|Kingmax SATA SSD (120|240|480|960)GB|SATA SSD|SPCC Solid State Disk|SSDPR-CX400-(128|256|512|1024|2028)-G2''
     (''S[89ABH]F[DM][0-9JLTY][0-9A]'' @ bsl @ ''.[0-9]'')
      (Some [(2, attr ''Not_In_Use'' TypeRaw48 '''' 0),
        (3, attr ''Not_In_Use'' TypeRaw48 '''' 0),
        (5, attr ''Retired_Block_Count'' TypeRaw48 '''' 0),
        (7, attr ''Not_In_Use'' TypeRaw48 '''' 0),
        (8, attr ''Not_In_Use'' TypeRaw48 '''' 0),
        (10, attr ''Not_In_Use'' TypeRaw48 '''' 0),
        (168, attr ''SATA_Phy_Error_Count'' TypeRaw48 '''' 0),
        (170, attr ''Bad_Blk_Ct_Lat/Erl'' TypeRaw24DivRaw24 ''z54z10'' 0),
        (173, attr ''MaxAvgErase_Ct'' TypeRaw16OptAvg16 '''' 0),
        (175, attr ''Not_In_Use'' TypeRaw48 '''' 0),
        (183, attr ''Unknown_Attribute'' TypeRaw48 '''' 0),
        (192, attr ''Unsafe_Shutdown_Count'' TypeRaw48 '''' 0),
        (196, attr ''Not_In_Use'' TypeRaw48 '''' 0),
        (197, attr ''Not_In_Use'' TypeRaw48 '''' 0),
        (199, attr ''CRC_Error_Count'' TypeRaw48 '''' 0),
        (218, attr ''CRC_Error_Count'' TypeRaw48 '''' 0),
        (231, attr ''SSD_Life_Left'' TypeRaw48 '''' 0),
        (233, attr ''Flash_Writes_GiB'' TypeRaw48 '''' 0),
        (240, attr ''Not_In_Use'' TypeRaw48 '''' 0),
        (241, attr ''Lifetime_Writes_GiB'' TypeRaw48 '''' 0),
        (242, attr ''Lifetime_Reads_GiB'' TypeRaw48 '''' 0),
        (244, attr ''Average_Erase_Count'' TypeRaw48 '''' 0),
        (245, attr ''Max_Erase_Count'' TypeRaw48 '''' 0),
        (246, attr ''Total_Erase_Count'' TypeRaw48 '''' 0)]) 0,
    dev ''Indilinx Barefoot based SSDs''
     (''Corsair CSSD-V(32|60|64|128|256)GB2|Corsair CMFSSD-(32|64|128|256)D1|CRUCIAL_CT(64|128|256)M225|G.SKILL FALCON (64|128|256)GB SSD|OCZ[ -](AGILITY|ONYX|VERTEX( 1199|-TURBO| v1'' @ bsl @ ''.10)?)|Patriot[ -]Torqx.*|RENICE Z2|STT_FT[MD](28|32|56|64)GX25H|TS(18|25)M(64|128)MLC(16|32|64|128|256|512)GSSD|FM-25S2I-(64|128)GBFII|TS(60|120)GSSD25D-M'')
     ''''
      (Some [(1, attr ''Raw_Read_Error_Rate'' TypeRaw64 '''' 0),
        (9, attr ''Power_On_Hours'' TypeRaw64 '''' 0),
        (12, attr ''Power_Cycle_Count'' TypeRaw64 '''' 0),
        (184, attr ''Initial_Bad_Block_Count'' TypeRaw64 '''' 0),
        (195, attr ''Program_Failure_Blk_Ct'' TypeRaw64 '''' 0),
        (196, attr ''Erase_Failure_Blk_Ct'' TypeRaw64 '''' 0),
        (197, attr ''Read_Failure_Blk_Ct'' TypeRaw64 '''' 0),
        (198, attr ''Read_Sectors_Tot_Ct'' TypeRaw64 '''' 0),
        (199, attr ''Write_Sectors_Tot_Ct'' TypeRaw64 '''' 0),
        (200, attr ''Read_Commands_Tot_Ct'' TypeRaw64 '''' 0),
        (201, attr ''Write_Commands_Tot_Ct'' TypeRaw64 '''' 0),
        (202, attr ''Error_Bits_Flash_Tot_Ct'' TypeRaw64 '''' 0),
        (203, attr ''Corr_Read_Errors_Tot_Ct'' TypeRaw64 '''' 0),
        (204, attr ''Bad_Block_Full_Flag'' TypeRaw64 '''' 0),
        (205, attr ''Max_PE_Count_Spec'' TypeRaw64 '''' 0),
        (206, attr ''Min_Erase_Count'' TypeRaw64 '''' 0),
        (207, attr ''Max_Erase_Count'' TypeRaw64 '''' 0),
        (208, attr ''Average_Erase_Count'' TypeRaw64 '''' 0),
        (209, attr ''Remaining_Lifetime_Perc'' TypeRaw64 '''' 0),
        (210, attr ''Indilinx_Internal'' TypeRaw64 '''' 0),
        (211, attr ''SATA_Error_Ct_CRC'' TypeRaw64 '''' 0),
        (212, attr ''SATA_Error_Ct_Handshake'' TypeRaw64 '''' 0),
        (213, attr ''Indilinx_Internal'' TypeRaw64 '''' 0)]) 0,
    dev ''Indilinx Barefoot_2/Everest/Martini based SSDs''
     ''OCZ VERTEX[ -]PLUS|OCZ-VERTEX PLUS R2|OCZ-OCTANE|OCZ-PETROL|OCZ-AGILITY4|OCZ-VERTEX4''
     ''''
      (Some [(232, attr ''Lifetime_Writes'' TypeRaw48 '''' 0)]) 0,
    dev ''Indilinx Barefoot 3 based SSDs''
     ''OCZ-VECTOR(1[58]0)?|OCZ-VERTEX4[56]0A?|OCZ-SABER1000|OCZ-ARC100|Radeon R7''
     ''''
      (Some [(5, attr ''Runtime_Bad_Block'' TypeRaw48 '''' 0),
        (171, attr ''Avail_OP_Block_Count'' TypeRaw48 '''' 0),
        (174, attr ''Pwr_Cycle_Ct_Unplanned'' TypeRaw48 '''' 0),
        (187, attr ''Total_Unc_NAND_Reads'' TypeRaw48 '''' 0),
        (195, attr ''Total_Prog_Failures'' TypeRaw48 '''' 0),
        (196, attr ''Total_Erase_Failures'' TypeRaw48 '''' 0),
        (197, attr ''Total_Unc_Read_Failures'' TypeRaw48 '''' 0),
        (198, attr ''Host_Reads_GiB'' TypeRaw48 '''' 0),
        (199, attr ''Host_Writes_GiB'' TypeRaw48 '''' 0),
        (205, attr ''Max_Rated_PE_Count'' TypeRaw48 '''' 0),
        (206, attr ''Min_Erase_Count'' TypeRaw48 '''' 0),
        (207, attr ''Max_Erase_Count'' TypeRaw48 '''' 0),
        (208, attr ''Average_Erase_Count'' TypeRaw48 '''' 0),
        (210, attr ''SATA_CRC_Error_Count'' TypeRaw48 '''' 0),
        (212, attr ''Pages_Requiring_Rd_Rtry'' TypeRaw48 '''' 0),
        (213, attr ''Snmple_Retry_Attempts'' TypeRaw48 '''' 0),
        (214, attr ''Adaptive_Retry_Attempts'' TypeRaw48 '''' 0),
        (222, attr ''RAID_Recovery_Count'' TypeRaw48 '''' 0),
        (224, attr ''In_Warranty'' TypeRaw48 '''' 0),
        (225, attr ''DAS_Polarity'' TypeRaw48 '''' 0),
        (226, attr ''Partial_Pfail'' TypeRaw48 '''' 0),
        (230, attr ''Write_Throttling'' TypeRaw48 '''' 0),
        (233, attr ''Remaining_Lifetime_Perc'' TypeRaw48 '''' 0),
        (241, attr ''Host_Writes_GiB'' TypeRaw48 '''' 0),
        (242, attr ''Host_Reads_GiB'' TypeRaw48 '''' 0),
        (249, attr ''Total_NAND_Prog_Ct_GiB'' TypeRaw48 '''' 0),
        (251, attr ''Total_NAND_Read_Ct_GiB'' TypeRaw48 '''' 0)]) 0,
    dev ''OCZ Intrepid 3000 SSDs''
     ''OCZ INTREPID 3[678]00''
     ''''
      (Some [(5, attr ''Runtime_Bad_Block'' TypeRaw48 '''' 0),
        (100, attr ''Total_Blocks_Erased'' TypeRaw48 '''' 0),
        (171, attr ''Avail_OP_Block_Count'' TypeRaw48 '''' 0),
        (174, attr ''Pwr_Cycle_Ct_Unplanned'' TypeRaw48 '''' 0),
        (184, attr ''Factory_Bad_Block_Count'' TypeRaw48 '''' 0),
        (187, attr ''Total_Unc_NAND_Reads'' TypeRaw48 '''' 0),
        (190, attr ''Temperature_Celsius'' TypeTempMinMax '''' 0),
        (195, attr ''Total_Prog_Failures'' TypeRaw48 '''' 0),
        (196, attr ''Total_Erase_Failures'' TypeRaw48 '''' 0),
        (197, attr ''Total_Unc_Read_Failures'' TypeRaw48 '''' 0),
        (198, attr ''Host_Reads_GiB'' TypeRaw48 '''' 0),
        (199, attr ''Host_Writes_GiB'' TypeRaw48 '''' 0),
        (202, attr ''Total_Read_Bits_Corr_Ct'' TypeRaw48 '''' 0),
        (205, attr ''Max_Rated_PE_Count'' TypeRaw48 '''' 0),
        (206, attr ''Min_Erase_Count'' TypeRaw48 '''' 0),
        (207, attr ''Max_Erase_Count'' TypeRaw48 '''' 0),
        (208, attr ''Average_Erase_Count'' TypeRaw48 '''' 0),
        (210, attr ''SATA_CRC_Error_Count'' TypeRaw48 '''' 0),
        (211, attr ''SATA_UNC_Count'' TypeRaw48 '''' 0),
        (212, attr ''NAND_Reads_with_Retry'' TypeRaw48 '''' 0),
        (213, attr ''Simple_Rd_Rtry_Attempts'' TypeRaw48 '''' 0),
        (214, attr ''Adaptv_Rd_Rtry_Attempts'' TypeRaw48 '''' 0),
        (221, attr ''Int_Data_Path_Prot_Unc'' TypeRaw48 '''' 0),
        (222, attr ''RAID_Recovery_Count'' TypeRaw48 '''' 0),
        (230, attr ''SuperCap_Charge_Status'' TypeRaw48 '''' 0),
        (233, attr ''Remaining_Lifetime_Perc'' TypeRaw48 '''' 0),
        (249, attr ''Total_NAND_Prog_Ct_GiB'' TypeRaw48 '''' 0),
        (251, attr ''Total_NAND_Read_Ct_GiB'' TypeRaw48 '''' 0)]) 0]"

lemma ataDevices1_patterns: "list_all readable_entry ataDevices1"
  by (simp add: ataDevices1_def readable_entry_dev readable_eval)

lemma ataDevices2_patterns: "list_all readable_entry ataDevices2"
  by (simp add: ataDevices2_def readable_entry_dev readable_eval)

lemma ataDevices1_wf: "list_all wf_entry ataDevices1"
  by (simp add: ataDevices1_def wf_entry_eval)

lemma ataDevices2_wf: "list_all wf_entry ataDevices2"
  by (simp add: ataDevices2_def wf_entry_eval)

end
