(* ===== verification/DeviceTable2.thy ===== *)
theory DeviceTable2
  imports AttrDb
begin

text \<open>
  Part 2 of the device database (\<^verbatim>\<open>ataDevicesDatabase\<close> in \<^verbatim>\<open>ata_device_database.go\<close>, lines 40 to 80), entry by
  entry, with the checks that \<open>parse\<close> reads its patterns and that its attributes are well formed.
\<close>

definition ataDevices3 :: "ataDeviceInfo list" where
  "ataDevices3 = [
    dev ''OCZ/Toshiba Trion SSDs''
     (''OCZ-TRION1[05]0|TOSHIBA-TR150|TOSHIBA Q300( Pro'' @ bsl @ ''.)?'')
     ''''
      (Some [(167, attr ''SSD_Protect_Mode'' TypeRaw48 '''' 0),
        (168, attr ''SATA_PHY_Error_Count'' TypeRaw48 '''' 0),
        (169, attr ''Bad_Block_Count'' TypeRaw48 '''' 0),
        (173, attr ''Erase_Count'' TypeRaw48 '''' 0),
        (192, attr ''Unexpect_Power_Loss_Ct'' TypeRaw48 '''' 0),
        (241, attr ''Host_Writes'' TypeRaw48 '''' 0)]) 0,
    dev ''InnoDisk InnoLite SATADOM D150QV SSDs''
     ''InnoLite SATADOM D150QV.*''
     ''''
      (Some [(168, attr ''SATA_PHY_Error_Count'' TypeRaw48 '''' 0),
        (170, attr ''Bad_Block_Count_New/Tot'' TypeRaw16 '''' 0),
        (173, attr ''Erase_Count_Max/Avg'' TypeRaw16 '''' 0),
        (175, attr ''Bad_Cluster_Table_Count'' TypeRaw48 '''' 0),
        (192, attr ''Unexpect_Power_Loss_Ct'' TypeRaw48 '''' 0),
        (229, attr ''Flash_ID'' TypeHex48 '''' 0),
        (235, attr ''Lat_Bad_Blk_Era/Wri/Rea'' TypeRaw16 '''' 0),
        (236, attr ''Unstable_Power_Count'' TypeRaw48 '''' 0),
        (240, attr ''Write_Head'' TypeRaw48 '''' 0)]) 0,
    dev ''Innodisk 1ME3/3ME/3SE SSDs''
     (''((1'' @ bsl @ ''.8|2'' @ bsl @ ''.5)\"? SATA SSD|InnoDisk Corp'' @ bsl @ ''. - mSATA|Mini PCIeDOM|SATA Slim) (1ME3|3[MS]E)'')
     ''''
      (Some [(7, attr ''Seek_Error_Rate'' TypeRaw48 '''' 0),
        (8, attr ''Seek_Time_Performance'' TypeRaw48 '''' 0),
        (10, attr ''Spin_Retry_Count'' TypeRaw48 '''' 0),
        (168, attr ''SATA_PHY_Error_Count'' TypeRaw48 '''' 0),
        (169, attr ''Unknown_Innodisk_Attr'' TypeHex48 '''' 0),
        (170, attr ''Bad_Block_Count'' TypeRaw16 '''' 0),
        (173, attr ''Erase_Count'' TypeRaw16 '''' 0),
        (175, attr ''Bad_Cluster_Table_Count'' TypeRaw48 '''' 0),
        (176, attr ''Uncorr_RECORD_Count'' TypeRaw48 '''' 0),
        (225, attr ''Unknown_Innodisk_Attr'' TypeRaw48 '''' 0),
        (229, attr ''Flash_ID'' TypeHex48 '''' 0),
        (235, attr ''Later_Bad_Block'' TypeRaw48 '''' 0),
        (236, attr ''Unstable_Power_Count'' TypeRaw48 '''' 0),
        (240, attr ''Write_Head'' TypeRaw48 '''' 0)]) 0,
    dev ''Innodisk 3IE2/3ME2/3MG2/3SE2/3TG6 SSDs''
     (''((1'' @ bsl @ ''.8|2'' @ bsl @ ''.5)\"? SATA SSD|SATA Slim|M'' @ bsl @ ''.2 '' @ bsl @ ''(S(42|80)'' @ bsl @ '')) 3(IE2|ME2|MG2|SE2|TG6)(-P)?'')
     ''''
      (Some [(160, attr ''Uncorrectable_Error_Cnt'' TypeRaw48 '''' 0),
        (161, attr ''Number_of_Pure_Spare'' TypeRaw48 '''' 0),
        (163, attr ''Total_Bad_Block_Count'' TypeRaw48 '''' 0),
        (164, attr ''Total_Erase_Count'' TypeRaw48 '''' 0),
        (165, attr ''Max_Erase_Count'' TypeRaw48 '''' 0),
        (166, attr ''Min_Erase_Count'' TypeRaw48 '''' 0),
        (167, attr ''Average_Erase_Count'' TypeRaw48 '''' 0),
        (168, attr ''Max_Erase_Count_of_Spec'' TypeRaw48 '''' 0),
        (169, attr ''Remaining_Lifetime_Perc'' TypeRaw48 '''' 0),
        (170, attr ''Spare_Block_Count'' TypeRaw48 '''' 0),
        (171, attr ''Program_Fail_Count'' TypeRaw48 '''' 0),
        (172, attr ''Erase_Fail_Count'' TypeRaw48 '''' 0),
        (178, attr ''Runtime_Invalid_Blk_Cnt'' TypeRaw48 '''' 0),
        (225, attr ''Host_Writes_32MiB'' TypeRaw48 '''' 0),
        (229, attr ''Flash_ID'' TypeRaw48 '''' 0),
        (233, attr ''Flash_Writes_32MiB'' TypeRaw48 '''' 0),
        (234, attr ''Flash_Reads_32MiB'' TypeRaw48 '''' 0),
        (235, attr ''Later_Bad_Block_Info'' TypeRaw48 '''' 0),
        (241, attr ''Host_Writes_32MiB'' TypeRaw48 '''' 0),
        (242, attr ''Host_Reads_32MiB'' TypeRaw48 '''' 0),
        (245, attr ''Flash_Writes_32MiB'' TypeRaw48 '''' 0),
        (248, attr ''Remaining_Life'' TypeRaw48 '''' 0),
        (249, attr ''Spare_Blocks_Remaining'' TypeRaw48 '''' 0)]) 0,
    dev ''Innodisk 1IE3/3IE3/3ME3/3IE4/3ME4 SSDs''
     (''(2.5\" SATA SSD|CFast|Mini PCIeDOM|(InnoDisk Corp'' @ bsl @ ''. - )?mSATA( mini)?) (1IE3|3[IM]E[34])( V2)?|(M'' @ bsl @ ''.2 '' @ bsl @ ''(S42'' @ bsl @ '')|SATA Slim|SATADOM-[MS][HLV]( Type [CD])?) (1IE3|3[IM]E[34])( V2)?'')
     ''''
      (Some [(5, attr ''Later_Bad_Block'' TypeRaw48 '''' 0),
        (7, attr ''Seek_Error_Rate'' TypeRaw48 '''' 0),
        (8, attr ''Seek_Time_Performance'' TypeRaw48 '''' 0),
        (10, attr ''Spin_Retry_Count'' TypeRaw48 '''' 0),
        (163, attr ''Total_Bad_Block_Count'' TypeRaw48 '''' 0),
        (165, attr ''Max_Erase_Count'' TypeRaw48 '''' 0),
        (167, attr ''Average_Erase_Count'' TypeRaw48 '''' 0),
        (168, attr ''SATA_PHY_Error_Count'' TypeRaw48 '''' 0),
        (169, attr ''Remaining_Lifetime_Perc'' TypeRaw48 '''' 0),
        (170, attr ''Spare_Block_Count'' TypeRaw48 '''' 0),
        (171, attr ''Program_Fail_Count'' TypeRaw48 '''' 0),
        (172, attr ''Erase_Fail_Count'' TypeRaw48 '''' 0),
        (175, attr ''Bad_Cluster_Table_Count'' TypeRaw48 '''' 0),
        (176, attr ''RANGE_RECORD_Count'' TypeRaw48 '''' 0),
        (225, attr ''Data_Log_Write_Count'' TypeRaw48 '''' 0),
        (229, attr ''Flash_ID'' TypeHex48 '''' 0),
        (232, attr ''Spares_Remaining_Perc'' TypeRaw48 '''' 0),
        (235, attr ''Later_Bad_Blk_Inf_R/W/E'' TypeRaw16 '''' 0),
        (240, attr ''Write_Head'' TypeRaw48 '''' 0),
        (241, attr ''Host_Writes_32MiB'' TypeRaw48 '''' 0),
        (242, attr ''Host_Reads_32MiB'' TypeRaw48 '''' 0)]) 0,
    dev ''InnoDisk iCF 9000 / 1SE2 Cards''
     (''InnoDisk Corp'' @ bsl @ ''. - (iCF9000|EDC 1SE2 H) (1|2|4|8|16|32|64)GB'')
     ''''
      (Some [(160, attr ''Uncorrectable_Error_Cnt'' TypeRaw48 '''' 0),
        (161, attr ''Valid_Spare_Block_Cnt'' TypeRaw48 '''' 0),
        (162, attr ''Child_Pair_Count'' TypeRaw48 '''' 0),
        (163, attr ''Initial_Bad_Block_Count'' TypeRaw48 '''' 0),
        (164, attr ''Total_Erase_Count'' TypeRaw48 '''' 0),
        (165, attr ''Max_Erase_Count'' TypeRaw48 '''' 0),
        (166, attr ''Min_Erase_Count'' TypeRaw48 '''' 0),
        (167, attr ''Average_Erase_Count'' TypeRaw48 '''' 0),
        (241, attr ''Host_Writes_32MiB'' TypeRaw48 '''' 0),
        (242, attr ''Host_Reads_32MiB'' TypeRaw48 '''' 0)]) 0,
    dev ''Intel X25-E SSDs''
     ''(INTEL)?SSDSA2SH(032|064)G1.* (.*IBM|INTEL)''
     ''''
      (Some [(192, attr ''Unsafe_Shutdown_Count'' TypeRaw48 '''' 0),
        (225, attr ''Host_Writes_32MiB'' TypeRaw48 '''' 0),
        (226, attr ''Intel_Internal'' TypeRaw48 '''' 0),
        (227, attr ''Intel_Internal'' TypeRaw48 '''' 0),
        (228, attr ''Intel_Internal'' TypeRaw48 '''' 0)]) 0,
    dev ''Intel X18-M/X25-M G1 SSDs''
     ''INTEL SSDSA[12]MH(080|160)G1.*''
     ''''
      (Some [(192, attr ''Unsafe_Shutdown_Count'' TypeRaw48 '''' 0),
        (225, attr ''Host_Writes_32MiB'' TypeRaw48 '''' 0),
        (226, attr ''Intel_Internal'' TypeRaw48 '''' 0),
        (227, attr ''Intel_Internal'' TypeRaw48 '''' 0),
        (228, attr ''Intel_Internal'' TypeRaw48 '''' 0)]) 0,
    dev ''Intel X18-M/X25-M/X25-V G2 SSDs''
     ''INTEL SSDSA[12]M(040|080|120|160)G2.*''
     ''2CV102(J[89A-Z]|[K-Z].)''
      (Some [(192, attr ''Unsafe_Shutdown_Count'' TypeRaw48 '''' 0),
        (225, attr ''Host_Writes_32MiB'' TypeRaw48 '''' 0),
        (226, attr ''Workld_Media_Wear_Indic'' TypeRaw48 '''' 0),
        (227, attr ''Workld_Host_Reads_Perc'' TypeRaw48 '''' 0),
        (228, attr ''Workload_Minutes'' TypeRaw48 '''' 0)]) 0,
    dev ''Intel X18-M/X25-M/X25-V G2 SSDs''
     ''INTEL SSDSA[12]M(040|080|120|160)G2.*''
     ''''
      (Some [(192, attr ''Unsafe_Shutdown_Count'' TypeRaw48 '''' 0),
        (225, attr ''Host_Writes_32MiB'' TypeRaw48 '''' 0),
        (226, attr ''Workld_Media_Wear_Indic'' TypeRaw48 '''' 0),
        (227, attr ''Workld_Host_Reads_Perc'' TypeRaw48 '''' 0),
        (228, attr ''Workload_Minutes'' TypeRaw48 '''' 0)]) 0,
    dev ''Intel 311/313 Series SSDs''
     ''INTEL SSD(SA2VP|MAE[SX]C)(020|024)G[23]H?''
     ''''
      (Some [(170, attr ''Reserve_Block_Count'' TypeRaw48 '''' 0),
        (171, attr ''Program_Fail_Count'' TypeRaw48 '''' 0),
        (172, attr ''Erase_Fail_Count'' TypeRaw48 '''' 0),
        (183, attr ''SATA_Downshift_Count'' TypeRaw48 '''' 0),
        (192, attr ''Unsafe_Shutdown_Count'' TypeRaw48 '''' 0),
        (225, attr ''Host_Writes_32MiB'' TypeRaw48 '''' 0),
        (226, attr ''Workld_Media_Wear_Indic'' TypeRaw48 '''' 0),
        (227, attr ''Workld_Host_Reads_Perc'' TypeRaw48 '''' 0),
        (228, attr ''Workload_Minutes'' TypeRaw48 '''' 0),
        (241, attr ''Host_Writes_32MiB'' TypeRaw48 '''' 0),
        (242, attr ''Host_Reads_32MiB'' TypeRaw48 '''' 0)]) 0,
    dev ''Intel 320 Series SSDs''
     ''INTEL SSDSA[12][BCN][WT](040|080|120|160|300|600)G3[ADHL]?''
     ''''
      (Some [(170, attr ''Reserve_Block_Count'' TypeRaw48 '''' 0),
        (171, attr ''Program_Fail_Count'' TypeRaw48 '''' 0),
        (172, attr ''Erase_Fail_Count'' TypeRaw48 '''' 0),
        (183, attr ''SATA_Downshift_Count'' TypeRaw48 '''' 0),
        (199, attr ''CRC_Error_Count'' TypeRaw48 '''' 0),
        (192, attr ''Unsafe_Shutdown_Count'' TypeRaw48 '''' 0),
        (225, attr ''Host_Writes_32MiB'' TypeRaw48 '''' 0),
        (226, attr ''Workld_Media_Wear_Indic'' TypeRaw48 '''' 0),
        (227, attr ''Workld_Host_Reads_Perc'' TypeRaw48 '''' 0),
        (228, attr ''Workload_Minutes'' TypeRaw48 '''' 0),
        (241, attr ''Host_Writes_32MiB'' TypeRaw48 '''' 0),
        (242, attr ''Host_Reads_32MiB'' TypeRaw48 '''' 0)]) ataFirmwareBugNoLogDir,
    dev ''Intel 710 Series SSDs''
     ''INTEL SSDSA2BZ(100|200|300)G3''
     ''''
      (Some [(170, attr ''Reserve_Block_Count'' TypeRaw48 '''' 0),
        (171, attr ''Program_Fail_Count'' TypeRaw48 '''' 0),
        (172, attr ''Erase_Fail_Count'' TypeRaw48 '''' 0),
        (174, attr ''Unexpect_Power_Loss_Ct'' TypeRaw48 '''' 0),
        (183, attr ''SATA_Downshift_Count'' TypeRaw48 '''' 0),
        (192, attr ''Unsafe_Shutdown_Count'' TypeRaw48 '''' 0),
        (225, attr ''Host_Writes_32MiB'' TypeRaw48 '''' 0),
        (226, attr ''Workld_Media_Wear_Indic'' TypeRaw48 '''' 0),
        (227, attr ''Workld_Host_Reads_Perc'' TypeRaw48 '''' 0),
        (228, attr ''Workload_Minutes'' TypeRaw48 '''' 0),
        (241, attr ''Host_Writes_32MiB'' TypeRaw48 '''' 0),
        (242, attr ''Host_Reads_32MiB'' TypeRaw48 '''' 0)]) ataFirmwareBugNoLogDir,
    dev ''Intel 510 Series SSDs''
     ''INTEL SSDSC2MH(120|250)A2''
     ''''
      (Some [(192, attr ''Unsafe_Shutdown_Count'' TypeRaw48 '''' 0),
        (225, attr ''Host_Writes_32MiB'' TypeRaw48 '''' 0)]) 0,
    dev ''Intel 520 Series SSDs''
     ''INTEL SSDSC2[BC]W(060|120|180|240|480)A3[FL]?''
     ''''
      (Some [(9, attr ''Power_On_Hours_and_Msec'' TypeMsec24Hour32 '''' 0),
        (170, attr ''Available_Reservd_Space'' TypeRaw48 '''' 0),
        (171, attr ''Program_Fail_Count'' TypeRaw48 '''' 0),
        (172, attr ''Erase_Fail_Count'' TypeRaw48 '''' 0),
        (174, attr ''Unexpect_Power_Loss_Ct'' TypeRaw48 '''' 0),
        (187, attr ''Uncorrectable_Error_Cnt'' TypeRaw48 '''' 0),
        (225, attr ''Host_Writes_32MiB'' TypeRaw48 '''' 0),
        (226, attr ''Workld_Media_Wear_Indic'' TypeRaw48 '''' 0),
        (227, attr ''Workld_Host_Reads_Perc'' TypeRaw48 '''' 0),
        (228, attr ''Workload_Minutes'' TypeRaw48 '''' 0),
        (241, attr ''Host_Writes_32MiB'' TypeRaw48 '''' 0),
        (242, attr ''Host_Reads_32MiB'' TypeRaw48 '''' 0),
        (249, attr ''NAND_Writes_1GiB'' TypeRaw48 '''' 0)]) 0,
    dev ''Intel 525 Series SSDs''
     ''INTEL SSDMCEAC(030|060|090|120|180|240)B3''
     ''''
      (Some [(9, attr ''Power_On_Hours_and_Msec'' TypeMsec24Hour32 '''' 0),
        (170, attr ''Available_Reservd_Space'' TypeRaw48 '''' 0),
        (171, attr ''Program_Fail_Count'' TypeRaw48 '''' 0),
        (172, attr ''Erase_Fail_Count'' TypeRaw48 '''' 0),
        (174, attr ''Unexpect_Power_Loss_Ct'' TypeRaw48 '''' 0),
        (183, attr ''SATA_Downshift_Count'' TypeRaw48 '''' 0),
        (187, attr ''Uncorrectable_Error_Cnt'' TypeRaw48 '''' 0),
        (225, attr ''Host_Writes_32MiB'' TypeRaw48 '''' 0),
        (226, attr ''Workld_Media_Wear_Indic'' TypeRaw48 '''' 0),
        (227, attr ''Workld_Host_Reads_Perc'' TypeRaw48 '''' 0),
        (228, attr ''Workload_Minutes'' TypeRaw48 '''' 0),
        (241, attr ''Host_Writes_32MiB'' TypeRaw48 '''' 0),
        (242, attr ''Host_Reads_32MiB'' TypeRaw48 '''' 0),
        (249, attr ''NAND_Writes_1GiB'' TypeRaw48 '''' 0)]) 0,
    dev ''Intel 53x and Pro 1500/2500 Series SSDs''
     ''INTEL SSD(MCEA|SC2B|SCKJ)[WF](056|080|120|180|240|360|480)(A4H?|A5L?|H6)''
     ''''
      (Some [(9, attr ''Power_On_Hours_and_Msec'' TypeMsec24Hour32 '''' 0),
        (170, attr ''Available_Reservd_Space'' TypeRaw48 '''' 0),
        (171, attr ''Program_Fail_Count'' TypeRaw48 '''' 0),
        (172, attr ''Erase_Fail_Count'' TypeRaw48 '''' 0),
        (174, attr ''Unexpect_Power_Loss_Ct'' TypeRaw48 '''' 0),
        (183, attr ''SATA_Downshift_Count'' TypeRaw48 '''' 0),
        (187, attr ''Uncorrectable_Error_Cnt'' TypeRaw48 '''' 0),
        (225, attr ''Host_Writes_32MiB'' TypeRaw48 '''' 0),
        (226, attr ''Workld_Media_Wear_Indic'' TypeRaw48 '''' 0),
        (227, attr ''Workld_Host_Reads_Perc'' TypeRaw48 '''' 0),
        (228, attr ''Workload_Minutes'' TypeRaw48 '''' 0),
        (241, attr ''Host_Writes_32MiB'' TypeRaw48 '''' 0),
        (242, attr ''Host_Reads_32MiB'' TypeRaw48 '''' 0),
        (249, attr ''NAND_Writes_1GiB'' TypeRaw48 '''' 0)]) 0,
    dev ''Intel 330/335 Series SSDs''
     ''INTEL SSDSC2CT(060|120|180|240)A[34]''
     ''''
      (Some [(9, attr ''Power_On_Hours_and_Msec'' TypeMsec24Hour32 '''' 0),
        (225, attr ''Host_Writes_32MiB'' TypeRaw48 '''' 0),
        (241, attr ''Host_Writes_32MiB'' TypeRaw48 '''' 0),
        (242, attr ''Host_Reads_32MiB'' TypeRaw48 '''' 0),
        (249, attr ''NAND_Writes_1GiB'' TypeRaw48 '''' 0)]) 0,
    dev ''Intel 540 Series SSDs''
     ''INTEL SSDSC[K2]KW(120H|180H|240H|360H|480H|010X)6''
     ''''
      (Some [(9, attr ''Power_On_Hours_and_Msec'' TypeMsec24Hour32 '''' 0),
        (170, attr ''Available_Reservd_Space'' TypeRaw48 '''' 0),
        (171, attr ''Program_Fail_Count'' TypeRaw48 '''' 0),
        (172, attr ''Erase_Fail_Count'' TypeRaw48 '''' 0),
        (174, attr ''Unexpect_Power_Loss_Ct'' TypeRaw48 '''' 0),
        (183, attr ''SATA_Downshift_Count'' TypeRaw48 '''' 0),
        (187, attr ''Uncorrectable_Error_Cnt'' TypeRaw48 '''' 0),
        (225, attr ''Host_Writes_32MiB'' TypeRaw48 '''' 0),
        (226, attr ''Workld_Media_Wear_Indic'' TypeRaw48 '''' 0),
        (227, attr ''Workld_Host_Reads_Perc'' TypeRaw48 '''' 0),
        (228, attr ''Workload_Minutes'' TypeRaw48 '''' 0),
        (249, attr ''NAND_Writes_1GiB'' TypeRaw48 '''' 0)]) 0,
    dev ''Intel 545s Series SSDs''
     ''INTEL SSDSC[2K]K[WF](128G|256G|512G|010T)8.*''
     ''''
      (Some [(171, attr ''Program_Fail_Count'' TypeRaw48 '''' 0),
        (172, attr ''Erase_Fail_Count'' TypeRaw48 '''' 0),
        (174, attr ''Unexpect_Power_Loss_Ct'' TypeRaw48 '''' 0),
        (183, attr ''SATA_Downshift_Count'' TypeRaw48 '''' 0),
        (190, attr ''Temperature_Case'' TypeTempMinMax '''' 0),
        (192, attr ''Unsafe_Shutdown_Count'' TypeRaw48 '''' 0),
        (199, attr ''CRC_Error_Count'' TypeRaw48 '''' 0),
        (225, attr ''Host_Writes_32MiB'' TypeRaw48 '''' 0),
        (226, attr ''Workld_Media_Wear_Indic'' TypeRaw48 '''' 0),
        (227, attr ''Workld_Host_Reads_Perc'' TypeRaw48 '''' 0),
        (228, attr ''Workload_Minutes'' TypeRaw48 '''' 0),
        (241, attr ''Host_Writes_32MiB'' TypeRaw48 '''' 0),
        (242, attr ''Host_Reads_32MiB'' TypeRaw48 '''' 0),
        (249, attr ''NAND_Writes_1GiB'' TypeRaw48 '''' 0)]) 0,
    dev ''Intel 730 and DC S35x0/3610/3700 Series SSDs''
     ''INTEL SSDSC(1N|[12]B)[ABGPX]((080|100|120|150|160|200|240|300|400|480|600|800)[GH][3467][CERT]?|(012|016)T[46])|VK000(120|240|480)GWSXF''
     ''''
      (Some [(11, attr ''Unknown_Intel_Attribute'' TypeRaw48 '''' 0),
        (170, attr ''Available_Reservd_Space'' TypeRaw48 '''' 0),
        (171, attr ''Program_Fail_Count'' TypeRaw48 '''' 0),
        (172, attr ''Erase_Fail_Count'' TypeRaw48 '''' 0),
        (173, attr ''Unknown_Intel_Attribute'' TypeRaw48 '''' 0),
        (174, attr ''Unsafe_Shutdown_Count'' TypeRaw48 '''' 0),
        (175, attr ''Power_Loss_Cap_Test'' TypeRaw16OptRaw16 '''' 0),
        (183, attr ''SATA_Downshift_Count'' TypeRaw48 '''' 0),
        (190, attr ''Temperature_Case'' TypeTempMinMax '''' 0),
        (192, attr ''Unsafe_Shutdown_Count'' TypeRaw48 '''' 0),
        (194, attr ''Temperature_Internal'' TypeTempMinMax '''' 0),
        (199, attr ''CRC_Error_Count'' TypeRaw48 '''' 0),
        (225, attr ''Host_Writes_32MiB'' TypeRaw48 '''' 0),
        (226, attr ''Workld_Media_Wear_Indic'' TypeRaw48 '''' 0),
        (227, attr ''Workld_Host_Reads_Perc'' TypeRaw48 '''' 0),
        (228, attr ''Workload_Minutes'' TypeRaw48 '''' 0),
        (234, attr ''Thermal_Throttle'' TypeRaw24DivRaw32 ''04321'' 0),
        (241, attr ''Host_Writes_32MiB'' TypeRaw48 '''' 0),
        (242, attr ''Host_Reads_32MiB'' TypeRaw48 '''' 0),
        (243, attr ''NAND_Writes_32MiB'' TypeRaw48 '''' 0)]) ataFirmwareBugXErrorLBA,
    dev ''Intel SSD Pro 5400s Series''
     ''INTEL SSDSC[2K]KF((120|180|240|256|360|480|512)H|010X)6( .*)?''
     ''''
      (Some [(170, attr ''Available_Reservd_Space'' TypeRaw48 '''' 0),
        (171, attr ''Program_Fail_Count'' TypeRaw48 '''' 0),
        (172, attr ''Erase_Fail_Count'' TypeRaw48 '''' 0),
        (174, attr ''Unexpect_Power_Loss_Ct'' TypeRaw48 '''' 0),
        (183, attr ''SATA_Downshift_Count'' TypeRaw48 '''' 0),
        (187, attr ''Uncorrectable_Error_Cnt'' TypeRaw48 '''' 0),
        (192, attr ''Unsafe_Shutdown_Count'' TypeRaw48 '''' 0),
        (225, attr ''Host_Writes_32MiB'' TypeRaw48 '''' 0),
        (226, attr ''Workld_Media_Wear_Indic'' TypeRaw48 '''' 0),
        (227, attr ''Workld_Host_Reads_Perc'' TypeRaw48 '''' 0),
        (228, attr ''Workload_Minutes'' TypeRaw48 '''' 0),
        (236, attr ''Unknown_Intel_Attribute'' TypeRaw48 '''' 0),
        (238, attr ''Unknown_Intel_Attribute'' TypeRaw48 '''' 0),
        (241, attr ''Host_Writes_32MiB'' TypeRaw48 '''' 0),
        (242, attr ''Host_Reads_32MiB'' TypeRaw48 '''' 0),
        (249, attr ''NAND_Writes_1GiB'' TypeRaw48 '''' 0)]) 0,
    dev ''Intel DC S3110 Series SSDs''
     ''INTEL SSDSCKKI(128|256|512)G8''
     ''''
      (Some [(170, attr ''Available_Reservd_Space'' TypeRaw48 '''' 0),
        (171, attr ''Program_Fail_Count'' TypeRaw48 '''' 0),
        (172, attr ''Erase_Fail_Count'' TypeRaw48 '''' 0),
        (174, attr ''Unexpect_Power_Loss_Ct'' TypeRaw48 '''' 0),
        (183, attr ''SATA_Downshift_Count'' TypeRaw48 '''' 0),
        (187, attr ''Uncorrectable_Error_Cnt'' TypeRaw48 '''' 0),
        (225, attr ''Host_Writes_32MiB'' TypeRaw48 '''' 0),
        (226, attr ''Workld_Media_Wear_Indic'' TypeRaw48 '''' 0),
        (227, attr ''Workld_Host_Reads_Perc'' TypeRaw48 '''' 0),
        (228, attr ''Workload_Minutes'' TypeRaw48 '''' 0),
        (241, attr ''Host_Writes_32MiB'' TypeRaw48 '''' 0),
        (242, attr ''Host_Reads_32MiB'' TypeRaw48 '''' 0),
        (249, attr ''NAND_Writes_1GiB'' TypeRaw48 '''' 0)]) 0,
    dev ''Intel 3710 Series SSDs''
     ''INTEL SSDSC2BA(200G|400G|800G|012T)4.?''
     ''''
      (Some [(9, attr ''Power_On_Hours_and_Msec'' TypeMsec24Hour32 '''' 0),
        (170, attr ''Available_Reservd_Space'' TypeRaw48 '''' 0),
        (171, attr ''Program_Fail_Count'' TypeRaw48 '''' 0),
        (172, attr ''Erase_Fail_Count'' TypeRaw48 '''' 0),
        (174, attr ''Unexpect_Power_Loss_Ct'' TypeRaw48 '''' 0),
        (183, attr ''SATA_Downshift_Count'' TypeRaw48 '''' 0),
        (187, attr ''Uncorrectable_Error_Cnt'' TypeRaw48 '''' 0),
        (225, attr ''Host_Writes_32MiB'' TypeRaw48 '''' 0),
        (226, attr ''Workld_Media_Wear_Indic'' TypeRaw48 '''' 0),
        (227, attr ''Workld_Host_Reads_Perc'' TypeRaw48 '''' 0),
        (228, attr ''Workload_Minutes'' TypeRaw48 '''' 0),
        (234, attr ''Thermal_Throttle'' TypeRaw24DivRaw32 ''04321'' 0),
        (243, attr ''NAND_Writes_32MiB'' TypeRaw48 '''' 0)]) 0,
    dev ''Intel S3520 Series SSDs''
     ''INTEL SSDSC(2|K)(J|B)B(240G|480G|960G|150G|760G|800G|012T|016T)7.?''
     ''''
      (Some [(170, attr ''Available_Reservd_Space'' TypeRaw48 '''' 0),
        (171, attr ''Program_Fail_Count'' TypeRaw48 '''' 0),
        (172, attr ''Erase_Fail_Count'' TypeRaw48 '''' 0),
        (174, attr ''Unsafe_Shutdown_Count'' TypeRaw48 '''' 0),
        (175, attr ''Power_Loss_Cap_Test'' TypeRaw16OptRaw16 '''' 0),
        (183, attr ''SATA_Downshift_Count'' TypeRaw48 '''' 0),
        (184, attr ''End-to-End_Error_Count'' TypeRaw48 '''' 0),
        (187, attr ''Uncorrectable_Error_Cnt'' TypeRaw48 '''' 0),
        (190, attr ''Case_Temperature'' TypeTempMinMax '''' 0),
        (192, attr ''Unsafe_Shutdown_Count'' TypeRaw48 '''' 0),
        (194, attr ''Drive_Temperature'' TypeTempMinMax '''' 0),
        (197, attr ''Pending_Sector_Count'' TypeRaw48 '''' 0),
        (199, attr ''CRC_Error_Count'' TypeRaw48 '''' 0),
        (225, attr ''Host_Writes_32MiB'' TypeRaw48 '''' 0),
        (226, attr ''Workld_Media_Wear_Indic'' TypeRaw48 '''' 0),
        (227, attr ''Workld_Host_Reads_Perc'' TypeRaw48 '''' 0),
        (228, attr ''Workload_Minutes'' TypeRaw48 '''' 0),
        (234, attr ''Thermal_Throttle_Status'' TypeRaw24DivRaw32 ''04321'' 0),
        (241, attr ''Host_Writes_32MiB'' TypeRaw48 '''' 0),
        (242, attr ''Host_Reads_32MiB'' TypeRaw48 '''' 0),
        (243, attr ''NAND_Writes_32MiB'' TypeRaw48 '''' 0)]) 0]"

definition ataDevices4 :: "ataDeviceInfo list" where
  "ataDevices4 = [
    dev ''Dell Certified Intel S3520 Series SSDs''
     ''SSDSC(2|K)(J|B)B(240G|480G|960G|120G|760G|800G|012T|016T)7R.?''
     ''''
      (Some [(170, attr ''Available_Reservd_Space'' TypeRaw48 '''' 0),
        (174, attr ''Unsafe_Shutdown_Count'' TypeRaw48 '''' 0),
        (195, attr ''Uncorrectable_Error_Cnt'' TypeRaw48 '''' 0),
        (199, attr ''CRC_Error_Count'' TypeRaw48 '''' 0),
        (201, attr ''Power_Loss_Cap_Test'' TypeRaw16OptRaw16 '''' 0),
        (202, attr ''End_of_Life'' TypeRaw48 '''' 0),
        (225, attr ''Host_Writes_32MiB'' TypeRaw48 '''' 0),
        (226, attr ''Workld_Media_Wear_Indic'' TypeRaw48 '''' 0),
        (227, attr ''Workld_Host_Reads_Perc'' TypeRaw48 '''' 0),
        (228, attr ''Workload_Minutes'' TypeRaw48 '''' 0),
        (233, attr ''Total_LBAs_Written'' TypeRaw48 '''' 0),
        (234, attr ''Thermal_Throttle_Status'' TypeRaw24DivRaw32 ''04321'' 0),
        (245, attr ''Percent_Life_Remaining'' TypeRaw48 '''' 0)]) 0,
    dev ''Intel/Solidigm S46x0/S45x0 Series SSDs''
     ''(INTEL|SOLIDIGM) SSDSC(2K|KK)(B|G)(240G|480G|960G|019T|038T|076T)[78Z].?''
     ''''
      (Some [(170, attr ''Available_Reservd_Space'' TypeRaw48 '''' 0),
        (171, attr ''Program_Fail_Count'' TypeRaw48 '''' 0),
        (172, attr ''Erase_Fail_Count'' TypeRaw48 '''' 0),
        (174, attr ''Unsafe_Shutdown_Count'' TypeRaw48 '''' 0),
        (175, attr ''Power_Loss_Cap_Test'' TypeRaw16OptRaw16 '''' 0),
        (183, attr ''SATA_Downshift_Count'' TypeRaw48 '''' 0),
        (184, attr ''End-to-End_Error_Count'' TypeRaw48 '''' 0),
        (187, attr ''Uncorrectable_Error_Cnt'' TypeRaw48 '''' 0),
        (190, attr ''Drive_Temperature'' TypeTempMinMax '''' 0),
        (192, attr ''Unsafe_Shutdown_Count'' TypeRaw48 '''' 0),
        (197, attr ''Pending_Sector_Count'' TypeRaw48 '''' 0),
        (199, attr ''CRC_Error_Count'' TypeRaw48 '''' 0),
        (225, attr ''Host_Writes_32MiB'' TypeRaw48 '''' 0),
        (226, attr ''Workld_Media_Wear_Indic'' TypeRaw48 '''' 0),
        (227, attr ''Workld_Host_Reads_Perc'' TypeRaw48 '''' 0),
        (228, attr ''Workload_Minutes'' TypeRaw48 '''' 0),
        (234, attr ''Thermal_Throttle_Status'' TypeRaw24DivRaw32 ''04321'' 0),
        (235, attr ''Power_Loss_Cap_Test'' TypeRaw16OptRaw16 '''' 0),
        (241, attr ''Host_Writes_32MiB'' TypeRaw48 '''' 0),
        (242, attr ''Host_Reads_32MiB'' TypeRaw48 '''' 0),
        (243, attr ''NAND_Writes_32MiB'' TypeRaw48 '''' 0)]) 0,
    dev ''Dell Certified Intel S4x00/D3-S4x10 Series SSDs''
     ''SSDSC(2K|KK)(B|G)(240G|480G|960G|019T|038T)(7R|8R).?''
     ''''
      (Some [(170, attr ''Available_Reservd_Space'' TypeRaw48 '''' 0),
        (174, attr ''Unsafe_Shutdown_Count'' TypeRaw48 '''' 0),
        (195, attr ''Uncorrectable_Error_Cnt'' TypeRaw48 '''' 0),
        (199, attr ''CRC_Error_Count'' TypeRaw48 '''' 0),
        (201, attr ''Power_Loss_Cap_Test'' TypeRaw16OptRaw16 '''' 0),
        (202, attr ''End_of_Life'' TypeRaw48 '''' 0),
        (225, attr ''Host_Writes_32MiB'' TypeRaw48 '''' 0),
        (226, attr ''Workld_Media_Wear_Indic'' TypeRaw48 '''' 0),
        (227, attr ''Workld_Host_Reads_Perc'' TypeRaw48 '''' 0),
        (228, attr ''Workload_Minutes'' TypeRaw48 '''' 0),
        (233, attr ''Total_LBAs_Written'' TypeRaw48 '''' 0),
        (234, attr ''Thermal_Throttle_Status'' TypeRaw24DivRaw32 ''04321'' 0),
        (245, attr ''Percent_Life_Remaining'' TypeRaw48 '''' 0)]) 0,
    dev ''Kingston branded X25-V SSDs''
     ''KINGSTON SSDNow 40GB''
     ''2CV102(J[89A-Z]|[K-Z].)''
      (Some [(192, attr ''Unsafe_Shutdown_Count'' TypeRaw48 '''' 0),
        (225, attr ''Host_Writes_32MiB'' TypeRaw48 '''' 0),
        (226, attr ''Workld_Media_Wear_Indic'' TypeRaw48 '''' 0),
        (227, attr ''Workld_Host_Reads_Perc'' TypeRaw48 '''' 0),
        (228, attr ''Workload_Minutes'' TypeRaw48 '''' 0)]) 0,
    dev ''Kingston branded X25-V SSDs''
     ''KINGSTON SSDNow 40GB''
     ''''
      (Some [(192, attr ''Unsafe_Shutdown_Count'' TypeRaw48 '''' 0),
        (225, attr ''Host_Writes_32MiB'' TypeRaw48 '''' 0),
        (226, attr ''Workld_Media_Wear_Indic'' TypeRaw48 '''' 0),
        (227, attr ''Workld_Host_Reads_Perc'' TypeRaw48 '''' 0),
        (228, attr ''Workload_Minutes'' TypeRaw48 '''' 0)]) 0,
    dev ''Kingston SSDNow UV400/500''
     ''KINGSTON SUV400S37A?(120|240|480|960)G|KINGSTON SUV500(M[8S])?(120|240|480|960)G''
     ''''
      (Some [(100, attr ''Unknown_Kingston_Attr'' TypeRaw48 '''' 0),
        (101, attr ''Unknown_Kingston_Attr'' TypeRaw48 '''' 0),
        (170, attr ''Reserved_Block_Count'' TypeRaw48 '''' 0),
        (171, attr ''Program_Fail_Count'' TypeRaw48 '''' 0),
        (172, attr ''Erase_Fail_Count'' TypeRaw48 '''' 0),
        (174, attr ''Unexpect_Power_Loss_Ct'' TypeRaw48 '''' 0),
        (201, attr ''Unc_Read_Error_Rate'' TypeRaw48 '''' 0),
        (231, attr ''SSD_Life_Left'' TypeRaw48 '''' 0),
        (241, attr ''Host_Writes_GiB'' TypeRaw48 '''' 0),
        (242, attr ''Host_Reads_GiB'' TypeRaw48 '''' 0),
        (250, attr ''Read_Retry_Count'' TypeRaw48 '''' 0)]) 0,
    dev ''JMicron based SSDs''
     ''Kingston SSDNow V Series [0-9]*GB|STT_FTM(8|16|32|64)GL25V|TS(2|4|8|16|32|64|128|192)GSSD(18|25)[MS]?-[MS]''
     ''09[0-9]{4}S|[BVv].*''
      (Some [(229, attr ''Halt_System/Flash_ID'' TypeHex64 ''w012345r'' 0),
        (232, attr ''Firmware_Version_Info'' TypeHex64 ''w012345r'' 0),
        (233, attr ''ECC_Fail_Record'' TypeHex48 ''w01234'' 0),
        (234, attr ''Avg/Max_Erase_Count'' TypeRaw24DivRaw24 ''w01234'' 0),
        (235, attr ''Good/Sys_Block_Count'' TypeRaw24DivRaw24 ''w01z23'' 0)]) 0,
    dev ''JMicron/Maxiotek based SSDs''
     (''ADATA S596 Turbo|ADATA SP310|ADATA SP600(NS34)?|ADATA SX930|APPLE SSD TS(064|128|256|512)C|IM2S3138E-(128|256)GM-B|KingSpec KDM-SA'' @ bsl @ ''.51-008GMJ|KINGSTON SNV425S2(64|128)GB|KINGSTON SSDNOW 30GB|KINGSTON SS100S2(8|16)G|KINGSTON SNVP325S2(64|128|256|512)GB|KINGSTON SVP?100S2B?(64|96|128|256|512)G|KINGSTON SV200S3(64|128|256)G|[MN]T-(64|128|256|512|[124]TB?)( 22..)?|TOSHIBA THNS128GG4BBAA|TOSHIBA THNSNC128GMLJ|TS(8|16|32|64|128|192|256|512)GSSD25S?-(MD?|S)|TS(32|64|128|256)G(SSD|MSA)[37]40K?'')
     ''''
      (Some [(3, attr ''Unknown_JMF_Attribute'' TypeRaw48 '''' 0),
        (7, attr ''Unknown_JMF_Attribute'' TypeRaw48 '''' 0),
        (8, attr ''Unknown_JMF_Attribute'' TypeRaw48 '''' 0),
        (10, attr ''Unknown_JMF_Attribute'' TypeRaw48 '''' 0),
        (167, attr ''Unknown_JMF_Attribute'' TypeRaw48 '''' 0),
        (168, attr ''SATA_Phy_Error_Count'' TypeRaw48 '''' 0),
        (169, attr ''Unknown_JMF_Attribute'' TypeRaw48 '''' 0),
        (170, attr ''Bad_Block_Count'' TypeRaw16 '''' 0),
        (173, attr ''Erase_Count'' TypeRaw16 '''' 0),
        (175, attr ''Bad_Cluster_Table_Count'' TypeRaw48 '''' 0),
        (180, attr ''Unknown_JMF_Attribute'' TypeRaw48 '''' 0),
        (187, attr ''Unknown_JMF_Attribute'' TypeRaw48 '''' 0),
        (192, attr ''Unexpect_Power_Loss_Ct'' TypeRaw48 '''' 0),
        (231, attr ''Unknown_JMF_Attribute'' TypeRaw48 '''' 0),
        (233, attr ''Unknown_JMF_Attribute'' TypeRaw48 '''' 0),
        (234, attr ''Unknown_JMF_Attribute'' TypeRaw48 '''' 0),
        (240, attr ''Unknown_JMF_Attribute'' TypeRaw48 '''' 0)]) 0,
    dev ''Plextor M3/M5/M6/M7/S2G Series SSDs''
     (''PLEXTOR  ?PX-(64|128|256|512|768)(M(3P?|5[MPS]|5Pro|6[GMSV]|[78]VC)|S2G)('' @ bsl @ ''+|-.*| )?'')
     ''''
      (Some [(170, attr ''Unknown_Plextor_Attrib'' TypeRaw48 '''' 0),
        (171, attr ''Unknown_Plextor_Attrib'' TypeRaw48 '''' 0),
        (172, attr ''Unknown_Plextor_Attrib'' TypeRaw48 '''' 0),
        (173, attr ''Unknown_Plextor_Attrib'' TypeRaw48 '''' 0),
        (174, attr ''Unknown_Plextor_Attrib'' TypeRaw48 '''' 0),
        (241, attr ''Host_Writes_32MiB'' TypeRaw48 '''' 0),
        (242, attr ''Host_Reads_32MiB'' TypeRaw48 '''' 0)]) 0,
    dev ''Samsung based SSDs''
     (''SAMSUNG SSD PM800 .*GB|SAMSUNG SSD PM810 .*GB|SAMSUNG SSD SM841N? (2'' @ bsl @ ''.5\"? 7mm |mSATA )?(128|256|512)GB( SED)?|SAMSUNG SSD PM851 (mSATA |M'' @ bsl @ ''.2 )?(2280 )?(128|256|512)GB|SAMSUNG 470 Series SSD|Samsung SSD 750 EVO (120|250|500)GB|SAMSUNG SSD 830 Series|SAMSUNG SSD PM830 .*|MZ7PC(512|256|128|064)HA(GH|FU|DR)-000.*|Samsung SSD 840 (PRO )?Series|Samsung SSD 8[4-7]0 EVO (mSATA |M'' @ bsl @ ''.2 )?((120|250|500|750)G|[124]T)B|Samsung SSD 8[56]0 PRO ((128|256|512)G|[124]T)B|Samsung SSD 8[67]0 QVO [1248]TB|Samsung SSD 883 DCT ((240|480|960)G|(1'' @ bsl @ ''.92|3'' @ bsl @ ''.84)T)B|Samsung SSD 845DC EVO .*|SAMSUNG MZ7PA256HMDR-.*|SAMSUNG MZ[7M]PC(032|064|128|256|512)HBCD-.*|SAMSUNG MZ7[TP]D(128|256|512)H(AFV|CGM)-.*|SAMSUNG MZ[7M]TD(128|256|512)HA[GF][LMV]-.*|SAMSUNG MZ7WD((120|240)H[AC]FV|480H[AC]GM|960H[AC]GP)-.*|SAMSUNG MZ[7N]TE(128|256|512)HM(HP|JH)-.*|SAMSUNG MZMPF(032|064)HCFV-.*|SAMSUNG MZ7GE(240HMGR|(480|960)HMHP)-00003|SAMSUNG MZ7LM(120|240|480|960|1T9|3T8)HC(JM|HP|GR|FD)-.*|(SAMSUNG )?MZ7LM(240|480|960|1T9|3T8)HM(JP|HQ|LP)(-.*|0D3)|(SAMSUNG )?MZ7KM(120|240|480|960|1T9)H[AM](FD|GR|H[PQ]|J[MP])(-.*|0D3)|SAMSUNG MZ[7N]LH(128|256|512|1T0)H[AB](JD|HQ|L[BU])-.*|SAMSUNG MZ7LH(240|480|960|1T9|3T8|7T6)H[AM](HQ|JR|LT|LA)-.*|SAMSUNG MZ7L3(240|480|960|1T9|3T8|7T6)H(B[LN][AT]|CHQ|CJR)-.*|MK000(240|480|960)G(WCEV|ZXR[AB])|SAMSUNG MZ7KH(240|480|960|1T9|3T8)HA(HQ|JR|LS)-.*|SAMSUNG MZ[7N](LF|TY)(128|192|256)H[CD](GS|HP)-.*|SAMSUNG MZ[7NY]LN(128|256|512|1T0)H[ACM](GR|HP|HQ|J[HPQ]|LR)-.*|SAMSUNG SSD PM871 .*|SAMSUNG MZHPV(128|256|512)HDG(L|M)-.*|Samsung Portable SSD T5'')
     ''''
      (Some [(170, attr ''Unused_Rsvd_Blk_Ct_Chip'' TypeRaw48 '''' 0),
        (171, attr ''Program_Fail_Count_Chip'' TypeRaw48 '''' 0),
        (172, attr ''Erase_Fail_Count_Chip'' TypeRaw48 '''' 0),
        (173, attr ''Wear_Leveling_Count'' TypeRaw48 '''' 0),
        (174, attr ''Unexpect_Power_Loss_Ct'' TypeRaw48 '''' 0),
        (187, attr ''Uncorrectable_Error_Cnt'' TypeRaw48 '''' 0),
        (191, attr ''Unknown_Samsung_Attr'' TypeRaw48 '''' 0),
        (195, attr ''ECC_Error_Rate'' TypeRaw48 '''' 0),
        (199, attr ''CRC_Error_Count'' TypeRaw48 '''' 0),
        (201, attr ''Supercap_Status'' TypeRaw48 '''' 0),
        (202, attr ''Exception_Mode_Status'' TypeRaw48 '''' 0),
        (234, attr ''Unknown_Samsung_Attr'' TypeRaw48 '''' 0),
        (235, attr ''POR_Recovery_Count'' TypeRaw48 '''' 0),
        (236, attr ''Unknown_Samsung_Attr'' TypeRaw48 '''' 0),
        (237, attr ''Unknown_Samsung_Attr'' TypeRaw48 '''' 0),
        (238, attr ''Unknown_Samsung_Attr'' TypeRaw48 '''' 0),
        (243, attr ''SATA_Downshift_Ct'' TypeRaw48 '''' 0),
        (244, attr ''Thermal_Throttle_St'' TypeRaw48 '''' 0),
        (245, attr ''Timed_Workld_Media_Wear'' TypeRaw48 '''' 0),
        (246, attr ''Timed_Workld_RdWr_Ratio'' TypeRaw48 '''' 0),
        (247, attr ''Timed_Workld_Timer'' TypeRaw48 '''' 0),
        (249, attr ''NAND_Writes_1GiB'' TypeRaw48 '''' 0),
        (250, attr ''SATA_Iface_Downshift'' TypeRaw48 '''' 0),
        (251, attr ''NAND_Writes'' TypeRaw48 '''' 0),
        (252, attr ''Added_Bad_Flash_Blk_Ct'' TypeRaw48 '''' 0)]) 0,
    dev ''Marvell based SanDisk SSDs''
     ''SanDisk SD5SG2[0-9]*G1052E|SanDisk SD6S[BFP][12]M[0-9]*G(1022I?|1102)?|SanDisk SD7S[BN][67]S-?(128|256|512|960)G(1122|-1006)?|SanDisk SD8[ST][BN]8U-?((128|256|512)G|1T00)(1122|-10[01]6)|SanDisk SD9S[BN]8W-?((128|256|512)G|[12]T00)(1122|-1006|1020)|SanDisk SDSSDA-((120|240|480)G|[12]T00)|SanDisk SDSSDHP[0-9]*G|SanDisk (SDSSDHII|Ultra II )[0-9]*GB?|SanDisk SDSSDH2(128|256)G|SanDisk SDSSDH3 ?((250|500|512|1000|1024|2000)G|[124]T00)|SanDisk SDSSDXPS?[0-9]*G|SanDisk SSD G5 BICS4|SanDisk SSD PLUS (120|240|480|[12]000) ?GB|SD Ultra 3D [124]TB|SSD SATAIII 16GB''
     ''''
      (Some [(165, attr ''Total_Write/Erase_Count'' TypeRaw48 '''' 0),
        (166, attr ''Min_W/E_Cycle'' TypeRaw48 '''' 0),
        (167, attr ''Min_Bad_Block/Die'' TypeRaw48 '''' 0),
        (168, attr ''Maximum_Erase_Cycle'' TypeRaw48 '''' 0),
        (169, attr ''Total_Bad_Block'' TypeRaw48 '''' 0),
        (170, attr ''Unknown_Marvell_Attr'' TypeRaw48 '''' 0),
        (171, attr ''Program_Fail_Count'' TypeRaw48 '''' 0),
        (172, attr ''Erase_Fail_Count'' TypeRaw48 '''' 0),
        (173, attr ''Avg_Write/Erase_Count'' TypeRaw48 '''' 0),
        (174, attr ''Unexpect_Power_Loss_Ct'' TypeRaw48 '''' 0),
        (199, attr ''SATA_CRC_Error'' TypeRaw48 '''' 0),
        (201, attr ''Lifetime_Remaining%'' TypeRaw48 '''' 0),
        (212, attr ''SATA_PHY_Error'' TypeRaw48 '''' 0),
        (230, attr ''Perc_Write/Erase_Count'' TypeRaw16 '''' 0),
        (232, attr ''Perc_Avail_Resrvd_Space'' TypeRaw48 '''' 0),
        (233, attr ''Total_NAND_Writes_GiB'' TypeRaw48 '''' 0),
        (234, attr ''Perc_Write/Erase_Ct_BC'' TypeRaw48 '''' 0),
        (241, attr ''Total_Writes_GiB'' TypeRaw48 '''' 0),
        (242, attr ''Total_Reads_GiB'' TypeRaw48 '''' 0),
        (243, attr ''Unknown_Marvell_Attr'' TypeRaw48 '''' 0),
        (244, attr ''Thermal_Throttle'' TypeRaw48 '''' 0),
        (249, attr ''TLC_NAND_GB_Writes'' TypeRaw48 '''' 0)]) 0,
    dev ''SanDisk based SSDs''
     ''SanDisk iSSD P4 [0-9]*GB|SanDisk pSSD|SanDisk SDSSDP[0-9]*G|SanDisk SDSSDRC032G|SanDisk SSD i100 [0-9]*GB|SanDisk SSD U100 ([0-9]*GB|SMG2)|SanDisk SSD U110 (8|16|24|32|64|128)GB|SanDisk SDSA6[DGM]M-[0-9]*G-.*|SanDisk SD7[SU]B[23]Q(064|128|256|512)G.*|SanDisk SD8S[NM]AT-(032|064|128|256|512)G-1006''
     ''''
      (Some [(165, attr ''Total_Write/Erase_Count'' TypeRaw48 '''' 0),
        (171, attr ''Program_Fail_Count'' TypeRaw48 '''' 0),
        (172, attr ''Erase_Fail_Count'' TypeRaw48 '''' 0),
        (173, attr ''Avg_Write/Erase_Count'' TypeRaw48 '''' 0),
        (174, attr ''Unexpect_Power_Loss_Ct'' TypeRaw48 '''' 0),
        (212, attr ''SATA_PHY_Error'' TypeRaw48 '''' 0),
        (230, attr ''Perc_Write/Erase_Count'' TypeRaw48 '''' 0),
        (232, attr ''Perc_Avail_Resrvd_Space'' TypeRaw48 '''' 0),
        (234, attr ''Perc_Write/Erase_Ct_BC'' TypeRaw48 '''' 0),
        (244, attr ''Thermal_Throttle'' TypeRaw48 '''' 0)]) 0,
    dev ''Sandisk SATA Cloudspeed Max and GEN2 ESS SSDs''
     ''SD[A-Z0-9]{2}[1-3][A-Z]{3}-?[0-9]{3}[GT]-?1[A-Z0-9]{3}''
     ''''
      (Some [(13, attr ''Lifetime_UECC_Ct'' TypeRaw48 '''' 0),
        (32, attr ''Lifetime_Write_AmpFctr'' TypeRaw48 '''' 0),
        (33, attr ''Write_AmpFctr'' TypeRaw48 '''' 0),
        (170, attr ''Reserve_Erase_BlkCt'' TypeRaw48 '''' 0),
        (171, attr ''Program_Fail_Ct'' TypeRaw48 '''' 0),
        (172, attr ''Erase_Fail_Ct'' TypeRaw48 '''' 0),
        (173, attr ''Percent_Life_Used'' TypeRaw48 '''' 0),
        (174, attr ''Unexpect_Power_Loss'' TypeRaw48 '''' 0),
        (175, attr ''Lifetime_Die_Failure_Ct'' TypeRaw48 '''' 0),
        (177, attr ''Lifetime_Remaining%'' TypeRaw48 '''' 0),
        (178, attr ''SSD_LifeLeft(0.01%)'' TypeRaw48 '''' 0),
        (180, attr ''Undetected_Data_Err_Ct'' TypeRaw48 '''' 0),
        (183, attr ''LT_Link_Rate_DwnGrd_Ct'' TypeRaw48 '''' 0),
        (191, attr ''Clean_Shutdown_Ct'' TypeRaw48 '''' 0),
        (192, attr ''Unclean_Shutdown_Ct'' TypeRaw48 '''' 0),
        (196, attr ''Lifetime_Retried_Blk_Ct'' TypeRaw48 '''' 0),
        (204, attr ''Average_Block-Erase_Ct'' TypeRaw48 '''' 0),
        (205, attr ''Read_Retry_Enable_Ct'' TypeRaw48 '''' 0),
        (206, attr ''Successful_RaidRecov_Ct'' TypeRaw48 '''' 0),
        (207, attr ''Trimmed_Sector_Ct'' TypeRaw48 '''' 0),
        (211, attr ''Read_Disturb_ReallocEvt'' TypeRaw48 '''' 0),
        (233, attr ''Lifetime_Nand_Writes'' TypeRaw48 '''' 0),
        (235, attr ''Capacitor_Health'' TypeRaw48 '''' 0),
        (244, attr ''Therm_Throt_Activation'' TypeRaw48 '''' 0),
        (245, attr ''Drive_Life_Remaining%'' TypeRaw48 '''' 0),
        (253, attr ''SPI_Test_Remaining'' TypeRaw48 '''' 0)]) 0,
    dev ''Sandisk SATA CS1K GEN1 ESS SSDs''
     ''SD[A-Z0-9]{2}[NO][A-Z0-9]{3}-?[0-9]{3}[GT]-?1[A-Z0-9]{3}''
     ''''
      (Some [(1, attr ''UECC_Ct'' TypeRaw48 '''' 0),
        (2, attr ''Internal_File_Check'' TypeRaw48 '''' 0),
        (5, attr ''Retried_Blk_Ct'' TypeRaw16OptRaw16 '''' 0),
        (32, attr ''Write_Ampflication'' TypeRaw48 '''' 0),
        (170, attr ''Reserve_Blk_Remaining'' TypeRaw48 '''' 0),
        (171, attr ''Program_Fail_Ct'' TypeRaw48 '''' 0),
        (172, attr ''Erase_Fail_Ct'' TypeRaw48 '''' 0),
        (173, attr ''Drive_Life_Used%'' TypeRaw48 '''' 0),
        (174, attr ''Unexpect_PwrLoss_Ct'' TypeRaw48 '''' 0),
        (175, attr ''PwrLoss_ProtectionFail'' TypeRaw48 '''' 0),
        (177, attr ''DriveLife_Remaining%'' TypeRaw48 '''' 0),
        (178, attr ''SSD_Life_Left'' TypeRaw48 '''' 0),
        (180, attr ''End_to_End_Err_Detect'' TypeRaw48 '''' 0),
        (190, attr ''Drive_Temp_Warning'' TypeRaw48 '''' 0),
        (195, attr ''Uncorrectable_Err_Ct'' TypeRaw48 '''' 0),
        (202, attr ''Exception_Mode_Status'' TypeRaw48 '''' 0),
        (233, attr ''Number_Of_Write_Ct'' TypeRaw48 '''' 0),
        (245, attr ''DriveLife_Used%'' TypeRaw48 '''' 0)]) 0,
    dev ''Silicon Motion based SSDs''
     (''ADATA_IMSS332-((008|016|032|064|128|256|512)G|001T)[AEMT]P?|ADATA (SP550|SU(63[05]|650(NS38)?|655|[89]00))|AMD R5SL512G|CORSAIR FORCE LX SSD|CHN (25SATA01M|mSATAM3) (060|128|256|512)|CIS 2S M305 (16|32|64|128|256)GB|CT(120|250|500|1000)BX100SSD1|CT(240|480|960)BX200SSD1|DREVO X1 SSD|Drevo X1 pro (64|128|256)G|DEXP SSD C100 (128|256|512)Gb|EX27(8215|653[69]|668[35])RUS|HP SSD S700 ((128|256|512)G|1T)B|JAJS[56]00M((12[08]|240|256|480|512|960)C|1TB)(-1)?|KingDian S100 (32|64)GB|KingDian S(200|280|400) ((60|120|240|480)GB|1TB)|KingSpec KSD-[PS]A25'' @ bsl @ ''.[1-9]-(016|032|064|128)(MS|SJ)|KINGSTON SKC600(MS)?(256|512|1024|2048)G|LITEON L[CM]H-(128|256|512)V2[MS](-.*)?|MKNSSDRE((25[06]|500|512)G|[12]T)B(-LT)?|MKNSSD(S2|TR)(12[08]|2[45]0|480|500)GB(-(3DL|LT))?|N900-(256|512)|NFN025SA31T-.*|NFORCE (256|512)25 - SSZS13|ONDA S-12 64GB|OWC Envoy Pro|Patriot P2[01]0 ((128|256|512)GB|[12]TB)|R3SL(120|240|480|960)G|Ramsta SSD S800 (120|240|480)GB|SED2QII-LP SATA SSD ((64|128|256|512)GB|[12]TB)|SH00M(120|240|480)GB|T60|TCSUNBOW [MX]3 (60|120|240|480)GB|TEAM( T253(TD|X6)?|L5Lite3D)((120|240|256|480|512)G|[12]TB?)|TS((16|32|64|128|256|512)G|1T)(SSD|MS[AM])(230S?|3[67]0[SI]?|420[IK]?)|TS(16|32|64|128|512|256)GMTS4[03]0S?|TS(120|240)GMTS420S?|TS[1248]GSSD25H-S|TS(128G|256G|512G|1T|2T|4T)SSD230S|TS(120|240|480|960)GSSD220S|TS((64|128|256|512)G|[12]T)SSD452K|TS((64|128|256|512)G|[12]T)MTS952T|TS((128|256|512)G|[124]T)SSD470K|TS(16G|32G|64G|128G|256G|512G|1T)MTS800S?|TS(120|240|480|960)GMTS820S|TS(16|32|64)GMSA630|TS(32|64|128)GPSD330|TS(16|32|64|96|128|256)GSSD(630|360S)|TS(128G|256G|512G|1T)ESD400K|TS(128G|256G|512G|1T)MTS830S|TSG(16|32|64|128|256|512)MTS400ISI|UMAX 2242 (128|256|512)GB|ZOZT G3000 (120|240|480)GB'')
     ''''
      (Some [(148, attr ''Total_SLC_Erase_Ct'' TypeRaw48 '''' 0),
        (149, attr ''Max_SLC_Erase_Ct'' TypeRaw48 '''' 0),
        (150, attr ''Min_SLC_Erase_Ct'' TypeRaw48 '''' 0),
        (151, attr ''Average_SLC_Erase_Ct'' TypeRaw48 '''' 0),
        (159, attr ''DRAM_1_Bit_Error_Count'' TypeRaw48 '''' 0),
        (160, attr ''Uncorrectable_Error_Cnt'' TypeRaw48 '''' 0),
        (161, attr ''Valid_Spare_Block_Cnt'' TypeRaw48 '''' 0),
        (162, attr ''Cache_Block_Count'' TypeRaw48 '''' 0),
        (163, attr ''Initial_Bad_Block_Count'' TypeRaw48 '''' 0),
        (164, attr ''Total_Erase_Count'' TypeRaw48 '''' 0),
        (165, attr ''Max_Erase_Count'' TypeRaw48 '''' 0),
        (166, attr ''Min_Erase_Count'' TypeRaw48 '''' 0),
        (167, attr ''Average_Erase_Count'' TypeRaw48 '''' 0),
        (168, attr ''Max_Erase_Count_of_Spec'' TypeRaw48 '''' 0),
        (169, attr ''Remaining_Lifetime_Perc'' TypeRaw48 '''' 0),
        (178, attr ''Runtime_Invalid_Blk_Cnt'' TypeRaw48 '''' 0),
        (225, attr ''Host_Writes_32MiB'' TypeRaw48 '''' 0),
        (231, attr ''SSD_Life_Left'' TypeRaw48 '''' 0),
        (241, attr ''Host_Writes_32MiB'' TypeRaw48 '''' 0),
        (242, attr ''Host_Reads_32MiB'' TypeRaw48 '''' 0),
        (245, attr ''TLC_Writes_32MiB'' TypeRaw48 '''' 0),
        (246, attr ''SLC_Writes_32MiB'' TypeRaw48 '''' 0),
        (247, attr ''Raid_Recoverty_Ct'' TypeRaw48 '''' 0),
        (248, attr ''Unkn_SiliconMotion_Attr'' TypeRaw48 '''' 0),
        (249, attr ''Unkn_SiliconMotion_Attr'' TypeRaw48 '''' 0),
        (251, attr ''Unkn_SiliconMotion_Attr'' TypeRaw48 '''' 0)]) 0,
    dev ''Silicon Motion based USB SSDs''
     ''ADATA SE880|SP DS72|TS((128|256|512)G|[12]T)ESD310[CPS]''
     ''''
      (Some [(160, attr ''Uncorrectable_Error_Cnt'' TypeRaw48 '''' 0),
        (161, attr ''Spare_Blocks_Remaining'' TypeRaw48 '''' 0),
        (163, attr ''Initial_Bad_Block_Count'' TypeRaw48 '''' 0),
        (164, attr ''Total_Erase_Count'' TypeRaw48 '''' 0),
        (165, attr ''Max_Erase_Count'' TypeRaw48 '''' 0),
        (166, attr ''Min_Erase_Count'' TypeRaw48 '''' 0),
        (167, attr ''Average_Erase_Count'' TypeRaw48 '''' 0),
        (168, attr ''Max_Erase_Count_of_Spec'' TypeRaw48 '''' 0),
        (169, attr ''Remaining_Lifetime_Perc'' TypeRaw48 '''' 0),
        (172, attr ''Erase_Fail_Count'' TypeRaw48 '''' 0),
        (173, attr ''Unkn_SiliconMotion_Attr'' TypeRaw48 '''' 0),
        (187, attr ''Read_Fail_Count'' TypeRaw48 '''' 0),
        (192, attr ''Unexpect_Power_Loss_Cnt'' TypeRaw48 '''' 0),
        (218, attr ''USB3_Error_Recovery_Cnt'' TypeRaw48 '''' 0),
        (231, attr ''SSD_Life_Left'' TypeRaw48 '''' 0),
        (233, attr ''NAND_Writes_32MiB'' TypeRaw48 '''' 0),
        (241, attr ''Host_Writes_32MiB'' TypeRaw48 '''' 0),
        (242, attr ''Host_Reads_32MiB'' TypeRaw48 '''' 0),
        (244, attr ''Average_Erase_Count'' TypeRaw48 '''' 0),
        (245, attr ''Max_Erase_Count'' TypeRaw48 '''' 0),
        (246, attr ''Total_Erase_Count'' TypeRaw48 '''' 0)]) 0]"

lemma ataDevices3_patterns: "list_all readable_entry ataDevices3"
  by (simp add: ataDevices3_def readable_entry_dev readable_eval)

lemma ataDevices4_patterns: "list_all readable_entry ataDevices4"
  by (simp add: ataDevices4_def readable_entry_dev readable_eval)

lemma ataDevices3_wf: "list_all wf_entry ataDevices3"
  by (simp add: ataDevices3_def wf_entry_eval)

lemma ataDevices4_wf: "list_all wf_entry ataDevices4"
  by (simp add: ataDevices4_def wf_entry_eval)

end
