(* ===== verification/DeviceTable3.thy ===== *)
theory DeviceTable3
  imports AttrDb
begin

text \<open>
  Part 3 of the device database (\<^verbatim>\<open>ataDevicesDatabase\<close> in \<^verbatim>\<open>ata_device_database.go\<close>, lines 81 to 310), entry by
  entry, with the checks that \<open>parse\<close> reads its patterns and that its attributes are well formed.
\<close>

definition ataDevices5 :: "ataDeviceInfo list" where
  "ataDevices5 = [
    dev ''Supermicro SATA DOM (SuperDOM)''
     ''SuperMicro SSD''
     ''''
      (Some [(1, attr ''Raw_Read_Error_Rate'' TypeRaw48 '''' 0),
        (15, attr ''User_Cpcty_Sector_Cnt'' TypeRaw48 '''' 0),
        (160, attr ''Not_In_Use'' TypeRaw48 '''' 0),
        (161, attr ''Not_In_Use'' TypeRaw48 '''' 0),
        (163, attr ''Not_In_Use'' TypeRaw48 '''' 0),
        (164, attr ''Not_In_Use'' TypeRaw48 '''' 0),
        (165, attr ''Not_In_Use'' TypeRaw48 '''' 0),
        (166, attr ''Minimum_PE_Cycles_TLC'' TypeRaw48 '''' 0),
        (167, attr ''Not_In_Use'' TypeRaw48 '''' 0),
        (168, attr ''Maximum_PE_Cycles_TLC'' TypeRaw48 '''' 0),
        (231, attr ''SSD_Life_Left'' TypeRaw48 '''' 0),
        (233, attr ''NAND_Writes_1GiB'' TypeRaw48 '''' 0),
        (241, attr ''Lifetime_Writes_GiB'' TypeRaw48 '''' 0),
        (242, attr ''Lifetime_Reads_GiB'' TypeRaw48 '''' 0)]) 0,
    dev ''Silicon Motion based OEM SSDs''
     (''240GB|BR 64GB|Dogfish SSD (128|256|512)GB|GIM(16|32|64|128|256|512)|INTENSO( SSD)?|Intenso  ?SSD( S(ata|ATA) ?III)?|KingFast|KSM512|LDLC|Netac MobileDataStar|ORICO|ORTIAL SSD|P4-(120|240|480|960)|Patriot Burst Elite (120|240|480|960|1920)GB|PNY 1TB SATA SSD|RX7 (240|256|512)G|SATA3 ((12[08]|240|256|480)G|[12]T)B SSD|SPCC M'' @ bsl @ ''.2 SSD|SPCC Solid State Disk|SSD 120GB|T-FORCE ((128|256|512)G|[12]T)B|Verbatim Vi550 S3|Vi550 S3'')
     ''HP(3418C5|3C09BA|S2227I)|KFS03005|P0510E|P0725A|Q(0627|1107)A0|R(0529A|0817B0)|S(0222|0424|0509|0618|1211|1230)A0|S112[78]B0|T0(311|519|910)A0|U(0202|0309|0401|0506|1124|1209)A0|V0((414|609|823)A|(303|718)B)0|V1(027|102)A0|VE0R6327|W(0201|0413|0714|0825)A0|Y0(106A0|307B0)''
      (Some [(148, attr ''Total_SLC_Erase_Ct'' TypeRaw48 '''' 0),
        (149, attr ''Max_SLC_Erase_Ct'' TypeRaw48 '''' 0),
        (150, attr ''Min_SLC_Erase_Ct'' TypeRaw48 '''' 0),
        (151, attr ''Average_SLC_Erase_Ct'' TypeRaw48 '''' 0),
        (159, attr ''Unkn_SiliconMotion_Attr'' TypeRaw48 '''' 0),
        (160, attr ''Uncorrectable_Error_Cnt'' TypeRaw48 '''' 0),
        (161, attr ''Valid_Spare_Block_Cnt'' TypeRaw48 '''' 0),
        (163, attr ''Initial_Bad_Block_Count'' TypeRaw48 '''' 0),
        (164, attr ''Total_Erase_Count'' TypeRaw48 '''' 0),
        (165, attr ''Max_Erase_Count'' TypeRaw48 '''' 0),
        (166, attr ''Min_Erase_Count'' TypeRaw48 '''' 0),
        (167, attr ''Average_Erase_Count'' TypeRaw48 '''' 0),
        (168, attr ''Max_Erase_Count_of_Spec'' TypeRaw48 '''' 0),
        (169, attr ''Remaining_Lifetime_Perc'' TypeRaw48 '''' 0),
        (178, attr ''Runtime_Invalid_Blk_Cnt'' TypeRaw48 '''' 0),
        (225, attr ''Host_Writes_32MiB'' TypeRaw48 '''' 0),
        (241, attr ''Host_Writes_32MiB'' TypeRaw48 '''' 0),
        (242, attr ''Host_Reads_32MiB'' TypeRaw48 '''' 0),
        (245, attr ''TLC_Writes_32MiB'' TypeRaw48 '''' 0),
        (246, attr ''SLC_Writes_32MiB'' TypeRaw48 '''' 0),
        (247, attr ''Raid_Recoverty_Ct'' TypeRaw48 '''' 0),
        (248, attr ''Unkn_SiliconMotion_Attr'' TypeRaw48 '''' 0),
        (251, attr ''Unkn_SiliconMotion_Attr'' TypeRaw48 '''' 0)]) 0,
    dev ''SMART Modular Technologies mSATA XL+ SLC SSDs''
     ''SH9MST6D[0-9]*GJSI?[0-9]*''
     ''''
      (Some [(1, attr ''Uncorrectable_ECC_Cnt'' TypeRaw48 '''' 0),
        (9, attr ''Power_On_Hours'' TypeRaw48 '''' 0),
        (14, attr ''Device_Capacity_LBAs'' TypeRaw48 '''' 0),
        (15, attr ''User_Capacity_LBAs'' TypeRaw48 '''' 0),
        (16, attr ''Init_Spare_Blocks_Avail'' TypeRaw48 '''' 0),
        (17, attr ''Spare_Blocks_Remaining'' TypeRaw48 '''' 0),
        (100, attr ''Total_Erase_Count'' TypeRaw48 '''' 0),
        (168, attr ''SATA_PHY_Err_Ct'' TypeRaw48 '''' 0),
        (170, attr ''Initial_Bad_Block_Count'' TypeRaw48 '''' 0),
        (172, attr ''Erase_Fail_Count'' TypeRaw48 '''' 0),
        (173, attr ''Max_Erase_Count'' TypeRaw48 '''' 0),
        (174, attr ''Unexpect_Power_Loss_Ct'' TypeRaw48 '''' 0),
        (175, attr ''Average_Erase_Count'' TypeRaw48 '''' 0),
        (197, attr ''Not_In_Use'' TypeRaw48 '''' 0),
        (198, attr ''Not_In_Use'' TypeRaw48 '''' 0),
        (199, attr ''SATA_CRC_Error_Count'' TypeRaw48 '''' 0),
        (202, attr ''Perc_Rated_Life_Used'' TypeRaw48 '''' 0),
        (231, attr ''Perc_Rated_Life_Remain'' TypeRaw48 '''' 0),
        (232, attr ''Read_Fail_Count'' TypeRaw48 '''' 0),
        (234, attr ''Flash_Reads_LBAs'' TypeRaw48 '''' 0),
        (235, attr ''Flash_Writes_LBAs'' TypeRaw48 '''' 0)]) 0,
    dev ''Smart Storage Systems Xcel-10 SSDs''
     ''SMART A25FD-(32|64|128)GI32N''
     ''''
      (Some [(1, attr ''Not_Supported'' TypeRaw48 '''' 0),
        (2, attr ''Not_Supported'' TypeRaw48 '''' 0),
        (191, attr ''Not_Supported'' TypeRaw48 '''' 0),
        (197, attr ''ECC_Error_Count'' TypeRaw48 '''' 0),
        (251, attr ''Min_Spares_Remain_Perc'' TypeRaw48 '''' 0),
        (252, attr ''Added_Bad_Flash_Blk_Ct'' TypeRaw48 '''' 0),
        (254, attr ''Total_Erase_Blocks_Ct'' TypeRaw48 '''' 0)]) 0,
    dev ''Smart Storage Systems XceedSecure2 SSDs''
     ''(SMART|Adtron) ([AIS]25FBS|S35FCS).*''
     ''''
      (Some [(9, attr ''Power_On_Hours'' TypeSec2Hour '''' 0),
        (194, attr ''Proprietary_194'' TypeHex64 '''' 0)]) 0,
    dev ''Smart Storage Systems XceedUltraX/Adtron A25FBX SSDs''
     ''(SMART|Adtron) (A|I)25FBX.*''
     ''''
      (Some [(9, attr ''Proprietary_9'' TypeHex64 '''' 0),
        (194, attr ''Proprietary_194'' TypeHex48 '''' 0)]) 0,
    dev ''Smart Storage Systems Adtron A25FB 2xN SSDs''
     ''(SMART|Adtron) A25FB.*2.N''
     ''''
      (Some [(110, attr ''Proprietary_HWC'' TypeHex64 '''' 0),
        (111, attr ''Proprietary_MP'' TypeHex64 '''' 0),
        (112, attr ''Proprietary_RtR'' TypeHex64 '''' 0),
        (113, attr ''Proprietary_RR'' TypeHex64 '''' 0),
        (120, attr ''Proprietary_HFAll'' TypeHex64 '''' 0),
        (121, attr ''Proprietary_HF1st'' TypeHex64 '''' 0),
        (122, attr ''Proprietary_HF2nd'' TypeHex64 '''' 0),
        (123, attr ''Proprietary_HF3rd'' TypeHex64 '''' 0),
        (125, attr ''Proprietary_SFAll'' TypeHex64 '''' 0),
        (126, attr ''Proprietary_SF1st'' TypeHex64 '''' 0),
        (127, attr ''Proprietary_SF2nd'' TypeHex64 '''' 0),
        (128, attr ''Proprietary_SF3rd'' TypeHex64 '''' 0),
        (194, attr ''Fractional_Temperature'' TypeRaw24DivRaw32 ''zvzzzw'' 0)]) 0,
    dev ''Smart Storage Systems Adtron A25FB 3xN SSDs''
     ''(SMART|Adtron) A25FB-.*3.N''
     ''''
      (Some [(9, attr ''Power_On_Hours'' TypeSec2Hour '''' 0),
        (113, attr ''Proprietary_RR'' TypeHex48 '''' 0),
        (130, attr ''Minimum_Spares_All_Zs'' TypeRaw48 ''54321'' 0)]) 0,
    dev ''SSSTC ERX GD/CD Series SSDs''
     ''(SSSTC|SATA) ER[2-9]-[CG]D(240|480|960|1920|3840|7680|15360)A?|AF[2-9]MA31DT[ED]LT(240|480|960|1920|3840|7680|15360)A?''
     ''''
      (Some [(100, attr ''Max_Min_EC_Count'' TypeRaw48 '''' 0),
        (170, attr ''Available_Reservd_Space'' TypeRaw48 '''' 0),
        (171, attr ''Program_Fail_Count'' TypeRaw48 '''' 0),
        (172, attr ''Erase_Fail_Count'' TypeRaw48 '''' 0),
        (173, attr ''Average_PE_Count'' TypeRaw48 '''' 0),
        (174, attr ''Unexpect_Power_Loss_Ct'' TypeRaw48 '''' 0),
        (175, attr ''PLP_Failure'' TypeRaw48 '''' 0),
        (180, attr ''Over-Provisioning_Rate'' TypeRaw48 '''' 0),
        (181, attr ''Sys_Percent_Life_Remain'' TypeRaw48 '''' 0),
        (182, attr ''Heavy_GC_Log'' TypeRaw48 '''' 0),
        (183, attr ''SATA_Iface_Downshift'' TypeRaw48 '''' 0),
        (189, attr ''Maximum_Erase_Count'' TypeRaw48 '''' 0),
        (191, attr ''Mininum_Erase_Count'' TypeRaw48 '''' 0),
        (202, attr ''Percent_Lifetime_Remain'' TypeRaw48 '''' 0),
        (210, attr ''Raid_Success_Recover_Ct'' TypeRaw48 '''' 0),
        (229, attr ''PLP_Failure'' TypeRaw48 '''' 0),
        (231, attr ''Percent_Lifetime_Remain'' TypeRaw48 '''' 0),
        (233, attr ''Percent_Lifetime_Remain'' TypeRaw48 '''' 0),
        (234, attr ''Thermal_Throttle_Status'' TypeRaw48 '''' 0),
        (243, attr ''Total_NAND_Written'' TypeRaw48 '''' 0),
        (244, attr ''SoC_Data_Path_Prot_Det'' TypeRaw48 '''' 0),
        (245, attr ''Thermal_Sensor_Health'' TypeRaw48 '''' 0),
        (246, attr ''Heavy_Read_Retry_count'' TypeRaw48 '''' 0),
        (247, attr ''NOR_Health'' TypeRaw48 '''' 0),
        (248, attr ''Cross_Temp_Duration'' TypeRaw48 '''' 0),
        (249, attr ''SSD_Health'' TypeRaw48 '''' 0)]) 0,
    dev ''STEC Mach2 CompactFlash Cards''
     ''STEC M2P CF 1.0.0''
     ''''
      (Some [(100, attr ''Erase_Program_Cycles'' TypeRaw48 '''' 0),
        (103, attr ''Remaining_Energy_Storg'' TypeRaw48 '''' 0),
        (170, attr ''Reserved_Block_Count'' TypeRaw48 '''' 0),
        (171, attr ''Program_Fail_Count'' TypeRaw48 '''' 0),
        (172, attr ''Erase_Fail_Count'' TypeRaw48 '''' 0),
        (173, attr ''Wear_Leveling_Count'' TypeRaw48 '''' 0),
        (174, attr ''Unexpect_Power_Loss_Ct'' TypeRaw48 '''' 0),
        (211, attr ''Unknown_Attribute'' TypeRaw48 '''' 0),
        (212, attr ''Unknown_Attribute'' TypeRaw48 '''' 0)]) 0,
    dev ''Transcend CompactFlash Cards''
     ''TRANSCEND|TS(4|8|16)GCF(133|150)''
     ''''
      (Some [(7, attr ''Unknown_Attribute'' TypeRaw48 '''' 0),
        (8, attr ''Unknown_Attribute'' TypeRaw48 '''' 0)]) 0,
    dev ''XITC SSDs''
     ''XITC SS6000SES3(27|N6)-(24|48|96|192|384|768)0GB?''
     ''''
      (Some [(160, attr ''Uncorrectable_Error_Cnt'' TypeRaw48 '''' 0),
        (161, attr ''Number_of_Pure_Spare'' TypeRaw48 '''' 0),
        (163, attr ''Initial_Bad_Block_Count'' TypeRaw48 '''' 0),
        (164, attr ''Total_Erase_Count'' TypeRaw48 '''' 0),
        (165, attr ''Max_Erase_Count'' TypeRaw48 '''' 0),
        (166, attr ''Min_Erase_Count'' TypeRaw48 '''' 0),
        (167, attr ''Average_Erase_Count'' TypeRaw48 '''' 0),
        (170, attr ''Grown_Failing_Block_Ct'' TypeRaw48 '''' 0),
        (171, attr ''Program_Fail_Count'' TypeRaw48 '''' 0),
        (172, attr ''Erase_Fail_Count'' TypeRaw48 '''' 0),
        (175, attr ''Capacitor_Life'' TypeRaw16 '''' 0),
        (195, attr ''Hardware_ECC_Recovered'' TypeRaw8 '''' 0),
        (202, attr ''Available_Reservd_Space'' TypeRaw48 '''' 0),
        (232, attr ''Percent_Life_Used'' TypeRaw48 '''' 0),
        (233, attr ''Flash_Writes_32MiB'' TypeRaw48 '''' 0),
        (234, attr ''Flash_Reads_32MiB'' TypeRaw48 '''' 0),
        (241, attr ''Host_Writes_32MiB'' TypeRaw48 '''' 0),
        (242, attr ''Host_Reads_32MiB'' TypeRaw48 '''' 0),
        (250, attr ''SATA_Downshift_Cnt'' TypeRaw16 '''' 0)]) 0,
    dev ''Xmore Industrial SATA SSDs''
     ''(CFAST|M2[AC]A|MSATA|SSD)[0-9]{3}[GT]XA[CEI][MT][MST]-[0-9]{3}[TZ]''
     ''''
      (Some [(168, attr ''SATA_Phy_Error_Count'' TypeRaw48 '''' 0),
        (169, attr ''Bad_Block_Rate'' TypeRaw48 '''' 0),
        (170, attr ''Bad_Blk_Ct_Lat/Erl'' TypeRaw24DivRaw24 ''z54z10'' 0),
        (173, attr ''MaxAvgErase_Ct'' TypeRaw16OptAvg16 '''' 0),
        (192, attr ''Unexpect_Power_Loss_Ct'' TypeRaw48 '''' 0),
        (218, attr ''SATA_CRC_Error_Count'' TypeRaw48 '''' 0),
        (231, attr ''Percent_Lifetime_Remain'' TypeRaw48 '''' 0),
        (241, attr ''Host_Writes_GiB'' TypeRaw48 '''' 0)]) 0,
    dev ''Marvell SSD SD88SA024BA0 (SUN branded)''
     ''MARVELL SD88SA024BA0 SUN24G 0902M0054V''
     '''' None 0,
    dev ''HP 1TB SATA disk GB1000EAFJL''
     ''GB1000EAFJL''
     '''' None 0,
    dev ''HP 500GB SATA disk MM0500EANCR''
     ''MM0500EANCR''
     '''' None 0,
    dev ''HP 250GB SATA disk VB0250EAVER''
     ''VB0250EAVER''
     '''' None 0,
    dev ''IBM Deskstar 60GXP''
     ''(IBM-|Hitachi )?IC35L0[12346]0AVER07.*''
     ''ER60A46A'' None 0,
    dev ''IBM Deskstar 60GXP''
     ''(IBM-|Hitachi )?IC35L0[12346]0AVER07.*''
     '''' None 0,
    dev ''IBM Deskstar 40GV & 75GXP (A5AA/A6AA firmware)''
     ''(IBM-)?DTLA-30[57]0[123467][05].*''
     ''T[WX][123468AG][OF]A[56]AA'' None 0,
    dev ''IBM Deskstar 40GV & 75GXP (all other firmware)''
     ''(IBM-)?DTLA-30[57]0[123467][05].*''
     '''' None 0,
    dev ''''
     ''ExcelStor Technology J(24|34|36|68|88|816)0''
     '''' None 0,
    dev ''''
     ''FUJITSU M1623TAU''
     ''''
      (Some [(9, attr ''Power_On_Seconds'' TypeSec2Hour '''' 0)]) 0,
    dev ''Fujitsu MHG''
     ''FUJITSU MHG2...ATU?.*''
     ''''
      (Some [(9, attr ''Power_On_Seconds'' TypeSec2Hour '''' 0)]) 0,
    dev ''Fujitsu MHH''
     ''FUJITSU MHH2...ATU?.*''
     ''''
      (Some [(9, attr ''Power_On_Seconds'' TypeSec2Hour '''' 0)]) 0,
    dev ''Fujitsu MHJ''
     ''FUJITSU MHJ2...ATU?.*''
     ''''
      (Some [(9, attr ''Power_On_Seconds'' TypeSec2Hour '''' 0)]) 0,
    dev ''Fujitsu MHK''
     ''FUJITSU MHK2...ATU?.*''
     ''''
      (Some [(9, attr ''Power_On_Seconds'' TypeSec2Hour '''' 0)]) 0,
    dev ''''
     ''FUJITSU MHL2300AT''
     ''''
      (Some [(9, attr ''Power_On_Seconds'' TypeSec2Hour '''' 0)]) 0,
    dev ''''
     ''FUJITSU MHM2(20|15|10|06)0AT''
     ''''
      (Some [(9, attr ''Power_On_Seconds'' TypeSec2Hour '''' 0)]) 0,
    dev ''Fujitsu MHN''
     ''FUJITSU MHN2...AT''
     ''''
      (Some [(9, attr ''Power_On_Seconds'' TypeSec2Hour '''' 0)]) 0,
    dev ''''
     ''FUJITSU MHR2020AT''
     ''''
      (Some [(9, attr ''Power_On_Seconds'' TypeSec2Hour '''' 0)]) 0,
    dev ''''
     ''FUJITSU MHR2040AT''
     ''''
      (Some [(9, attr ''Power_On_Seconds'' TypeSec2Hour '''' 0),
        (192, attr ''Emerg_Retract_Cycle_Ct'' TypeRaw48 '''' 0),
        (198, attr ''Offline_Scan_UNC_SectCt'' TypeRaw48 '''' 0),
        (200, attr ''Write_Error_Count'' TypeRaw48 '''' 0)]) 0,
    dev ''Fujitsu MHS AT''
     ''FUJITSU MHS20[6432]0AT(  .)?''
     ''''
      (Some [(9, attr ''Power_On_Seconds'' TypeSec2Hour '''' 0),
        (192, attr ''Emerg_Retract_Cycle_Ct'' TypeRaw48 '''' 0),
        (198, attr ''Offline_Scan_UNC_SectCt'' TypeRaw48 '''' 0),
        (200, attr ''Write_Error_Count'' TypeRaw48 '''' 0),
        (201, attr ''Detected_TA_Count'' TypeRaw48 '''' 0)]) 0,
    dev ''Fujitsu MHT''
     ''FUJITSU MHT2...(AC|AH|AS|AT|BH)U?.*''
     ''''
      (Some [(9, attr ''Power_On_Seconds'' TypeSec2Hour '''' 0)]) 0,
    dev ''Fujitsu MHU''
     ''FUJITSU MHU2...ATU?.*''
     ''''
      (Some [(9, attr ''Power_On_Seconds'' TypeSec2Hour '''' 0)]) 0,
    dev ''Fujitsu MHV''
     ''FUJITSU MHV2...(AH|AS|AT|BH|BS|BT).*''
     ''''
      (Some [(9, attr ''Power_On_Seconds'' TypeSec2Hour '''' 0)]) 0,
    dev ''Fujitsu MPA..MPG''
     ''FUJITSU MP[A-G]3...A[HTEV]U?.*''
     ''''
      (Some [(9, attr ''Power_On_Seconds'' TypeSec2Hour '''' 0),
        (200, attr ''Write_Error_Rate'' TypeRaw48 '''' 0)]) 0,
    dev ''Fujitsu MHY BH''
     ''FUJITSU MHY2(04|06|08|10|12|16|20|25)0BH.*''
     ''''
      (Some [(240, attr ''Transfer_Error_Rate'' TypeRaw48 '''' 0)]) 0,
    dev ''Fujitsu MHW AC''
     ''FUJITSU MHW20(40|60)AC''
     '''' None 0,
    dev ''Fujitsu MHW2 BH''
     ''FUJITSU MHW2(02|04|06|08|10|12|16)0BH.*''
     ''''
      (Some [(2, attr ''Throughput_Performance'' TypeRaw16 '''' 0),
        (195, attr ''ECC_On_the_Fly_Count'' TypeRaw48 '''' 0),
        (200, attr ''Write_Error_Rate'' TypeRaw48 '''' 0),
        (240, attr ''Transfer_Error_Rate'' TypeRaw48 '''' 0)]) 0,
    dev ''Fujitsu MHW BJ''
     ''FUJITSU MHW2(08|12|16)0BJ.*''
     '''' None 0,
    dev ''Fujitsu MHZ BH''
     ''FUJITSU MHZ2(04|08|12|16|20|25|32)0BH.*''
     '''' None 0,
    dev ''Fujitsu MHZ2 BJ G1''
     ''FUJITSU MHZ2(08|12|16|20|25|32)0BJ G1''
     ''''
      (Some [(2, attr ''Throughput_Performance'' TypeRaw16 '''' 0),
        (195, attr ''ECC_On_the_Fly_Count'' TypeRaw48 '''' 0),
        (200, attr ''Write_Error_Rate'' TypeRaw48 '''' 0),
        (240, attr ''Transfer_Error_Rate'' TypeRaw48 '''' 0)]) 0,
    dev ''Fujitsu MHZ2 BJ G2''
     ''FUJITSU MHZ2(08|12|16|20|25|32)0BJ G2''
     ''''
      (Some [(2, attr ''Throughput_Performance'' TypeRaw16 '''' 0),
        (187, attr ''Reported_Uncorrect'' TypeRaw16 '''' 0),
        (188, attr ''Command_Timeout'' TypeRaw16 '''' 0),
        (191, attr ''G-Sense_Error_Rate'' TypeRaw16 '''' 0),
        (192, attr ''Power-Off_Retract_Count'' TypeRaw16 '''' 0),
        (195, attr ''ECC_On_the_Fly_Count'' TypeRaw48 '''' 0)]) 0,
    dev ''Fujitsu MHZ2 BJ FFS G2''
     ''FUJITSU MHZ2(08|12|16|20|25|32)0BJ FFS G2''
     ''''
      (Some [(9, attr ''Power_On_Minutes'' TypeMin2Hour '''' 0),
        (193, attr ''Load_Cycle_Count'' TypeRaw24DivRaw32 '''' 0),
        (200, attr ''Write_Error_Rate'' TypeRaw48 '''' 0),
        (240, attr ''Transfer_Error_Rate'' TypeRaw48 '''' 0),
        (241, attr ''Total_LBAs_Written'' TypeHex48 '''' 0),
        (242, attr ''Total_LBAs_Read'' TypeHex48 '''' 0)]) 0,
    dev ''Fujitsu MHZ BS''
     ''FUJITSU MHZ2(12|25)0BS.*''
     '''' None 0,
    dev ''Fujitsu MHZ BK''
     ''FUJITSU MHZ2(08|12|16|25)0BK.*''
     '''' None 0,
    dev ''Fujitsu MJA2 BH''
     ''FUJITSU MJA2(08|12|16|25|32|40|50)0BH.*''
     ''''
      (Some [(2, attr ''Throughput_Performance'' TypeRaw16 '''' 0),
        (195, attr ''ECC_On_the_Fly_Count'' TypeRaw48 '''' 0),
        (200, attr ''Write_Error_Rate'' TypeRaw48 '''' 0),
        (240, attr ''Transfer_Error_Rate'' TypeRaw48 '''' 0)]) 0,
    dev ''''
     ''SAMSUNG SV4012H''
     ''RM100-08''
      (Some [(9, attr ''Power_On_Half_Minutes'' TypeHalfMin2Hour '''' 0)]) ataFirmwareBugSamsung,
    dev ''''
     ''SAMSUNG SV4012H''
     ''''
      (Some [(9, attr ''Power_On_Half_Minutes'' TypeHalfMin2Hour '''' 0)]) ataFirmwareBugSamsung,
    dev ''''
     ''SAMSUNG SV0412H''
     ''SK100-01''
      (Some [(9, attr ''Power_On_Half_Minutes'' TypeHalfMin2Hour '''' 0),
        (194, attr ''Temperature_Celsius_x10'' TypeTemp10X '''' 0)]) ataFirmwareBugSamsung,
    dev ''''
     ''SAMSUNG SV0412H''
     ''''
      (Some [(9, attr ''Power_On_Half_Minutes'' TypeHalfMin2Hour '''' 0),
        (194, attr ''Temperature_Celsius_x10'' TypeTemp10X '''' 0)]) ataFirmwareBugSamsung,
    dev ''''
     ''SAMSUNG SV1204H''
     ''RK100-1[3-5]''
      (Some [(9, attr ''Power_On_Half_Minutes'' TypeHalfMin2Hour '''' 0),
        (194, attr ''Temperature_Celsius_x10'' TypeTemp10X '''' 0)]) ataFirmwareBugSamsung,
    dev ''''
     ''SAMSUNG SV1204H''
     ''''
      (Some [(9, attr ''Power_On_Half_Minutes'' TypeHalfMin2Hour '''' 0),
        (194, attr ''Temperature_Celsius_x10'' TypeTemp10X '''' 0)]) ataFirmwareBugSamsung,
    dev ''''
     ''SAMSUNG SV0322A''
     '''' None 0,
    dev ''SAMSUNG SpinPoint V80''
     ''SAMSUNG SV(0211|0401|0612|0802|1203|1604)N''
     ''''
      (Some [(9, attr ''Power_On_Half_Minutes'' TypeHalfMin2Hour '''' 0)]) ataFirmwareBugSamsung2,
    dev ''''
     ''SAMSUNG SP40A2H''
     ''RR100-07''
      (Some [(9, attr ''Power_On_Half_Minutes'' TypeHalfMin2Hour '''' 0)]) ataFirmwareBugSamsung,
    dev ''''
     ''SAMSUNG SP80A4H''
     ''RT100-06''
      (Some [(9, attr ''Power_On_Half_Minutes'' TypeHalfMin2Hour '''' 0)]) ataFirmwareBugSamsung,
    dev ''''
     ''SAMSUNG SP8004H''
     ''QW100-61''
      (Some [(9, attr ''Power_On_Half_Minutes'' TypeHalfMin2Hour '''' 0)]) ataFirmwareBugSamsung,
    dev ''SAMSUNG SpinPoint F1 DT''
     ''SAMSUNG HD(083G|16[12]G|25[12]H|32[12]H|50[12]I|642J|75[23]L|10[23]U)J''
     '''' None 0,
    dev ''SAMSUNG SpinPoint F1 EG''
     ''SAMSUNG HD(252H|322H|502I|642J|753L|103U)I''
     '''' None 0,
    dev ''SAMSUNG SpinPoint F1 RE''
     ''SAMSUNG HE(252H|322H|502I|642J|753L|103U)J''
     '''' None 0,
    dev ''SAMSUNG SpinPoint F2 EG''
     ''SAMSUNG HD(502H|10[23]S|15[34]U)I''
     '''' None 0,
    dev ''SAMSUNG SpinPoint F3''
     ''SAMSUNG HD(502H|754J|103S)J''
     '''' None 0,
    dev ''Seagate Barracuda SpinPoint F3''
     ''ST[0-9DM]* HD(502H|754J|103S)J''
     '''' None 0,
    dev ''SAMSUNG SpinPoint F3 EG''
     ''SAMSUNG HD(253G|(324|503)H|754J|105S|(153|203)W)I''
     '''' None 0,
    dev ''SAMSUNG SpinPoint F3 RE''
     ''SAMSUNG HE(502H|754J|103S)J''
     '''' None 0,
    dev ''Seagate Samsung Spinpoint F4''
     ''ST(250|320)DM001 HD(256G|322G|323H)J''
     '''' None 0,
    dev ''SAMSUNG SpinPoint F4 EG (AF)''
     ''SAMSUNG HD(155|204)UI''
     '''' None 0,
    dev ''Seagate Samsung SpinPoint F4 EG (AF)''
     ''ST2000DL004 HD204UI''
     '''' None 0,
    dev ''SAMSUNG SpinPoint S250''
     ''SAMSUNG HD(162|200|250)HJ''
     '''' None 0,
    dev ''SAMSUNG SpinPoint T133''
     ''SAMSUNG HD(250KD|(30[01]|320|40[01])L[DJ])''
     '''' None 0,
    dev ''SAMSUNG SpinPoint T166''
     ''SAMSUNG HD(080G|160H|252K|32[01]K|403L|50[01]L)J''
     ''''
      (Some [(197, attr ''Total_Pending_Sectors'' TypeRaw48 '''' 0)]) 0,
    dev ''SAMSUNG SpinPoint P120''
     ''SAMSUNG SP(16[01]3|2[05][01]4)[CN]''
     ''VF100-37''
      (Some []) ataFirmwareBugSamsung3,
    dev ''SAMSUNG SpinPoint P120''
     ''SAMSUNG SP(16[01]3|2[05][01]4)[CN]''
     '''' None 0,
    dev ''SAMSUNG SpinPoint P80 SD''
     ''SAMSUNG HD(080H|120I|160J)J(/P)?''
     '''' None 0,
    dev ''SAMSUNG SpinPoint P80''
     ''SAMSUNG SP(0451|08[0124]2|12[0145]3|16[0145]4)[CN]''
     ''BH100-35''
      (Some []) ataFirmwareBugSamsung3,
    dev ''SAMSUNG SpinPoint P80''
     ''SAMSUNG SP(0451|08[0124]2|12[0145]3|16[0145]4)[CN]''
     ''.*-3[5-9]'' None 0,
    dev ''SAMSUNG SpinPoint P80''
     ''SAMSUNG SP(04[05]1|08[0124]2|12[0145]3|16[0145]4)[CN]''
     ''.*-(2[5-9]|3[0-4])''
      (Some [(9, attr ''Power_On_Half_Minutes'' TypeHalfMin2Hour '''' 0),
        (198, attr ''Total_Offl_Uncorrectabl'' TypeRaw48 '''' 0)]) 0,
    dev ''SAMSUNG SpinPoint P80''
     ''SAMSUNG SP(0451|08[0124]2|12[0145]3|16[0145]4)[CN]''
     ''.*-2[34]''
      (Some [(9, attr ''Power_On_Half_Minutes'' TypeHalfMin2Hour '''' 0)]) ataFirmwareBugSamsung2]"

definition ataDevices6 :: "ataDeviceInfo list" where
  "ataDevices6 = [
    dev ''SAMSUNG SpinPoint P80''
     ''SAMSUNG SP(0451|08[0124]2|12[0145]3|16[0145]4)[CN]''
     '''' None 0,
    dev ''SAMSUNG SpinPoint M40/60/80''
     ''SAMSUNG HM(0[468]0H|120I|1[026]0J)[CI]''
     ''''
      (Some [(9, attr ''Power_On_Half_Minutes'' TypeHalfMin2Hour '''' 0)]) 0,
    dev ''SAMSUNG SpinPoint M5''
     ''SAMSUNG HM(((061|080)G|(121|160)H|250J)I|160HC)''
     '''' None 0,
    dev ''SAMSUNG SpinPoint M6''
     ''SAMSUNG HM(251J|320[HJ]|[45]00L)I''
     '''' None 0,
    dev ''SAMSUNG SpinPoint M7''
     ''SAMSUNG HM(250H|320I|[45]00J)I''
     '''' None 0,
    dev ''SAMSUNG SpinPoint M7E (AF)''
     ''SAMSUNG HM(161G|(251|321)H|501I|641J)I''
     '''' None 0,
    dev ''Seagate Samsung SpinPoint M7E''
     ''ST(160|250|320|500|640)LM00[01] HM[0-9]*[GHIJ]I''
     '''' None 0,
    dev ''SAMSUNG SpinPoint M7U (USB)''
     ''SAMSUNG HM(162H|252H|322I|502J)X''
     '''' None 0,
    dev ''SAMSUNG SpinPoint M8 (AF)''
     ''SAMSUNG HN-M(250|320|500|640|750|101)MBB''
     '''' None 0,
    dev ''Seagate Samsung SpinPoint M8 (AF)''
     ''ST(250|320|500|640|750|1000)LM0[012][124] HN-M[0-9]*MBB|APPLE HDD ST500LM012''
     '''' None 0,
    dev ''SAMSUNG SpinPoint M8U (USB)''
     ''SAMSUNG HN-M(320|500|750|101)XBB''
     '''' None 0,
    dev ''Seagate Samsung SpinPoint M8U (USB)''
     ''ST(250|320|500|640|750|1000)LM0[012][3459] HN-M[0-9]*ABB''
     '''' None 0,
    dev ''Seagate Samsung SpinPoint M9T''
     ''ST(1500|2000)LM0(03|04|06|07|10) HN-M[0-9]*RAD''
     '''' None 0,
    dev ''Seagate Mobile HDD''
     ''ST(2000LM0(07|09|10)|1000LM03[578])-.*''
     '''' None 0,
    dev ''Seagate FireCuda 2.5 SSHD''
     ''ST(500|1000|2000)LX0(01|15|25)-.*''
     ''''
      (Some [(240, attr ''Head_Flying_Hours'' TypeMsec24Hour32 '''' 0)]) 0,
    dev ''Seagate FireCuda 3.5 SSHD''
     ''ST[12]000DX002-.*''
     ''''
      (Some [(240, attr ''Head_Flying_Hours'' TypeMsec24Hour32 '''' 0)]) 0,
    dev ''Seagate FireCuda 3.5''
     ''ST[48]000DX00[15]-.*''
     ''''
      (Some [(1, attr ''Raw_Read_Error_Rate'' TypeRaw24DivRaw32 '''' 0),
        (7, attr ''Seek_Error_Rate'' TypeRaw24DivRaw32 '''' 0),
        (188, attr ''Command_Timeout'' TypeRaw16 '''' 0),
        (18, attr ''Head_Health'' TypeRaw48 '''' 0),
        (240, attr ''Head_Flying_Hours'' TypeMsec24Hour32 '''' 0)]) 0,
    dev ''Seagate Samsung SpinPoint M9TU (USB)''
     ''ST(1500|2000)LM00[58] HN-M[0-9]*AAD''
     '''' None 0,
    dev ''Seagate FreePlay''
     ''ST(1500LM003|1000LM010|1000LM002)-.*''
     '''' None 0,
    dev ''SAMSUNG SpinPoint MP5''
     ''SAMSUNG HM(250H|320H|500J|640J)J''
     '''' None 0,
    dev ''SAMSUNG SpinPoint MT2''
     ''SAMSUNG HM100UI''
     '''' None 0,
    dev ''SAMSUNG HM100UX (S2 Portable)''
     ''SAMSUNG HM100UX''
     '''' None 0,
    dev ''SAMSUNG SpinPoint M''
     ''SAMSUNG MP0(302|402|603|804)H''
     ''''
      (Some [(9, attr ''Power_On_Half_Minutes'' TypeHalfMin2Hour '''' 0)]) 0,
    dev ''SAMSUNG SpinPoint N3U-3 (USB)''
     ''SAMSUNG HS(122H|2[05]YJ)Z''
     '''' None 0,
    dev ''SK hynix SATA SSDs''
     ''SK ?hynix (SC(210|300|308|311|313|401)|SH920) .*|HFS(128|256|512)G3[29A]MN[BD]-(2200|3[23]10)A|HFS(128|256|512)G3[29]MND-3(312|510)A|HFS(128|256|512)G39TND-N210A|HFS(120|250|500)G32TND-N1A2A|HFS(128|256|512)G32TNF-N3A0A|SHGS31-(250|500|1000)GS-2''
     ''''
      (Some [(5, attr ''Retired_Block_Count'' TypeRaw48 '''' 0),
        (100, attr ''Total_Erase_Count'' TypeRaw48 '''' 0),
        (168, attr ''Min_Erase_Count'' TypeRaw48 '''' 0),
        (169, attr ''Max_Erase_Count'' TypeRaw48 '''' 0),
        (170, attr ''Unknown_SK_hynix_Attrib'' TypeRaw48 '''' 0),
        (171, attr ''Program_Fail_Count'' TypeRaw48 '''' 0),
        (172, attr ''Erase_Fail_Count'' TypeRaw48 '''' 0),
        (173, attr ''Wear_Leveling_Count'' TypeRaw48 '''' 0),
        (174, attr ''Unexpect_Power_Loss_Ct'' TypeRaw48 '''' 0),
        (176, attr ''Unused_Rsvd_Blk_Cnt_Tot'' TypeRaw48 '''' 0),
        (180, attr ''Erase_Fail_Count'' TypeRaw48 '''' 0),
        (181, attr ''Non4k_Aligned_Access'' TypeRaw48 '''' 0),
        (183, attr ''SATA_Downshift_Count'' TypeRaw48 '''' 0),
        (191, attr ''Unknown_SK_hynix_Attrib'' TypeRaw48 '''' 0),
        (201, attr ''Percent_Lifetime_Remain'' TypeRaw48 '''' 0),
        (212, attr ''Phy_Error_Count'' TypeRaw48 '''' 0),
        (231, attr ''SSD_Life_Left'' TypeRaw48 '''' 0),
        (234, attr ''Unknown_SK_hynix_Attrib'' TypeRaw48 '''' 0),
        (236, attr ''Unknown_SK_hynix_Attrib'' TypeRaw48 '''' 0),
        (238, attr ''Unknown_SK_hynix_Attrib'' TypeRaw48 '''' 0),
        (241, attr ''Total_Writes_GB'' TypeRaw48 '''' 0),
        (242, attr ''Total_Reads_GB'' TypeRaw48 '''' 0),
        (243, attr ''Total_Media_Writes'' TypeRaw48 '''' 0),
        (249, attr ''NAND_Writes_GiB'' TypeRaw48 '''' 0),
        (250, attr ''Read_Retry_Count'' TypeRaw48 '''' 0)]) 0,
    dev ''SK hynix SATA SSDs''
     ''HFS(480|960|1T9|3T8)G3[2E]FEH-[7B][4A]10A|HFS(480|960|1T9|3T8)G3H2X069N|SK HYNIX SE5110 (480|960|1920|3840)GB ZIRCON LITE 3DTLC''
     ''''
      (Some [(5, attr ''Retired_Block_Count'' TypeRaw48 '''' 0),
        (171, attr ''Program_Fail_Count'' TypeRaw48 '''' 0),
        (172, attr ''Erase_Fail_Count'' TypeRaw48 '''' 0),
        (173, attr ''Max_Erase_Count'' TypeRaw48 '''' 0),
        (174, attr ''Unexpected_Pwr_Loss_Cnt'' TypeRaw48 '''' 0),
        (175, attr ''Program_Fail_Count'' TypeRaw48 '''' 0),
        (176, attr ''Erase_Fail_Count'' TypeRaw48 '''' 0),
        (177, attr ''Endurance_Limit_Met'' TypeRaw48 '''' 0),
        (178, attr ''Used_Rsrvd_Blk_Cnt_Wrst'' TypeRaw48 '''' 0),
        (179, attr ''Used_Rsrvd_Blk_Cnt_Tot'' TypeRaw48 '''' 0),
        (180, attr ''E2E_Error_Det_Corr_Rate'' TypeRaw48 '''' 0),
        (181, attr ''Program_Fail_Count'' TypeRaw48 '''' 0),
        (182, attr ''Erase_Fail_Count'' TypeRaw48 '''' 0),
        (183, attr ''SATA_Downshift_Count'' TypeRaw48 '''' 0),
        (195, attr ''ECC_on_the_Fly_Rate'' TypeRaw48 '''' 0),
        (201, attr ''Uncorr_Soft_Read_Err_Rt'' TypeRaw48 '''' 0),
        (202, attr ''Exception_Mode_Status'' TypeRaw48 '''' 0),
        (204, attr ''Soft_ECC_Correction_Rt'' TypeRaw48 '''' 0),
        (231, attr ''SSD_Life_Left'' TypeRaw48 '''' 0),
        (234, attr ''Lifetime_NAND_Prg_GiB'' TypeRaw48 '''' 0),
        (235, attr ''Lifetime_Writes_GiB'' TypeRaw48 '''' 0),
        (241, attr ''Lifetime_NAND_Prg_GiB'' TypeRaw48 '''' 0),
        (242, attr ''Lifetime_Reads_GiB'' TypeRaw48 '''' 0),
        (245, attr ''SSD_Life_Left'' TypeRaw48 '''' 0),
        (250, attr ''Read_Retry_Count'' TypeRaw48 '''' 0)]) 0,
    dev ''Maxtor Fireball 541DX''
     ''Maxtor 2B0(0[468]|1[05]|20)H1''
     ''''
      (Some [(9, attr ''Power_On_Minutes'' TypeMin2Hour '''' 0),
        (194, attr ''Unknown_Attribute'' TypeRaw48 '''' 0)]) 0,
    dev ''Maxtor Fireball 3''
     ''Maxtor 2F0[234]0[JL]0''
     ''''
      (Some [(9, attr ''Power_On_Minutes'' TypeMin2Hour '''' 0)]) 0,
    dev ''Maxtor DiamondMax 1280 ATA''
     ''Maxtor 8(1280A2|2160A4|2560A4|3840A6|4000A6|5120A8)''
     ''''
      (Some [(9, attr ''Power_On_Minutes'' TypeMin2Hour '''' 0)]) 0,
    dev ''Maxtor DiamondMax 2160 Ultra ATA''
     ''Maxtor 8(2160D2|3228D3|3240D3|4320D4|6480D6|8400D8|8455D8)''
     ''''
      (Some [(9, attr ''Power_On_Minutes'' TypeMin2Hour '''' 0)]) 0,
    dev ''Maxtor DiamondMax 2880 Ultra ATA''
     ''Maxtor 9(0510D4|0576D4|0648D5|0720D5|0840D6|0845D6|0864D6|1008D7|1080D8|1152D8)''
     ''''
      (Some [(9, attr ''Power_On_Minutes'' TypeMin2Hour '''' 0)]) 0,
    dev ''Maxtor DiamondMax 3400 Ultra ATA''
     ''Maxtor 9(1(360|350|202)D8|1190D7|10[12]0D6|0840D5|06[48]0D4|0510D3|1(350|202)E8|1010E6|0840E5|0640E4)''
     ''''
      (Some [(9, attr ''Power_On_Minutes'' TypeMin2Hour '''' 0)]) 0,
    dev ''Maxtor DiamondMax D540X-4G''
     ''Maxtor 4G(120J6|160J[68])''
     ''''
      (Some [(9, attr ''Power_On_Minutes'' TypeMin2Hour '''' 0),
        (194, attr ''Unknown_Attribute'' TypeRaw48 '''' 0)]) 0,
    dev ''Maxtor DiamondMax D540X-4K''
     ''MAXTOR 4K(020H1|040H2|060H3|080H4)''
     '''' None 0,
    dev ''Maxtor DiamondMax Plus D740X''
     ''MAXTOR 6L0(20[JL]1|40[JL]2|60[JL]3|80[JL]4)''
     '''' None 0,
    dev ''Maxtor DiamondMax Plus 5120 Ultra ATA 33''
     ''Maxtor 9(0512D2|0680D3|0750D3|0913D4|1024D4|1360D6|1536D6|1792D7|2048D8)''
     ''''
      (Some [(9, attr ''Power_On_Minutes'' TypeMin2Hour '''' 0)]) 0,
    dev ''Maxtor DiamondMax Plus 6800 Ultra ATA 66''
     ''Maxtor 9(2732U8|2390U7|204[09]U6|1707U5|1366U4|1024U3|0845U3|0683U2)''
     ''''
      (Some [(9, attr ''Power_On_Minutes'' TypeMin2Hour '''' 0)]) 0,
    dev ''Maxtor DiamondMax D540X-4D''
     ''Maxtor 4D0(20H1|40H2|60H3|80H4)''
     ''''
      (Some [(9, attr ''Power_On_Minutes'' TypeMin2Hour '''' 0),
        (194, attr ''Unknown_Attribute'' TypeRaw48 '''' 0)]) 0,
    dev ''Maxtor DiamondMax 16''
     ''Maxtor 4(R0[68]0[JL]0|R1[26]0L0|A160J0|R120L4)''
     ''''
      (Some [(9, attr ''Power_On_Minutes'' TypeMin2Hour '''' 0)]) 0,
    dev ''Maxtor DiamondMax 4320 Ultra ATA''
     ''Maxtor (91728D8|91512D7|91303D6|91080D5|90845D4|90645D3|90648D[34]|90432D2)''
     ''''
      (Some [(9, attr ''Power_On_Minutes'' TypeMin2Hour '''' 0)]) 0,
    dev ''Maxtor DiamondMax 17 VL''
     ''Maxtor 9(0431U1|0641U2|0871U2|1301U3|1741U4)''
     ''''
      (Some [(9, attr ''Power_On_Minutes'' TypeMin2Hour '''' 0)]) 0,
    dev ''Maxtor DiamondMax 20 VL''
     ''Maxtor (94091U8|93071U6|92561U5|92041U4|91731U4|91531U3|91361U3|91021U2|90841U2|90651U2)''
     ''''
      (Some [(9, attr ''Power_On_Minutes'' TypeMin2Hour '''' 0)]) 0,
    dev ''Maxtor DiamondMax VL 30''
     ''Maxtor (33073U4|32049U3|31536U2|30768U1|33073H4|32305H3|31536H2|30768H1)''
     ''''
      (Some [(9, attr ''Power_On_Minutes'' TypeMin2Hour '''' 0)]) 0,
    dev ''Maxtor DiamondMax 36''
     ''Maxtor (93652U8|92739U6|91826U4|91369U3|90913U2|90845U2|90435U1)''
     ''''
      (Some [(9, attr ''Power_On_Minutes'' TypeMin2Hour '''' 0)]) 0,
    dev ''Maxtor DiamondMax 40 ATA 66''
     ''Maxtor 9(0684U2|1024U2|1362U3|1536U3|2049U4|2562U5|3073U6|4098U8)''
     ''''
      (Some [(9, attr ''Power_On_Minutes'' TypeMin2Hour '''' 0)]) 0,
    dev ''Maxtor DiamondMax Plus 40 (Ultra ATA 66 and Ultra ATA 100)''
     ''Maxtor (54098[UH]8|53073[UH]6|52732[UH]6|52049[UH]4|51536[UH]3|51369[UH]3|51024[UH]2)''
     ''''
      (Some [(9, attr ''Power_On_Minutes'' TypeMin2Hour '''' 0)]) 0,
    dev ''Maxtor DiamondMax 40 VL Ultra ATA 100''
     ''Maxtor 3(1024H1|1535H2|2049H2|3073H3|4098H4)( B)?''
     ''''
      (Some [(9, attr ''Power_On_Minutes'' TypeMin2Hour '''' 0)]) 0,
    dev ''Maxtor DiamondMax Plus 45 Ulta ATA 100''
     ''Maxtor 5(4610H6|4098H6|3073H4|2049H3|1536H2|1369H2|1023H2)''
     ''''
      (Some [(9, attr ''Power_On_Minutes'' TypeMin2Hour '''' 0)]) 0,
    dev ''Maxtor DiamondMax 60 ATA 66''
     ''Maxtor 9(1023U2|1536U2|2049U3|2305U3|3073U4|4610U6|6147U8)''
     ''''
      (Some [(9, attr ''Power_On_Minutes'' TypeMin2Hour '''' 0)]) 0,
    dev ''Maxtor DiamondMax 60 ATA 100''
     ''Maxtor 9(1023H2|1536H2|2049H3|2305H3|3073H4|4098H6|4610H6|6147H8)''
     ''''
      (Some [(9, attr ''Power_On_Minutes'' TypeMin2Hour '''' 0)]) 0,
    dev ''Maxtor DiamondMax Plus 60''
     ''Maxtor 5T0(60H6|40H4|30H3|20H2|10H1)''
     ''''
      (Some [(9, attr ''Power_On_Minutes'' TypeMin2Hour '''' 0)]) 0,
    dev ''Maxtor DiamondMax 80''
     ''Maxtor (98196H8|96147H6)''
     ''''
      (Some [(9, attr ''Power_On_Minutes'' TypeMin2Hour '''' 0)]) 0,
    dev ''Maxtor DiamondMax 536DX''
     ''Maxtor 4W(100H6|080H6|060H4|040H3|030H2)''
     ''''
      (Some [(9, attr ''Power_On_Minutes'' TypeMin2Hour '''' 0)]) 0,
    dev ''Maxtor DiamondMax Plus 8''
     ''Maxtor 6(E0[234]|K04)0L0''
     ''''
      (Some [(9, attr ''Power_On_Minutes'' TypeMin2Hour '''' 0)]) 0,
    dev ''Maxtor DiamondMax 10 (ATA/133 and SATA/150)''
     ''Maxtor 6(B(30|25|20|16|12|10|08)0[MPRS]|L(080[MLP]|(100|120)[MP]|160[MP]|200[MPRS]|250[RS]|300[RS]))0''
     ''''
      (Some [(9, attr ''Power_On_Minutes'' TypeMin2Hour '''' 0)]) 0,
    dev ''Maxtor DiamondMax 10 (SATA/300)''
     ''Maxtor 6V(080E|160E|200E|250F|300F|320F)0''
     '''' None 0,
    dev ''Maxtor DiamondMax Plus 9''
     ''Maxtor 6Y((060|080|120|160)L0|(060|080|120|160|200|250)P0|(060|080|120|160|200|250)M0)''
     ''''
      (Some [(9, attr ''Power_On_Minutes'' TypeMin2Hour '''' 0)]) 0,
    dev ''Maxtor DiamondMax 11''
     ''Maxtor 6H[45]00[FR]0''
     '''' None 0,
    dev ''Maxtor DiamondMax 17''
     ''Maxtor 6G(080L|160[PE])0''
     '''' None 0,
    dev ''Seagate Maxtor DiamondMax 20''
     ''MAXTOR STM3(40|80|160)[28]1[12]0?AS?''
     '''' None 0,
    dev ''Seagate Maxtor DiamondMax 21''
     ''MAXTOR STM3(80[28]15|160215|250310|(250|320)820|320620|500630)AS?''
     '''' None 0,
    dev ''Seagate Maxtor DiamondMax 22''
     ''(MAXTOR )?STM3(500320|750330|1000340)AS?''
     ''MX1A'' None 0,
    dev ''Seagate Maxtor DiamondMax 22''
     ''(MAXTOR )?STM3(160813|320614|640323|1000334)AS?''
     ''MX1B'' None 0,
    dev ''Seagate Maxtor DiamondMax 22''
     ''(MAXTOR )?STM3(500320|750330|1000340)AS?''
     ''MX15'' None 0,
    dev ''Seagate Maxtor DiamondMax 22''
     ''(MAXTOR )?STM3(160813|32061[34]|500320|640323|750330|10003(34|40))AS?''
     '''' None 0,
    dev ''Seagate Maxtor DiamondMax 23''
     ''STM3((160|250)31|(320|500)41|(750|1000)52)8AS?''
     ''CC3[D-Z]'' None 0,
    dev ''Seagate Maxtor DiamondMax 23''
     ''STM3((160|250)31|(320|500)41|(750|1000)52)8AS?''
     '''' None 0,
    dev ''Maxtor MaXLine Plus II''
     ''Maxtor 7Y250[PM]0''
     ''''
      (Some [(9, attr ''Power_On_Minutes'' TypeMin2Hour '''' 0)]) 0,
    dev ''Maxtor MaXLine II''
     ''Maxtor [45]A(25|30|32)0[JN]0''
     ''''
      (Some [(9, attr ''Power_On_Minutes'' TypeMin2Hour '''' 0)]) 0,
    dev ''Maxtor MaXLine III (ATA/133 and SATA/150)''
     ''Maxtor 7L(25|30)0[SR]0''
     ''''
      (Some [(9, attr ''Power_On_Minutes'' TypeMin2Hour '''' 0)]) 0,
    dev ''Maxtor MaXLine III (SATA/300)''
     ''Maxtor 7V(25|30)0F0''
     '''' None 0,
    dev ''Maxtor MaXLine Pro 500''
     ''Maxtor 7H500F0''
     '''' None 0,
    dev ''''
     ''HITACHI_DK14FA-20B''
     ''''
      (Some [(9, attr ''Power_On_Minutes'' TypeMin2Hour '''' 0),
        (193, attr ''Load_Cycle_Count'' TypeRaw24DivRaw24 '''' 0)]) 0,
    dev ''HITACHI Travelstar DK23XX/DK23XXB''
     ''HITACHI_DK23..-..B?''
     ''''
      (Some [(9, attr ''Power_On_Minutes'' TypeMin2Hour '''' 0),
        (193, attr ''Load_Cycle_Count'' TypeRaw24DivRaw24 '''' 0)]) 0,
    dev ''Hitachi Endurastar J4K20/N4K20 (formerly DK23FA-20J)''
     ''(HITACHI_DK23FA-20J|HTA422020F9AT[JN]0)''
     ''''
      (Some [(9, attr ''Power_On_Minutes'' TypeMin2Hour '''' 0),
        (193, attr ''Load_Cycle_Count'' TypeRaw24DivRaw24 '''' 0)]) 0,
    dev ''Hitachi Endurastar J4K30/N4K30''
     ''HE[JN]4230[23]0F9AT00''
     ''''
      (Some [(9, attr ''Power_On_Minutes'' TypeMin2Hour '''' 0),
        (193, attr ''Load_Cycle_Count'' TypeRaw24DivRaw24 '''' 0)]) 0,
    dev ''Hitachi Travelstar C4K60''
     ''HTC4260[23]0G5CE00|HTC4260[56]0G8CE00''
     ''''
      (Some [(9, attr ''Power_On_Minutes'' TypeMin2Hour '''' 0),
        (193, attr ''Load_Cycle_Count'' TypeRaw24DivRaw24 '''' 0)]) 0,
    dev ''IBM Travelstar 4GT''
     ''IBM-DTCA-2(324|409)0''
     '''' None 0,
    dev ''IBM Travelstar 6GN''
     ''IBM-DBCA-20(324|486|648)0''
     ''''
      (Some [(8, attr ''Seek_Time_Performance'' TypeRaw16 '''' 0),
        (226, attr ''Load-in_Time'' TypeRaw16 '''' 0)]) 0,
    dev ''IBM Travelstar 25GS, 18GT, and 12GN''
     ''IBM-DARA-2(25|18|15|12|09|06)000''
     '''' None 0,
    dev ''IBM Travelstar 14GS''
     ''IBM-DCYA-214000''
     '''' None 0,
    dev ''IBM Travelstar 4LP''
     ''IBM-DTNA-2(180|216)0''
     '''' None 0,
    dev ''IBM Travelstar 48GH, 30GN, and 15GN''
     ''(IBM-|Hitachi )?IC25(T048ATDA05|N0(30|20|15|12|10|07|06|05)ATDA04)-.''
     '''' None 0,
    dev ''IBM Travelstar 32GH, 30GT, and 20GN''
     ''IBM-DJSA-2(32|30|20|10|05)''
     '''' None 0,
    dev ''IBM Travelstar 4GN''
     ''IBM-DKLA-2(216|324|432)0''
     '''' None 0,
    dev ''IBM/Hitachi Travelstar 60GH and 40GN''
     ''(IBM-|Hitachi )?IC25(T060ATC[SX]05|N0[4321]0ATC[SX]04)-.''
     ''''
      (Some [(191, attr ''G-Sense_Error_Rate'' TypeRaw16 '''' 0)]) 0,
    dev ''IBM/Hitachi Travelstar 40GNX''
     ''(IBM-|Hitachi )?IC25N0[42]0ATC[SX]05-.''
     '''' None 0,
    dev ''Hitachi Travelstar 80GN''
     ''(Hitachi )?IC25N0[23468]0ATMR04-.''
     '''' None 0,
    dev ''Hitachi Travelstar 4K40''
     ''(Hitachi )?HTS4240[234]0M9AT00''
     '''' None 0,
    dev ''Hitachi Travelstar 4K120''
     ''(Hitachi )?(HTS4212(60|80|10|12)H9AT00|HTS421260G9AT00)''
     '''' None 0,
    dev ''Hitachi Travelstar 5K80''
     ''(Hitachi )?HTS5480[8642]0M9AT00''
     '''' None 0,
    dev ''Hitachi Travelstar 5K100''
     ''(Hitachi )?HTS5410[1864]0G9(AT|SA)00''
     '''' None 0,
    dev ''Hitachi Travelstar E5K100''
     ''(Hitachi )?HTE541040G9(AT|SA)00''
     '''' None 0,
    dev ''Hitachi Travelstar 5K120''
     ''(Hitachi )?HTS5412(60|80|10|12)H9(AT|SA)00''
     '''' None 0,
    dev ''Hitachi Travelstar 5K160''
     ''(Hitachi |HITACHI )?HTS5416([468]0|1[26])J9(AT|SA)00''
     '''' None 0,
    dev ''Hitachi Travelstar E5K160''
     ''(Hitachi )?HTE5416(12|16|60|80)J9(AT|SA)00''
     '''' None 0,
    dev ''Hitachi Travelstar 5K250''
     ''(Hitachi |HITACHI )?HTS5425(80|12|16|20|25)K9(A3|SA)00''
     '''' None 0,
    dev ''Hitachi Travelstar 5K320''
     ''(Hitachi |HITACHI )?HT(S|E)5432(80|12|16|25|32)L9(A3(00)?|SA0[012])''
     '''' None 0,
    dev ''Hitachi/HGST Travelstar Z5K320''
     ''(Hitachi|HGST) HT[ES]5432(16|25|32)A7A38[145]''
     '''' None 0,
    dev ''Hitachi Travelstar 5K500.B''
     ''(Hitachi )?HT[ES]5450(12|16|25|32|40|50)B9(A30[01]|SA0[02])''
     '''' None 0,
    dev ''Hitachi/HGST Travelstar Z5K500''
     ''(Hitachi|HGST|APPLE HDD) HT[ES]5450(25|32|50)A7E(362|38[01]|680)''
     '''' None 0,
    dev ''Hitachi/HGST Travelstar 5K750''
     ''(Hitachi|APPLE HDD) HT[ES]5475(50|64|75)A9E38[14]''
     '''' None 0,
    dev ''HGST Travelstar 5K1000''
     ''HGST HT[ES]5410(64|75|10)A9E68[01]''
     '''' None 0,
    dev ''HGST Travelstar Z5K1000''
     ''HGST HTS5410(75|10)[AB]7E6(10|3[015])''
     '''' None 0,
    dev ''HGST Travelstar 5K1500''
     ''HGST HT[ES]541515A9E63[015]''
     '''' None 0,
    dev ''Hitachi Travelstar 7K60''
     ''(Hitachi )?HTS726060M9AT00''
     '''' None 0,
    dev ''Hitachi Travelstar E7K60''
     ''(Hitachi )?HTE7260[46]0M9AT00''
     '''' None 0,
    dev ''Hitachi Travelstar 7K100''
     ''(Hitachi )?HTS7210[168]0G9(AT|SA)00''
     '''' None 0,
    dev ''Hitachi Travelstar E7K100''
     ''(Hitachi )?HTE7210[168]0G9(AT|SA)00''
     '''' None 0,
    dev ''Hitachi Travelstar 7K200''
     ''(Hitachi |HITACHI )?HTS7220(80|10|12|16|20)K9(A3|SA)00''
     '''' None 0,
    dev ''Hitachi Travelstar 7K320''
     ''(Hitachi |HITACHI )?HT[ES]7232(80|12|16|25|32)L9(A300|A36[02]|SA6[01])''
     '''' None 0,
    dev ''Hitachi Travelstar Z7K320''
     ''(HITACHI )?HT[ES]7232(16|25|32)A7A36[145]''
     '''' None 0,
    dev ''Hitachi Travelstar 7K500''
     ''(Hitachi |HITACHI )?HT[ES]7250(12|16|25|32|50)A9A36[02-5]''
     '''' None 0,
    dev ''Hitachi/HGST Travelstar Z7K500''
     ''(HITACHI|HGST) HT[ES]7250(25|32|50)A7E63[015]''
     '''' None 0,
    dev ''Hitachi/HGST Travelstar 7K750''
     ''(Hitachi|HGST) HT[ES]7275(50|64|75)A9E36[14]''
     '''' None 0,
    dev ''HGST Travelstar 7K1000''
     ''HGST HT[ES]7210(10|75)A9E63[01]''
     '''' None 0,
    dev ''IBM Deskstar 14GXP and 16GP''
     ''IBM-DTTA-3(7101|7129|7144|5032|5043|5064|5084|5101|5129|5168)0''
     '''' None 0,
    dev ''IBM Deskstar 25GP and 22GXP''
     ''IBM-DJNA-3(5(101|152|203|250)|7(091|135|180|220))0''
     '''' None 0,
    dev ''IBM Deskstar 37GP and 34GXP''
     ''IBM-DPTA-3(5(375|300|225|150)|7(342|273|205|136))0''
     '''' None 0,
    dev ''IBM/Hitachi Deskstar 120GXP''
     ''(IBM-)?IC35L((020|040|060|080|120)AVVA|0[24]0AVVN)07-[01]''
     '''' None 0,
    dev ''IBM/Hitachi Deskstar GXP-180''
     ''(IBM-)?IC35L(030|060|090|120|180)AVV207-[01]''
     '''' None 0,
    dev ''Hitachi CinemaStar 5K320''
     ''Hitachi HCS5C32(25|32)SLA380''
     '''' None 0,
    dev ''Hitachi CinemaStar 5K1000''
     ''Hitachi HCS5C10(10|75|50|32|25|16)CLA382''
     '''' None 0,
    dev ''Hitachi Deskstar 5K3000''
     ''(Hitachi )?HDS5C30(15|20|30)(ALA|BLE)63[02].*''
     '''' None 0,
    dev ''Hitachi/HGST Deskstar 5K4000''
     ''(Hitachi |HGST )?HDS5C40(30|40)ALE63[01].*''
     '''' None 0,
    dev ''Hitachi Deskstar 7K80''
     ''(Hitachi )?HDS7280([48]0PLAT20|(40)?PLA320|80PLA380).*''
     '''' None 0,
    dev ''Hitachi Deskstar 7K160''
     ''(Hitachi )?HDS7216(80|16)PLA[3T]80.*''
     '''' None 0,
    dev ''Hitachi Deskstar 7K250''
     ''(Hitachi )?HDS7225((40|80|12|16)VLAT20|(12|16|25)VLAT80|(80|12|16|25)VLSA80)''
     '''' None 0,
    dev ''Hitachi Deskstar 7K250 (SUN branded)''
     ''HITACHI HDS7225SBSUN250G.*''
     '''' None 0,
    dev ''Hitachi Deskstar T7K250''
     ''(Hitachi )?HDT7225((25|20|16)DLA(T80|380))''
     '''' None 0,
    dev ''Hitachi Deskstar 7K400''
     ''(Hitachi )?HDS724040KL(AT|SA)80''
     '''' None 0,
    dev ''Hitachi Deskstar 7K500''
     ''(Hitachi )?HDS725050KLA(360|T80)''
     '''' None 0,
    dev ''Hitachi Deskstar P7K500''
     ''(Hitachi )?HDP7250(16|25|32|40|50)GLA(36|38|T8)0''
     '''' None 0,
    dev ''Hitachi Deskstar T7K500''
     ''(Hitachi )?HDT7250(25|32|40|50)VLA(360|380|T80)''
     '''' None 0,
    dev ''Hitachi Deskstar 7K1000''
     ''(Hitachi )?HDS7210(50|75|10)KLA330''
     '''' None 0,
    dev ''Hitachi Deskstar 7K1000.B''
     ''(Hitachi )?HDT7210((16|25)SLA380|(32|50|64|75|10)SLA360)''
     '''' None 0,
    dev ''Hitachi Deskstar 7K1000.C''
     ''(Hitachi )?HDS7210((16|25)CLA[36]82|(32|50)CLA[36]62|(64|75|10)CLA[36]3[02])''
     '''' None 0,
    dev ''Hitachi Deskstar 7K1000.D''
     ''Hitachi HDS7210(25|32|50|75|10)DLE630''
     '''' None 0,
    dev ''Hitachi Deskstar E7K1000''
     ''Hitachi HDE7210(50|75|10)SLA330''
     '''' None 0,
    dev ''Hitachi Deskstar 7K2000''
     ''(Hitachi )?HDS722020ALA330( RSD HUA)?''
     '''' None 0,
    dev ''Hitachi Deskstar 7K3000''
     ''Hitachi HDS7230((15|20)BLA642|30ALA640|30BLE640)''
     '''' None 0,
    dev ''Hitachi/HGST Deskstar 7K4000''
     ''(Hitachi|HGST) HDS724040ALE640''
     '''' None 0,
    dev ''HGST Deskstar NAS''
     ''HGST HDN72(40[34]|60[456]|808)0ALE6(04|1[04]|40)''
     '''' None 0,
    dev ''Hitachi/HGST Ultrastar 5K3000''
     ''(Hitachi |HGST )?HUA5C30(20|30)ALA64[01]''
     '''' None 0,
    dev ''Hitachi Ultrastar A7K1000''
     ''(Hitachi |HITACHI )?HUA7210(50|75|10)KLA330.*''
     '''' None 0,
    dev ''Hitachi Ultrastar A7K2000''
     ''(Hitachi )?HUA7220(50|10|20)[AC]LA33[01].*''
     '''' None 0,
    dev ''Hitachi Ultrastar 7K3000''
     ''(Hitachi )?HUA7230(20|30)ALA64[01]''
     '''' None 0,
    dev ''Hitachi/HGST Ultrastar 7K4000''
     ''(Hitachi |HITACHI |HGST )?HUS7240([234]0|45)AL[AE]64[01]''
     '''' None 0,
    dev ''Hitachi/HGST Ultrastar 7K2''
     ''(Hitachi|HGST) HUS722T[12]TALA604''
     ''''
      (Some [(16, attr ''Gas_Gauge'' TypeRaw48 '''' 0)]) 0,
    dev ''HGST Ultrastar 7K6000''
     ''HGST HUS7260[2456]0AL[AEN]61[014]''
     '''' None 0]"

lemma ataDevices5_patterns: "list_all readable_entry ataDevices5"
  by (simp add: ataDevices5_def readable_entry_dev readable_eval)

lemma ataDevices6_patterns: "list_all readable_entry ataDevices6"
  by (simp add: ataDevices6_def readable_entry_dev readable_eval)

lemma ataDevices5_wf: "list_all wf_entry ataDevices5"
  by (simp add: ataDevices5_def wf_entry_eval)

lemma ataDevices6_wf: "list_all wf_entry ataDevices6"
  by (simp add: ataDevices6_def wf_entry_eval)

end
