(* ===== verification/DeviceTable4.thy ===== *)
theory DeviceTable4
  imports AttrDb
begin

text \<open>
  Part 4 of the device database (\<^verbatim>\<open>ataDevicesDatabase\<close> in \<^verbatim>\<open>ata_device_database.go\<close>, lines 311 to 591), entry by
  entry, with the checks that \<open>parse\<close> reads its patterns and that its attributes are well formed.
\<close>

definition ataDevices7 :: "ataDeviceInfo list" where
  "ataDevices7 = [
    dev ''HGST Ultrastar HC310/320''
     ''HGST HUS72(6T[46]|8T8)TAL[AE]6L[14]''
     '''' None 0,
    dev ''Western Digital Ultrastar DC HC330''
     ''(WDC  )?WUS721010ALE6L[14]''
     '''' None 0,
    dev ''HGST Ultrastar He6''
     ''HGST HUS726060ALA64[01]''
     '''' None 0,
    dev ''HGST Ultrastar He8''
     ''HGST HUH7280(60|80)AL[EN]60[014]''
     '''' None 0,
    dev ''HGST Ultrastar He10''
     ''HGST HUH7210(08|10)AL[EN]60[014]''
     '''' None 0,
    dev ''Western Digital Ultrastar (He10/12)''
     ''WDC WD(8|10|12|14|16)0E([MZ]A|DA|DF|DG)Z-.*''
     '''' None 0,
    dev ''HGST Ultrastar DC HC520 (He12)''
     ''HGST HUH721212AL[EN]60[014]''
     '''' None 0,
    dev ''Western Digital Ultrastar DC HC530''
     ''WDC  ?WUH721414ALE6[0L]4''
     ''''
      (Some [(188, attr ''Command_Timeout'' TypeRaw16 '''' 0)]) 0,
    dev ''Western Digital Ultrastar DC HC550''
     ''(WDC  ?)?WUH72181[68]AL[EN]6[0L][0146]''
     '''' None 0,
    dev ''Western Digital Ultrastar DC HC555''
     ''(WDC  ?)?WUH7220(1[2468]|20)CLE6[0L][04]''
     '''' None 0,
    dev ''Western Digital Ultrastar DC HC560''
     ''(WDC  ?)?WUH722020[AB]L[EN]6[0L][014]|WDC WD200EDGZ-.*''
     ''''
      (Some [(82, attr ''Head_Health_Score'' TypeRaw16 '''' 0),
        (90, attr ''NAND_Master'' TypeHex48 '''' 0)]) 0,
    dev ''Western Digital Ultrastar DC HC570''
     ''(WDC  ?)?WUH722222[AB]L[EN]6[0L]4''
     ''''
      (Some [(71, attr ''Milli_Micro_Actuator'' TypeRaw16 '''' 0),
        (82, attr ''Head_Health_Score'' TypeRaw16 '''' 0),
        (90, attr ''NAND_Master'' TypeHex48 '''' 0)]) 0,
    dev ''Western Digital Ultrastar DC HC580''
     ''(WDC  ?)?WUH72242[24]ALE6L[14]''
     ''''
      (Some [(71, attr ''Milli_Micro_Actuator'' TypeRaw16 '''' 0),
        (90, attr ''NAND_Master'' TypeHex48 '''' 0)]) 0,
    dev ''Western Digital Ultrastar DC HC650''
     ''(WDC  ?)?WSH7220(20|VC)AL[EN]6[0L][0146]''
     '''' None 0,
    dev ''Western Digital Ultrastar DC HC670''
     ''(WDC  ?)?WSH722222[AB]L[EN]6[0L]4''
     ''''
      (Some [(71, attr ''Milli_Micro_Actuator'' TypeRaw16 '''' 0),
        (82, attr ''Head_Health_Score'' TypeRaw16 '''' 0),
        (90, attr ''NAND_Master'' TypeHex48 '''' 0)]) 0,
    dev ''HGST MegaScale 4000''
     ''HGST HMS5C4040[AB]LE64[01]''
     '''' None 0,
    dev ''Toshiba 2.5\" HDD (10-20 GB)''
     ''TOSHIBA MK(101[67]GAP|15[67]GAP|20(1[678]GAP|(18|23)GAS))''
     '''' None 0,
    dev ''Toshiba 2.5\" HDD (30-60 GB)''
     ''TOSHIBA MK((6034|4032)GSX|(6034|4032)GAX|(6026|4026|4019|3019)GAXB?|(6025|6021|4025|4021|4018|3025|3021|3018)GAS|(4036|3029)GACE?|(4018|3017)GAP)''
     '''' None 0,
    dev ''Toshiba 2.5\" HDD (80 GB and above)''
     ''TOSHIBA MK(80(25GAS|26GAX|32GAX|32GSX)|10(31GAS|32GAX)|12(33GAS|34G[AS]X)|2035GSS)''
     '''' None 0,
    dev ''Toshiba 2.5\" HDD MK..37GSX''
     ''TOSHIBA MK(12|16)37GSX''
     '''' None 0,
    dev ''Toshiba 2.5\" HDD MK..46GSX''
     ''TOSHIBA MK(80|12|16|25)46GSX''
     '''' None 0,
    dev ''Toshiba 2.5\" HDD MK..50GACY''
     ''TOSHIBA MK8050GACY''
     '''' None 0,
    dev ''Toshiba 2.5\" HDD MK..34GSX''
     ''TOSHIBA MK(80|12|10)34GSX''
     '''' None 0,
    dev ''Toshiba 2.5\" HDD MK..32GSX''
     ''TOSHIBA MK(10|80|60|40)32GSX''
     '''' None 0,
    dev ''Toshiba 2.5\" HDD MK..51GSY''
     ''TOSHIBA MK(80|12|16|25)51GSY''
     ''''
      (Some [(9, attr ''Power_On_Minutes'' TypeMin2Hour '''' 0)]) 0,
    dev ''Toshiba 2.5\" HDD MK..52GSX''
     ''TOSHIBA MK(80|12|16|25|32)52GSX''
     '''' None 0,
    dev ''Toshiba 2.5\" HDD MK..55GSX''
     ''TOSHIBA MK(12|16|25|32|40|50)55GSXF?''
     '''' None 0,
    dev ''Toshiba 2.5\" HDD MK..56GSY''
     ''TOSHIBA MK(16|25|32|50)56GSYF?''
     ''''
      (Some [(9, attr ''Power_On_Minutes'' TypeMin2Hour '''' 0)]) 0,
    dev ''Toshiba 2.5\" HDD MK..59GSXP (AF)''
     ''TOSHIBA MK(32|50|64|75)59GSXP?''
     '''' None 0,
    dev ''Toshiba 2.5\" HDD MK..59GSM (AF)''
     ''TOSHIBA MK(75|10)59GSM''
     '''' None 0,
    dev ''Toshiba 2.5\" HDD MK..61GSY[N]''
     ''TOSHIBA MK(16|25|32|50|64)61GSYN?''
     ''''
      (Some [(9, attr ''Power_On_Minutes'' TypeMin2Hour '''' 0)]) 0,
    dev ''Toshiba 2.5\" HDD MK..61GSYB''
     ''TOSHIBA MK(16|25|32|50|64)61GSYB''
     '''' None 0,
    dev ''Toshiba 2.5\" HDD MK..65GSX''
     ''TOSHIBA MK(16|25|32|50|64)65GSX[FN]?( H)?''
     '''' None 0,
    dev ''Toshiba 2.5\" HDD MK..75GSX''
     ''TOSHIBA MK(32|50|64|75)75GSX''
     '''' None 0,
    dev ''Toshiba 2.5\" HDD MK..76GSX/GS001A''
     ''TOSHIBA MK(16|25|32|50|64)76GSX''
     ''GS001A'' None 0,
    dev ''Toshiba 2.5\" HDD MK..76GSX''
     ''TOSHIBA MK(16|25|32|50|64)76GSX''
     ''''
      (Some [(9, attr ''Power_On_Minutes'' TypeMin2Hour '''' 0)]) 0,
    dev ''Toshiba 2.5\" HDD MQ01ABB...''
     ''TOSHIBA MQ01ABB(100|150|200)''
     '''' None 0,
    dev ''Toshiba 2.5\" HDD MQ01ABC...''
     ''TOSHIBA MQ01ABC(100|150|200)''
     '''' None 0,
    dev ''Toshiba 2.5\" HDD MQ01ABD...''
     ''TOSHIBA MQ01ABD(025|032|050|064|075|100)V?''
     '''' None 0,
    dev ''Toshiba 2.5\" HDD MQ01ABF...''
     ''TOSHIBA MQ01ABF(032|050|075|100)''
     '''' None 0,
    dev ''Toshiba 2.5\" HDD MQ01UBB... (USB 3.0)''
     ''TOSHIBA MQ01UBB200''
     '''' None 0,
    dev ''Toshiba 2.5\" HDD MQ01UBD... (USB 3.0)''
     ''TOSHIBA MQ01UBD(050|075|100)''
     '''' None 0,
    dev ''Toshiba 2.5\" HDD MQ04UBF... (USB 3.0)''
     ''TOSHIBA MQ04UBF100''
     '''' None 0,
    dev ''Toshiba 2.5\" HDD MQ04UBD...''
     ''TOSHIBA MQ04UBD200''
     '''' None 0,
    dev ''Toshiba 2.5\" HDD MQ03ABB...''
     ''TOSHIBA MQ03ABB[23]00''
     '''' None 0,
    dev ''Toshiba 2.5\" HDD MQ03UBB...''
     ''TOSHIBA MQ03UBB(300|200|250)''
     '''' None 0,
    dev ''Toshiba 2.5\" HDD MQ04UBB... (USB, SMR)''
     ''TOSHIBA MQ04UBB[24]00''
     '''' None 0,
    dev ''Toshiba 3.5\" HDD MK.002TSKB''
     ''TOSHIBA MK(10|20)02TSKB''
     '''' None 0,
    dev ''Toshiba 3.5\" MG03ACAxxx(Y) Enterprise HDD''
     ''TOSHIBA MG03ACA[1234]00Y?''
     '''' None 0,
    dev ''Toshiba MD04ACA... Enterprise HDD''
     ''TOSHIBA MD04ACA[2-6]00N?''
     '''' None 0,
    dev ''Toshiba MG04ACA... Enterprise HDD''
     ''TOSHIBA MG04ACA[1-6]00[AEN]Y?''
     '''' None 0,
    dev ''Toshiba MG05ACA... Enterprise Capacity HDD''
     ''TOSHIBA MG05ACA800[AE]''
     '''' None 0,
    dev ''Toshiba MG06ACA... Enterprise Capacity HDD''
     ''TOSHIBA MG06ACA([68]00|10T)[AE]Y?''
     '''' None 0,
    dev ''Toshiba MG07ACA... Enterprise Capacity HDD''
     ''TOSHIBA MG07ACA1[24]T[AE]Y?''
     '''' None 0,
    dev ''Toshiba MG08ACA... Enterprise Capacity HDD''
     ''TOSHIBA MG08ACA1[46]T[AE]Y?''
     '''' None 0,
    dev ''Toshiba MG08ADA... Enterprise Capacity HDD''
     ''TOSHIBA MG08ADA[468]00[AEN]Y?''
     '''' None 0,
    dev ''Toshiba MG09ACA... Enterprise Capacity HDD''
     ''(TOSHIBA )?MG09ACA1[02468]T[AE]Y?( .*LEN)?''
     ''''
      (Some [(27, attr ''MAMR_Health_Monitor'' TypeRaw48 '''' 0)]) 0,
    dev ''Toshiba MG10ACA... Enterprise Capacity HDD''
     ''TOSHIBA MG10ACA20T[AE]Y?''
     ''''
      (Some [(27, attr ''MAMR_Health_Monitor'' TypeRaw48 '''' 0)]) 0,
    dev ''Toshiba MG10ADA... Enterprise Capacity HDD''
     ''TOSHIBA MG10ADA([12468]00|10T)[EN]''
     ''''
      (Some [(27, attr ''MAMR_Health_Monitor'' TypeRaw48 '''' 0)]) 0,
    dev ''Toshiba MG10AFA... Enterprise Capacity HDD''
     ''TOSHIBA MG10AFA22T[AE]Y?''
     ''''
      (Some [(27, attr ''MAMR_Health_Monitor'' TypeRaw48 '''' 0)]) 0,
    dev ''Toshiba MG11 Cloud-scale Capacity HDD''
     ''TOSHIBA MG11AC[AP](1[468]|2[024])TEY?''
     ''''
      (Some [(27, attr ''MAMR_Health_Monitor'' TypeRaw48 '''' 0)]) 0,
    dev ''Toshiba 3.5\" DT01ABA... Desktop HDD''
     ''TOSHIBA DT01ABA(100|150|200|300)''
     '''' None 0,
    dev ''Toshiba 3.5\" DT01ACA... Desktop HDD''
     ''TOSHIBA DT01ACA(025|032|050|075|100|150|200|300)''
     '''' None 0,
    dev ''Toshiba 3.5\" DT02 series Desktop HDD''
     ''TOSHIBA DT02A(BA[246]|CA2)00''
     '''' None 0,
    dev ''Toshiba N300/MN NAS HDD''
     ''TOSHIBA HDW([GNQ]1[468]0|G(4[48]0|7[468]0|11A|21[CE]|31[EG]|51[CEGJ]|62[AC]|71A))([EUX]ZS[TV][AC])?|TOSHIBA MN(04ACA400|06ACA([68]00|10T)|07ACA1[24]T|08ACA1[46]T|10ADA(400E|[68]00|10T)S)''
     ''''
      (Some [(27, attr ''MAMR_Health_Monitor'' TypeRaw48 '''' 0)]) 0,
    dev ''Toshiba P300 (CMR)''
     ''TOSHIBA HDWD1(05|10|20|30)''
     '''' None 0,
    dev ''Toshiba P300 (SMR)''
     ''TOSHIBA HDWD2[246]0''
     '''' None 0,
    dev ''Toshiba S300 (SMR)''
     ''TOSHIBA HDWT(7[24]|8[46])0''
     '''' None 0,
    dev ''Toshiba V300''
     ''TOSHIBA HDWU1[123]0''
     '''' None 0,
    dev ''Toshiba X300''
     ''TOSHIBA HDW(E1[456]0|[FR]180|R(4[468]0|11A|21[CE]|31[EG]|51J))''
     '''' None 0,
    dev ''Toshiba L200 (CMR)''
     ''TOSHIBA HDW[JK]1(05|10)''
     '''' None 0,
    dev ''Toshiba L200 (SMR)''
     ''TOSHIBA HDWL1[12]0''
     '''' None 0,
    dev ''Toshiba 1.8\" HDD''
     ''TOSHIBA MK[23468]00[4-9]GA[HL]''
     '''' None 0,
    dev ''Toshiba 1.8\" HDD MK..29GSG''
     ''TOSHIBA MK(12|16|25)29GSG''
     '''' None 0,
    dev ''''
     ''TOSHIBA MK6022GAX''
     '''' None 0,
    dev ''Toshiba HK4R Series SSD''
     ''TOSHIBA THNSN8(120P|240P|480P|960P|1Q92)CSE''
     ''''
      (Some [(167, attr ''SSD_Protect_Mode'' TypeRaw48 '''' 0),
        (168, attr ''SATA_PHY_Error_Count'' TypeRaw48 '''' 0),
        (169, attr ''Bad_Block_Count'' TypeRaw48 '''' 0),
        (173, attr ''Erase_Count'' TypeRaw48 '''' 0),
        (241, attr ''Host_Writes_32MiB'' TypeRaw48 '''' 0),
        (242, attr ''Host_Reads_32MiB'' TypeRaw48 '''' 0)]) 0,
    dev ''Toshiba HG6 Series SSD''
     ''TOSHIBA THNS[NF]J(060|128|256|512)G[BCAM8VD][SCN][TU].*''
     ''''
      (Some [(167, attr ''SSD_Protect_Mode'' TypeRaw48 '''' 0),
        (168, attr ''SATA_PHY_Error_Count'' TypeRaw48 '''' 0),
        (169, attr ''Bad_Block_Count'' TypeRaw48 '''' 0),
        (173, attr ''Erase_Count'' TypeRaw48 '''' 0)]) 0,
    dev ''''
     ''TOSHIBA MK6409MAV''
     '''' None 0,
    dev ''Toshiba MKx019GAXB (SUN branded)''
     ''TOS MK[34]019GAXB SUN[34]0G''
     '''' None 0,
    dev ''Seagate Momentus''
     ''ST9(20|28|40|48)11A''
     '''' None 0,
    dev ''Seagate Momentus 42''
     ''ST9(2014|3015|4019)A''
     '''' None 0,
    dev ''Seagate Momentus 4200.2''
     ''ST9(100822|808210|60812|50212|402113|30219)A''
     '''' None 0,
    dev ''Seagate Momentus 5400.2''
     ''ST9(808211|6082[12]|408114|308110|120821|10082[34]|8823|6812|4813|3811)AS?''
     '''' None 0,
    dev ''Seagate Momentus 5400.3''
     ''ST9(4081[45]|6081[35]|8081[15]|100828|120822|160821)AS?''
     '''' None 0,
    dev ''Seagate Momentus 5400.3 ED''
     ''ST9(4081[45]|6081[35]|8081[15]|100828|120822|160821)AB''
     '''' None 0,
    dev ''Seagate Momentus 5400.4''
     ''ST9(120817|(160|200|250)827)AS''
     '''' None 0,
    dev ''Seagate Momentus 5400.5''
     ''ST9((80|120|160)310|(250|320)320)AS''
     '''' None 0,
    dev ''Seagate Momentus 5400.6''
     ''ST9(80313|160(301|314)|(12|25)0315|250317|(320|500)325|500327|640320)ASG?''
     ''''
      (Some []) ataFirmwareBugXErrorLBA,
    dev ''Seagate Momentus 5400.7''
     ''ST9(160316|(250|320)310|(500|640)320)AS''
     '''' None 0,
    dev ''Seagate Momentus 5400.7 (AF)''
     ''ST9(320312|400321|640322|750423)AS''
     '''' None 0,
    dev ''Seagate Momentus 5400 PSD''
     ''ST9(808212|(120|160)8220)AS''
     '''' None 0,
    dev ''Seagate Momentus 7200.1''
     ''ST9(10021|80825|6023|4015)AS?''
     '''' None 0,
    dev ''Seagate Momentus 7200.2''
     ''ST9(80813|100821|120823|160823|200420)ASG?''
     '''' None 0,
    dev ''Seagate Momentus 7200.3''
     ''ST9((80|120|160)411|(250|320)421)ASG?''
     '''' None 0,
    dev ''Seagate Momentus 7200.4''
     ''ST9(160412|250410|320423|500420)ASG?''
     ''''
      (Some [(1, attr ''Raw_Read_Error_Rate'' TypeRaw24DivRaw32 '''' 0),
        (7, attr ''Seek_Error_Rate'' TypeRaw24DivRaw32 '''' 0),
        (188, attr ''Command_Timeout'' TypeRaw16 '''' 0),
        (195, attr ''ECC_On_the_Fly_Count'' TypeRaw24DivRaw32 '''' 0),
        (240, attr ''Head_Flying_Hours'' TypeMsec24Hour32 '''' 0)]) 0,
    dev ''Seagate Momentus 7200 FDE.2''
     ''ST9((160413|25041[12]|320426|50042[12])AS|(16041[489]|2504[16]4|32042[67]|500426)ASG)''
     '''' None 0,
    dev ''Seagate Momentus 7200.5''
     ''ST9(50042[34]|64042[012]|75042[02])ASG?''
     '''' None 0,
    dev ''Seagate Momentus XT''
     ''ST9(2505610|3205620|5005620)AS''
     ''SD2[68]'' None 0,
    dev ''Seagate Momentus XT''
     ''ST9(2505610|3205620|5005620)AS''
     ''SD2[45]'' None 0,
    dev ''Seagate Momentus XT''
     ''ST9(2505610|3205620|5005620)AS''
     '''' None 0,
    dev ''Seagate Momentus XT (AF)''
     ''ST750LX003-.*''
     '''' None 0,
    dev ''Seagate Momentus Thin''
     ''ST(160|250|320)LT0(07|09|11|14)-.*''
     '''' None 0,
    dev ''Seagate Laptop HDD''
     ''ST((25|32|50)0LT0(12|15|25)|(32|50)0LM0(10|21)|[34]000LM016)-.*''
     ''''
      (Some [(1, attr ''Raw_Read_Error_Rate'' TypeRaw24DivRaw32 '''' 0),
        (7, attr ''Seek_Error_Rate'' TypeRaw24DivRaw32 '''' 0),
        (188, attr ''Command_Timeout'' TypeRaw16 '''' 0)]) 0,
    dev ''Seagate Laptop SSHD''
     ''ST(500|1000)LM0(00|14)-.*''
     ''''
      (Some [(1, attr ''Raw_Read_Error_Rate'' TypeRaw24DivRaw32 '''' 0),
        (7, attr ''Seek_Error_Rate'' TypeRaw24DivRaw32 '''' 0),
        (188, attr ''Command_Timeout'' TypeRaw16 '''' 0)]) 0,
    dev ''Seagate Medalist 1010, 1720, 1721, 2120, 3230 and 4340''
     ''ST3(1010|1720|1721|2120|3230|4340)A''
     '''' None 0,
    dev ''Seagate Medalist 2110, 3221, 4321, 6531, and 8641''
     ''ST3(2110|3221|4321|6531|8641)A''
     '''' None 0,
    dev ''Seagate U4''
     ''ST3(2112|4311|6421|8421)A''
     '''' None 0,
    dev ''Seagate U5''
     ''ST3(40823|30621|20413|15311|10211)A''
     '''' None 0,
    dev ''Seagate U6''
     ''ST3(8002|6002|4081|3061|2041)0A''
     '''' None 0,
    dev ''Seagate U7''
     ''ST3(30012|40012|60012|80022|120020)A''
     '''' None 0,
    dev ''Seagate U8''
     ''ST3(4313|6811|8410|4313|13021|17221)A''
     '''' None 0,
    dev ''Seagate U9''
     ''ST3(80012|120025|160022)A(CE)?''
     '''' None 0,
    dev ''Seagate U10''
     ''ST3(20423|15323|10212)A''
     '''' None 0,
    dev ''Seagate UX''
     ''ST3(10014A(CE)?|20014A)''
     '''' None 0,
    dev ''Seagate Barracuda ATA''
     ''ST3(2804|2724|2043|1362|1022|681)0A''
     '''' None 0,
    dev ''Seagate Barracuda ATA II''
     ''ST3(3063|2042|1532|1021)0A''
     '''' None 0,
    dev ''Seagate Barracuda ATA III''
     ''ST3(40824|30620|20414|15310|10215)A''
     '''' None 0,
    dev ''Seagate Barracuda ATA IV''
     ''ST3(20011|30011|40016|60021|80021)A''
     '''' None 0,
    dev ''Seagate Barracuda ATA V''
     ''ST3(12002(3A|4A|9A|3AS)|800(23A|15A|23AS)|60(015A|210A)|40017A)''
     '''' None 0,
    dev ''Seagate Barracuda 5400.1''
     ''ST340015A''
     '''' None 0,
    dev ''Seagate Barracuda 7200.7 and 7200.7 Plus''
     ''ST3(200021A|200822AS?|16002[13]AS?|12002[26]AS?|1[26]082[78]AS|8001[13]AS?|8081[79]AS|60014A|40111AS|40014AS?)( .* IBM)?''
     '''' None 0,
    dev ''Seagate Barracuda 7200.8''
     ''ST3(400[68]32|300[68]31|250[68]23|200826)AS?''
     '''' None 0,
    dev ''Seagate Barracuda 7200.9''
     ''ST3(402111?|80[28]110?|120[28]1[0134]|160[28]1[012]|200827|250[68]24|300[68]22|(320|400)[68]33|500[68](32|41))AS?.*''
     '''' None 0,
    dev ''Seagate Barracuda 7200.10''
     ''ST3((80|160)[28]15|200820|250[34]10|(250|300|320|400)[68]20|360320|500[68]30|750[68]40)AS?|GB0160EAFJE''
     ''''
      (Some [(1, attr ''Raw_Read_Error_Rate'' TypeRaw24DivRaw32 '''' 0),
        (7, attr ''Seek_Error_Rate'' TypeRaw24DivRaw32 '''' 0),
        (195, attr ''ECC_On_the_Fly_Count'' TypeRaw24DivRaw32 '''' 0)]) 0,
    dev ''Seagate Barracuda 7200.11''
     ''ST3(160813|320[68]13|500[368]20|640[36]23|640[35]30|750[36]30|1000(333|[36]40)|1500341)AS?''
     ''CC.?.?'' None 0,
    dev ''Seagate Barracuda 7200.11''
     ''ST3(500[368]20|750[36]30|1000340)AS?''
     ''SD1A'' None 0,
    dev ''Seagate Barracuda 7200.11''
     ''ST3(160813|320[68]13|640[36]23|1000333|1500341)AS?''
     ''SD[12]B'' None 0,
    dev ''Seagate Barracuda 7200.11''
     ''ST3(500[368]20|640[35]30|750[36]30|1000340)AS?''
     ''(AD14|SD1[5-9]|SD81)'' None 0,
    dev ''Seagate Barracuda 7200.11''
     ''ST3(160813|320[68]13|500[368]20|640[36]23|640[35]30|750[36]30|1000(333|[36]40)|1500341)AS?''
     '''' None 0,
    dev ''Seagate Barracuda 7200.12''
     ''ST3(160318|250318|320418|50041[08]|750528|1000528)AS''
     ''CC4[9A-Z]|HP34'' None 0,
    dev ''Seagate Barracuda 7200.12''
     ''ST3(160318|250318|320418|50041[08]|750528|1000528)AS''
     '''' None 0,
    dev ''Seagate Barracuda 7200.12''
     ''ST3(160318|25031[128]|320418|50041[038]|750(518|52[358])|100052[348]|320413|160316)AS''
     ''''
      (Some [(188, attr ''Command_Timeout'' TypeRaw16 '''' 0),
        (240, attr ''Head_Flying_Hours'' TypeMsec24Hour32 '''' 0)]) 0,
    dev ''Seagate Barracuda XT''
     ''ST(3(2000641|3000651)AS|4000DX000-.*)''
     '''' None 0,
    dev ''Seagate Barracuda 7200.14 (AF)''
     ''ST(1000|1500|2000|2500|3000)DM00[1-3]-9YN16.''
     ''CC(4[H-Z]|[5-9A-Z]..*)''
      (Some [(188, attr ''Command_Timeout'' TypeRaw16 '''' 0),
        (240, attr ''Head_Flying_Hours'' TypeMsec24Hour32 '''' 0)]) 0,
    dev ''Seagate Barracuda 7200.14 (AF)''
     ''ST(1000|1500|2000|2500|3000)DM00[1-3]-9YN16.''
     ''CC4[679CG]''
      (Some [(188, attr ''Command_Timeout'' TypeRaw16 '''' 0),
        (240, attr ''Head_Flying_Hours'' TypeMsec24Hour32 '''' 0)]) 0,
    dev ''Seagate Barracuda 7200.14 (AF)''
     ''ST(1000|1500|2000|2500|3000)DM00[1-3]-9YN16.''
     ''''
      (Some [(188, attr ''Command_Timeout'' TypeRaw16 '''' 0),
        (240, attr ''Head_Flying_Hours'' TypeMsec24Hour32 '''' 0)]) 0,
    dev ''Seagate Barracuda 7200.14 (AF)''
     ''ST(1000|1500|2000|2500|3000)DM00[0-3]-.*|APPLE HDD ST([13]000DM00[13])''
     ''''
      (Some [(1, attr ''Raw_Read_Error_Rate'' TypeRaw24DivRaw32 '''' 0),
        (7, attr ''Seek_Error_Rate'' TypeRaw24DivRaw32 '''' 0),
        (188, attr ''Command_Timeout'' TypeRaw16 '''' 0),
        (195, attr ''ECC_On_the_Fly_Count'' TypeRaw24DivRaw32 '''' 0),
        (240, attr ''Head_Flying_Hours'' TypeMsec24Hour32 '''' 0)]) 0,
    dev ''Seagate Barracuda 7200.14 (AF)''
     ''ST(250|320|500|750)DM00[0-3]-.*''
     ''''
      (Some [(188, attr ''Command_Timeout'' TypeRaw16 '''' 0),
        (240, attr ''Head_Flying_Hours'' TypeMsec24Hour32 '''' 0)]) 0,
    dev ''Seagate BarraCuda 3.5 (CMR)''
     ''ST(500DM009|1000DM010|2000DM00[67]|3000DM00[89]|4000DM005)-.*''
     ''''
      (Some [(200, attr ''Pressure_Limit'' TypeRaw48 '''' 0),
        (188, attr ''Command_Timeout'' TypeRaw16 '''' 0),
        (240, attr ''Head_Flying_Hours'' TypeMsec24Hour32 '''' 0)]) 0,
    dev ''Seagate BarraCuda 3.5 (SMR)''
     ''ST(2000DM00[58]|3000DM007|[48]000DM004|6000DM003)-.*''
     ''''
      (Some [(1, attr ''Raw_Read_Error_Rate'' TypeRaw24DivRaw32 '''' 0),
        (7, attr ''Seek_Error_Rate'' TypeRaw24DivRaw32 '''' 0),
        (188, attr ''Command_Timeout'' TypeRaw16 '''' 0),
        (9, attr ''Power_On_Hours'' TypeMsec24Hour32 '''' 0),
        (195, attr ''ECC_On_the_Fly_Count'' TypeRaw24DivRaw32 '''' 0),
        (200, attr ''Pressure_Limit'' TypeRaw48 '''' 0),
        (240, attr ''Head_Flying_Hours'' TypeMsec24Hour32 '''' 0)]) 0,
    dev ''Seagate Desktop HDD.15''
     ''ST[4568]000DM00[012]-.*''
     ''''
      (Some [(188, attr ''Command_Timeout'' TypeRaw16 '''' 0),
        (240, attr ''Head_Flying_Hours'' TypeMsec24Hour32 '''' 0)]) 0,
    dev ''Seagate Desktop SSHD''
     ''ST[124]000DX001-.*''
     ''''
      (Some [(188, attr ''Command_Timeout'' TypeRaw16 '''' 0),
        (240, attr ''Head_Flying_Hours'' TypeMsec24Hour32 '''' 0)]) 0,
    dev ''Seagate Barracuda LP''
     ''ST3(500412|1000520|1500541|2000542)AS''
     ''CC3[5-9A-Z]'' None 0,
    dev ''Seagate Barracuda LP''
     ''ST3(500412|1000520|1500541|2000542)AS''
     ''''
      (Some []) ataFirmwareBugXErrorLBA,
    dev ''Seagate Barracuda Green (AF)''
     ''ST((10|15|20)00DL00[123])-.*''
     ''CC(3[2-9A-Z]|[4-9A-Z]..*)'' None 0,
    dev ''Seagate Barracuda Green (AF)''
     ''ST((10|15|20)00DL00[123])-.*''
     '''' None 0,
    dev ''Seagate Barracuda ES''
     ''ST3(250[68]2|32062|40062|50063|75064)0NS''
     '''' None 0,
    dev ''Seagate BarraCuda 2.5''
     ''ST(500LM03[04]|1000LM04[89]|2000LM015|[34]000LM024|5000LM000)-.*''
     ''''
      (Some [(1, attr ''Raw_Read_Error_Rate'' TypeRaw24DivRaw32 '''' 0),
        (7, attr ''Seek_Error_Rate'' TypeRaw24DivRaw32 '''' 0),
        (183, attr ''SATA_Downshift_Count'' TypeRaw48 '''' 0),
        (188, attr ''Command_Timeout'' TypeRaw16 '''' 0)]) 0,
    dev ''Seagate Barracuda ES.2''
     ''ST3(25031|50032|75033|100034)0NS''
     ''SN[01]6|MA(0[^7]|[^0].)''
      (Some []) ataFirmwareBugXErrorLBA,
    dev ''Seagate Barracuda ES.2''
     ''ST3(25031|50032|75033|100034)0NS''
     ''MA07'' None 0]"

definition ataDevices8 :: "ataDeviceInfo list" where
  "ataDevices8 = [
    dev ''Seagate Barracuda ES.2''
     ''ST3(25031|50032|75033|100034)0NS''
     '''' None 0,
    dev ''Seagate BarraCuda Pro''
     ''ST(2000DM009|4000DM006|6000DM004|8000DM00(5|04)|10000DM0004|12000DM0007)-.*''
     ''''
      (Some [(9, attr ''Power_On_Hours'' TypeMsec24Hour32 '''' 0),
        (188, attr ''Command_Timeout'' TypeRaw16 '''' 0),
        (200, attr ''Pressure_Limit'' TypeRaw48 '''' 0),
        (240, attr ''Head_Flying_Hours'' TypeMsec24Hour32 '''' 0)]) 0,
    dev ''Seagate BarraCuda 3.5 (CMR+HAMR)''
     ''ST(16|20|22|24|26|28)000DM00[01]-3Y.103''
     ''''
      (Some [(1, attr ''Raw_Read_Error_Rate'' TypeRaw24DivRaw32 '''' 0),
        (7, attr ''Seek_Error_Rate'' TypeRaw24DivRaw32 '''' 0),
        (18, attr ''Head_Health'' TypeRaw48 '''' 0),
        (188, attr ''Command_Timeout'' TypeRaw16 '''' 0),
        (200, attr ''Pressure_Limit'' TypeRaw48 '''' 0),
        (240, attr ''Head_Flying_Hours'' TypeMsec24Hour32 '''' 0)]) 0,
    dev ''Seagate Constellation (SATA)''
     ''ST9(160511|500530)NS''
     '''' None 0,
    dev ''Seagate Constellation ES (SATA)''
     ''ST3(50051|100052|200064)4NS|MB0500EAMZD''
     '''' None 0,
    dev ''Seagate Constellation ES (SATA 6Gb/s)''
     ''ST(5|10|20)00NM0011|MB1000GCEEK''
     '''' None 0,
    dev ''Seagate Constellation ES.2 (SATA 6Gb/s)''
     ''ST3(2000645|300065[012])NS( .*IBM)?|MB3000EBKAB''
     '''' None 0,
    dev ''Seagate Constellation ES.3''
     ''ST[1234]000NM00[35]3-.*|MB[14]000GCW(CV|DC)''
     '''' None 0,
    dev ''Seagate Constellation CS''
     ''ST[1-4]000NC00[0-3](-.*)?''
     ''''
      (Some [(1, attr ''Raw_Read_Error_Rate'' TypeRaw24DivRaw32 '''' 0),
        (7, attr ''Seek_Error_Rate'' TypeRaw24DivRaw32 '''' 0),
        (188, attr ''Command_Timeout'' TypeRaw16 '''' 0)]) 0,
    dev ''Seagate Constellation.2 (SATA)''
     ''ST9(25061|50062|100064)[012]NS|MM1000GBKAL''
     '''' None 0,
    dev ''Seagate Enterprise Capacity 3.5 HDD''
     ''ST([1234568]|10)000NM0[012][0-68][456]-.*''
     ''''
      (Some [(200, attr ''Pressure_Limit'' TypeRaw48 '''' 0),
        (188, attr ''Command_Timeout'' TypeRaw16 '''' 0),
        (240, attr ''Head_Flying_Hours'' TypeMsec24Hour32 '''' 0)]) 0,
    dev ''Seagate Enterprise Capacity 3.5 HDD''
     ''ST[12]000NM0008-.*''
     ''''
      (Some [(9, attr ''Power_On_Hours'' TypeMsec24Hour32 '''' 0),
        (188, attr ''Command_Timeout'' TypeRaw16 '''' 0),
        (240, attr ''Head_Flying_Hours'' TypeMsec24Hour32 '''' 0)]) 0,
    dev ''Seagate Enterprise Capacity 3.5 HDD v7 SED''
     ''ST12000NM01[12]7''
     ''''
      (Some [(1, attr ''Raw_Read_Error_Rate'' TypeRaw24DivRaw32 '''' 0),
        (7, attr ''Seek_Error_Rate'' TypeRaw24DivRaw32 '''' 0),
        (195, attr ''Hardware_ECC_Recovered'' TypeRaw24DivRaw32 '''' 0)]) 0,
    dev ''Seagate Exos 5E8''
     ''ST8000AS0003-.*''
     ''''
      (Some [(9, attr ''Power_On_Hours'' TypeMsec24Hour32 '''' 0),
        (240, attr ''Head_Flying_Hours'' TypeMsec24Hour32 '''' 0)]) 0,
    dev ''Seagate Exos 7E8''
     ''ST[123468]000NM0(0[01234689]|1[0236]|2[1256])A-.*|OOS6000G''
     ''''
      (Some [(18, attr ''Head_Health'' TypeRaw48 '''' 0),
        (188, attr ''Command_Timeout'' TypeRaw16 '''' 0),
        (240, attr ''Head_Flying_Hours'' TypeMsec24Hour32 '''' 0)]) 0,
    dev ''Seagate Exos 7E10''
     ''ST([2468]|10)000NM0(0[0-9]|1[0123789]|2[0-9])B-.*''
     ''''
      (Some [(1, attr ''Raw_Read_Error_Rate'' TypeRaw24DivRaw32 '''' 0),
        (7, attr ''Seek_Error_Rate'' TypeRaw24DivRaw32 '''' 0),
        (18, attr ''Head_Health'' TypeRaw48 '''' 0),
        (188, attr ''Command_Timeout'' TypeRaw16 '''' 0),
        (240, attr ''Head_Flying_Hours'' TypeMsec24Hour32 '''' 0)]) 0,
    dev ''Seagate Exos 7E2000''
     ''ST(1000NX0(3[0145]|42)3|2000NX0(2[458]|30|40)3)-.*|ST(1000NX044|2000NX042)3''
     ''''
      (Some [(1, attr ''Raw_Read_Error_Rate'' TypeRaw24DivRaw32 '''' 0),
        (7, attr ''Seek_Error_Rate'' TypeRaw24DivRaw32 '''' 0),
        (188, attr ''Command_Timeout'' TypeRaw16 '''' 0),
        (195, attr ''ECC_On_the_Fly_Count'' TypeRaw24DivRaw32 '''' 0),
        (240, attr ''Head_Flying_Hours'' TypeMsec24Hour32 '''' 0)]) 0,
    dev ''Seagate Exos X12''
     ''ST12000NM00[01]7-.*''
     ''''
      (Some [(200, attr ''Pressure_Limit'' TypeRaw48 '''' 0),
        (240, attr ''Head_Flying_Hours'' TypeMsec24Hour32 '''' 0)]) 0,
    dev ''Seagate Exos X14''
     ''ST(14000NM04[24]8|14000NM0(01|25)8|12000NM0(00|24|53)8|10000NM0(47|56)8)-.*''
     ''''
      (Some [(18, attr ''Head_Health'' TypeRaw48 '''' 0),
        (200, attr ''Pressure_Limit'' TypeRaw48 '''' 0),
        (240, attr ''Head_Flying_Hours'' TypeMsec24Hour32 '''' 0)]) 0,
    dev ''Seagate Exos 2X14''
     ''ST14000NM0121''
     ''''
      (Some [(1, attr ''Raw_Read_Error_Rate'' TypeRaw24DivRaw32 '''' 0),
        (7, attr ''Seek_Error_Rate'' TypeRaw24DivRaw32 '''' 0),
        (18, attr ''Head_Health'' TypeRaw48 '''' 0),
        (188, attr ''Command_Timeout'' TypeRaw16 '''' 0),
        (200, attr ''Pressure_Limit'' TypeRaw48 '''' 0),
        (240, attr ''Head_Flying_Hours'' TypeMsec24Hour32 '''' 0)]) 0,
    dev ''Seagate Exos X16''
     ''ST1[0246]000NM00[13]G-.*''
     ''''
      (Some [(1, attr ''Raw_Read_Error_Rate'' TypeRaw24DivRaw32 '''' 0),
        (7, attr ''Seek_Error_Rate'' TypeRaw24DivRaw32 '''' 0),
        (18, attr ''Head_Health'' TypeRaw48 '''' 0),
        (188, attr ''Command_Timeout'' TypeRaw16 '''' 0),
        (200, attr ''Pressure_Limit'' TypeRaw48 '''' 0),
        (240, attr ''Head_Flying_Hours'' TypeMsec24Hour32 '''' 0)]) 0,
    dev ''Seagate Exos X18''
     ''ST1(0000NM0(18|20)G|[2468]000NM00[012]J)-.*|OOS14000G''
     ''''
      (Some [(1, attr ''Raw_Read_Error_Rate'' TypeRaw24DivRaw32 '''' 0),
        (7, attr ''Seek_Error_Rate'' TypeRaw24DivRaw32 '''' 0),
        (18, attr ''Head_Health'' TypeRaw48 '''' 0),
        (188, attr ''Command_Timeout'' TypeRaw16 '''' 0),
        (200, attr ''Pressure_Limit'' TypeRaw48 '''' 0),
        (240, attr ''Head_Flying_Hours'' TypeMsec24Hour32 '''' 0)]) 0,
    dev ''Seagate Exos X20/X22''
     ''ST(16|18|20)000NM00[0347]D-.*|ST(16|2[02])000NM00[014]E-.*|OOS20000G''
     ''''
      (Some [(1, attr ''Raw_Read_Error_Rate'' TypeRaw24DivRaw32 '''' 0),
        (7, attr ''Seek_Error_Rate'' TypeRaw24DivRaw32 '''' 0),
        (18, attr ''Head_Health'' TypeRaw48 '''' 0),
        (188, attr ''Command_Timeout'' TypeRaw16 '''' 0),
        (200, attr ''Pressure_Limit'' TypeRaw48 '''' 0),
        (240, attr ''Head_Flying_Hours'' TypeMsec24Hour32 '''' 0)]) 0,
    dev ''Seagate Exos X24''
     ''ST(12|16|20|24)000NM00[12]H-.*''
     ''''
      (Some [(1, attr ''Raw_Read_Error_Rate'' TypeRaw24DivRaw32 '''' 0),
        (7, attr ''Seek_Error_Rate'' TypeRaw24DivRaw32 '''' 0),
        (18, attr ''Head_Health'' TypeRaw48 '''' 0),
        (188, attr ''Command_Timeout'' TypeRaw16 '''' 0),
        (200, attr ''Pressure_Limit'' TypeRaw48 '''' 0),
        (240, attr ''Head_Flying_Hours'' TypeMsec24Hour32 '''' 0)]) 0,
    dev ''Seagate Exos Recertified (HAMR)''
     ''ST(16|20|22|24|26|28)000NM00[02]C-3..103''
     ''''
      (Some [(1, attr ''Raw_Read_Error_Rate'' TypeRaw24DivRaw32 '''' 0),
        (7, attr ''Seek_Error_Rate'' TypeRaw24DivRaw32 '''' 0),
        (18, attr ''Head_Health'' TypeRaw48 '''' 0),
        (188, attr ''Command_Timeout'' TypeRaw16 '''' 0),
        (200, attr ''Pressure_Limit'' TypeRaw48 '''' 0),
        (240, attr ''Head_Flying_Hours'' TypeMsec24Hour32 '''' 0)]) 0,
    dev ''Seagate Exos M''
     ''ST(24000NM001|28000NM003|30000NM004|32000NM004)K-3..133''
     ''''
      (Some [(1, attr ''Raw_Read_Error_Rate'' TypeRaw24DivRaw32 '''' 0),
        (7, attr ''Seek_Error_Rate'' TypeRaw24DivRaw32 '''' 0),
        (188, attr ''Command_Timeout'' TypeRaw16 '''' 0),
        (200, attr ''Pressure_Limit'' TypeRaw48 '''' 0),
        (240, attr ''Head_Flying_Hours'' TypeMsec24Hour32 '''' 0)]) 0,
    dev ''Seagate NAS HDD''
     ''ST([234]000VN000|[468]000VN00(02|21|12|31|3))-.*''
     '''' None 0,
    dev ''Seagate Enterprise NAS HDD''
     ''ST(8000NE|[65432]000VN)00[01]1-.*''
     '''' None 0,
    dev ''Seagate IronWolf''
     ''ST([123468]|1[0246])000VN00(0?[0234678]|1|22|33|41)-.*|Synology HAT3300-(2|4|6|12)T''
     ''''
      (Some [(1, attr ''Raw_Read_Error_Rate'' TypeRaw24DivRaw32 '''' 0),
        (7, attr ''Seek_Error_Rate'' TypeRaw24DivRaw32 '''' 0),
        (18, attr ''Head_Health'' TypeRaw48 '''' 0),
        (188, attr ''Command_Timeout'' TypeRaw16 '''' 0),
        (195, attr ''Hardware_ECC_Recovered'' TypeRaw24DivRaw32 '''' 0),
        (200, attr ''Pressure_Limit'' TypeRaw48 '''' 0),
        (240, attr ''Head_Flying_Hours'' TypeMsec24Hour32 '''' 0)]) 0,
    dev ''Seagate IronWolf Pro''
     ''ST([24]000NE00([01]|25)|6000NE00(0|23)|8000NE00([01]|0[48]|21))-.*|ST(1[02468]|2[02])000NE(000[478]?)-.*|ST([2468]|1[02468]|2[024])000NT00[12]-.*''
     ''''
      (Some [(1, attr ''Raw_Read_Error_Rate'' TypeRaw24DivRaw32 '''' 0),
        (7, attr ''Seek_Error_Rate'' TypeRaw24DivRaw32 '''' 0),
        (18, attr ''Head_Health'' TypeRaw48 '''' 0),
        (188, attr ''Command_Timeout'' TypeRaw16 '''' 0),
        (200, attr ''Pressure_Limit'' TypeRaw48 '''' 0),
        (240, attr ''Head_Flying_Hours'' TypeMsec24Hour32 '''' 0)]) 0,
    dev ''Seagate IronWolf Pro (HAMR)''
     ''ST(24000NT031|28000NT000|30000NT011|32000NT000)-...103''
     ''''
      (Some [(1, attr ''Raw_Read_Error_Rate'' TypeRaw24DivRaw32 '''' 0),
        (7, attr ''Seek_Error_Rate'' TypeRaw24DivRaw32 '''' 0),
        (188, attr ''Command_Timeout'' TypeRaw16 '''' 0),
        (200, attr ''Pressure_Limit'' TypeRaw48 '''' 0),
        (240, attr ''Head_Flying_Hours'' TypeMsec24Hour32 '''' 0)]) 0,
    dev ''Seagate Archive HDD (SMR)''
     ''ST[568]000AS00[01][12]-.*''
     '''' None 0,
    dev ''Seagate Pipeline HD 5900.1''
     ''ST3(160310|320[34]10|500(321|422))CS''
     '''' None 0,
    dev ''Seagate Pipeline HD 5900.2''
     ''ST3(160316|250[34]12|320(311|413)|500(312|414)|1000(322|424))CS''
     '''' None 0,
    dev ''Seagate Video 3.5 HDD''
     ''ST(10|15|20|30|40)00VM00[023]-.*''
     '''' None 0,
    dev ''Seagate Medalist 17240, 13030, 10231, 8420, and 4310''
     ''ST3(17240|13030|10231|8420|4310)A''
     '''' None 0,
    dev ''Seagate Medalist 17242, 13032, 10232, 8422, and 4312''
     ''ST3(1724|1303|1023|842|431)2A''
     '''' None 0,
    dev ''Seagate NL35''
     ''ST3(250623|250823|400632|400832|250824|250624|400633|400833|500641|500841)NS''
     '''' None 0,
    dev ''Seagate SV35.2''
     ''ST3(160815|250820|320620|500630|750640)[AS]V''
     '''' None 0,
    dev ''Seagate SV35.3''
     ''ST3(500320|750330|1000340)SV''
     '''' None 0,
    dev ''Seagate SV35.5''
     ''ST3(250311|500410|1000525)SV''
     '''' None 0,
    dev ''Seagate Surveillance''
     ''ST([1-5]000VX00[01234]1?|31000526SV|3500411SV)(-.*)?''
     '''' None 0,
    dev ''Seagate SkyHawk''
     ''ST(1000VX0(05|13)|2000VX0(08|15|17)|3000VX0(09|10|15)|4000VX0(07|13|16)|6000VX00(1|9|23)|8000VX0(04|10|022)|10000VX0004)-.*''
     ''''
      (Some [(1, attr ''Raw_Read_Error_Rate'' TypeRaw24DivRaw32 '''' 0),
        (7, attr ''Seek_Error_Rate'' TypeRaw24DivRaw32 '''' 0),
        (188, attr ''Command_Timeout'' TypeRaw16 '''' 0),
        (9, attr ''Power_On_Hours'' TypeMsec24Hour32 '''' 0),
        (195, attr ''ECC_On_the_Fly_Count'' TypeRaw24DivRaw32 '''' 0),
        (240, attr ''Head_Flying_Hours'' TypeMsec24Hour32 '''' 0)]) 0,
    dev ''Seagate DB35''
     ''ST3(200826|250823|300831|400832)[AS]CE''
     '''' None 0,
    dev ''Seagate DB35.2''
     ''ST3(802110|120213|160212|200827|250824|300822|400833|500841)[AS]CE''
     '''' None 0,
    dev ''Seagate DB35.3''
     ''ST3(750640SCE|((80|160)215|(250|320|400)820|500830|750840)[AS]CE)''
     '''' None 0,
    dev ''Seagate EE25.2''
     ''ST9[3468]081[78][AS]M''
     ''''
      (Some [(7, attr ''Seek_Error_Rate'' TypeRaw24DivRaw32 '''' 0),
        (195, attr ''ECC_On_the_Fly_Count'' TypeRaw24DivRaw32 '''' 0)]) 0,
    dev ''Seagate LD25.1''
     ''ST9(20217|402115)AS''
     ''''
      (Some [(1, attr ''Raw_Read_Error_Rate'' TypeRaw24DivRaw32 '''' 0),
        (7, attr ''Seek_Error_Rate'' TypeRaw24DivRaw32 '''' 0),
        (195, attr ''ECC_On_the_Fly_Count'' TypeRaw24DivRaw32 '''' 0)]) 0,
    dev ''Seagate LD25.2''
     ''ST9(40|80)210AS?''
     '''' None 0,
    dev ''Seagate Video 2.5''
     ''ST(320|500)VT000-.*''
     ''''
      (Some [(1, attr ''Raw_Read_Error_Rate'' TypeRaw24DivRaw32 '''' 0),
        (7, attr ''Seek_Error_Rate'' TypeRaw24DivRaw32 '''' 0),
        (188, attr ''Command_Timeout'' TypeRaw16 '''' 0)]) 0,
    dev ''Seagate ST1.2 CompactFlash''
     ''ST6[468]022CF''
     '''' None 0,
    dev ''Seagate BarraCuda series SSD''
     ''Seagate (SSD|BarraCuda (120 )?SSD ZA(250|500|1000|2000)CM1000[23])''
     ''''
      (Some [(16, attr ''Spare_Blocks_Available'' TypeRaw48 '''' 0),
        (17, attr ''Spare_Blocks_Remaining'' TypeRaw48 '''' 0),
        (168, attr ''SATA_PHY_Error_Count'' TypeRaw48 '''' 0),
        (170, attr ''Early/Later_Bad_Blck_Ct'' TypeRaw16 '''' 0),
        (173, attr ''Max/Avg/Min_Erase_Count'' TypeRaw16 '''' 0),
        (174, attr ''Unexpect_Power_Loss_Ct'' TypeRaw48 '''' 0),
        (177, attr ''Wear_Range_Delta'' TypeRaw48 '''' 0),
        (192, attr ''Unexpect_Power_Loss_Ct'' TypeRaw48 '''' 0),
        (218, attr ''SATA_CRC_Error_Count'' TypeRaw48 '''' 0),
        (231, attr ''SSD_Life_Left'' TypeRaw8 '''' 0),
        (232, attr ''Read_Failure_Blk_Count'' TypeRaw24DivRaw32 '''' 0),
        (233, attr ''Flash_Writes_GiB'' TypeRaw48 '''' 0),
        (234, attr ''Unknown_Seagate_Attrib'' TypeRaw48 '''' 0),
        (235, attr ''Flash_Writes_Sectors'' TypeRaw48 '''' 0),
        (241, attr ''Host_Writes_GiB'' TypeRaw48 '''' 0),
        (242, attr ''Host_Reads_GiB'' TypeRaw48 '''' 0)]) 0,
    dev ''Seagate Nytro XF1230 SATA SSD''
     ''XF1230-1A(0240|0480|0960|1920)''
     ''''
      (Some [(174, attr ''Unexpect_Power_Loss_Ct'' TypeRaw48 '''' 0),
        (180, attr ''End_to_End_Err_Detect'' TypeRaw48 '''' 0),
        (183, attr ''SATA_Downshift_Count'' TypeRaw48 '''' 0),
        (189, attr ''SSD_Health_Flags'' TypeRaw48 '''' 0),
        (190, attr ''SATA_Error_Ct'' TypeRaw48 '''' 0),
        (201, attr ''Read_Error_Rate'' TypeRaw48 '''' 0),
        (231, attr ''SSD_Life_Left_Perc'' TypeRaw48 '''' 0),
        (234, attr ''Lifetime_Nand_Gb'' TypeRaw48 '''' 0),
        (241, attr ''Total_Writes_GiB'' TypeRaw48 '''' 0),
        (242, attr ''Total_Reads_GiB'' TypeRaw48 '''' 0),
        (245, attr ''Read_Error_Rate'' TypeRaw48 '''' 0)]) 0,
    dev ''Seagate IronWolf 110 SATA SSD''
     ''ZA(240|480|960|1920|3840)NM10001''
     ''''
      (Some [(100, attr ''Flash_GB_Erased'' TypeRaw48 '''' 0),
        (102, attr ''Lifetime_PS4_Entry_Ct'' TypeRaw48 '''' 0),
        (103, attr ''Lifetime_PS3_Exit_Ct'' TypeRaw48 '''' 0),
        (170, attr ''Grown_Bad_Block_Ct'' TypeRaw48 '''' 0),
        (171, attr ''Program_Fail_Count'' TypeRaw48 '''' 0),
        (172, attr ''Erase_Fail_Count'' TypeRaw48 '''' 0),
        (173, attr ''Avg_Program/Erase_Ct'' TypeRaw48 '''' 0),
        (174, attr ''Unexpected_Pwr_Loss_Ct'' TypeRaw48 '''' 0),
        (177, attr ''Wear_Range_Delta'' TypeRaw16 '''' 0),
        (183, attr ''SATA_Downshift_Count'' TypeHex56 '''' 0),
        (187, attr ''Uncorrectable_ECC_Ct'' TypeRaw48 '''' 0),
        (195, attr ''RAISE_ECC_Cor_Ct'' TypeRaw16OptRaw16 '''' 0),
        (198, attr ''Uncor_Read_Error_Ct'' TypeRaw48 '''' 0),
        (230, attr ''Drv_Life_Protect_Status'' TypeRaw56 '''' 0),
        (231, attr ''SSD_Life_Left'' TypeHex56 '''' 0),
        (233, attr ''Lifetime_Wts_To_Flsh_GB'' TypeRaw48 '''' 0),
        (241, attr ''Lifetime_Wts_Frm_Hst_GB'' TypeRaw48 '''' 0),
        (242, attr ''Lifetime_Rds_Frm_Hst_GB'' TypeRaw48 '''' 0),
        (243, attr ''Free_Space'' TypeHex56 '''' 0)]) 0,
    dev ''Seagate IronWolf (Pro) 125 SSDs''
     ''Seagate IronWolf ZA(250|500|1000|2000|4000)NM10002-.*|Seagate IronWolfPro ZA(240|480|960|1920|3840)NX10001-.*''
     ''''
      (Some [(16, attr ''Spare_Blocks_Available'' TypeRaw48 '''' 0),
        (17, attr ''Spare_Blocks_Remaining'' TypeRaw48 '''' 0),
        (168, attr ''SATA_PHY_Error_Count'' TypeRaw48 '''' 0),
        (170, attr ''Early/Later_Bad_Blck_Ct'' TypeRaw16 '''' 0),
        (173, attr ''Max/Avg/Min_Erase_Ct'' TypeRaw16 '''' 0),
        (174, attr ''Unexpect_Power_Loss_Ct'' TypeRaw48 '''' 0),
        (177, attr ''Wear_Range_Delta'' TypeRaw16 '''' 0),
        (218, attr ''SATA_CRC_Error_Count'' TypeRaw48 '''' 0),
        (231, attr ''SSD_Life_Left'' TypeRaw48 '''' 0),
        (232, attr ''Read_Failure_Blk_Ct'' TypeHex48 '''' 0),
        (233, attr ''Flash_Writes_GiB'' TypeRaw48 '''' 0),
        (234, attr ''NAND_Reads_Sectors'' TypeRaw48 '''' 0),
        (235, attr ''Flash_Writes_Sectors'' TypeRaw48 '''' 0),
        (241, attr ''Host_Writes_GiB'' TypeRaw48 '''' 0),
        (242, attr ''Host_Reads_GiB'' TypeRaw48 '''' 0),
        (246, attr ''Write_Protect_Detail'' TypeHex64 '''' 0),
        (247, attr ''Health_Check_Timer'' TypeRaw48 '''' 0)]) 0,
    dev ''Seagate Nytro SATA SSD''
     ''XA(240|480|960|1920|3840)[LM]E10(00|02|04|06|08|10)3''
     ''''
      (Some [(100, attr ''Flash_GB_Erased'' TypeRaw48 '''' 0),
        (102, attr ''Lifetime_PS4_Entry_Ct'' TypeRaw48 '''' 0),
        (103, attr ''Lifetime_PS3_Exit_Ct'' TypeRaw48 '''' 0),
        (170, attr ''Grown_Bad_Block_Ct'' TypeRaw48 '''' 0),
        (171, attr ''Program_Fail_Count'' TypeRaw48 '''' 0),
        (172, attr ''Erase_Fail_Count'' TypeRaw48 '''' 0),
        (173, attr ''Avg_Program/Erase_Ct'' TypeRaw48 '''' 0),
        (174, attr ''Unexpected_Pwr_Loss_Ct'' TypeRaw48 '''' 0),
        (177, attr ''Wear_Range_Delta'' TypeRaw16 '''' 0),
        (183, attr ''SATA_Downshift_Count'' TypeHex56 '''' 0),
        (187, attr ''Uncorrectable_ECC_Ct'' TypeRaw48 '''' 0),
        (195, attr ''RAISE_ECC_Cor_Ct'' TypeRaw16OptRaw16 '''' 0),
        (198, attr ''Uncor_Read_Error_Ct'' TypeRaw48 '''' 0),
        (230, attr ''Drv_Life_Protect_Status'' TypeRaw56 '''' 0),
        (231, attr ''SSD_Life_Left'' TypeHex56 '''' 0),
        (233, attr ''Lifetime_Wts_To_Flsh_GB'' TypeRaw48 '''' 0),
        (241, attr ''Lifetime_Wts_Frm_Hst_GB'' TypeRaw48 '''' 0),
        (242, attr ''Lifetime_Rds_Frm_Hst_GB'' TypeRaw48 '''' 0),
        (243, attr ''Free_Space'' TypeHex56 '''' 0)]) 0,
    dev ''WD Blue / Red / Green SSDs''
     (''WDC WDBNCE(250|500|00[124])0PNC(-.*)?|WDC  ?WDS((120|240|250|400|480|500)G|[124]00T)(1B|2B|1G|2G|[12]R)0[AB](-.*)?|WD (Green|(Blue|Red) SA5[01]0) (2'' @ bsl @ ''.5|M'' @ bsl @ ''.2 2280) ((25|50|100)0G|[24]T)B|SanDisk (Extreme )?Portable SSD|SanDisk SD9SN8W[124]T00'')
     ''''
      (Some [(165, attr ''Block_Erase_Count'' TypeRaw16 '''' 0),
        (166, attr ''Minimum_PE_Cycles_TLC'' TypeRaw48 '''' 0),
        (167, attr ''Max_Bad_Blocks_per_Die'' TypeRaw48 '''' 0),
        (168, attr ''Maximum_PE_Cycles_TLC'' TypeRaw48 '''' 0),
        (169, attr ''Total_Bad_Blocks'' TypeRaw48 '''' 0),
        (170, attr ''Grown_Bad_Blocks'' TypeRaw48 '''' 0),
        (171, attr ''Program_Fail_Count'' TypeRaw48 '''' 0),
        (172, attr ''Erase_Fail_Count'' TypeRaw48 '''' 0),
        (173, attr ''Average_PE_Cycles_TLC'' TypeRaw48 '''' 0),
        (174, attr ''Unexpected_Power_Loss'' TypeRaw48 '''' 0),
        (230, attr ''Media_Wearout_Indicator'' TypeRaw16 '''' 0),
        (233, attr ''NAND_GB_Written_TLC'' TypeRaw48 '''' 0),
        (234, attr ''NAND_GB_Written_SLC'' TypeRaw48 '''' 0),
        (241, attr ''Host_Writes_GiB'' TypeRaw48 '''' 0),
        (242, attr ''Host_Reads_GiB'' TypeRaw48 '''' 0),
        (244, attr ''Temp_Throttle_Status'' TypeRaw48 '''' 0)]) 0,
    dev ''Western Digital Protege''
     ''WDC WD([2468]00E|1[26]00A)B-.*''
     '''' None 0,
    dev ''Western Digital Caviar''
     ''WDC WD(2|3|4|6|8|10|12|16|18|20|25)00BB-.*''
     '''' None 0,
    dev ''Western Digital Caviar WDxxxAB''
     ''WDC WD(3|4|6|8|25)00AB-.*''
     '''' None 0,
    dev ''Western Digital Caviar WDxxxAA''
     ''WDC WD...?AA(-.*)?''
     '''' None 0,
    dev ''Western Digital Caviar WDxxxBA''
     ''WDC WD...BA''
     '''' None 0,
    dev ''Western Digital Caviar AC''
     ''WDC AC((116|121|125|225|132|232)|([1-4][4-9][0-9])|([1-4][0-9][0-9][0-9]))00[A-Z]?.*''
     '''' None 0,
    dev ''Western Digital Caviar SE''
     ''WDC WD(4|6|8|10|12|16|18|20|25|30|32|40|50)00(JB|PB)-.*''
     '''' None 0,
    dev ''Western Digital Caviar Blue EIDE''
     ''WDC WD(16|25|32|40|50)00AAJB-.*''
     '''' None 0,
    dev ''Western Digital Caviar Blue EIDE''
     ''WDC WD(25|32|40|50)00AAKB-.*''
     '''' None 0,
    dev ''Western Digital RE EIDE''
     ''WDC WD(12|16|25|32)00SB-.*''
     '''' None 0,
    dev ''Western Digital PiDrive Foundation Edition''
     ''WDC WD(3750|2500)LMCW-.*''
     '''' None 0,
    dev ''Western Digital Caviar Serial ATA''
     ''WDC WD(4|8|20|32)00BD-.*''
     '''' None 0,
    dev ''Western Digital Caviar SE Serial ATA''
     ''WDC WD(4|8|12|16|20|25|30|32|40)00(JD|KD|PD)-.*''
     '''' None 0,
    dev ''Western Digital Caviar SE Serial ATA''
     ''WDC WD(8|12|16|20|25|30|32|40|50)00JS-.*''
     '''' None 0,
    dev ''Western Digital Caviar SE16 Serial ATA''
     ''WDC WD(16|20|25|32|40|50|75)00KS-.*''
     '''' None 0,
    dev ''Western Digital Caviar Blue Serial ATA''
     ''WDC WD((8|12|16|25|32)00AABS|(8|12|16|25|32|40|50)00AAJS)-.*''
     '''' None 0,
    dev ''Western Digital Caviar Blue (SATA)''
     ''WDC WD((16|20|25|32|40|50|64|75)00AAKS|1602ABKS|10EALS)-.*''
     '''' None 0,
    dev ''Western Digital Blue (CMR)''
     ''(APPLE HDD )?WDC WD((25|32|50)00AAKX|5000AZ(LX|RZ)|7500A(AL|ZE)X|[123468]0E(ALX|A[ARZ]Z|Z[AE]X|ZRZ))-.*''
     '''' None 0,
    dev ''Western Digital Blue (SMR)''
     ''WDC WD[2346]0E(DAZ|ZAZ|ZBX)-.*''
     '''' None 0,
    dev ''Western Digital RE Serial ATA''
     ''WDC WD(12|16|25|32)00(SD|YD|YS)-.*''
     '''' None 0,
    dev ''Western Digital RE2 Serial ATA''
     ''WDC WD((40|50|75)00(YR|YS|AYYS)|(16|32|40|50)0[01]ABYS)-.*''
     '''' None 0,
    dev ''Western Digital RE2-GP''
     ''WDC WD(5000AB|7500AY|1000FY)PS-.*''
     '''' None 0,
    dev ''Western Digital RE3 Serial ATA''
     ''(WDC )?WD((25|32|50|75)02A|(75|10)02F)BYS-.*''
     '''' None 0,
    dev ''Western Digital RE4''
     ''(WDC )?WD((25|50)03ABY[XZ]|1003FBY[XZ]|(15|20)03FYYS)-.*''
     '''' None 0,
    dev ''Western Digital RE4-GP''
     ''(WDC )?WD200[23]FYPS-.*''
     '''' None 0,
    dev ''Western Digital Re''
     ''WDC WD((1004|2004)FBYZ|([234]000)FDYZ|[234]000FYYZ|2000FYYX)-.*''
     ''''
      (Some [(16, attr ''Total_LBAs_Read'' TypeRaw48 '''' 0)]) 0,
    dev ''Western Digital Re+''
     ''WDC WD[56]005FRPZ-.*''
     ''''
      (Some [(16, attr ''Unknown_WDC_Attribute'' TypeRaw48 '''' 0)]) 0,
    dev ''Western Digital Se''
     ''WDC WD(1002|2000|3000|4000|5001|6001)F9YZ-.*''
     '''' None 0,
    dev ''Western Digital Caviar Green''
     ''WDC WD((50|64|75)00AA[CV]S|(50|64|75)00AADS|10EA[CV]S|(10|15|20)EAD[SX])-.*''
     ''''
      (Some []) ataFirmwareBugXErrorLBA,
    dev ''Western Digital Caviar Green (AF)''
     ''WDC WD(((64|75|80)00AA|(10|15|20)EA|(25|30)EZ)R|20EAC)S-.*''
     '''' None 0,
    dev ''Western Digital Green''
     ''WDC WD(5000AZ|7500AA|(10|15|20)EA|(10|20|25|30|40|50|60)EZ)RX-.*''
     '''' None 0,
    dev ''Western Digital Caviar Black''
     ''WDC WD((500|640)1AAL|7501AA[EL]|1001FA[EL]|2001FAS)S-.*|WDC WD(2002|7502|1502|5003|1002|5002)(FAE|AAE|AZE|AAL)X-.*''
     ''''
      (Some []) ataFirmwareBugXErrorLBA,
    dev ''Western Digital Black''
     ''WDC WD(102|101|8002|8001|6004|6003|4006|6001|2003|5001|1003|4003|4004|4005|5003|3003|3001)(FZW|FZE|FZB|AZE)X-.*|WDC WD(4001|3001|2002|1002|5003|7500|5000|3200|2500|1600)(FAE|AZE)X-.*''
     '''' None 0,
    dev ''Western Digital Black (SMR)''
     ''WDC WD10SPSX-.*''
     '''' None 0,
    dev ''Western Digital AV ATA''
     ''WDC WD(8|16|25|32|50)00AV[BJ]B-.*''
     '''' None 0,
    dev ''Western Digital AV SATA''
     ''WDC WD(16|25|32)00AVJS-.*''
     '''' None 0,
    dev ''Western Digital AV-GP''
     ''WDC WD((16|25|32|50|64|75)00AV[CDV]S|(10|15|20)EV[CDV]S)-.*''
     '''' None 0,
    dev ''Western Digital AV-GP (AF)''
     ''WDC WD(5000AUDX|7500AURS|10EUCX|(10|15|20|25|30)EUR[SX])-.*''
     '''' None 0,
    dev ''Western Digital AV''
     ''WDC WD((16|25|32|50)00BU[CD]|5000LUC|10JUC)T-.*''
     '''' None 0,
    dev ''Western Digital Raptor''
     ''WDC WD((360|740|800)GD|(360|740|800|1500)ADF[DS])-.*''
     '''' None 0,
    dev ''Western Digital Raptor X''
     ''WDC WD1500AHFD-.*''
     '''' None 0,
    dev ''Western Digital VelociRaptor''
     ''WDC WD(((800H|(1500|3000)[BH]|1600H|3000G)LFS)|((1500|3000|4500|6000)[BH]LHX))-.*''
     '''' None 0,
    dev ''Western Digital VelociRaptor (AF)''
     ''WDC WD(2500H|5000B|5000H|1000D)HTZ-.*''
     '''' None 0,
    dev ''Western Digital Scorpio EIDE''
     ''WDC WD(4|6|8|10|12|16)00(UE|VE)-.*''
     '''' None 0,
    dev ''Western Digital Scorpio Blue EIDE''
     ''WDC WD(4|6|8|10|12|16|25|32)00BEVE-.*''
     '''' None 0,
    dev ''Western Digital Scorpio Serial ATA''
     ''WDC WD(4|6|8|10|12|16|25)00BEAS-.*''
     '''' None 0,
    dev ''Western Digital Scorpio Blue Serial ATA''
     ''WDC WD((4|6|8|10|12|16|25|32)00BEVS|(8|12|16|25|32|40|50|64)00BEVT|7500KEVT|10TEVT)-.*''
     '''' None 0,
    dev ''Western Digital Scorpio Blue Serial ATA (AF)''
     ''WDC WD((16|25|32|50|64|75)00BPVT|10[JT]PVT)-.*''
     '''' None 0,
    dev ''Western Digital Scorpio Black''
     ''WDC WD(8|12|16|25|32|50)00B[EJ]KT-.*''
     '''' None 0,
    dev ''Western Digital Scorpio Black (AF)''
     ''WDC WD(50|75)00BPKT-.*''
     '''' None 0,
    dev ''Western Digital Red (CMR)''
     ''WDC WD(7500BFCX|80EZZX|1[26]0EMFZ)-.*''
     '''' None 0,
    dev ''Western Digital Red (SMR)''
     ''WDC WD[2346]0EFAX-.*''
     '''' None 0,
    dev ''Western Digital Red Plus''
     ''WDC WD(10JFCX|[1-6]0EFRX|[2-8]0EFPX|[23468]0E[FZ](ZX|ZZ)|(80|10[01]|1[24]0|1[68]1)(JFC|EF[ABFRG])X)-.*''
     '''' None 0,
    dev ''Western Digital Red Pro''
     ''WDC WD([2-68]00[1235]FF[BSW]|1[02][12]KFB|(1[468]|2[02])[12]KFG)X-.*''
     ''''
      (Some [(71, attr ''Milli_Micro_Actuator'' TypeRaw16 '''' 0),
        (90, attr ''NAND_Master'' TypeHex48 '''' 0)]) 0,
    dev ''Western Digital Purple (Pro)''
     ''WDC WD([1-68][024]|8002|1[02]1)PU[RZ][PXZ]-.*''
     '''' None 0,
    dev ''Western Digital Gold''
     ''WDC WD([12]005[FV]B|4002FY|4003FR|600[23]FR|800[2-5]FR|([12][02468]1|102)KR)YZ-.*''
     '''' None 0,
    dev ''Western Digital Blue Mobile''
     ''WDC WD(3200LPCX|5000[BL]P[CV]X|7500BPVX|10JP[CVZ]X|(15|20)NPVZ)-.*''
     '''' None 0,
    dev ''Western Digital Blue Mobile (SMR)''
     ''WDC WD[12]0SPZX-.*''
     '''' None 0,
    dev ''Western Digital Green Mobile''
     ''WDC WD(15|20)NPV[TX]-.*''
     '''' None 0,
    dev ''Western Digital Black Mobile''
     ''WDC WD((16|25|32)00BEK[TX]|(25|32|50|75)00(BPK|LPL)X|10JPLX)-.*''
     '''' None 0,
    dev ''Western Digital Elements / My Passport (USB)''
     ''WDC WD(25|32|40|50)00BMV[UVW]-.*''
     '''' None 0,
    dev ''Western Digital Elements / My Passport (USB, AF)''
     ''WDC WD((5000[LK]|7500[BK]|10[JST]|[234]0N)M|50ND|40ND)[VZ][VWM]-.*''
     '''' None 0,
    dev ''Quantum Bigfoot''
     (''QUANTUM BIGFOOT TS(10'' @ bsl @ ''.0|12'' @ bsl @ ''.7)A'')
     '''' None 0,
    dev ''Quantum Fireball lct15''
     ''QUANTUM FIREBALLlct15 ([123]0|22)''
     '''' None 0,
    dev ''Quantum Fireball lct20''
     ''QUANTUM FIREBALLlct20 [1234]0''
     '''' None 0,
    dev ''Quantum Fireball CX''
     ''QUANTUM FIREBALL CX10.2A''
     '''' None 0,
    dev ''Quantum Fireball CR''
     ''QUANTUM FIREBALL CR(4.3|6.4|8.4|13.0)A''
     '''' None 0,
    dev ''Quantum Fireball EX''
     (''QUANTUM FIREBALL EX(3'' @ bsl @ ''.2|6'' @ bsl @ ''.4|10'' @ bsl @ ''.2)A'')
     '''' None 0,
    dev ''Quantum Fireball ST''
     ''QUANTUM FIREBALL ST(3.2|4.3|4300)A''
     '''' None 0,
    dev ''Quantum Fireball SE''
     ''QUANTUM FIREBALL SE4.3A''
     '''' None 0,
    dev ''Quantum Fireball Plus LM''
     ''QUANTUM FIREBALLP LM(10.2|15|20.[45]|30)''
     '''' None 0,
    dev ''Quantum Fireball Plus AS''
     ''QUANTUM FIREBALLP AS(10.2|20.5|30.0|40.0|60.0)''
     '''' None 0,
    dev ''Quantum Fireball Plus KX''
     ''QUANTUM FIREBALLP KX27.3''
     '''' None 0,
    dev ''Quantum Fireball Plus KA''
     ''QUANTUM FIREBALLP KA(9|10).1''
     '''' None 0]"

lemma ataDevices7_patterns: "list_all readable_entry ataDevices7"
  by (simp add: ataDevices7_def readable_entry_dev readable_eval)

lemma ataDevices8_patterns: "list_all readable_entry ataDevices8"
  by (simp add: ataDevices8_def readable_entry_dev readable_eval)

lemma ataDevices7_wf: "list_all wf_entry ataDevices7"
  by (simp add: ataDevices7_def wf_entry_eval)

lemma ataDevices8_wf: "list_all wf_entry ataDevices8"
  by (simp add: ataDevices8_def wf_entry_eval)

end
