(* ===== verification/DeviceDb.thy ===== *)
theory DeviceDb
  imports DeviceTable1 DeviceTable2 DeviceTable3 DeviceTable4
begin

text \<open>
  The look-up in the database the package ships (\<^verbatim>\<open>ata_device_database.go\<close>) with Go's \<^verbatim>\<open>regexp.MatchString\<close>: every
  pattern is one that \<open>parse\<close> reads, so the look-up never fails and takes the first entry whose patterns
  occur in the model and in the firmware revision. Occurrence, not a match of the whole text, is what
  sends drives to entries that were not written for them.
\<close>

definition ataDevicesDatabase :: "ataDeviceInfo list" where
  "ataDevicesDatabase = ataDevices1 @ ataDevices2 @ ataDevices3 @ ataDevices4 @
     ataDevices5 @ ataDevices6 @ ataDevices7 @ ataDevices8"

text \<open>A part of the text, its code points taken one by one, is in the language of the pattern.\<close>

definition occurs :: "string \<Rightarrow> string \<Rightarrow> bool" where
  "occurs p s \<longleftrightarrow> (\<exists>r a u b. parse p = Some r \<and> runes s = a @ u @ b \<and> u \<in> lang r)"

lemma occurs_parse: "parse p = Some r \<Longrightarrow> occurs p s \<longleftrightarrow> (\<exists>a u b. runes s = a @ u @ b \<and> u \<in> lang r)"
  by (simp add: occurs_def)

lemma MatchString_occurs: "parse p = Some r \<Longrightarrow> MatchString rest p s = Ok (occurs p s)"
  by (simp add: MatchString_def occurs_parse search_iff)

lemma database_readable: "list_all readable_entry ataDevicesDatabase"
  unfolding ataDevicesDatabase_def list_all_append
  by (intro conjI ataDevices1_patterns ataDevices2_patterns ataDevices3_patterns ataDevices4_patterns
      ataDevices5_patterns ataDevices6_patterns ataDevices7_patterns ataDevices8_patterns)

lemma database_patterns_ok: "patterns_ok (MatchString rest) occurs ataDevicesDatabase"
  using database_readable
  by (auto simp: patterns_ok_def list_all_iff readable_entry_def dest: MatchString_occurs)

lemma findMatchingDbRecord_database:
  "findMatchingDbRecord (MatchString rest) ataDevicesDatabase model firmware =
     Ok (find (fits occurs model firmware) ataDevicesDatabase)"
  by (rule findMatchingDbRecord_find [OF database_patterns_ok])

text \<open>
  C23. With the shipped database the look-up never fails: a drive gets the default attributes
  overridden by the presets of the first entry whose model pattern occurs in its model number and whose
  firmware pattern, if any, occurs in its firmware revision, with that entry's bug flags.
\<close>

theorem database_lookup:
  "findAttributesMapping (MatchString rest) ataDevicesDatabase model firmware =
     Ok (case find (fits occurs model firmware) ataDevicesDatabase of
           None \<Rightarrow> (ataDefaultAttributes, 0)
         | Some db \<Rightarrow>
             (ataDefaultAttributes ++ (case dbPresets db of None \<Rightarrow> Map.empty | Some p \<Rightarrow> p), dbBug db))"
  by (simp add: findAttributesMapping_def findMatchingDbRecord_database split: option.split)

lemma database_never_fails:
  "\<exists>mp bug. findAttributesMapping (MatchString rest) ataDevicesDatabase model firmware = Ok (mp, bug)"
  unfolding findAttributesMapping_def findMatchingDbRecord_database bind_res_simps
  by (auto split: option.split)

section \<open>Every attribute of the database\<close>

lemma database_wf: "list_all wf_entry ataDevicesDatabase"
  unfolding ataDevicesDatabase_def list_all_append
  by (intro conjI ataDevices1_wf ataDevices2_wf ataDevices3_wf ataDevices4_wf
      ataDevices5_wf ataDevices6_wf ataDevices7_wf ataDevices8_wf)

text \<open>
  C25. Whatever the drive, every attribute of its mapping has an id that fits a byte, one of the nineteen types and one
  of the three restrictions. None is called \<^verbatim>\<open>Temperature_Celsius_X10\<close>, so that case of
  \<^verbatim>\<open>ReadGenericAttributes\<close> is dead and a temperature in tenths of a degree is never reported.
\<close>

theorem database_attributes:
  "\<exists>mp bug. findAttributesMapping (MatchString rest) ataDevicesDatabase model firmware = Ok (mp, bug) \<and>
    (\<forall>i. case mp i of None \<Rightarrow> True
       | Some a \<Rightarrow> 0 < i \<and> i < 256 \<and> 1 \<le> attrTyp a \<and> attrTyp a \<le> 19 \<and>
           attrRestriction a \<in> {0, 1, 2} \<and> attrName a \<noteq> ''Temperature_Celsius_X10'')"
proof -
  obtain mp bug where m: "findAttributesMapping (MatchString rest) ataDevicesDatabase model firmware = Ok (mp, bug)"
    using database_never_fails by blast
  have "wf_mapping mp"
  proof (cases "find (fits occurs model firmware) ataDevicesDatabase")
    case None
    with m show ?thesis
      by (simp add: findAttributesMapping_def findMatchingDbRecord_database wf_defaults)
  next
    case (Some db)
    then have "wf_entry db" using database_wf by (auto simp: list_all_iff find_Some_iff)
    with Some m show ?thesis
      by (auto simp: findAttributesMapping_def findMatchingDbRecord_database wf_entry_def wf_defaults
          split: option.splits intro!: wf_mapping_add)
  qed
  then have "wf_attr (i, a)" if "mp i = Some a" for i a
    using that by (auto simp: wf_mapping_def)
  then have "case mp i of None \<Rightarrow> True
       | Some a \<Rightarrow> 0 < i \<and> i < 256 \<and> 1 \<le> attrTyp a \<and> attrTyp a \<le> 19 \<and>
           attrRestriction a \<in> {0, 1, 2} \<and> attrName a \<noteq> ''Temperature_Celsius_X10''" for i
    by (auto simp: wf_attr_def wf_type_def wf_restriction_def RestrictionNone_def RestrictionHDDOnly_def
        RestrictionSSDOnly_def split: option.split)
  with m show ?thesis by blast
qed

section \<open>Entries that catch other drives\<close>

lemma find_prefix: "x \<in> set xs \<Longrightarrow> P x \<Longrightarrow> \<exists>y. find P (xs @ ys) = Some y \<and> y \<in> set xs"
  by (induction xs) auto

text \<open>The model pattern of the entry for Silicon Motion based SSDs has the alternative \<^verbatim>\<open>T60\<close>.\<close>

definition siliconMotion :: ataDeviceInfo where
  "siliconMotion = ataDevices4 ! 14"

definition before_T60 :: string where
  "before_T60 = ''ADATA_IMSS332-((008|016|032|064|128|256|512)G|001T)[AEMT]P?|ADATA (SP550|SU(63[05]|650(NS38)?|655|[89]00))|AMD R5SL512G|CORSAIR FORCE LX SSD|CHN (25SATA01M|mSATAM3) (060|128|256|512)|CIS 2S M305 (16|32|64|128|256)GB|CT(120|250|500|1000)BX100SSD1|CT(240|480|960)BX200SSD1|DREVO X1 SSD|Drevo X1 pro (64|128|256)G|DEXP SSD C100 (128|256|512)Gb|EX27(8215|653[69]|668[35])RUS|HP SSD S700 ((128|256|512)G|1T)B|JAJS[56]00M((12[08]|240|256|480|512|960)C|1TB)(-1)?|KingDian S100 (32|64)GB|KingDian S(200|280|400) ((60|120|240|480)GB|1TB)|KingSpec KSD-[PS]A25'' @ bsl @ ''.[1-9]-(016|032|064|128)(MS|SJ)|KINGSTON SKC600(MS)?(256|512|1024|2048)G|LITEON L[CM]H-(128|256|512)V2[MS](-.*)?|MKNSSDRE((25[06]|500|512)G|[12]T)B(-LT)?|MKNSSD(S2|TR)(12[08]|2[45]0|480|500)GB(-(3DL|LT))?|N900-(256|512)|NFN025SA31T-.*|NFORCE (256|512)25 - SSZS13|ONDA S-12 64GB|OWC Envoy Pro|Patriot P2[01]0 ((128|256|512)GB|[12]TB)|R3SL(120|240|480|960)G|Ramsta SSD S800 (120|240|480)GB|SED2QII-LP SATA SSD ((64|128|256|512)GB|[12]TB)|SH00M(120|240|480)GB''"

definition after_T60 :: string where
  "after_T60 = ''TCSUNBOW [MX]3 (60|120|240|480)GB|TEAM( T253(TD|X6)?|L5Lite3D)((120|240|256|480|512)G|[12]TB?)|TS((16|32|64|128|256|512)G|1T)(SSD|MS[AM])(230S?|3[67]0[SI]?|420[IK]?)|TS(16|32|64|128|512|256)GMTS4[03]0S?|TS(120|240)GMTS420S?|TS[1248]GSSD25H-S|TS(128G|256G|512G|1T|2T|4T)SSD230S|TS(120|240|480|960)GSSD220S|TS((64|128|256|512)G|[12]T)SSD452K|TS((64|128|256|512)G|[12]T)MTS952T|TS((128|256|512)G|[124]T)SSD470K|TS(16G|32G|64G|128G|256G|512G|1T)MTS800S?|TS(120|240|480|960)GMTS820S|TS(16|32|64)GMSA630|TS(32|64|128)GPSD330|TS(16|32|64|96|128|256)GSSD(630|360S)|TS(128G|256G|512G|1T)ESD400K|TS(128G|256G|512G|1T)MTS830S|TSG(16|32|64|128|256|512)MTS400ISI|UMAX 2242 (128|256|512)GB|ZOZT G3000 (120|240|480)GB''"

lemma siliconMotion_entry:
  "siliconMotion \<in> set ataDevices4"
  "dbModel siliconMotion = ''Silicon Motion based SSDs''"
  "dbModelRe siliconMotion = before_T60 @ CHR ''|'' # ''T60'' @ CHR ''|'' # after_T60"
  "dbFirmwareRe siliconMotion = ''''"
  by (simp_all add: siliconMotion_def ataDevices4_def dev_def before_T60_def after_T60_def)

lemma before_T60_readable: "\<exists>r. parse before_T60 = Some r" "length before_T60 < 2000"
  by (simp_all add: parse_readable before_T60_def readable_eval)

lemma after_T60_readable: "\<exists>r. parse after_T60 = Some r" "length after_T60 < 2000"
  by (simp_all add: parse_readable after_T60_def readable_eval)

lemma parse_T60: "parse ''T60'' = Some (Cat (Cat (Lit 84) (Lit 54)) (Lit 48))"
  by (simp add: parse_def parse_rx.simps plain_def)

lemma runes_ascii: "(of_char c :: nat) < 0x80 \<Longrightarrow> runes (c # s) = of_char c # runes s"
  by (cases s; cases "tl s"; cases "tl (tl s)") (simp_all add: runes_def)

lemma siliconMotion_T60:
  assumes "runes s = a @ [84, 54, 48] @ b"
  shows "occurs (dbModelRe siliconMotion) s"
proof -
  obtain p q where p: "parse before_T60 = Some p" and q: "parse after_T60 = Some q"
    using before_T60_readable after_T60_readable by blast
  from parse_alternatives [OF parse_T60 q] obtain r where
    r: "parse (''T60'' @ CHR ''|'' # after_T60) = Some r" "lang r = {[84, 54, 48]} \<union> lang q"
    using after_T60_readable by (auto simp: conc_def)
  from parse_alternatives [OF p r(1)] obtain t where
    "parse (dbModelRe siliconMotion) = Some t" "[84, 54, 48] \<in> lang t"
    using before_T60_readable after_T60_readable r(2) by (auto simp: siliconMotion_entry)
  with assms show ?thesis unfolding occurs_def by blast
qed

lemma no_Seagate_entry:
  "list_all (\<lambda>db. take 7 (dbModel db) \<noteq> ''Seagate'') (ataDevices1 @ ataDevices2 @ ataDevices3 @ ataDevices4)"
  by (simp add: ataDevices1_def ataDevices2_def ataDevices3_def ataDevices4_def dev_def)

text \<open>
  C24. Every drive whose model number begins with \<^verbatim>\<open>ST60\<close>, as those of the 6 TB drives of Seagate do, gets an
  entry of lines 6 to 80 of the database, none of which is for a Seagate drive: the alternative \<^verbatim>\<open>T60\<close> of the
  entry for Silicon Motion based SSDs occurs in its model number. The entries for Seagate's drives, hundreds
  of lines further down, are never reached.
\<close>

theorem six_terabyte_drives:
  "\<exists>db. findMatchingDbRecord (MatchString rest) ataDevicesDatabase (''ST60'' @ m) firmware = Ok (Some db) \<and>
     db \<in> set (ataDevices1 @ ataDevices2 @ ataDevices3 @ ataDevices4) \<and> take 7 (dbModel db) \<noteq> ''Seagate''"
proof -
  have "runes (''ST60'' @ m) = [83] @ [84, 54, 48] @ runes m" by (simp add: runes_ascii)
  from siliconMotion_T60 [OF this] have "fits occurs (''ST60'' @ m) firmware siliconMotion"
    by (simp add: fits_def siliconMotion_entry(4))
  with siliconMotion_entry(1) obtain db where
    "find (fits occurs (''ST60'' @ m) firmware) ataDevicesDatabase = Some db"
    "db \<in> set (ataDevices1 @ ataDevices2 @ ataDevices3 @ ataDevices4)"
    using find_prefix [of siliconMotion "ataDevices1 @ ataDevices2 @ ataDevices3 @ ataDevices4"
        "fits occurs (''ST60'' @ m) firmware" "ataDevices5 @ ataDevices6 @ ataDevices7 @ ataDevices8"]
    by (auto simp: ataDevicesDatabase_def)
  with no_Seagate_entry show ?thesis
    by (auto simp: findMatchingDbRecord_database list_all_iff)
qed

end
