(* ===== verification/GoStrings.thy ===== *)
theory GoStrings
  imports GoText
begin

text \<open>
  The functions of Go's \<^verbatim>\<open>strings\<close> and \<^verbatim>\<open>strconv\<close> that the generator of the device database calls: \<^verbatim>\<open>Split\<close>,
  \<^verbatim>\<open>Fields\<close>, \<^verbatim>\<open>Join\<close>, \<^verbatim>\<open>TrimSpace\<close>, \<^verbatim>\<open>HasPrefix\<close>, \<^verbatim>\<open>Atoi\<close>, \<^verbatim>\<open>Itoa\<close>. The lemmas are the laws it relies on:
  splitting undoes terminating with a separator, fields are what blanks separate, \<^verbatim>\<open>Atoi\<close> reads what
  \<^verbatim>\<open>Itoa\<close> prints.
\<close>

definition HasPrefix :: "string \<Rightarrow> string \<Rightarrow> bool" where
  "HasPrefix s p \<longleftrightarrow> take (length p) s = p"

fun Join :: "string list \<Rightarrow> string \<Rightarrow> string" where
  "Join [] sep = ''''"
| "Join [s] sep = s"
| "Join (s # t # ss) sep = s @ sep @ Join (t # ss) sep"

definition trim_string :: "string \<Rightarrow> string" where
  "trim_string s = go_string (TrimSpace (go_bytes s))"

section \<open>Split\<close>

text \<open>\<open>cur\<close> is the part read so far, last character first. The separator is not empty.\<close>

function split_from :: "string \<Rightarrow> string \<Rightarrow> string \<Rightarrow> string list" where
  "split_from sep cur s =
     (if s = [] then [rev cur]
      else if sep \<noteq> [] \<and> HasPrefix s sep then rev cur # split_from sep [] (drop (length sep) s)
      else split_from sep (hd s # cur) (tl s))"
  by pat_completeness auto
termination
  by (relation "measure (\<lambda>(sep, cur, s). length s)") auto

declare split_from.simps [simp del]

definition Split :: "string \<Rightarrow> string \<Rightarrow> string list" where
  "Split s sep = split_from sep [] s"

lemma split_from_Nil [simp]: "split_from sep cur [] = [rev cur]"
  by (simp add: split_from.simps)

lemma split_from_sep:
  "sep \<noteq> [] \<Longrightarrow> split_from sep cur (sep @ s) = rev cur # split_from sep [] s"
  by (subst split_from.simps) (simp add: HasPrefix_def)

lemma split_from_step:
  "\<not> HasPrefix (c # s) sep \<Longrightarrow> split_from sep cur (c # s) = split_from sep (c # cur) s"
  by (subst split_from.simps) simp

text \<open>A text without the first character of the separator is read up to the separator behind it.\<close>

lemma split_from_field:
  "c \<notin> set f \<Longrightarrow> split_from (c # sep) cur (f @ s) = split_from (c # sep) (rev f @ cur) s"
proof (induction f arbitrary: cur)
  case (Cons d f)
  then have "\<not> HasPrefix (d # f @ s) (c # sep)" by (auto simp: HasPrefix_def)
  with Cons show ?case by (simp add: split_from_step)
qed simp

lemma Split_fields:
  "\<forall>f \<in> set fs. c \<notin> set f \<Longrightarrow> Split (concat (map (\<lambda>f. f @ c # sep) fs)) (c # sep) = fs @ ['''']"
proof (induction fs)
  case (Cons f fs)
  then show ?case
    using split_from_sep [of "c # sep" "rev f"]
    by (simp add: Split_def split_from_field)
qed (simp add: Split_def)

lemma split_from_not_Nil: "split_from sep cur s \<noteq> []"
  by (induction sep cur s rule: split_from.induct) (subst split_from.simps, simp)

lemma Join_Cons: "ss \<noteq> [] \<Longrightarrow> Join (s # ss) sep = s @ sep @ Join ss sep"
  by (cases ss) simp_all

lemma Join_split_from: "Join (split_from sep cur s) sep = rev cur @ s"
proof (induction sep cur s rule: split_from.induct)
  case (1 sep cur s)
  show ?case
  proof (cases "s = [] \<or> \<not> (sep \<noteq> [] \<and> HasPrefix s sep)")
    case True
    with 1(2) show ?thesis by (cases s) (auto simp: split_from.simps [of sep cur])
  next
    case False
    then have "s = sep @ drop (length sep) s" by (metis HasPrefix_def append_take_drop_id)
    with False 1(1) show ?thesis
      by (simp add: split_from.simps [of sep cur] Join_Cons split_from_not_Nil)
  qed
qed

lemma Join_Split: "Join (Split s sep) sep = s"
  by (simp add: Split_def Join_split_from)

text \<open>Splitting at one character.\<close>

lemma Split_sep: "c \<notin> set f \<Longrightarrow> Split (f @ c # s) [c] = f # Split s [c]"
  using split_from_sep [of "[c]" "rev f" s] by (simp add: Split_def split_from_field)

lemma Split_last: "c \<notin> set f \<Longrightarrow> Split f [c] = [f]"
  using split_from_field [of c f "[]" "[]" "[]"] by (simp add: Split_def)

lemma Split_free: "f \<in> set (Split s [c]) \<Longrightarrow> c \<notin> set f"
proof -
  have "c \<notin> set cur \<Longrightarrow> f \<in> set (split_from [c] cur s) \<Longrightarrow> c \<notin> set f" for cur
  proof (induction "[c]" cur s rule: split_from.induct)
    case (1 cur s)
    then show ?case
      by (cases s) (auto simp: split_from.simps [of _ cur] HasPrefix_def split: if_splits)
  qed
  from this [of "[]"] show "f \<in> set (Split s [c]) \<Longrightarrow> c \<notin> set f" by (simp add: Split_def)
qed

section \<open>Fields\<close>

definition space_at :: "string \<Rightarrow> nat option" where
  "space_at s = map_option length (find (\<lambda>e. e \<noteq> [] \<and> take (length e) (go_bytes (take 3 s)) = e) space_encodings)"

function fields_from :: "string \<Rightarrow> string \<Rightarrow> string list" where
  "fields_from cur [] = (if cur = [] then [] else [rev cur])"
| "fields_from cur (c # s) =
     (case space_at (c # s) of
        None \<Rightarrow> fields_from (c # cur) s
      | Some n \<Rightarrow> (if cur = [] then [] else [rev cur]) @ fields_from [] (drop (n - 1) s))"
  by pat_completeness auto
termination
  by (relation "measure (\<lambda>(cur, s). length s)") auto

definition Fields :: "string \<Rightarrow> string list" where
  "Fields s = fields_from [] s"

lemma fields_from_not_Nil: "\<forall>f \<in> set (fields_from cur s). f \<noteq> []"
  by (induction cur s rule: fields_from.induct) (auto split: option.splits)

section \<open>Numbers\<close>

fun digits :: "nat \<Rightarrow> string" where
  "digits n = (if n < 10 then [char_of (48 + n)] else digits (n div 10) @ [char_of (48 + n mod 10)])"

declare digits.simps [simp del]

definition Itoa :: "int \<Rightarrow> string" where
  "Itoa i = (if i < 0 then CHR ''-'' # digits (nat (- i)) else digits (nat i))"

definition digit :: "char \<Rightarrow> bool" where
  "digit c \<longleftrightarrow> 48 \<le> (of_char c :: nat) \<and> (of_char c :: nat) \<le> 57"

text \<open>\<open>Atoi\<close> gives \<open>None\<close> where Go returns an error: no digits, another character, out of the range of int.\<close>

definition decimal :: "string \<Rightarrow> nat" where
  "decimal s = foldl (\<lambda>n c. 10 * n + (of_char c - 48)) 0 s"

definition Atoi :: "string \<Rightarrow> int option" where
  "Atoi s =
     (let sign = take 1 s = ''-''; t = (if take 1 s = ''-'' \<or> take 1 s = ''+'' then drop 1 s else s);
          n = (if sign then - int (decimal t) else int (decimal t)) in
      if t \<noteq> [] \<and> list_all digit t \<and> - (2 ^ 63) \<le> n \<and> n < 2 ^ 63 then Some n else None)"

lemma of_char_digit: "d < 10 \<Longrightarrow> (of_char (char_of (48 + d) :: char) :: nat) = 48 + d"
  by (simp add: take_bit_eq_mod)

lemma digit_char: "(d :: nat) \<le> 9 \<Longrightarrow> digit (char_of (48 + d))"
  by (simp add: digit_def of_char_digit)

lemma digits_digit: "list_all digit (digits n)"
proof (induction n rule: digits.induct)
  case (1 n)
  have "n mod 10 \<le> 9" by (simp add: less_Suc_eq_le [symmetric])
  with 1 show ?case by (subst digits.simps) (simp add: digit_char)
qed

lemma digits_not_Nil: "digits n \<noteq> []"
  by (subst digits.simps) simp

lemma decimal_digits: "decimal (digits n) = n"
proof (induction n rule: digits.induct)
  case (1 n)
  then show ?case
    by (subst digits.simps) (simp add: decimal_def of_char_digit)
qed

lemma digits_no_sign: "take (Suc 0) (digits n) \<noteq> ''-''" "take (Suc 0) (digits n) \<noteq> ''+''"
  using digits_digit [of n] by (cases "digits n"; auto simp: digit_def)+

lemma Atoi_Itoa:
  assumes "- (2 ^ 63) \<le> i" "i < 2 ^ 63"
  shows "Atoi (Itoa i) = Some i"
  using assms
  by (auto simp: Atoi_def Itoa_def Let_def digits_no_sign digits_digit digits_not_Nil decimal_digits)

end
