(* ===== verification/Generator.thy ===== *)
theory Generator
  imports GoStrings Kernel
begin

text \<open>
  The generator of the device database (\<^verbatim>\<open>generator/ata_attributes.go\<close>): it downloads the smartmontools
  database, compiles it into a C program that prints its fields, splits what the program prints and
  writes the Go file. The host (commands, files) is a parameter; a run is a log of what was done to
  it, and the text written to the output file is read off the log. The lemmas separate what the options of an
  entry say (\<open>read_options\<close>) from how they are printed, show that the two together are the code, and that
  reading accepts exactly the grammar of the options (\<open>attr_value\<close>, \<open>options\<close>), which is stated on its own.
\<close>

section \<open>The host\<close>

text \<open>
  A command has its arguments and yields its standard output or an error. \<^verbatim>\<open>WriteString\<close> and \<^verbatim>\<open>Close\<close> on the
  output file have errors too, which the code ignores.
\<close>

record 'w host =
  h_tempDir :: string
  h_command :: "string list \<Rightarrow> 'w \<Rightarrow> (gerror + string) \<times> 'w"
  h_writeFile :: "string \<Rightarrow> string \<Rightarrow> 'w \<Rightarrow> gerror option \<times> 'w"
  h_removeAll :: "string \<Rightarrow> 'w \<Rightarrow> 'w"
  h_create :: "string \<Rightarrow> 'w \<Rightarrow> gerror option \<times> 'w"
  h_write :: "string \<Rightarrow> 'w \<Rightarrow> 'w"
  h_close :: "'w \<Rightarrow> 'w"

datatype gevent =
    GCommand "string list"
  | GWriteFile string string
  | GRemoveAll string
  | GCreate string
  | GWrite string
  | GClose

record 'w gen =
  gworld :: 'w
  glog :: "gevent list"

type_synonym ('w, 'a) gio = "('w gen, 'a) io"

definition act :: "gevent \<Rightarrow> ('w \<Rightarrow> 'a res \<times> 'w) \<Rightarrow> ('w, 'a) gio" where
  "act ev f = State (\<lambda>s. case f (gworld (world s)) of
     (r, w) \<Rightarrow> (r, s\<lparr>world := \<lparr>gworld = w, glog = glog (world s) @ [ev]\<rparr>\<rparr>))"

definition or_err :: "gerror option \<times> 'w \<Rightarrow> unit res \<times> 'w" where
  "or_err r = (case r of (None, w) \<Rightarrow> (Ok (), w) | (Some e, w) \<Rightarrow> (Err e, w))"

definition cmd_Output :: "'w host \<Rightarrow> string list \<Rightarrow> ('w, string) gio" where
  "cmd_Output h args = act (GCommand args) (\<lambda>w. case h_command h args w of (r, w') \<Rightarrow> (Some r, w'))"

definition cmd_Run :: "'w host \<Rightarrow> string list \<Rightarrow> ('w, unit) gio" where
  "cmd_Run h args = bindE (cmd_Output h args) (\<lambda>_. retE (Ok ()))"

definition os_WriteFile :: "'w host \<Rightarrow> string \<Rightarrow> string \<Rightarrow> ('w, unit) gio" where
  "os_WriteFile h name content = act (GWriteFile name content) (\<lambda>w. or_err (h_writeFile h name content w))"

definition os_RemoveAll :: "'w host \<Rightarrow> string \<Rightarrow> ('w, unit) gio" where
  "os_RemoveAll h path = act (GRemoveAll path) (\<lambda>w. (Ok (), h_removeAll h path w))"

definition os_Create :: "'w host \<Rightarrow> string \<Rightarrow> ('w, unit) gio" where
  "os_Create h name = act (GCreate name) (\<lambda>w. or_err (h_create h name w))"

definition WriteString :: "'w host \<Rightarrow> string \<Rightarrow> ('w, unit) gio" where
  "WriteString h s = act (GWrite s) (\<lambda>w. (Ok (), h_write h s w))"

definition file_Close :: "'w host \<Rightarrow> ('w, unit) gio" where
  "file_Close h = act GClose (\<lambda>w. (Ok (), h_close h w))"

text \<open>\<^verbatim>\<open>defer\<close>: the last action of every return and of a panic; its own result is dropped.\<close>

definition deferring :: "('w, unit) io \<Rightarrow> ('w, 'a) io \<Rightarrow> ('w, 'a) io" where
  "deferring fin m = do { r \<leftarrow> m; _ \<leftarrow> fin; State_Monad.return r }"

section \<open>The database of smartmontools\<close>

abbreviation bs :: string where "bs \<equiv> [CHR 0x5c]"
abbreviation nl :: string where "nl \<equiv> [CHR 0x0a]"

text \<open>The C program around the downloaded text. A Go string in backquotes keeps its backslashes.\<close>

definition c_head :: string where
  "c_head = Join
    ['''',
     ''   #include <stdio.h>'',
     '''',
     ''   struct drive {'',
     ''    const char * f1;'',
     ''    const char * f2;'',
     ''    const char * f3;'',
     ''    const char * f4;'',
     ''    const char * f5;'',
     ''  };'',
     ''  const struct drive drives[] = {'',
     ''''] nl"

definition c_tail :: string where
  "c_tail = Join
    [''};'',
     '''',
     ''  int main(void) {'',
     ''    int len = sizeof(drives) / sizeof(drives[0]);'',
     ''    for (int i = 0; i < len; i++) {'',
     ''      printf(\"%s'' @ bs @ ''t'' @ bs @ ''t'' @ bs @ ''naa'' @ bs @ ''t\", drives[i].f1);'',
     ''      printf(\"%s'' @ bs @ ''t'' @ bs @ ''t'' @ bs @ ''naa'' @ bs @ ''t\", drives[i].f2);'',
     ''      printf(\"%s'' @ bs @ ''t'' @ bs @ ''t'' @ bs @ ''naa'' @ bs @ ''t\", drives[i].f3);'',
     ''      printf(\"%s'' @ bs @ ''t'' @ bs @ ''t'' @ bs @ ''naa'' @ bs @ ''t\", drives[i].f4);'',
     ''      printf(\"%s'' @ bs @ ''t'' @ bs @ ''t'' @ bs @ ''naa'' @ bs @ ''t\", drives[i].f5);'',
     ''    }'',
     ''    return 0;'',
     ''  }'',
     ''''] nl"

definition drivedb_url :: string where
  "drivedb_url = ''https://raw.githubusercontent.com/smartmontools/smartmontools/main/drivedb/drivedb.h''"

definition extractDatabase :: "'w host \<Rightarrow> ('w, string) gio" where
  "extractDatabase h =
     (let d = h_tempDir h in
      deferring (os_RemoveAll h d)
        (bindE (cmd_Output h [''curl'', drivedb_url]) (\<lambda>db.
         let content = c_head @ db @ c_tail in
         bindE (os_WriteFile h (d @ ''/main.c'') content) (\<lambda>_.
         bindE (cmd_Run h [''cc'', d @ ''/main.c'', ''-o'', d @ ''/main'']) (\<lambda>_.
         cmd_Output h [d @ ''/main''])))))"

section \<open>Tables\<close>

definition firmwareBugById :: "string \<rightharpoonup> string" where
  "firmwareBugById = map_of
    [(''nologdir'', ''ataFirmwareBugNoLogDir''),
     (''samsung'', ''ataFirmwareBugSamsung''),
     (''samsung2'', ''ataFirmwareBugSamsung2''),
     (''samsung3'', ''ataFirmwareBugSamsung3''),
     (''xerrorlba'', ''ataFirmwareBugXErrorLBA'')]"

definition attributeTypeId :: "string \<rightharpoonup> string" where
  "attributeTypeId = map_of
    [(''raw8'', ''AtaDeviceAttributeTypeRaw8''),
     (''raw16'', ''AtaDeviceAttributeTypeRaw16''),
     (''raw48'', ''AtaDeviceAttributeTypeRaw48''),
     (''hex48'', ''AtaDeviceAttributeTypeHex48''),
     (''raw56'', ''AtaDeviceAttributeTypeRaw56''),
     (''hex56'', ''AtaDeviceAttributeTypeHex56''),
     (''raw64'', ''AtaDeviceAttributeTypeRaw64''),
     (''hex64'', ''AtaDeviceAttributeTypeHex64''),
     (''raw16(raw16)'', ''AtaDeviceAttributeTypeRaw16OptRaw16''),
     (''raw16(avg16)'', ''AtaDeviceAttributeTypeRaw16OptAvg16''),
     (''raw24(raw8)'', ''AtaDeviceAttributeTypeRaw24OptRaw8''),
     (''raw24/raw24'', ''AtaDeviceAttributeTypeRaw24DivRaw24''),
     (''raw24/raw32'', ''AtaDeviceAttributeTypeRaw24DivRaw32''),
     (''sec2hour'', ''AtaDeviceAttributeTypeSec2Hour''),
     (''min2hour'', ''AtaDeviceAttributeTypeMin2Hour''),
     (''halfmin2hour'', ''AtaDeviceAttributeTypeHalfMin2Hour''),
     (''msec24hour32'', ''AtaDeviceAttributeTypeMsec24Hour32''),
     (''tempminmax'', ''AtaDeviceAttributeTypeTempMinMax''),
     (''temp10x'', ''AtaDeviceAttributeTypeTemp10X'')]"

definition oldAttrValue :: "string \<rightharpoonup> string" where
  "oldAttrValue = map_of
    [(''9,halfminutes'', ''9,halfmin2hour,Power_On_Half_Minutes''),
     (''9,minutes'', ''9,min2hour,Power_On_Minutes''),
     (''9,seconds'', ''9,sec2hour,Power_On_Seconds''),
     (''9,temp'', ''9,tempminmax,Temperature_Celsius''),
     (''192,emergencyretractcyclect'', ''192,raw48,Emerg_Retract_Cycle_Ct''),
     (''193,loadunload'', ''193,raw24/raw24''),
     (''194,10xCelsius'', ''194,temp10x,Temperature_Celsius_x10''),
     (''194,unknown'', ''194,raw48,Unknown_Attribute''),
     (''197,increasing'', ''197,raw48+,Total_Pending_Sectors''),
     (''198,offlinescanuncsectorct'', ''198,raw48,Offline_Scan_UNC_SectCt''),
     (''198,increasing'', ''198,raw48+,Total_Offl_Uncorrectabl''),
     (''200,writeerrorcount'', ''200,raw48,Write_Error_Count''),
     (''201,detectedtacount'', ''201,raw48,Detected_TA_Count''),
     (''220,temp'', ''220,tempminmax,Temperature_Celsius'')]"

section \<open>Options of an entry\<close>

text \<open>
  The value of a \<^verbatim>\<open>-v\<close> option, \<^verbatim>\<open>id,type[+][:order][,name[,HDD|SSD]]\<close>. An empty type panics, as the code
  looks at its last character; the sign \<^verbatim>\<open>+\<close> is dropped.
\<close>

record attr_option =
  aoId :: int
  aoName :: string
  aoType :: string
  aoByteOrder :: string
  aoRestriction :: string

definition invalid_count :: "string \<Rightarrow> gerror" where
  "invalid_count value = Errorf (''invalid number of attribute fields for '%s'' @ [CHR 0x27]) [AStr value]"

definition read_attr :: "string \<Rightarrow> attr_option res" where
  "read_attr value =
     (let att = Split value '','';
          (att, restriction) =
            (if length att = 4 \<and> att ! 3 = ''HDD'' then (take 3 att, ''ataDeviceAttributeRestrictionHDDOnly'')
             else if length att = 4 \<and> att ! 3 = ''SSD'' then (take 3 att, ''ataDeviceAttributeRestrictionSSDOnly'')
             else (att, ''0'')) in
      if length att < 2 \<or> 3 < length att then Err (invalid_count value)
      else
        let field = att ! 1;
            rawType = takeWhile (\<lambda>c. c \<noteq> CHR '':'') field;
            byteOrder = drop 1 (dropWhile (\<lambda>c. c \<noteq> CHR '':'') field) in
        if rawType = '''' then None
        else
          let rawType = (if last rawType = CHR ''+'' then butlast rawType else rawType) in
          (case attributeTypeId rawType of
             None \<Rightarrow> Err (Errorf ''unknown attribute type: %s'' [AStr rawType])
           | Some typ \<Rightarrow>
               let name = (if 2 < length att then att ! 2 else '''') in
               (case Atoi (att ! 0) of
                  None \<Rightarrow> Err (Errorf (''invalid attribute id for '%s'' @ [CHR 0x27]) [AStr value])
                | Some i \<Rightarrow>
                    Ok \<lparr>aoId = i, aoName = name, aoType = typ, aoByteOrder = byteOrder,
                      aoRestriction = restriction\<rparr>)))"

text \<open>A name left out is looked up among the default names; the default table itself records its names.\<close>

type_synonym names = "int \<Rightarrow> string"

definition use_name :: "bool \<Rightarrow> names \<Rightarrow> attr_option \<Rightarrow> attr_option" where
  "use_name useAttrNames names a =
     (if useAttrNames \<and> aoName a = '''' then a\<lparr>aoName := names (aoId a)\<rparr> else a)"

definition record_name :: "bool \<Rightarrow> attr_option \<Rightarrow> names \<Rightarrow> names" where
  "record_name useAttrNames a names = (if useAttrNames then names else names(aoId a := aoName a))"

fun write_all :: "'w host \<Rightarrow> string list \<Rightarrow> ('w, unit) gio" where
  "write_all h [] = retE (Ok ())"
| "write_all h (s # ss) = bindE (WriteString h s) (\<lambda>_. write_all h ss)"

definition bq :: string where "bq = [CHR 0x60]"

definition attr_text :: "attr_option \<Rightarrow> string list" where
  "attr_text a = [Itoa (aoId a), '':{'' @ bq, aoName a, bq @ '','', aoType a, '','' @ bq, aoByteOrder a,
     bq @ '','', aoRestriction a, ''},'']"

definition print_attr :: "'w host \<Rightarrow> bool \<Rightarrow> string \<Rightarrow> names \<Rightarrow> ('w, names) gio" where
  "print_attr h useAttrNames value names =
     bindE (retE (read_attr value)) (\<lambda>a.
     bindE (write_all h (attr_text (use_name useAttrNames names a))) (\<lambda>_.
     retE (Ok (record_name useAttrNames a names))))"

text \<open>
  The loop over the fields of the presets, two at a time; \<^verbatim>\<open>parts[i+1]\<close> behind the last field panics. Options other
  than \<^verbatim>\<open>-v\<close> and \<^verbatim>\<open>-F\<close> are skipped.
\<close>

definition new_value :: "string \<Rightarrow> string" where
  "new_value value = (case oldAttrValue value of Some v \<Rightarrow> v | None \<Rightarrow> value)"

definition read_bug :: "string \<Rightarrow> string res" where
  "read_bug value =
     (case firmwareBugById value of
        Some b \<Rightarrow> Ok b | None \<Rightarrow> Err (Errorf ''unknown firmware bug id: %s'' [AStr value]))"

fun presets_loop ::
  "'w host \<Rightarrow> bool \<Rightarrow> string list \<Rightarrow> names \<Rightarrow> string list \<Rightarrow> ('w, names \<times> string list) gio" where
  "presets_loop h useAttrNames [] names bugs = retE (Ok (names, bugs))"
| "presets_loop h useAttrNames [key] names bugs = retE None"
| "presets_loop h useAttrNames (key # value # parts) names bugs =
     (if key = ''-v'' then
        bindE (print_attr h useAttrNames (new_value value) names) (\<lambda>names.
          presets_loop h useAttrNames parts names bugs)
      else if key = ''-F'' then
        bindE (retE (read_bug (new_value value))) (\<lambda>b. presets_loop h useAttrNames parts names (bugs @ [b]))
      else presets_loop h useAttrNames parts names bugs)"

definition printPresets :: "'w host \<Rightarrow> string \<Rightarrow> bool \<Rightarrow> bool \<Rightarrow> names \<Rightarrow> ('w, names) gio" where
  "printPresets h presets printFirmwareBugs useAttrNames names =
     (let presets = trim_string presets in
      if presets = '''' then bindE (WriteString h ''nil,0'') (\<lambda>_. retE (Ok names))
      else
        bindE (WriteString h ''map[int]ataDeviceAttr{'') (\<lambda>_.
        bindE (presets_loop h useAttrNames (Fields presets) names []) (\<lambda>(names, bugs).
        bindE (WriteString h ''}'') (\<lambda>_.
        if printFirmwareBugs
        then bindE (write_all h ['','', Join (if bugs = [] then [''0''] else bugs) ''|'']) (\<lambda>_. retE (Ok names))
        else retE (Ok names)))))"

section \<open>The output file\<close>

text \<open>The fields of an entry: family, model pattern, firmware pattern, warning, presets.\<close>

definition printDevice :: "'w host \<Rightarrow> string list \<Rightarrow> names \<Rightarrow> ('w, names) gio" where
  "printDevice h dev names =
     bindE (write_all h [''{'' @ bq, dev ! 0, bq @ '','' @ bq, dev ! 1, bq @ '','' @ bq, dev ! 2, bq @ '', '']) (\<lambda>_.
     bindE (printPresets h (dev ! 4) True True names) (\<lambda>names.
     bindE (WriteString h ''}'') (\<lambda>_. retE (Ok names))))"

function devices_loop :: "'w host \<Rightarrow> string list \<Rightarrow> nat \<Rightarrow> names \<Rightarrow> ('w, unit) gio" where
  "devices_loop h lines i names =
     (if i < length lines - 1 then
        (case subslice lines i (i + 5) of
           None \<Rightarrow> retE None
         | Some dev \<Rightarrow>
             if HasPrefix (dev ! 0) ''USB: '' then devices_loop h lines (i + 5) names
             else bindE (printDevice h dev names) (\<lambda>names.
               bindE (WriteString h ('','' @ nl)) (\<lambda>_. devices_loop h lines (i + 5) names)))
      else retE (Ok ()))"
  by pat_completeness auto
termination
  by (relation "measure (\<lambda>(h, lines, i, names). length lines - i)") auto

declare devices_loop.simps [simp del]

text \<open>What the C program prints behind every field.\<close>

definition field_end :: string where
  "field_end = [CHR 0x09, CHR 0x09, CHR 0x0a, CHR ''a'', CHR ''a'', CHR 0x09]"

definition file_head :: string where
  "file_head = ''package smart'' @ nl @ nl @ ''    var ataDefaultAttributes = ''"

definition file_middle :: string where
  "file_middle = nl @ nl @ ''    var ataDevicesDatabase = []ataDeviceInfo{'' @ nl"

definition printDeviceDatabase :: "'w host \<Rightarrow> string \<Rightarrow> string \<Rightarrow> ('w, unit) gio" where
  "printDeviceDatabase h outputFile db =
     (let lines = Split db field_end in
      case idx lines 0 of None \<Rightarrow> retE None | Some line0 \<Rightarrow>
      if \<not> HasPrefix line0 ''VERSION:''
      then retE (Err (Errorf (CHR 0x27 # ''VERSION:' must be the first line in the database'') []))
      else case idx lines 5 of None \<Rightarrow> retE None | Some line5 \<Rightarrow>
      if \<not> HasPrefix line5 ''DEFAULT''
      then retE (Err (Errorf (CHR 0x27 # ''DEFAULT' must be the first line in the database'') []))
      else
        bindE (os_Create h outputFile) (\<lambda>_.
        deferring (file_Close h)
          (bindE (WriteString h file_head) (\<lambda>_.
           case idx lines 9 of None \<Rightarrow> retE None | Some presets \<Rightarrow>
           bindE (printPresets h presets False False (\<lambda>_. '''')) (\<lambda>defaultNames.
           bindE (WriteString h file_middle) (\<lambda>_.
           bindE (devices_loop h lines 10 defaultNames) (\<lambda>_.
           WriteString h ''}'')))))))"

definition process :: "'w host \<Rightarrow> string \<Rightarrow> ('w, unit) gio" where
  "process h outputFile =
     bindE (extractDatabase h) (\<lambda>db.
     bindE (printDeviceDatabase h outputFile db) (\<lambda>_.
     cmd_Run h [''gofmt'', ''-w'', ''-s'', outputFile]))"

text \<open>\<^verbatim>\<open>main\<close> panics with an error.\<close>

definition generator_main :: "'w host \<Rightarrow> string \<Rightarrow> ('w, unit) gio" where
  "generator_main h outputFile = do {
     r \<leftarrow> process h outputFile;
     State_Monad.return (case r of Some (Inl e) \<Rightarrow> None | _ \<Rightarrow> r) }"

section \<open>What a run prints\<close>

fun text_of :: "gevent list \<Rightarrow> string" where
  "text_of [] = ''''"
| "text_of (GWrite s # evs) = s @ text_of evs"
| "text_of (_ # evs) = text_of evs"

lemma text_of_append [simp]: "text_of (xs @ ys) = text_of xs @ text_of ys"
  by (induction xs rule: text_of.induct) auto

definition printed :: "('w gen) sys \<Rightarrow> ('w gen) sys \<Rightarrow> string \<Rightarrow> bool" where
  "printed s s' t \<longleftrightarrow> (\<exists>evs. glog (world s') = glog (world s) @ evs \<and> text_of evs = t)"

lemma printed_refl: "printed s s ''''"
  by (simp add: printed_def)

lemma printed_trans: "printed s s' t \<Longrightarrow> printed s' s'' u \<Longrightarrow> printed s s'' (t @ u)"
  unfolding printed_def by (metis append_assoc text_of_append)

text \<open>\<open>prints m r\<close>: whatever the host does, \<open>m\<close> has the outcome of \<open>r\<close>, and with a success prints the text of \<open>r\<close>.\<close>

definition prints :: "('w, 'a) gio \<Rightarrow> ('a \<times> string) res \<Rightarrow> bool" where
  "prints m r \<longleftrightarrow> (\<forall>s. fst (run_state m s) = map_res fst r \<and>
     (case r of Some (Inr (x, t)) \<Rightarrow> printed s (snd (run_state m s)) t | _ \<Rightarrow> True))"

named_theorems prints_intros \<open>what the printing operations print\<close>

lemma prints_retE [prints_intros]: "prints (retE r) (map_res (\<lambda>x. (x, '''')) r)"
  by (cases r rule: res_cases) (auto simp: prints_def printed_refl)

lemma prints_bindE [prints_intros]:
  assumes "prints m r" "\<And>x. prints (f x) (q x)"
  shows "prints (bindE m f) (bind_res r (\<lambda>(x, t). map_res (\<lambda>(y, u). (y, t @ u)) (q x)))"
proof -
  have "fst (run_state (bindE m f) s) = map_res fst (bind_res r (\<lambda>(x, t). map_res (\<lambda>(y, u). (y, t @ u)) (q x))) \<and>
    (case bind_res r (\<lambda>(x, t). map_res (\<lambda>(y, u). (y, t @ u)) (q x)) of
       Some (Inr (y, v)) \<Rightarrow> printed s (snd (run_state (bindE m f) s)) v | _ \<Rightarrow> True)" for s
  proof (cases r rule: res_cases)
    case (ok p)
    obtain x t where p: "p = (x, t)" by fastforce
    obtain s' where m: "run_state m s = (Ok x, s')" "printed s s' t"
      using assms(1) [unfolded prints_def, rule_format, of s] ok p by (cases "run_state m s") auto
    have "fst (run_state (f x) s') = map_res fst (q x)"
      "case q x of Some (Inr (y, u)) \<Rightarrow> printed s' (snd (run_state (f x) s')) u | _ \<Rightarrow> True"
      using assms(2) [of x, unfolded prints_def, rule_format, of s'] by simp_all
    with m ok p show ?thesis
      by (cases "q x" rule: res_cases) (auto simp: run_bindE intro: printed_trans)
  next
    case (err e)
    then show ?thesis using assms(1) [unfolded prints_def, rule_format, of s]
      by (cases "run_state m s") (simp add: run_bindE)
  next
    case panic
    then show ?thesis using assms(1) [unfolded prints_def, rule_format, of s]
      by (cases "run_state m s") (simp add: run_bindE)
  qed
  then show ?thesis by (simp add: prints_def)
qed

lemma prints_eq: "prints m r \<Longrightarrow> r = r' \<Longrightarrow> prints m r'"
  by simp

lemma prints_write: "prints (WriteString h t) (Ok ((), t))"
  by (auto simp: prints_def WriteString_def act_def printed_def)

lemma prints_write_all: "prints (write_all h ts) (Ok ((), concat ts))"
proof (induction ts)
  case Nil
  then show ?case using prints_retE [of "Ok ()"] by simp
next
  case (Cons t ts)
  then show ?case using prints_bindE [OF prints_write [of h t], of "\<lambda>_. write_all h ts"] by fastforce
qed

lemma prints_case_prod:
  "(\<And>a b. prints (f a b) (q a b)) \<Longrightarrow> prints (case x of (a, b) \<Rightarrow> f a b) (case x of (a, b) \<Rightarrow> q a b)"
  by (cases x) simp

lemma prints_write_all_then: "prints (bindE (write_all h ts) (\<lambda>_. retE (Ok x))) (Ok (x, concat ts))"
  by (rule prints_eq [OF prints_bindE [OF prints_write_all prints_retE]]) simp

section \<open>What the options say\<close>

datatype db_option = OAttr attr_option | OBug string | OSkip

definition read_option :: "string \<Rightarrow> string \<Rightarrow> db_option res" where
  "read_option key value =
     (if key = ''-v'' then map_res OAttr (read_attr (new_value value))
      else if key = ''-F'' then map_res OBug (read_bug (new_value value))
      else Ok OSkip)"

fun read_options :: "string list \<Rightarrow> db_option list res" where
  "read_options [] = Ok []"
| "read_options [key] = None"
| "read_options (key # value # parts) =
     bind_res (read_option key value) (\<lambda>opt. map_res ((#) opt) (read_options parts))"

definition attrs_of :: "db_option list \<Rightarrow> attr_option list" where
  "attrs_of opts = List.map_filter (\<lambda>opt. case opt of OAttr a \<Rightarrow> Some a | _ \<Rightarrow> None) opts"

definition bugs_of :: "db_option list \<Rightarrow> string list" where
  "bugs_of opts = List.map_filter (\<lambda>opt. case opt of OBug b \<Rightarrow> Some b | _ \<Rightarrow> None) opts"

definition attrs_text :: "bool \<Rightarrow> names \<Rightarrow> attr_option list \<Rightarrow> string" where
  "attrs_text useAttrNames names attrs = concat (map (concat \<circ> attr_text \<circ> use_name useAttrNames names) attrs)"

lemma options_simps [simp]:
  "attrs_of [] = []" "bugs_of [] = []"
  "attrs_of (OAttr a # opts) = a # attrs_of opts" "bugs_of (OAttr a # opts) = bugs_of opts"
  "attrs_of (OBug b # opts) = attrs_of opts" "bugs_of (OBug b # opts) = b # bugs_of opts"
  "attrs_of (OSkip # opts) = attrs_of opts" "bugs_of (OSkip # opts) = bugs_of opts"
  by (simp_all add: attrs_of_def bugs_of_def List.map_filter_def)

text \<open>Names recorded while a table is printed do not matter for that table.\<close>

lemma use_name_record: "use_name use (record_name use a names) b = use_name use names b"
  by (simp add: use_name_def record_name_def)

lemma attrs_text_Cons:
  "attrs_text use names (a # attrs) =
     concat (attr_text (use_name use names a)) @ attrs_text use (record_name use a names) attrs"
  by (simp add: attrs_text_def use_name_record comp_def)

lemma prints_attr:
  "prints (print_attr h use value names)
     (map_res (\<lambda>a. (record_name use a names, concat (attr_text (use_name use names a)))) (read_attr value))"
  unfolding print_attr_def
  by (rule prints_eq, rule prints_bindE [OF prints_retE prints_bindE [OF prints_write_all prints_retE]],
      cases "read_attr value" rule: res_cases) simp_all

lemma prints_loop:
  "prints (presets_loop h use parts names bugs)
     (map_res (\<lambda>opts. ((fold (record_name use) (attrs_of opts) names, bugs @ bugs_of opts),
        attrs_text use names (attrs_of opts))) (read_options parts))"
proof (induction parts arbitrary: names bugs rule: read_options.induct)
  case 1
  show ?case using prints_retE [of "Ok (names, bugs)"] by (simp add: attrs_text_def)
next
  case (2 key)
  show ?case using prints_retE [of None] by simp
next
  case (3 key v parts)
  let ?loop = "\<lambda>names bugs. map_res (\<lambda>opts. ((fold (record_name use) (attrs_of opts) names, bugs @ bugs_of opts),
        attrs_text use names (attrs_of opts))) (read_options parts)"
  consider (attr) "key = ''-v''" | (bug) "key = ''-F''" | (other) "key \<noteq> ''-v''" "key \<noteq> ''-F''" by blast
  then show ?case
  proof cases
    case attr
    have "prints (presets_loop h use (key # v # parts) names bugs)
      (bind_res (map_res (\<lambda>a. (record_name use a names, concat (attr_text (use_name use names a)))) (read_attr (new_value v)))
        (\<lambda>(x, t). map_res (\<lambda>(y, u). (y, t @ u)) (?loop x bugs)))"
      using attr by simp (rule prints_bindE [OF prints_attr 3])
    then show ?thesis
      by (rule prints_eq, cases "read_attr (new_value v)" rule: res_cases; cases "read_options parts" rule: res_cases)
        (simp_all add: attr read_option_def attrs_text_Cons)
  next
    case bug
    have "prints (presets_loop h use (key # v # parts) names bugs)
      (bind_res (map_res (\<lambda>x. (x, '''')) (read_bug (new_value v)))
        (\<lambda>(x, t). map_res (\<lambda>(y, u). (y, t @ u)) (?loop names (bugs @ [x]))))"
      using prints_bindE [OF prints_retE [of "read_bug (new_value v)"] 3, of "\<lambda>_. names" "\<lambda>b. bugs @ [b]"] bug
      by simp
    then show ?thesis
      by (rule prints_eq, cases "read_bug (new_value v)" rule: res_cases; cases "read_options parts" rule: res_cases)
        (simp_all add: bug read_option_def)
  next
    case other
    then have "presets_loop h use (key # v # parts) names bugs = presets_loop h use parts names bugs" by simp
    then show ?thesis using 3 [of names bugs] other
      by (cases "read_options parts" rule: res_cases) (simp_all add: read_option_def)
  qed
qed

section \<open>The text of an entry\<close>

definition presets_text :: "string \<Rightarrow> bool \<Rightarrow> bool \<Rightarrow> names \<Rightarrow> (names \<times> string) res" where
  "presets_text presets fw use names =
     (if trim_string presets = '''' then Ok (names, ''nil,0'')
      else map_res (\<lambda>opts. (fold (record_name use) (attrs_of opts) names,
             ''map[int]ataDeviceAttr{'' @ attrs_text use names (attrs_of opts) @ ''}'' @
             (if fw then '','' @ Join (if bugs_of opts = [] then [''0''] else bugs_of opts) ''|'' else '''')))
             (read_options (Fields (trim_string presets))))"

lemma prints_presets: "prints (printPresets h presets fw use names) (presets_text presets fw use names)"
proof (cases "trim_string presets = ''''")
  case True
  have "prints (bindE (WriteString h ''nil,0'') (\<lambda>_. retE (Ok names))) (Ok (names, ''nil,0''))"
    by (rule prints_eq [OF prints_bindE [OF prints_write prints_retE]]) simp
  with True show ?thesis by (simp add: printPresets_def presets_text_def)
next
  case False
  let ?opts = "read_options (Fields (trim_string presets))"
  let ?bugs = "\<lambda>bugs. if fw then '','' @ Join (if bugs = [] then [''0''] else bugs) ''|'' else ''''"
  have tail: "prints (bindE (WriteString h ''}'') (\<lambda>_.
        if fw then bindE (write_all h ['','', Join (if bugs = [] then [''0''] else bugs) ''|'']) (\<lambda>_. retE (Ok names))
        else retE (Ok names))) (Ok (names, ''}'' @ ?bugs bugs))" for names :: names and bugs
  proof (cases fw)
    case True
    show ?thesis
      unfolding if_P [OF True]
      by (rule prints_eq [OF prints_bindE [OF prints_write prints_write_all_then]]) simp
  next
    case False
    then show ?thesis
      by simp (rule prints_eq [OF prints_bindE [OF prints_write prints_retE]], simp)
  qed
  have "prints (printPresets h presets fw use names)
      (bind_res (Ok ((), ''map[int]ataDeviceAttr{'')) (\<lambda>(x, t). map_res (\<lambda>(y, u). (y, t @ u))
        (bind_res (map_res (\<lambda>opts. ((fold (record_name use) (attrs_of opts) names, [] @ bugs_of opts),
            attrs_text use names (attrs_of opts))) ?opts)
          (\<lambda>(x, t). map_res (\<lambda>(y, u). (y, t @ u)) (case x of (names, bugs) \<Rightarrow> Ok (names, ''}'' @ ?bugs bugs))))))"
    unfolding printPresets_def Let_def if_not_P [OF False]
    by (intro prints_bindE prints_write prints_loop prints_case_prod tail)
  then show ?thesis
    using False by (cases ?opts rule: res_cases) (simp_all add: presets_text_def)
qed

definition device_text :: "string list \<Rightarrow> names \<Rightarrow> string res" where
  "device_text dev names =
     map_res (\<lambda>(_, t). ''{'' @ bq @ dev ! 0 @ bq @ '','' @ bq @ dev ! 1 @ bq @ '','' @ bq @ dev ! 2 @ bq @ '', '' @
       t @ ''}'') (presets_text (dev ! 4) True True names)"

lemma fold_record_used: "fold (record_name True) attrs names = names"
  by (induction attrs) (simp_all add: record_name_def)

lemma presets_text_names: "presets_text presets fw True names = Ok (n, t) \<Longrightarrow> n = names"
  by (auto simp: presets_text_def fold_record_used split: if_splits)

lemma prints_device: "prints (printDevice h dev names) (map_res (Pair names) (device_text dev names))"
proof -
  let ?start = "concat [''{'' @ bq, dev ! 0, bq @ '','' @ bq, dev ! 1, bq @ '','' @ bq, dev ! 2, bq @ '', '']"
  have "prints (printDevice h dev names)
      (bind_res (Ok ((), ?start)) (\<lambda>(x, t). map_res (\<lambda>(y, u). (y, t @ u))
        (bind_res (presets_text (dev ! 4) True True names) (\<lambda>(x, t). map_res (\<lambda>(y, u). (y, t @ u))
          (bind_res (Ok ((), ''}'')) (\<lambda>(_, t). map_res (\<lambda>(y, u). (y, t @ u)) (map_res (\<lambda>x. (x, '''')) (Ok x))))))))"
    unfolding printDevice_def
    by (intro prints_bindE prints_write_all prints_presets prints_write prints_retE)
  then show ?thesis
    by (rule prints_eq, cases "presets_text (dev ! 4) True True names" rule: res_cases)
      (auto simp: device_text_def dest: presets_text_names)
qed

text \<open>USB devices are skipped, every other entry is printed, in the order of the database.\<close>

fun devices_text :: "string list list \<Rightarrow> names \<Rightarrow> string res" where
  "devices_text [] names = Ok ''''"
| "devices_text (dev # devs) names =
     (if HasPrefix (dev ! 0) ''USB: '' then devices_text devs names
      else bind_res (device_text dev names) (\<lambda>t. map_res (\<lambda>u. t @ '','' @ nl @ u) (devices_text devs names)))"

lemma prints_devices:
  assumes "lines = pre @ concat devs @ ['''']" "\<forall>dev \<in> set devs. length dev = 5"
  shows "prints (devices_loop h lines (length pre) names) (map_res (Pair ()) (devices_text devs names))"
  using assms
proof (induction devs arbitrary: pre names)
  case Nil
  then show ?case using prints_retE [of "Ok ()"] by (simp add: devices_loop.simps)
next
  case (Cons dev devs)
  have IH: "prints (devices_loop h lines (length pre + 5) names) (map_res (Pair ()) (devices_text devs names))"
    for names
    using Cons.IH [of "pre @ dev"] Cons.prems by simp
  have dev: "length pre < length lines - 1" "subslice lines (length pre) (length pre + 5) = Some dev"
    using Cons.prems by (simp_all add: subslice_def)
  show ?case
  proof (cases "HasPrefix (dev ! 0) ''USB: ''")
    case True
    with dev IH show ?thesis by (simp add: devices_loop.simps [of h lines "length pre"])
  next
    case False
    have run: "devices_loop h lines (length pre) names =
        bindE (printDevice h dev names) (\<lambda>names. bindE (WriteString h ('','' @ nl)) (\<lambda>_.
          devices_loop h lines (length pre + 5) names))"
      using dev False by (simp add: devices_loop.simps [of h lines "length pre"])
    have rest: "prints (bindE (WriteString h ('','' @ nl)) (\<lambda>_. devices_loop h lines (length pre + 5) n))
        (map_res (\<lambda>u. ((), '','' @ nl @ u)) (devices_text devs n))" for n
      by (rule prints_eq [OF prints_bindE [OF prints_write IH]], cases "devices_text devs n" rule: res_cases)
        simp_all
    show ?thesis
      unfolding run
      by (rule prints_eq [OF prints_bindE [OF prints_device rest]],
          cases "device_text dev names" rule: res_cases; cases "devices_text devs names" rule: res_cases)
        (simp_all add: False)
  qed
qed

section \<open>The grammar of the options\<close>

text \<open>
  The same, said without the steps of the code: the grammar of smartmontools for the value of a \<^verbatim>\<open>-v\<close> option,
  \<^verbatim>\<open>id,type[+][:order][,name[,HDD|SSD]]\<close>, and what the five parts of the printed attribute are for it.
\<close>

definition attr_value :: "string \<Rightarrow> int \<Rightarrow> string \<Rightarrow> string \<Rightarrow> string \<Rightarrow> string \<Rightarrow> bool" where
  "attr_value v i name typ order restr \<longleftrightarrow>
     (\<exists>number type sign colon rest.
        v = number @ '','' @ type @ sign @ colon @ rest \<and>
        CHR '','' \<notin> set number \<and> Atoi number = Some i \<and>
        attributeTypeId type = Some typ \<and>
        (sign = '''' \<or> sign = ''+'') \<and>
        (colon = '''' \<and> order = '''' \<or> colon = '':'' @ order \<and> CHR '','' \<notin> set order) \<and>
        (rest = '''' \<and> name = '''' \<and> restr = ''0'' \<or>
         CHR '','' \<notin> set name \<and>
           (rest = '','' @ name \<and> restr = ''0'' \<or>
            rest = '','' @ name @ '',HDD'' \<and> restr = ''ataDeviceAttributeRestrictionHDDOnly'' \<or>
            rest = '','' @ name @ '',SSD'' \<and> restr = ''ataDeviceAttributeRestrictionSSDOnly'')))"

text \<open>
  \<open>options use names parts text bugs names'\<close>: the fields \<open>parts\<close> are pairs of a key and a value, all
  well-formed; \<open>text\<close> is the map elements of the \<^verbatim>\<open>-v\<close> options, \<open>bugs\<close> the constants of the \<^verbatim>\<open>-F\<close> options and
  \<open>names'\<close> the default names afterwards. Obsolete values stand for newer ones.
\<close>

definition modern :: "string \<Rightarrow> string" where
  "modern v = (if v \<in> dom oldAttrValue then the (oldAttrValue v) else v)"

inductive options :: "bool \<Rightarrow> names \<Rightarrow> string list \<Rightarrow> string \<Rightarrow> string list \<Rightarrow> names \<Rightarrow> bool" where
  none: "options use names [] '''' [] names"
| attr: "attr_value (modern v) i name typ order restr \<Longrightarrow>
    options use (if use then names else names(i := name)) parts text bugs names' \<Longrightarrow>
    options use names (''-v'' # v # parts)
      (Itoa i @ '':{`'' @ (if name = '''' \<and> use then names i else name) @ ''`,'' @ typ @ '',`'' @ order @ ''`,'' @
       restr @ ''},'' @ text) bugs names'"
| bug: "firmwareBugById (modern v) = Some b \<Longrightarrow>
    options use names parts text bugs names' \<Longrightarrow> options use names (''-F'' # v # parts) text (b # bugs) names'"
| skip: "key \<noteq> ''-v'' \<Longrightarrow> key \<noteq> ''-F'' \<Longrightarrow>
    options use names parts text bugs names' \<Longrightarrow> options use names (key # v # parts) text bugs names'"

lemma modern_new_value: "modern v = new_value v"
  by (auto simp: modern_def new_value_def split: option.split)

lemma type_id_chars:
  assumes "attributeTypeId t = Some typ"
  shows "t \<noteq> ''''" "last t \<noteq> CHR ''+''" "CHR '':'' \<notin> set t" "CHR '','' \<notin> set t"
proof -
  have "\<forall>t \<in> dom attributeTypeId. t \<noteq> '''' \<and> last t \<noteq> CHR ''+'' \<and> CHR '':'' \<notin> set t \<and> CHR '','' \<notin> set t"
    by (simp add: attributeTypeId_def)
  with assms show "t \<noteq> ''''" "last t \<noteq> CHR ''+''" "CHR '':'' \<notin> set t" "CHR '','' \<notin> set t"
    by blast+
qed

text \<open>The type field, read and written.\<close>

lemma type_field:
  assumes "attributeTypeId type = Some typ" "sign = '''' \<or> sign = ''+''"
    and "colon = '''' \<and> order = '''' \<or> colon = '':'' @ order"
  shows "takeWhile (\<lambda>c. c \<noteq> CHR '':'') (type @ sign @ colon) = type @ sign"
    and "drop 1 (dropWhile (\<lambda>c. c \<noteq> CHR '':'') (type @ sign @ colon)) = order"
    and "(if last (type @ sign) = CHR ''+'' then butlast (type @ sign) else type @ sign) = type"
proof -
  have free: "\<forall>c \<in> set (type @ sign). c \<noteq> CHR '':''"
    using type_id_chars(3) [OF assms(1)] assms(2) by (elim disjE) (simp_all, blast+)
  have tail: "takeWhile (\<lambda>c. c \<noteq> CHR '':'') colon = ''''" "drop 1 (dropWhile (\<lambda>c. c \<noteq> CHR '':'') colon) = order"
    using assms(3) by (elim disjE; simp)+
  show "takeWhile (\<lambda>c. c \<noteq> CHR '':'') (type @ sign @ colon) = type @ sign"
    using takeWhile_append2 [of "type @ sign" "\<lambda>c. c \<noteq> CHR '':''" colon] free tail(1) by simp
  show "drop 1 (dropWhile (\<lambda>c. c \<noteq> CHR '':'') (type @ sign @ colon)) = order"
    using dropWhile_append2 [of "type @ sign" "\<lambda>c. c \<noteq> CHR '':''" colon] free tail(2) by simp
  show "(if last (type @ sign) = CHR ''+'' then butlast (type @ sign) else type @ sign) = type"
    using assms(2) type_id_chars(1,2) [OF assms(1)] by (elim disjE) simp_all
qed

lemma read_attr_written:
  assumes "attr_value v i name typ order restr"
  shows "read_attr v = Ok \<lparr>aoId = i, aoName = name, aoType = typ, aoByteOrder = order, aoRestriction = restr\<rparr>"
proof -
  obtain number type sign colon rest where v: "v = number @ '','' @ type @ sign @ colon @ rest"
    and number: "CHR '','' \<notin> set number" "Atoi number = Some i"
    and ty: "attributeTypeId type = Some typ" and sign: "sign = '''' \<or> sign = ''+''"
    and col: "colon = '''' \<and> order = '''' \<or> colon = '':'' @ order \<and> CHR '','' \<notin> set order"
    and rest: "rest = '''' \<and> name = '''' \<and> restr = ''0'' \<or> CHR '','' \<notin> set name \<and>
           (rest = '','' @ name \<and> restr = ''0'' \<or>
            rest = '','' @ name @ '',HDD'' \<and> restr = ''ataDeviceAttributeRestrictionHDDOnly'' \<or>
            rest = '','' @ name @ '',SSD'' \<and> restr = ''ataDeviceAttributeRestrictionSSDOnly'')"
    using assms unfolding attr_value_def by (elim exE conjE) (rule that; assumption)
  define f where "f = type @ sign @ colon"
  define raw where "raw = type @ sign"
  have "CHR '','' \<notin> set sign" "CHR '','' \<notin> set colon"
    using sign col by (elim disjE conjE; simp)+
  then have comma: "CHR '','' \<notin> set f" using type_id_chars(4) [OF ty] by (simp add: f_def)
  have "colon = '''' \<and> order = '''' \<or> colon = '':'' @ order" using col by blast
  note field = type_field [OF ty sign this, folded f_def, folded raw_def]
  have "raw \<noteq> ''''" using type_id_chars(1) [OF ty] by (simp add: raw_def)
  have two: "Split (f @ rest) '','' = f # (if rest = '''' then [] else Split (tl rest) '','')"
    using rest comma Split_sep [of "CHR '',''" f] Split_last [of "CHR '',''" f] by (elim disjE conjE; simp)
  have att: "Split v '','' = number # f # (if rest = '''' then [] else Split (tl rest) '','')"
    using number(1) two Split_sep [of "CHR '',''" number "f @ rest"] by (simp add: v f_def)
  have typ_id: "last raw = CHR ''+'' \<Longrightarrow> attributeTypeId (butlast raw) = Some typ"
    "last raw \<noteq> CHR ''+'' \<Longrightarrow> attributeTypeId raw = Some typ"
    using field(3) ty by simp_all
  note eval = read_attr_def att Let_def field(1,2) [unfolded One_nat_def] number(2) typ_id \<open>raw \<noteq> ''''\<close>
  from rest consider "rest = ''''" "name = ''''" "restr = ''0''"
    | "CHR '','' \<notin> set name" "rest = '','' @ name" "restr = ''0''"
    | "CHR '','' \<notin> set name" "rest = '','' @ name @ '',HDD''" "restr = ''ataDeviceAttributeRestrictionHDDOnly''"
    | "CHR '','' \<notin> set name" "rest = '','' @ name @ '',SSD''" "restr = ''ataDeviceAttributeRestrictionSSDOnly''"
    by blast
  then show ?thesis
  proof cases
    case 1
    then show ?thesis by (simp add: eval)
  next
    case 2
    then have "Split (tl rest) '','' = [name]" using Split_last by simp
    with 2 show ?thesis by (simp add: eval)
  next
    case 3
    then have "Split (tl rest) '','' = [name, ''HDD'']"
      using Split_sep [of "CHR '',''" name "''HDD''"] Split_last [of "CHR '',''" "''HDD''"] by simp
    with 3 show ?thesis by (simp add: eval)
  next
    case 4
    then have "Split (tl rest) '','' = [name, ''SSD'']"
      using Split_sep [of "CHR '',''" name "''SSD''"] Split_last [of "CHR '',''" "''SSD''"] by simp
    with 4 show ?thesis by (simp add: eval)
  qed
qed

lemma type_field_read:
  assumes "attributeTypeId (if last raw = CHR ''+'' then butlast raw else raw) = Some typ"
    and "raw = takeWhile (\<lambda>c. c \<noteq> CHR '':'') f" "raw \<noteq> ''''"
    and "order = drop 1 (dropWhile (\<lambda>c. c \<noteq> CHR '':'') f)" "CHR '','' \<notin> set f"
  shows "\<exists>type sign colon. f = type @ sign @ colon \<and> attributeTypeId type = Some typ \<and>
    (sign = '''' \<or> sign = ''+'') \<and>
    (colon = '''' \<and> order = '''' \<or> colon = '':'' @ order \<and> CHR '','' \<notin> set order)"
proof -
  define colon where "colon = dropWhile (\<lambda>c. c \<noteq> CHR '':'') f"
  have f: "f = raw @ colon" by (simp add: assms(2) colon_def)
  have "colon = '''' \<and> order = '''' \<or> colon = '':'' @ order"
  proof (cases colon)
    case Nil
    then show ?thesis using assms(4) [folded colon_def] by simp
  next
    case (Cons c cs)
    then have "c = CHR '':''" by (auto simp: colon_def dropWhile_eq_Cons_conv)
    then show ?thesis using assms(4) [folded colon_def] Cons by simp
  qed
  moreover have "CHR '','' \<notin> set order" if "colon = '':'' @ order"
    using assms(5) that f by simp
  moreover have "\<exists>type sign. raw = type @ sign \<and> attributeTypeId type = Some typ \<and> (sign = '''' \<or> sign = ''+'')"
  proof (cases "last raw = CHR ''+''")
    case True
    then have "raw = butlast raw @ ''+''" using assms(3) by (metis append_butlast_last_id)
    with True assms(1) show ?thesis by (metis (full_types))
  qed (use assms(1) in auto)
  ultimately show ?thesis using f by (metis append_assoc)
qed

definition field_read :: "string \<Rightarrow> string \<Rightarrow> attr_option \<Rightarrow> bool" where
  "field_read x f a \<longleftrightarrow>
     (let raw = takeWhile (\<lambda>c. c \<noteq> CHR '':'') f in
      raw \<noteq> '''' \<and> Atoi x = Some (aoId a) \<and>
      attributeTypeId (if last raw = CHR ''+'' then butlast raw else raw) = Some (aoType a) \<and>
      aoByteOrder a = drop 1 (dropWhile (\<lambda>c. c \<noteq> CHR '':'') f))"

lemma read_attr_fields:
  assumes "read_attr v = Ok a"
  shows "Split v '','' = [x, f] \<Longrightarrow> field_read x f a \<and> aoName a = '''' \<and> aoRestriction a = ''0''"
    and "Split v '','' = [x, f, n] \<Longrightarrow> field_read x f a \<and> aoName a = n \<and> aoRestriction a = ''0''"
    and "Split v '','' = [x, f, n, w] \<Longrightarrow> field_read x f a \<and> aoName a = n \<and>
      (w = ''HDD'' \<and> aoRestriction a = ''ataDeviceAttributeRestrictionHDDOnly'' \<or>
       w = ''SSD'' \<and> aoRestriction a = ''ataDeviceAttributeRestrictionSSDOnly'')"
  using assms by (auto simp: read_attr_def field_read_def Let_def split: if_splits option.splits)

lemma read_attr_count: "read_attr v = Ok a \<Longrightarrow> 2 \<le> length (Split v '','') \<and> length (Split v '','') \<le> 4"
  by (auto simp: read_attr_def Let_def split: if_splits)

lemma read_attr_grammar:
  "read_attr v = Ok a \<longleftrightarrow> attr_value v (aoId a) (aoName a) (aoType a) (aoByteOrder a) (aoRestriction a)"
proof
  assume ok: "read_attr v = Ok a"
  have v: "Join (Split v '','') '','' = v" by (rule Join_Split)
  have free: "\<forall>f \<in> set (Split v '',''). CHR '','' \<notin> set f" using Split_free by blast
  have "length (Split v '','') = 2 \<or> length (Split v '','') = 3 \<or> length (Split v '','') = 4"
    using read_attr_count [OF ok] by linarith
  then obtain x f rest where v: "v = x @ '','' @ f @ rest" "CHR '','' \<notin> set x" "CHR '','' \<notin> set f" "field_read x f a"
    and rest: "rest = '''' \<and> aoName a = '''' \<and> aoRestriction a = ''0'' \<or> CHR '','' \<notin> set (aoName a) \<and>
       (rest = '','' @ aoName a \<and> aoRestriction a = ''0'' \<or>
        rest = '','' @ aoName a @ '',HDD'' \<and> aoRestriction a = ''ataDeviceAttributeRestrictionHDDOnly'' \<or>
        rest = '','' @ aoName a @ '',SSD'' \<and> aoRestriction a = ''ataDeviceAttributeRestrictionSSDOnly'')"
  proof (elim disjE)
    assume "length (Split v '','') = 2"
    then obtain x f where s: "Split v '','' = [x, f]" by (auto simp: length_Suc_conv eval_nat_numeral)
    show thesis
      using that [of x f "''''"] v [unfolded s] free [unfolded s] read_attr_fields(1) [OF ok s] by simp
  next
    assume "length (Split v '','') = 3"
    then obtain x f n where s: "Split v '','' = [x, f, n]" by (auto simp: length_Suc_conv eval_nat_numeral)
    show thesis
      using that [of x f "'','' @ n"] v [unfolded s] free [unfolded s] read_attr_fields(2) [OF ok s] by simp
  next
    assume "length (Split v '','') = 4"
    then obtain x f n w where s: "Split v '','' = [x, f, n, w]" by (auto simp: length_Suc_conv eval_nat_numeral)
    show thesis
      using that [of x f "'','' @ n @ '','' @ w"] v [unfolded s] free [unfolded s] read_attr_fields(3) [OF ok s] by auto
  qed
  obtain type sign colon where f: "f = type @ sign @ colon" and parts: "attributeTypeId type = Some (aoType a)"
      "sign = '''' \<or> sign = ''+''"
      "colon = '''' \<and> aoByteOrder a = '''' \<or> colon = '':'' @ aoByteOrder a \<and> CHR '','' \<notin> set (aoByteOrder a)"
    using type_field_read [OF _ refl _ _ v(3)] v(4) unfolding field_read_def Let_def by blast
  have "v = x @ '','' @ type @ sign @ colon @ rest" using v(1) f by simp
  moreover have "Atoi x = Some (aoId a)" using v(4) by (simp add: field_read_def Let_def)
  ultimately show "attr_value v (aoId a) (aoName a) (aoType a) (aoByteOrder a) (aoRestriction a)"
    unfolding attr_value_def using v(2) parts rest
    by (intro exI [of _ x] exI [of _ type] exI [of _ sign] exI [of _ colon] exI [of _ rest] conjI) assumption+
next
  assume "attr_value v (aoId a) (aoName a) (aoType a) (aoByteOrder a) (aoRestriction a)"
  from read_attr_written [OF this] show "read_attr v = Ok a" by simp
qed

text \<open>Reading the options is reading the grammar.\<close>

lemma attr_line:
  "concat (attr_text (use_name use names a)) = Itoa (aoId a) @ '':{`'' @
     (if aoName a = '''' \<and> use then names (aoId a) else aoName a) @ ''`,'' @ aoType a @ '',`'' @ aoByteOrder a @
     ''`,'' @ aoRestriction a @ ''},''"
  by (simp add: attr_text_def use_name_def bq_def)

lemma read_options_ConsE:
  assumes "read_options (key # v # parts) = Ok opts"
  obtains opt opts' where "read_option key v = Ok opt" "read_options parts = Ok opts'" "opts = opt # opts'"
  using assms
  by (cases "read_option key v" rule: res_cases; cases "read_options parts" rule: res_cases) auto

lemma options_read:
  "options use names parts text bugs n \<Longrightarrow> \<exists>opts. read_options parts = Ok opts \<and>
     text = attrs_text use names (attrs_of opts) \<and> bugs = bugs_of opts \<and>
     n = fold (record_name use) (attrs_of opts) names"
proof (induction rule: options.induct)
  case (none use names)
  then show ?case by (simp add: attrs_text_def)
next
  case (attr v i name ty order restr use names parts t bugs n)
  let ?a = "\<lparr>aoId = i, aoName = name, aoType = ty, aoByteOrder = order, aoRestriction = restr\<rparr>"
  have "read_attr (new_value v) = Ok ?a"
    using attr.hyps(1) by (simp add: read_attr_grammar modern_new_value)
  moreover have "record_name use ?a names = (if use then names else names(i := name))"
    by (simp add: record_name_def)
  moreover have "concat (attr_text (use_name use names ?a)) = Itoa i @ '':{`'' @
      (if name = '''' \<and> use then names i else name) @ ''`,'' @ ty @ '',`'' @ order @ ''`,'' @ restr @ ''},''"
    by (simp add: attr_line)
  moreover obtain opts where "read_options parts = Ok opts"
      "t = attrs_text use (if use then names else names(i := name)) (attrs_of opts)" "bugs = bugs_of opts"
      "n = fold (record_name use) (attrs_of opts) (if use then names else names(i := name))"
    using attr.IH by blast
  ultimately show ?case
    by (intro exI [of _ "OAttr ?a # opts"]) (simp add: read_option_def attrs_text_Cons)
next
  case (bug v b use names parts t bugs n)
  then obtain opts where "read_options parts = Ok opts" "t = attrs_text use names (attrs_of opts)"
      "bugs = bugs_of opts" "n = fold (record_name use) (attrs_of opts) names"
    by blast
  with bug.hyps(1) show ?case
    by (intro exI [of _ "OBug b # opts"]) (simp add: read_option_def read_bug_def modern_new_value)
next
  case (skip key use names parts t bugs n v)
  then obtain opts where "read_options parts = Ok opts" "t = attrs_text use names (attrs_of opts)"
      "bugs = bugs_of opts" "n = fold (record_name use) (attrs_of opts) names"
    by blast
  with skip.hyps(1,2) show ?case
    by (intro exI [of _ "OSkip # opts"]) (simp add: read_option_def)
qed

lemma read_options_grammar:
  "read_options parts = Ok opts \<Longrightarrow> options use names parts (attrs_text use names (attrs_of opts)) (bugs_of opts)
     (fold (record_name use) (attrs_of opts) names)"
proof (induction parts arbitrary: opts names rule: read_options.induct)
  case 1
  then show ?case by (auto simp: attrs_text_def intro: options.none)
next
  case (3 key v parts)
  then obtain opt opts' where opt: "read_option key v = Ok opt" and rest: "read_options parts = Ok opts'"
      "opts = opt # opts'" by (auto elim: read_options_ConsE simp del: read_options.simps)
  note IH = "3.IH" [OF rest(1)]
  consider (attr) "key = ''-v''" | (bug) "key = ''-F''" | (other) "key \<noteq> ''-v''" "key \<noteq> ''-F''" by blast
  then show ?case
  proof cases
    case attr
    then obtain a where a: "opt = OAttr a" "read_attr (new_value v) = Ok a"
      using opt by (auto simp: read_option_def)
    have "record_name use a names = (if use then names else names(aoId a := aoName a))"
      by (simp add: record_name_def)
    with options.attr [OF a(2) [unfolded read_attr_grammar, folded modern_new_value]] IH [of "record_name use a names"]
    show ?thesis by (simp add: attr rest a(1) attrs_text_Cons attr_line)
  next
    case bug
    then obtain b where "opt = OBug b" "firmwareBugById (modern v) = Some b"
      using opt by (auto simp: read_option_def read_bug_def modern_new_value split: option.splits)
    then show ?thesis using options.bug IH bug rest by simp
  next
    case other
    then have "opt = OSkip" using opt by (simp add: read_option_def)
    then show ?thesis using options.skip IH other rest by simp
  qed
qed simp

lemma read_options_append:
  "read_options pre = Ok opts \<Longrightarrow> read_options (pre @ rest) = map_res ((@) opts) (read_options rest)"
proof (induction pre arbitrary: opts rule: read_options.induct)
  case 1
  then show ?case by (cases "read_options rest" rule: res_cases) auto
next
  case (3 key v parts)
  then obtain opt opts' where opt: "read_option key v = Ok opt" "read_options parts = Ok opts'"
      "opts = opt # opts'" by (auto elim: read_options_ConsE simp del: read_options.simps)
  with "3.IH" [OF opt(2)] show ?case by (cases "read_options rest" rule: res_cases) simp_all
qed simp

text \<open>Where the code panics: a key without a value, or a \<^verbatim>\<open>-v\<close> option whose type is empty.\<close>

definition no_type :: "string \<Rightarrow> bool" where
  "no_type v \<longleftrightarrow>
     (\<exists>number field rest. v = number @ '','' @ field @ rest \<and> CHR '','' \<notin> set number \<and> CHR '','' \<notin> set field \<and>
        (field = '''' \<or> hd field = CHR '':'') \<and>
        (rest = '''' \<or> (\<exists>name. CHR '','' \<notin> set name \<and>
           (rest = '','' @ name \<or> rest = '','' @ name @ '',HDD'' \<or> rest = '','' @ name @ '',SSD''))))"

lemma no_type_field: "takeWhile (\<lambda>c. c \<noteq> CHR '':'') f = '''' \<longleftrightarrow> f = '''' \<or> hd f = CHR '':''"
  by (cases f) auto

lemma read_attr_None_fields:
  assumes "read_attr v = None"
  shows "2 \<le> length (Split v '','') \<and> length (Split v '','') \<le> 4"
    and "Split v '','' = x # f # parts \<Longrightarrow> takeWhile (\<lambda>c. c \<noteq> CHR '':'') f = ''''"
    and "Split v '','' = [x, f, n, w] \<Longrightarrow> w = ''HDD'' \<or> w = ''SSD''"
  using assms by (auto simp: read_attr_def Let_def nth_Cons' split: if_splits option.splits)

lemma no_typeI:
  assumes "v = x @ '','' @ f @ rest" "CHR '','' \<notin> set x" "CHR '','' \<notin> set f"
    and "takeWhile (\<lambda>c. c \<noteq> CHR '':'') f = ''''"
    and "rest = '''' \<or> (\<exists>name. CHR '','' \<notin> set name \<and>
       (rest = '','' @ name \<or> rest = '','' @ name @ '',HDD'' \<or> rest = '','' @ name @ '',SSD''))"
  shows "no_type v"
  unfolding no_type_def no_type_field [symmetric] using assms by blast

lemma read_attr_panics: "read_attr v = None \<longleftrightarrow> no_type v"
proof
  assume none: "read_attr v = None"
  have v: "Join (Split v '','') '','' = v" by (rule Join_Split)
  have free: "\<forall>f \<in> set (Split v '',''). CHR '','' \<notin> set f" using Split_free by blast
  have "length (Split v '','') = 2 \<or> length (Split v '','') = 3 \<or> length (Split v '','') = 4"
    using read_attr_None_fields(1) [OF none] by linarith
  then show "no_type v"
  proof (elim disjE)
    assume "length (Split v '','') = 2"
    then obtain x f where s: "Split v '','' = [x, f]" by (auto simp: length_Suc_conv eval_nat_numeral)
    show ?thesis
      using v [unfolded s] free [unfolded s] read_attr_None_fields(2) [OF none s]
      by (intro no_typeI [of v x f "''''"]) simp_all
  next
    assume "length (Split v '','') = 3"
    then obtain x f n where s: "Split v '','' = [x, f, n]" by (auto simp: length_Suc_conv eval_nat_numeral)
    show ?thesis
      using v [unfolded s] free [unfolded s] read_attr_None_fields(2) [OF none s]
      by (intro no_typeI [of v x f "'','' @ n"]) auto
  next
    assume "length (Split v '','') = 4"
    then obtain x f n w where s: "Split v '','' = [x, f, n, w]" by (auto simp: length_Suc_conv eval_nat_numeral)
    show ?thesis
      using v [unfolded s] free [unfolded s] read_attr_None_fields(2,3) [OF none s]
      by (intro no_typeI [of v x f "'','' @ n @ '','' @ w"]) auto
  qed
next
  assume "no_type v"
  then obtain x f rest where v: "v = x @ '','' @ f @ rest" and free: "CHR '','' \<notin> set x" "CHR '','' \<notin> set f"
    and f: "takeWhile (\<lambda>c. c \<noteq> CHR '':'') f = ''''"
    and rest: "rest = '''' \<or> (\<exists>name. CHR '','' \<notin> set name \<and>
       (rest = '','' @ name \<or> rest = '','' @ name @ '',HDD'' \<or> rest = '','' @ name @ '',SSD''))"
    unfolding no_type_def no_type_field [symmetric] by blast
  have "Split v '','' = x # Split (f @ rest) '',''"
    using Split_sep [of "CHR '',''" x "f @ rest"] free by (simp add: v)
  moreover have "\<exists>ps. Split (f @ rest) '','' = f # ps \<and> (ps = [] \<or> (\<exists>n. ps = [n] \<or> ps = [n, ''HDD''] \<or> ps = [n, ''SSD'']))"
    using rest
  proof (elim disjE exE conjE)
    fix n assume n: "CHR '','' \<notin> set n"
    have "Split (f @ '','' @ n) '','' = [f, n]" "Split (f @ '','' @ n @ '',HDD'') '','' = [f, n, ''HDD'']"
      "Split (f @ '','' @ n @ '',SSD'') '','' = [f, n, ''SSD'']"
      using free n Split_sep [of "CHR '',''" f] Split_sep [of "CHR '',''" n] Split_last [of "CHR '',''" n]
        Split_last [of "CHR '',''" "''HDD''"] Split_last [of "CHR '',''" "''SSD''"] by simp_all
    then show "rest = '','' @ n \<Longrightarrow> ?thesis" "rest = '','' @ n @ '',HDD'' \<Longrightarrow> ?thesis"
      "rest = '','' @ n @ '',SSD'' \<Longrightarrow> ?thesis" by auto
  qed (use free Split_last in simp)
  ultimately show "read_attr v = None"
    using f by (auto simp: read_attr_def)
qed

lemma read_options_panics:
  "read_options parts = None \<longleftrightarrow>
     (\<exists>pre opts rest. parts = pre @ rest \<and> read_options pre = Ok opts \<and>
        (length rest = 1 \<or> (\<exists>v r. rest = ''-v'' # v # r \<and> no_type (modern v))))"
  (is "_ \<longleftrightarrow> ?R parts")
proof
  assume "?R parts"
  then obtain pre opts rest where p: "parts = pre @ rest" "read_options pre = Ok opts"
    and rest: "length rest = 1 \<or> (\<exists>v r. rest = ''-v'' # v # r \<and> no_type (modern v))"
    by blast
  from rest have "read_options rest = None"
    by (auto simp: length_Suc_conv read_option_def modern_new_value read_attr_panics [symmetric])
  with p show "read_options parts = None" by (simp add: read_options_append)
next
  show "read_options parts = None \<Longrightarrow> ?R parts"
  proof (induction parts rule: read_options.induct)
    case (2 key)
    have "[key] = [] @ [key] \<and> read_options [] = Ok [] \<and> length [key] = 1" by simp
    then show ?case by blast
  next
    case (3 key v parts)
    show ?case
    proof (cases "read_option key v" rule: res_cases)
      case panic
      then have "key = ''-v'' \<and> no_type (modern v)"
        by (auto simp: read_option_def read_bug_def modern_new_value read_attr_panics [symmetric]
            split: if_splits option.splits)
      then have "key # v # parts = [] @ ''-v'' # v # parts \<and> read_options [] = Ok [] \<and> no_type (modern v)" by simp
      then show ?thesis by blast
    next
      case (ok opt)
      then have "read_options parts = None"
        using "3.prems" by (cases "read_options parts" rule: res_cases) simp_all
      with "3.IH" obtain pre opts rest where "parts = pre @ rest" "read_options pre = Ok opts"
        and r: "length rest = 1 \<or> (\<exists>v r. rest = ''-v'' # v # r \<and> no_type (modern v))"
        by blast
      with ok have "key # v # parts = (key # v # pre) @ rest \<and> read_options (key # v # pre) = Ok (opt # opts)"
        by simp
      with r show ?thesis by blast
    qed (use "3.prems" in simp)
  qed simp
qed

definition presets_line :: "bool \<Rightarrow> string \<Rightarrow> string list \<Rightarrow> string" where
  "presets_line fw text bugs = ''map[int]ataDeviceAttr{'' @ text @ ''}'' @
     (if fw then '','' @ (if bugs = [] then ''0'' else Join bugs ''|'') else '''')"

lemma presets_text_line:
  assumes "trim_string presets \<noteq> ''''"
  shows "presets_text presets fw use names = map_res (\<lambda>opts. (fold (record_name use) (attrs_of opts) names,
    presets_line fw (attrs_text use names (attrs_of opts)) (bugs_of opts))) (read_options (Fields (trim_string presets)))"
proof -
  have "Join (if bugs = [] then [''0''] else bugs) ''|'' = (if bugs = [] then ''0'' else Join bugs ''|'')" for bugs
    by simp
  then show ?thesis using assms unfolding presets_text_def presets_line_def by (simp only: if_False)
qed

lemma presets_cases:
  assumes "trim_string presets \<noteq> ''''"
  shows "presets_text presets fw use names = Ok (n, u) \<longleftrightarrow>
    (\<exists>t bugs. options use names (Fields (trim_string presets)) t bugs n \<and> u = presets_line fw t bugs)"
    and "presets_text presets fw use names = None \<longleftrightarrow> read_options (Fields (trim_string presets)) = None"
proof -
  let ?r = "read_options (Fields (trim_string presets))"
  note line = presets_text_line [OF assms, of fw use names]
  show "presets_text presets fw use names = None \<longleftrightarrow> ?r = None"
    unfolding line by (cases ?r rule: res_cases) simp_all
  show "presets_text presets fw use names = Ok (n, u) \<longleftrightarrow>
    (\<exists>t bugs. options use names (Fields (trim_string presets)) t bugs n \<and> u = presets_line fw t bugs)"
  proof
    assume "presets_text presets fw use names = Ok (n, u)"
    then obtain opts where "?r = Ok opts" "n = fold (record_name use) (attrs_of opts) names"
        "u = presets_line fw (attrs_text use names (attrs_of opts)) (bugs_of opts)"
      unfolding line by (cases ?r rule: res_cases) auto
    then show "\<exists>t bugs. options use names (Fields (trim_string presets)) t bugs n \<and> u = presets_line fw t bugs"
      using read_options_grammar by blast
  next
    assume "\<exists>t bugs. options use names (Fields (trim_string presets)) t bugs n \<and> u = presets_line fw t bugs"
    then obtain opts where "?r = Ok opts" "n = fold (record_name use) (attrs_of opts) names"
        "u = presets_line fw (attrs_text use names (attrs_of opts)) (bugs_of opts)"
      using options_read by blast
    then show "presets_text presets fw use names = Ok (n, u)" unfolding line by simp
  qed
qed

text \<open>
  C27. What \<^verbatim>\<open>printPresets\<close> does with the options of an entry, whatever the host does. It prints \<^verbatim>\<open>nil,0\<close> for
  presets that are blank. Otherwise it succeeds exactly on fields that follow the grammar, and then has
  printed one map element per \<^verbatim>\<open>-v\<close> option, in order: the number, the name (a name left out is the default
  one), the constant of the type without its \<^verbatim>\<open>+\<close>, the byte order behind the colon and the restriction to
  \<^verbatim>\<open>HDD\<close> or \<^verbatim>\<open>SSD\<close>; and behind the map, where asked to, the firmware bugs. It panics exactly when, behind options
  that do follow the grammar, a last key has no value or a \<^verbatim>\<open>-v\<close> option has an empty type; everything else
  is an error.
\<close>

theorem printPresets_text:
  "let fields = Fields (trim_string presets); (r, s') = run_state (printPresets h presets fw use names) s in
   (trim_string presets = '''' \<longrightarrow> r = Ok names \<and> printed s s' ''nil,0'') \<and>
   (trim_string presets \<noteq> '''' \<longrightarrow>
     (\<forall>text bugs n. options use names fields text bugs n \<longrightarrow> r = Ok n \<and>
        printed s s' (''map[int]ataDeviceAttr{'' @ text @ ''}'' @
          (if fw then '','' @ (if bugs = [] then ''0'' else Join bugs ''|'') else ''''))) \<and>
     (is_ok r \<longleftrightarrow> (\<exists>text bugs n. options use names fields text bugs n)) \<and>
     (r = None \<longleftrightarrow> (\<exists>pre rest text bugs n. fields = pre @ rest \<and> options use names pre text bugs n \<and>
        (length rest = 1 \<or> (\<exists>v parts. rest = ''-v'' # v # parts \<and> no_type (modern v))))))"
proof (cases "trim_string presets = ''''")
  case True
  then show ?thesis
    using prints_presets [of h presets fw use names, unfolded prints_def, rule_format, of s]
    by (auto simp: presets_text_def Let_def split: prod.split)
next
  case False
  let ?t = "presets_text presets fw use names" and ?fields = "Fields (trim_string presets)"
  obtain r s' where run: "run_state (printPresets h presets fw use names) s = (r, s')" by fastforce
  have r: "r = map_res fst ?t" "\<And>n t. ?t = Ok (n, t) \<Longrightarrow> printed s s' t"
    using prints_presets [of h presets fw use names, unfolded prints_def, rule_format, of s] run by auto
  have "r = Ok n \<and> printed s s' (presets_line fw t bugs)" if "options use names ?fields t bugs n" for t bugs n
  proof -
    have "?t = Ok (n, presets_line fw t bugs)" using presets_cases(1) [OF False] that by blast
    with r show ?thesis by simp
  qed
  moreover have "is_ok r \<longleftrightarrow> (\<exists>t bugs n. options use names ?fields t bugs n)"
  proof -
    have "is_ok r \<longleftrightarrow> (\<exists>n u. ?t = Ok (n, u))" using r(1) by (cases ?t rule: res_cases) auto
    then show ?thesis unfolding presets_cases(1) [OF False] by blast
  qed
  moreover have "r = None \<longleftrightarrow> (\<exists>pre rest text bugs n. ?fields = pre @ rest \<and> options use names pre text bugs n \<and>
      (length rest = 1 \<or> (\<exists>v parts. rest = ''-v'' # v # parts \<and> no_type (modern v))))"
  proof -
    have "r = None \<longleftrightarrow> read_options ?fields = None"
      using presets_cases(2) [OF False, of fw use names] r(1) by (cases ?t rule: res_cases) auto
    then show ?thesis
      unfolding read_options_panics using options_read read_options_grammar by metis
  qed
  ultimately show ?thesis using False unfolding presets_line_def by (simp add: run)
qed

section \<open>The whole file\<close>

definition database_text :: "string list \<Rightarrow> string list list \<Rightarrow> string res" where
  "database_text def devs =
     bind_res (presets_text (def ! 4) False False (\<lambda>_. '''')) (\<lambda>(names, t).
       map_res (\<lambda>u. file_head @ t @ file_middle @ u @ ''}'') (devices_text devs names))"

lemma map_res_map_res: "map_res f (map_res g r) = map_res (\<lambda>x. f (g x)) r"
  by (cases r rule: res_cases) simp_all

lemma run_deferring:
  "run_state (deferring fin m) s = (case run_state m s of (r, s') \<Rightarrow> (r, snd (run_state fin s')))"
  by (simp add: deferring_def split: prod.split)

lemma prints_database:
  assumes lines: "lines = concat (version # def # devs) @ ['''']"
    and five: "\<forall>e \<in> set (version # def # devs). length e = 5"
  shows "prints (bindE (WriteString h file_head) (\<lambda>_.
       case idx lines 9 of None \<Rightarrow> retE None | Some presets \<Rightarrow>
       bindE (printPresets h presets False False (\<lambda>_. '''')) (\<lambda>defaultNames.
       bindE (WriteString h file_middle) (\<lambda>_.
       bindE (devices_loop h lines 10 defaultNames) (\<lambda>_. WriteString h ''}'')))))
     (map_res (Pair ()) (database_text def devs))"
proof -
  have nine: "idx lines 9 = Some (def ! 4)"
    using five by (simp add: lines idx_def nth_append)
  have loop: "prints (devices_loop h lines 10 names) (map_res (Pair ()) (devices_text devs names))" for names
    using prints_devices [of lines "version @ def" devs h names] five by (simp add: lines)
  have rest: "prints (bindE (WriteString h file_middle) (\<lambda>_.
       bindE (devices_loop h lines 10 names) (\<lambda>_. WriteString h ''}'')))
     (map_res (\<lambda>u. ((), file_middle @ u @ ''}'')) (devices_text devs names))" for names
    by (rule prints_eq [OF prints_bindE [OF prints_write prints_bindE [OF loop prints_write]]],
        cases "devices_text devs names" rule: res_cases) simp_all
  show ?thesis
    unfolding nine option.case database_text_def
    by (rule prints_eq [OF prints_bindE [OF prints_write prints_bindE [OF prints_presets rest]]],
        cases "presets_text (def ! 4) False False (\<lambda>_. '''')" rule: res_cases)
      (auto simp: map_res_map_res split: prod.split)
qed

text \<open>
  C26. On the output of the C program, fields without tabulators followed by \<^verbatim>\<open>"\t\t\naa\t"\<close> each, five to an entry, the
  version and the default entry first, \<^verbatim>\<open>printDeviceDatabase\<close> writes the default table and then every entry but
  those for USB devices, in their order, and closes the file in any case.
\<close>

theorem printDeviceDatabase_text:
  assumes fields: "\<forall>e \<in> set (version # def # devs). length e = 5 \<and> (\<forall>f \<in> set e. CHR 0x09 \<notin> set f)"
    and heads: "HasPrefix (version ! 0) ''VERSION:''" "HasPrefix (def ! 0) ''DEFAULT''"
    and create: "fst (h_create h out (gworld (world s))) = None"
    and run: "run_state (printDeviceDatabase h out
        (concat (map (\<lambda>f. f @ field_end) (concat (version # def # devs))))) s = (r, s')"
  shows "r = map_res (\<lambda>_. ()) (database_text def devs) \<and> last (glog (world s')) = GClose \<and>
    (case database_text def devs of Some (Inr t) \<Rightarrow> printed s s' t | _ \<Rightarrow> True)"
proof -
  let ?fields = "concat (version # def # devs)"
  let ?lines = "?fields @ ['''']"
  have lines: "Split (concat (map (\<lambda>f. f @ field_end) ?fields)) field_end = ?lines"
    unfolding field_end_def by (rule Split_fields) (use fields in auto)
  have five: "\<forall>e \<in> set (version # def # devs). length e = 5" using fields by blast
  have zero: "idx ?lines 0 = Some (version ! 0)" and line5: "idx ?lines 5 = Some (def ! 0)"
    using five by (simp_all add: idx_def nth_append)
  define body where "body = bindE (WriteString h file_head) (\<lambda>_.
       case idx ?lines 9 of None \<Rightarrow> retE None | Some presets \<Rightarrow>
       bindE (printPresets h presets False False (\<lambda>_. '''')) (\<lambda>defaultNames.
       bindE (WriteString h file_middle) (\<lambda>_.
       bindE (devices_loop h ?lines 10 defaultNames) (\<lambda>_. WriteString h ''}''))))"
  have body: "prints body (map_res (Pair ()) (database_text def devs))"
    unfolding body_def by (rule prints_database [OF refl five])
  obtain s1 where s1: "run_state (os_Create h out) s = (Ok (), s1)"
      "glog (world s1) = glog (world s) @ [GCreate out]"
    using create by (cases "h_create h out (gworld (world s))") (simp add: os_Create_def act_def or_err_def)
  have "run_state (printDeviceDatabase h out (concat (map (\<lambda>f. f @ field_end) ?fields))) s =
      run_state (deferring (file_Close h) body) s1"
    unfolding printDeviceDatabase_def Let_def lines zero line5 option.case body_def [symmetric]
    using heads s1 by (simp add: run_bindE)
  with run obtain s2 where s2: "run_state body s1 = (r, s2)" "s' = snd (run_state (file_Close h) s2)"
    by (auto simp: run_deferring split: prod.splits)
  have close: "glog (world s') = glog (world s2) @ [GClose]"
    by (simp add: s2(2) file_Close_def act_def split: prod.split)
  have r: "r = map_res (\<lambda>_. ()) (database_text def devs)"
    "case database_text def devs of Some (Inr t) \<Rightarrow> printed s1 s2 t | _ \<Rightarrow> True"
    using body [unfolded prints_def, rule_format, of s1] s2(1)
    by (cases "database_text def devs" rule: res_cases; simp)+
  moreover have "printed s s' t" if "printed s1 s2 t" for t
    using that s1(2) close by (auto simp: printed_def)
  ultimately show ?thesis
    using close by (cases "database_text def devs" rule: res_cases) auto
qed

section \<open>The temporary directory\<close>

text \<open>
  C28. Every run of \<^verbatim>\<open>extractDatabase\<close>, whatever fails in it, ends with \<^verbatim>\<open>os.RemoveAll\<close> on the directory for
  temporary files itself, \<^verbatim>\<open>os.TempDir()\<close>, which it has not created: \<^verbatim>\<open>/tmp\<close> is deleted with all that other
  programs keep there.
\<close>

theorem extractDatabase_removes_tempdir:
  "\<exists>evs. glog (world (snd (run_state (extractDatabase h) s))) =
       glog (world s) @ evs @ [GRemoveAll (h_tempDir h)] \<and> GRemoveAll (h_tempDir h) \<notin> set evs"
proof -
  define body where "body = bindE (cmd_Output h [''curl'', drivedb_url]) (\<lambda>db.
         bindE (os_WriteFile h (h_tempDir h @ ''/main.c'') (c_head @ db @ c_tail)) (\<lambda>_.
         bindE (cmd_Run h [''cc'', h_tempDir h @ ''/main.c'', ''-o'', h_tempDir h @ ''/main'']) (\<lambda>_.
         cmd_Output h [h_tempDir h @ ''/main''])))"
  have "\<exists>evs. glog (world (snd (run_state body s))) = glog (world s) @ evs \<and> GRemoveAll (h_tempDir h) \<notin> set evs"
    by (auto simp: body_def run_bindE cmd_Output_def cmd_Run_def os_WriteFile_def act_def or_err_def
        split: prod.splits option.splits sum.splits)
  then show ?thesis
    by (auto simp: extractDatabase_def Let_def body_def [symmetric] run_deferring os_RemoveAll_def act_def
        split: prod.splits)
qed

section \<open>A run on a small database\<close>

definition sample_host :: "unit host" where
  "sample_host = \<lparr>h_tempDir = ''/tmp'', h_command = (\<lambda>_ w. (Inr '''', w)), h_writeFile = (\<lambda>_ _ w. (None, w)),
     h_removeAll = (\<lambda>_ w. w), h_create = (\<lambda>_ w. (None, w)), h_write = (\<lambda>_ w. w), h_close = (\<lambda>w. w)\<rparr>"

definition sample_version :: "string list" where
  "sample_version = [''VERSION: 7.3'', '''', '''', '''', '''']"

definition sample_default :: "string list" where
  "sample_default = [''DEFAULT'', ''-'', ''-'', '''', ''-v 1,raw48,Rate'']"

definition sample_devs :: "string list list" where
  "sample_devs = [[''USB: stick'', ''0x1'', '''', '''', ''-d sat''],
     [''Disk'', ''D.*'', ''F1'', '''', ''-v 1,raw16+ -F samsung'']]"

lemma sample_trim:
  "trim_string ''-v 1,raw48,Rate'' = ''-v 1,raw48,Rate''"
  "trim_string ''-v 1,raw16+ -F samsung'' = ''-v 1,raw16+ -F samsung''"
  by code_simp+

lemma sample_fields:
  "Fields ''-v 1,raw48,Rate'' = [''-v'', ''1,raw48,Rate'']"
  "Fields ''-v 1,raw16+ -F samsung'' = [''-v'', ''1,raw16+'', ''-F'', ''samsung'']"
  by code_simp+

lemma sample_options:
  "read_options [''-v'', ''1,raw48,Rate''] =
     Ok [OAttr \<lparr>aoId = 1, aoName = ''Rate'', aoType = ''AtaDeviceAttributeTypeRaw48'', aoByteOrder = '''',
       aoRestriction = ''0''\<rparr>]"
  "read_options [''-v'', ''1,raw16+'', ''-F'', ''samsung''] =
     Ok [OAttr \<lparr>aoId = 1, aoName = '''', aoType = ''AtaDeviceAttributeTypeRaw16'', aoByteOrder = '''',
       aoRestriction = ''0''\<rparr>, OBug ''ataFirmwareBugSamsung'']"
  by code_simp+

lemma Itoa_1: "Itoa 1 = ''1''"
  by code_simp

lemma sample_text:
  "database_text sample_default sample_devs =
     Ok (file_head @ ''map[int]ataDeviceAttr{1:{`Rate`,AtaDeviceAttributeTypeRaw48,``,0},}'' @ file_middle @
       ''{`Disk`,`D.*`,`F1`, map[int]ataDeviceAttr{1:{`Rate`,AtaDeviceAttributeTypeRaw16,``,0},},ataFirmwareBugSamsung},'' @
       nl @ ''}'')"
  by (simp add: database_text_def presets_text_def sample_default_def sample_devs_def sample_trim sample_fields
      sample_options HasPrefix_def
      device_text_def attrs_text_def attr_text_def use_name_def record_name_def bq_def Itoa_1
      del: read_options.simps)

theorem printDeviceDatabase_text_witness:
  "\<exists>s'. run_state (printDeviceDatabase sample_host ''out.go''
       (concat (map (\<lambda>f. f @ field_end) (concat (sample_version # sample_default # sample_devs)))))
         \<lparr>world = \<lparr>gworld = (), glog = []\<rparr>, log = []\<rparr> = (Ok (), s') \<and>
     (\<exists>t. printed \<lparr>world = \<lparr>gworld = (), glog = []\<rparr>, log = []\<rparr> s' t \<and> database_text sample_default sample_devs = Ok t)"
proof -
  obtain r s' where run: "run_state (printDeviceDatabase sample_host ''out.go''
       (concat (map (\<lambda>f. f @ field_end) (concat (sample_version # sample_default # sample_devs)))))
         \<lparr>world = \<lparr>gworld = (), glog = []\<rparr>, log = []\<rparr> = (r, s')" by fastforce
  have "\<forall>e \<in> set (sample_version # sample_default # sample_devs). length e = 5 \<and> (\<forall>f \<in> set e. CHR 0x09 \<notin> set f)"
    by (simp add: sample_version_def sample_default_def sample_devs_def)
  moreover have "HasPrefix (sample_version ! 0) ''VERSION:''" "HasPrefix (sample_default ! 0) ''DEFAULT''"
    by (simp_all add: sample_version_def sample_default_def HasPrefix_def)
  ultimately show ?thesis
    using printDeviceDatabase_text [OF _ _ _ _ run] run by (simp add: sample_text sample_host_def)
qed

theorem printPresets_text_witness:
  "printed \<lparr>world = \<lparr>gworld = (), glog = []\<rparr>, log = []\<rparr>
     (snd (run_state (printPresets sample_host ''-v 194,tempminmax:543210,Temp,HDD -v 1,raw16+ -F samsung'' True True
        ((\<lambda>_. '''')(1 := ''Rate''))) \<lparr>world = \<lparr>gworld = (), glog = []\<rparr>, log = []\<rparr>))
     ''map[int]ataDeviceAttr{194:{`Temp`,AtaDeviceAttributeTypeTempMinMax,`543210`,ataDeviceAttributeRestrictionHDDOnly},1:{`Rate`,AtaDeviceAttributeTypeRaw16,``,0},},ataFirmwareBugSamsung''"
proof -
  let ?p = "''-v 194,tempminmax:543210,Temp,HDD -v 1,raw16+ -F samsung''" and ?names = "(\<lambda>_. '''')(1 := ''Rate'')"
  have trim: "trim_string ?p = ?p" by code_simp
  have fields: "Fields ?p = [''-v'', ''194,tempminmax:543210,Temp,HDD'', ''-v'', ''1,raw16+'', ''-F'', ''samsung'']"
    by code_simp
  have "read_attr ''194,tempminmax:543210,Temp,HDD'' = Ok \<lparr>aoId = 194, aoName = ''Temp'',
      aoType = ''AtaDeviceAttributeTypeTempMinMax'', aoByteOrder = ''543210'',
      aoRestriction = ''ataDeviceAttributeRestrictionHDDOnly''\<rparr>"
    "read_attr ''1,raw16+'' = Ok \<lparr>aoId = 1, aoName = '''', aoType = ''AtaDeviceAttributeTypeRaw16'', aoByteOrder = '''',
      aoRestriction = ''0''\<rparr>" by code_simp+
  then have attrs: "attr_value ''194,tempminmax:543210,Temp,HDD'' 194 ''Temp'' ''AtaDeviceAttributeTypeTempMinMax'' ''543210''
      ''ataDeviceAttributeRestrictionHDDOnly''"
    "attr_value ''1,raw16+'' 1 '''' ''AtaDeviceAttributeTypeRaw16'' '''' ''0''"
    by (simp_all add: read_attr_grammar)
  have modern: "modern ''194,tempminmax:543210,Temp,HDD'' = ''194,tempminmax:543210,Temp,HDD''"
    "modern ''1,raw16+'' = ''1,raw16+''" "modern ''samsung'' = ''samsung''"
    by (simp_all add: modern_def oldAttrValue_def)
  have num: "Itoa 194 = ''194''" "Itoa 1 = ''1''" by code_simp+
  have "options True ?names [''-F'', ''samsung''] '''' [''ataFirmwareBugSamsung''] ?names"
    by (rule options.bug [OF _ options.none]) (simp add: modern firmwareBugById_def)
  with attrs(2) modern(2) have "options True ?names [''-v'', ''1,raw16+'', ''-F'', ''samsung'']
      ''1:{`Rate`,AtaDeviceAttributeTypeRaw16,``,0},'' [''ataFirmwareBugSamsung''] ?names"
    using options.attr [of "''1,raw16+''" 1 "''''" "''AtaDeviceAttributeTypeRaw16''" "''''" "''0''" True ?names] num by simp
  with attrs(1) modern(1) have opts: "options True ?names (Fields ?p)
      ''194:{`Temp`,AtaDeviceAttributeTypeTempMinMax,`543210`,ataDeviceAttributeRestrictionHDDOnly},1:{`Rate`,AtaDeviceAttributeTypeRaw16,``,0},''
      [''ataFirmwareBugSamsung''] ?names"
    using options.attr [of "''194,tempminmax:543210,Temp,HDD''" 194 "''Temp''" "''AtaDeviceAttributeTypeTempMinMax''"
        "''543210''" "''ataDeviceAttributeRestrictionHDDOnly''" True ?names] num unfolding fields by fastforce
  obtain r s' where run: "run_state (printPresets sample_host ?p True True ?names)
      \<lparr>world = \<lparr>gworld = (), glog = []\<rparr>, log = []\<rparr> = (r, s')" by fastforce
  have "?p \<noteq> ''''" by simp
  then have "\<forall>t bugs n. options True ?names (Fields ?p) t bugs n \<longrightarrow> r = Ok n \<and>
      printed \<lparr>world = \<lparr>gworld = (), glog = []\<rparr>, log = []\<rparr> s' (''map[int]ataDeviceAttr{'' @ t @ ''}'' @
        (if True then '','' @ (if bugs = [] then ''0'' else Join bugs ''|'') else ''''))"
    using printPresets_text [of ?p sample_host True True ?names "\<lparr>world = \<lparr>gworld = (), glog = []\<rparr>, log = []\<rparr>"]
    unfolding Let_def run prod.case trim by blast
  from this [rule_format, OF opts] show ?thesis by (simp add: run)
qed

end
