(* ===== verification/Spec2Isabelle.thy ===== *)
theory Spec2Isabelle
  imports SmartOpen DeviceDb Generator
begin

text \<open>
  A verification development of \<^verbatim>\<open>smart.go\<close>, a Go library that reads the health data (SMART) of NVMe, SATA and
  SCSI devices and controls the power modes of SATA disks.

  \<^bold>\<open>The program.\<close> A caller gives \<^verbatim>\<open>Open\<close> (\<^verbatim>\<open>smart.go\<close>) a path. \<^verbatim>\<open>Open\<close> tries the NVMe driver for paths with
  \<^verbatim>\<open>/nvme\<close>, then SATA, then SCSI, and returns the first device that answers. NVMe devices send admin commands
  through an ioctl with a 64-bit result and fall back to the 32-bit one (\<^verbatim>\<open>nvme_linux.go\<close>), or call C functions
  on macOS (\<^verbatim>\<open>nvme_darwin.go\<close>). SATA and SCSI devices send command blocks through SG_IO (\<^verbatim>\<open>scsi_linux.go\<close>); a SATA
  disk sits behind a translation layer, so its commands are ATA PASS-THROUGH blocks (\<^verbatim>\<open>sata_linux.go\<close>,
  \<^verbatim>\<open>sata_power_linux.go\<close>) and its registers come back as sense data (\<^verbatim>\<open>sata_sense.go\<close>). The pages a device returns
  are decoded into structs with \<^verbatim>\<open>encoding/binary\<close> and read by methods (\<^verbatim>\<open>nvme.go\<close>, \<^verbatim>\<open>sata.go\<close>, \<^verbatim>\<open>sata_power.go\<close>).
  The meaning of a SATA disk's attributes comes from a database (\<^verbatim>\<open>ata_device_database.go\<close>) that a build-time
  program makes of the one of smartmontools (\<^verbatim>\<open>generator/ata_attributes.go\<close>).

  \<^bold>\<open>State and effects.\<close> The library keeps no state of its own beyond descriptors. An operation is a state
  transformer (\<open>io\<close> in \<^theory_text>\<open>Kernel\<close>) on the world of an arbitrary kernel, a record of functions that answer
  system calls, and on a log of the calls made. A result is a value, an error, or \<open>None\<close> for a panic: indexing
  and slicing out of range, the only panics of this code, are branches of every definition. Bytes and the
  fixed-width integers of the code are words; Go's \<^verbatim>\<open>int\<close> is \<open>int\<close> with its range written out where it matters.
  A Go map that is only looked up is a function to \<open>option\<close>; a loop over a map takes the order of iteration as
  a parameter. Durations in hours are computed in IEEE double precision, on numerators and exponents.

  \<^bold>\<open>Theories.\<close>
  \<^item> \<^theory_text>\<open>GoPrelude\<close>: words, errors, results, slices, byte order; the locale \<open>slotted_fold\<close> for loops over maps.
  \<^item> \<^theory_text>\<open>GoText\<close>, \<^theory_text>\<open>GoStrings\<close>: the functions of \<^verbatim>\<open>bytes\<close>, \<^verbatim>\<open>strings\<close> and \<^verbatim>\<open>strconv\<close> in use, with their round trips.
  \<^item> \<^theory_text>\<open>GoBinary\<close>: \<^verbatim>\<open>binary.Read\<close> over type descriptors, and the memory layout of structs.
  \<^item> \<^theory_text>\<open>GoRegexp\<close>: \<^verbatim>\<open>regexp.MatchString\<close> on the patterns the database needs: a parser, a matcher, and the proof
    that the search decides whether a part of the text is in the language of the pattern.
  \<^item> \<^theory_text>\<open>Ioctl\<close>, \<^theory_text>\<open>Kernel\<close>: \<^verbatim>\<open>ioctl_linux.go\<close> and the system calls; which events an operation may log (\<open>emits\<close>),
    that it does not panic (\<open>panic_free\<close>), which descriptors it leaves open (\<open>owns\<close>).
  \<^item> \<^theory_text>\<open>Device\<close>: the generic attributes; the locale \<open>opener\<close>, the contract of every function that opens a device:
    an error leaks no descriptor, a success owns one, every open is close-on-exec. It is interpreted for NVMe,
    SATA, SCSI and \<^verbatim>\<open>Open\<close> itself.
  \<^item> \<^theory_text>\<open>Scsi\<close>: the transport and the SCSI device; the locale \<open>cdb_channel\<close> is what the ATA commands rely on.
  \<^item> \<^theory_text>\<open>AtaSense\<close>, \<^theory_text>\<open>AtaPower\<close>: sense data of ATA commands, power modes, timer encoding. The locale \<open>sense_format\<close> is
    shared by the two formats.
  \<^item> \<^theory_text>\<open>AtaIdentify\<close>, \<^theory_text>\<open>AtaSmart\<close>, \<^theory_text>\<open>AtaParse\<close>: \<^verbatim>\<open>sata.go\<close>: the IDENTIFY page and its methods, the SMART pages, thresholds,
    statistics and raw values, durations, temperatures and generic attributes.
  \<^item> \<^theory_text>\<open>AttrDb\<close>, \<^theory_text>\<open>DeviceTable1\<close> to \<^theory_text>\<open>DeviceTable4\<close>, \<^theory_text>\<open>DeviceDb\<close>: the look-up of a drive, the 586 entries of the database, and
    the look-up in it.
  \<^item> \<^theory_text>\<open>SataDevice\<close>: opening a SATA device, SMART reads and power commands, from CDB to result.
  \<^item> \<^theory_text>\<open>NvmeData\<close>, \<^theory_text>\<open>NvmeDevice\<close>: the NVMe structures with their layout, admin commands, Identify, SMART log.
  \<^item> \<^theory_text>\<open>SmartOpen\<close>: \<^verbatim>\<open>Open\<close> over the operations of a platform, for Linux, macOS and the stubs of other systems.
  \<^item> \<^theory_text>\<open>Generator\<close>: the program that writes the database, over a host that runs commands and keeps files, and
    the grammar of the options it reads.
  The theory at hand holds what spans them: a disk that is opened and finds its entry of the database.

  \<^bold>\<open>What is shown.\<close> For each decoder, where the fields lie and that the guards make every access safe; for each
  parser, exactly which inputs it accepts, with a reference parser or an inverse where there is one; for
  each computation, its value with the wrap-around it has; for each operation, the commands it sends, the outcome
  as a function of the device's answer, and that no answer makes it panic; for opening, that descriptors
  are not leaked; for the database, that a look-up never fails and takes the first entry whose patterns occur.
  Where code and intention differ, a theorem states what the code does: among others \<open>six_terabyte_drives\<close>,
  \<open>OpenSata_accepts_refusing_disk\<close>, \<open>generic_attributes_ambiguous\<close> and \<open>extractDatabase_removes_tempdir\<close>.

  \<^bold>\<open>Bounds and termination.\<close> No definition has fuel: loops over slices, descriptors, tokens and entries are recursive
  functions with a measure on what is left. \<open>parse\<close> reads patterns of at most 5000 characters with at most
  200 open groups, far inside the limits of Go's compiler; the longest pattern of the database has 1798 characters
  and four levels of groups, and other patterns are left to a parameter.

  \<^bold>\<open>Not modelled.\<close> The kernel, the devices and the C code of \<^verbatim>\<open>nvme_darwin.cpp\<close> are parameters without assumptions, save
  that the sg driver writes at most as many sense bytes as it was given room for; \<^verbatim>\<open>regexp.MatchString\<close>, where it is
  a parameter, is assumed to return. Text is modelled where the
  code builds it for a result; the text of wrapped errors is kept as format and arguments. Unused constants
  (NVMe opcodes and log pages, ATA status bits) and the unused type \<^verbatim>\<open>sgIoV4\<close> have no definition. Errors of
  \<^verbatim>\<open>WriteString\<close> in the generator are ignored by the code and by the model. The tests and examples are not part
  of the library.
\<close>

section \<open>A SATA device and the shipped database\<close>

text \<open>The disk answers the command with the data, a buffer of the size asked for.\<close>

definition answers :: "'w kernel \<Rightarrow> u8 list \<Rightarrow> u8 list \<Rightarrow> bool" where
  "answers k cdb data \<longleftrightarrow> (\<forall>fd hdr w. cmdp hdr = cdb \<longrightarrow> fst (sys_sg k fd SG_IO hdr w) = sg_good data hdr)"

lemma answered:
  assumes "answers k cdb data" "cdb \<noteq> []" "length data = length resp"
  shows "\<exists>s'. run_state (scsiSendCdb k fd cdb resp) s = (Ok data, s')"
proof -
  have cmd: "cmdp (sg_hdr cdb resp) = cdb" by (simp add: sg_hdr_def)
  obtain w where "sys_sg k fd SG_IO (sg_hdr cdb resp) (world s) = (sg_good data (sg_hdr cdb resp), w)"
    using assms(1) cmd unfolding answers_def by (metis prod.collapse)
  with assms(2,3) show ?thesis
    by (simp add: run_scsiSendCdb sg_good_def sg_hdr_def sg_data_def sg_result_def scsi_consts overlay_same_length)
qed

definition inquiry_cdb :: "u8 list" where
  "inquiry_cdb = put_be16 (cdb6 [SCSI_INQUIRY]) 3 36"

lemma answered_inquiry:
  assumes "answers k inquiry_cdb inq" "length inq = 36"
  shows "\<exists>i s'. run_state (scsiInquiry k fd) s = (Ok i, s') \<and> Peripheral i = inq ! 0 \<and>
    VendorIdent i = take 8 (drop 8 inq)"
proof -
  have "inquiry_cdb \<noteq> []" by (simp add: inquiry_cdb_def)
  from answered [OF assms(1) this, of "replicate 36 0"] obtain s' where
    "run_state (scsiSendCdb k fd inquiry_cdb (replicate 36 0)) s = (Ok inq, s')"
    using assms(2) by auto
  moreover obtain v where "binary_read BigEndian ScsiInquiry_type inq = Ok v"
      "Peripheral (ScsiInquiry_of v) = inq ! 0" "VendorIdent (ScsiInquiry_of v) = take 8 (drop 8 inq)"
    using ScsiInquiry_offsets [of inq] assms(2) by auto
  ultimately show ?thesis
    by (simp add: scsiInquiry_def Let_def run_bindE inquiry_cdb_def)
qed

lemma answered_identify:
  assumes "answers k ata_identify_cdb page" "length page = 512"
  shows "\<exists>i s'. run_state (Identify k d) s = (Ok i, s') \<and>
    ModelNumberRaw i = take 40 (drop 54 page) \<and> FirmwareRevisionRaw i = take 8 (drop 46 page)"
proof -
  have "ata_identify_cdb \<noteq> []"
    by (simp add: ata_identify_cdb_def ata_in_cdb_def)
  from answered [OF assms(1) this, of "replicate 512 0"] obtain s' where
    "run_state (scsiSendCdb k (sataFd d) ata_identify_cdb (replicate 512 0)) s = (Ok page, s')"
    using assms(2) by auto
  moreover have "binary_read LittleEndian AtaIdentifyDevice_type page =
      Ok (dec LittleEndian AtaIdentifyDevice_type page)"
    using assms(2) by (simp add: binary_read_def AtaIdentifyDevice_type_def AtaIdentify_layout)
  ultimately show ?thesis
    by (simp add: Identify_def run_bindE run_wrapE AtaIdentifyDevice_of_def AtaIdentifyDevice_type_def fld_dec
        AtaIdentify_layout vbytes_dec assms(2) del: dec.simps)
qed

text \<open>
  C4. A SATA disk is opened, whatever else the system does: when the device file opens, INQUIRY is answered by a
  direct access device of the vendor \<^verbatim>\<open>ATA\<close> and IDENTIFY by a page, \<^verbatim>\<open>OpenSata\<close> succeeds and the device has the
  attribute mapping and the firmware bugs that the shipped database has for the model and the firmware of
  that page.
\<close>

theorem OpenSata_database:
  assumes "sys_open k name (or O_RDONLY O_CLOEXEC) open_mode (world s) = (Inr fd, w)"
    and inq: "answers k inquiry_cdb inq" "length inq = 36" "inq ! 0 AND 0x1f = 0"
      "take 8 (drop 8 inq) = go_bytes SATA_IDENT"
    and page: "answers k ata_identify_cdb page" "length page = 512"
  shows "\<exists>d model firmware. fst (run_state (OpenSata k (MatchString rest) ataDevicesDatabase name) s) = Ok d \<and>
    sataFd d = fd \<and> fromAtaString (take 40 (drop 54 page)) = Some model \<and>
    fromAtaString (take 8 (drop 46 page)) = Some firmware \<and>
    findAttributesMapping (MatchString rest) ataDevicesDatabase model firmware = Ok (sataMapping d, sataBug d)"
proof -
  obtain s1 where opened: "run_state (unix_Open k name (or O_RDONLY O_CLOEXEC) open_mode) s = (Ok fd, s1)"
    using assms(1) by (simp add: unix_Open_def)
  obtain i s2 where i: "run_state (scsiInquiry k fd) s1 = (Ok i, s2)" "Peripheral i AND 0x1f = 0"
      "VendorIdent i = go_bytes SATA_IDENT"
    using answered_inquiry [OF inq(1,2), of fd s1] inq(3,4) by auto
  let ?dev = "\<lparr>sataFd = fd, sataMapping = Map.empty, sataBug = 0\<rparr>"
  obtain id s3 where ident: "run_state (Identify k ?dev) s2 = (Ok id, s3)"
      "ModelNumberRaw id = take 40 (drop 54 page)" "FirmwareRevisionRaw id = take 8 (drop 46 page)"
    using answered_identify [OF page, of ?dev s2] by blast
  obtain model firmware where names: "fromAtaString (take 40 (drop 54 page)) = Some model"
      "fromAtaString (take 8 (drop 46 page)) = Some firmware"
    using fromAtaString_None [of "take 40 (drop 54 page)"] fromAtaString_None [of "take 8 (drop 46 page)"] page(2)
    by auto
  obtain mp bug where mapping: "findAttributesMapping (MatchString rest) ataDevicesDatabase model firmware = Ok (mp, bug)"
    using database_never_fails by blast
  have "fst (run_state (OpenSata k (MatchString rest) ataDevicesDatabase name) s) = Ok (?dev\<lparr>sataMapping := mp, sataBug := bug\<rparr>)"
    using opened i ident names mapping unfolding OpenSata_def Let_def
    by (simp add: run_bindE run_closing AtaModelNumber_def AtaFirmwareRevision_def)
  with names mapping show ?thesis by auto
qed

definition sample_inquiry :: "u8 list" where
  "sample_inquiry = replicate 8 0 @ go_bytes SATA_IDENT @ replicate 20 0"

theorem OpenSata_database_witness:
  "\<exists>d. fst (run_state (OpenSata (sample_kernel
       (\<lambda>hdr. if cmdp hdr = ata_identify_cdb then sg_good (replicate 512 0x41) hdr else sg_good sample_inquiry hdr)
       undefined) (MatchString (\<lambda>_ _. Ok False)) ataDevicesDatabase ''/dev/sda'') sample_sys) = Ok d \<and> sataFd d = 3"
proof -
  let ?k = "sample_kernel (\<lambda>hdr. if cmdp hdr = ata_identify_cdb then sg_good (replicate 512 0x41) hdr
      else sg_good sample_inquiry hdr) undefined"
  have ne: "inquiry_cdb \<noteq> ata_identify_cdb"
    by (simp add: inquiry_cdb_def put_be16_def cdb6_def ata_identify_cdb_def ata_in_cdb_def cdb16_def
        SCSI_INQUIRY_def SCSI_ATA_PASSTHRU_16_def numeral_eq_Suc)
  have "length (go_bytes SATA_IDENT) = 8" by (simp add: SATA_IDENT_def go_bytes_def)
  then have inq: "length sample_inquiry = 36" "sample_inquiry ! 0 AND 0x1f = 0"
      "take 8 (drop 8 sample_inquiry) = go_bytes SATA_IDENT"
    by (simp_all add: sample_inquiry_def nth_append)
  have "answers ?k inquiry_cdb sample_inquiry" "answers ?k ata_identify_cdb (replicate 512 0x41)"
    using ne by (simp_all add: answers_def)
  from OpenSata_database [of ?k "''/dev/sda''" sample_sys 3 "()", OF _ this(1) inq this(2)]
  show ?thesis by auto
qed

end
